(* ===== verification/Prelude.thy ===== *)
theory Prelude
  imports Main "HOL-Library.Multiset" "HOL-Library.Char_ord" "HOL-Library.List_Lexorder" "HOL-Library.Product_Lexorder"
begin

text \<open>
  The prelude of the development: results of Python calls that may raise, checks written
  as early returns, and the facts on lists and maps that every component uses.

  A Python string is modelled by its UTF-8 encoding, a HOL \<open>string\<close> whose characters
  are the bytes.  Encoding is then the identity, and the order of code points that
  Python's \<open>sorted\<close> uses is the lexicographic order of the bytes, which UTF-8
  preserves and which \<open>HOL-Library.List_Lexorder\<close> provides.
\<close>

section \<open>Exceptions\<close>

text \<open>The exception classes of each runtime package (\<open>domain.py\<close> of each) and of the
  research pipeline, and the built-in ones the code can meet.  Messages are left out.\<close>

datatype request_exc =
    ExecutionRequestInvalid
  | ExecutionRequestSchemaVersionUnsupported
  | ExecutionRequestIdempotencyConflict
  | ExecutionRequestNotFound
  | ExecutionRequestReconstructionFailed
  | ExecutionRequestDigestMismatch

datatype plan_exc =
    ExecutionPlanInvalid
  | ExecutionPlanRequestInvalid
  | ExecutionPlanRequestDigestInvalid
  | ExecutionPlanSchemaVersionUnsupported
  | ExecutionPlanRuleVersionUnsupported
  | ExecutionPlanDigestMismatch
  | ExecutionPlanIdentityMismatch
  | ExecutionPlanPolicyConfigurationMismatch
  | ExecutionPlanOrganizationMismatch
  | ExecutionPlanIdempotencyConflict
  | ExecutionPlanVersionConflict
  | ExecutionPlanNotFound
  | ExecutionPlanReconstructionFailed
  | ExecutionPlanReplayDiverged
  | ExecutionPlanPersistenceFailure

datatype selection_exc =
    SelectionRequestInvalid
  | SelectionArtifactVersionUnsupported
  | SelectionIdempotencyConflict
  | SelectionVersionConflict
  | SelectionReplayFailed
  | SelectionReplayDiverged

datatype dispatch_exc =
    DispatchDecisionInvalid
  | DispatchEvidenceMissing
  | DispatchDecisionDigestMismatch
  | DispatchDecisionOrganizationMismatch
  | DispatchDecisionVersionUnsupported
  | DispatchDecisionIdempotencyConflict
  | DispatchDecisionVersionConflict
  | DispatchDecisionNotFound
  | DispatchDecisionPersistenceFailure
  | DispatchDecisionReconstructionFailed
  | DispatchDecisionReplayDiverged

datatype claim_exc =
    WorkClaimInvalid
  | WorkClaimEvidenceUnavailable
  | WorkClaimDigestMismatch
  | WorkClaimScopeMismatch
  | WorkClaimVersionUnsupported
  | WorkClaimIllegalTransition
  | WorkClaimIdempotencyConflict
  | WorkClaimVersionConflict
  | WorkClaimNotFound
  | WorkClaimPersistenceFailure
  | WorkClaimReconstructionFailed
  | WorkClaimReplayDiverged

datatype lease_exc =
    ExecutionLeaseInvalid
  | ExecutionLeaseEvidenceUnavailable
  | ExecutionLeaseDigestMismatch
  | ExecutionLeaseVersionUnsupported
  | ExecutionLeaseIllegalTransition
  | ExecutionLeaseIdempotencyConflict
  | ExecutionLeaseVersionConflict
  | ExecutionLeaseNotFound
  | ExecutionLeasePersistenceFailure
  | ExecutionLeaseReconstructionFailed
  | ExecutionLeaseReplayDiverged

datatype research_exc =
    BaselineDatasetError
  | ModelFitError
  | FeatureDatasetError

datatype exc =
    RequestError request_exc
  | PlanError plan_exc
  | SelectionError selection_exc
  | DispatchError dispatch_exc
  | ClaimError claim_exc
  | LeaseError lease_exc
  | ResearchError research_exc
  | TypeError
  | ValueError
  | KeyError
  | AttributeError
  | AssertionError
  | UnicodeEncodeError

section \<open>Results\<close>

type_synonym 'a res = "exc + 'a"

text \<open>Sequencing: an exception ends the computation, as a raise does.\<close>

definition bindr :: "'a res \<Rightarrow> ('a \<Rightarrow> 'b res) \<Rightarrow> 'b res" where
  "bindr m f = (case m of Inl e \<Rightarrow> Inl e | Inr x \<Rightarrow> f x)"

text \<open>A guard of the source that raises \<open>e\<close> when the condition holds.\<close>

definition raise_if :: "bool \<Rightarrow> exc \<Rightarrow> unit res" where
  "raise_if b e = (if b then Inl e else Inr ())"

text \<open>\<open>except P as exc: raise e'\<close>: an exception that satisfies \<open>P\<close> is replaced.\<close>

definition catch :: "'a res \<Rightarrow> (exc \<Rightarrow> bool) \<Rightarrow> exc \<Rightarrow> 'a res" where
  "catch m P e' = (case m of Inl e \<Rightarrow> Inl (if P e then e' else e) | Inr x \<Rightarrow> Inr x)"

primrec mapr :: "('a \<Rightarrow> 'b res) \<Rightarrow> 'a list \<Rightarrow> 'b list res" where
  "mapr f [] = Inr []"
| "mapr f (x # xs) = bindr (f x) (\<lambda>y. bindr (mapr f xs) (\<lambda>ys. Inr (y # ys)))"

definition is_ok :: "'a res \<Rightarrow> bool" where
  "is_ok m = (case m of Inl _ \<Rightarrow> False | Inr _ \<Rightarrow> True)"

named_theorems res_simps \<open>elimination of results in hypotheses\<close>

lemma bindr_simps [simp]:
  "bindr (Inl e) f = Inl e"
  "bindr (Inr x) f = f x"
  by (simp_all add: bindr_def)

lemma bindr_Inr_conv [res_simps]: "bindr m f = Inr y \<longleftrightarrow> (\<exists>x. m = Inr x \<and> f x = Inr y)"
  by (cases m) auto

lemma bindr_Inl_conv: "bindr m f = Inl e \<longleftrightarrow> m = Inl e \<or> (\<exists>x. m = Inr x \<and> f x = Inl e)"
  by (cases m) auto

lemma bindr_assoc: "bindr (bindr m f) g = bindr m (\<lambda>x. bindr (f x) g)"
  by (cases m) auto

lemma bindr_cong [fundef_cong]:
  "m = m' \<Longrightarrow> (\<And>x. m' = Inr x \<Longrightarrow> f x = f' x) \<Longrightarrow> bindr m f = bindr m' f'"
  by (cases m') auto

lemma raise_if_simps [simp]:
  "raise_if True e = Inl e"
  "raise_if False e = Inr ()"
  by (simp_all add: raise_if_def)

lemma raise_if_Inr_conv [res_simps]: "raise_if b e = Inr u \<longleftrightarrow> \<not> b"
  by (cases b) auto

lemma catch_Inr_conv [res_simps]: "catch m P e = Inr x \<longleftrightarrow> m = Inr x"
  by (cases m) (auto simp: catch_def)

lemma catch_Inr [simp]: "catch (Inr x) P e = Inr x"
  by (simp add: catch_def)

lemma is_ok_simps [simp]: "is_ok (Inr x)" "\<not> is_ok (Inl e)"
  by (simp_all add: is_ok_def)

lemma mapr_Inr_conv: "mapr f xs = Inr ys \<longleftrightarrow> list_all2 (\<lambda>x y. f x = Inr y) xs ys"
  by (induction xs arbitrary: ys) (auto simp: bindr_Inr_conv list_all2_Cons1)

lemma mapr_cong [fundef_cong]:
  "xs = ys \<Longrightarrow> (\<And>x. x \<in> set ys \<Longrightarrow> f x = g x) \<Longrightarrow> mapr f xs = mapr g ys"
  by (induction ys arbitrary: xs) auto

lemma mapr_Inr_map [simp]: "mapr (\<lambda>x. Inr (f x)) xs = Inr (map f xs)"
  by (induction xs) auto

lemma mapr_ident: "(\<And>x. x \<in> set xs \<Longrightarrow> f x = Inr (g x)) \<Longrightarrow> mapr f xs = Inr (map g xs)"
  by (induction xs) auto

text \<open>A loop that carries a state over a list and may raise.\<close>

fun fold_res :: "('s \<Rightarrow> 'a \<Rightarrow> 's res) \<Rightarrow> 's \<Rightarrow> 'a list \<Rightarrow> 's res" where
  "fold_res f s [] = Inr s"
| "fold_res f s (x # xs) = bindr (f s x) (\<lambda>s'. fold_res f s' xs)"

lemma fold_res_append:
  "fold_res f s (xs @ ys) = bindr (fold_res f s xs) (\<lambda>s'. fold_res f s' ys)"
  by (induction xs arbitrary: s) (simp_all add: bindr_assoc)

lemma fold_res_mono:
  assumes "\<And>s x s'. f s x = Inr s' \<Longrightarrow> g s x = Inr s'"
  shows "fold_res f s xs = Inr s' \<Longrightarrow> fold_res g s xs = Inr s'"
  by (induction xs arbitrary: s) (auto simp: bindr_Inr_conv dest: assms)

section \<open>Sorting\<close>

text \<open>Python's \<open>sorted\<close> is a stable sort, as \<open>sort_key\<close> is.\<close>

lemma sort_key_fst_unique:
  fixes kvs :: "('k::linorder \<times> 'v) list"
  assumes "set kvs = set kvs'" and "distinct (map fst kvs)" and "distinct (map fst kvs')"
  shows "sort_key fst kvs = sort_key fst kvs'"
proof (rule map_sorted_distinct_set_unique [of fst])
  show "inj_on fst (set (sort_key fst kvs) \<union> set (sort_key fst kvs'))"
    using assms by (simp add: distinct_map)
  show "distinct (map fst (sort_key fst kvs))" "distinct (map fst (sort_key fst kvs'))"
    using assms by (simp_all add: distinct_map)
qed (use assms in simp_all)

lemma sort_key_id: "sorted (map f xs) \<Longrightarrow> sort_key f xs = xs"
  by (rule sort_key_id_if_sorted)

lemma distinct_map_sort_key [simp]: "distinct (map f (sort_key g xs)) = distinct (map f xs)"
  by (simp add: distinct_map)

lemma sorted_map_last:
  fixes f :: "'a \<Rightarrow> 'b::linorder"
  assumes "sorted (map f xs)" and "x \<in> set xs"
  shows "f x \<le> f (last xs)"
proof (cases xs rule: rev_cases)
  case (snoc ys y)
  with assms show ?thesis by (auto simp: sorted_append)
qed (use assms in simp)

end
