(* ===== verification/PyTime.thy ===== *)
theory PyTime
  imports Prelude
begin

text \<open>
  Python's \<open>datetime\<close> as the runtime packages use it.  A value is a clock reading and
  the offset of its time zone; a reading with no offset is naive.  An aware value denotes
  an instant, counted in microseconds from 0001-01-01T00:00:00Z, which is what Python
  compares.  The components turn every time they accept into UTC (\<open>utc_time\<close> of each
  \<open>domain.py\<close>), so a stored time is an instant.  \<open>isoformat\<close> is the calendar
  algorithm of the standard library.
\<close>

section \<open>Values\<close>

datatype pytime = PyTime (clock: int) (utcoffset: "int option")

type_synonym instant = int

definition instant_of :: "pytime \<Rightarrow> instant" where
  "instant_of t = (case utcoffset t of None \<Rightarrow> clock t | Some d \<Rightarrow> clock t - d)"

text \<open>\<open>value.astimezone(timezone.utc)\<close>, after the check for a naive value.\<close>

definition utc_or_raise :: "exc \<Rightarrow> pytime \<Rightarrow> instant res" where
  "utc_or_raise e t = (case utcoffset t of None \<Rightarrow> Inl e | Some d \<Rightarrow> Inr (clock t - d))"

definition utc :: "instant \<Rightarrow> pytime" where
  "utc i = PyTime i (Some 0)"

lemma utc_or_raise_utc [simp]: "utc_or_raise e (utc i) = Inr i"
  by (simp add: utc_or_raise_def utc_def)

lemma utc_or_raise_Inr [res_simps]:
  "utc_or_raise e t = Inr i \<longleftrightarrow> utcoffset t \<noteq> None \<and> i = instant_of t"
  by (auto simp: utc_or_raise_def instant_of_def split: option.splits)

definition microseconds_per_second :: int where
  "microseconds_per_second = 1000000"

definition add_seconds :: "instant \<Rightarrow> int \<Rightarrow> instant" where
  "add_seconds i s = i + s * microseconds_per_second"

section \<open>The calendar\<close>

definition days_before_month :: "int list" where
  "days_before_month = [-1, 0, 31, 59, 90, 120, 151, 181, 212, 243, 273, 304, 334]"

definition days_in_month_tab :: "int list" where
  "days_in_month_tab = [-1, 31, 28, 31, 30, 31, 30, 31, 31, 30, 31, 30, 31]"

text \<open>The date of the \<open>n\<close>-th day, day 1 being 0001-01-01.\<close>

definition ord2ymd :: "int \<Rightarrow> int \<times> int \<times> int" where
  "ord2ymd ordinal =
     (let n = ordinal - 1;
          n400 = n div 146097; n = n mod 146097;
          n100 = n div 36524; n = n mod 36524;
          n4 = n div 1461; n = n mod 1461;
          n1 = n div 365; n = n mod 365;
          year = n400 * 400 + 1 + n100 * 100 + n4 * 4 + n1
      in if n1 = 4 \<or> n100 = 4 then (year - 1, 12, 31)
         else
           (let leapyear = (n1 = 3 \<and> (n4 \<noteq> 24 \<or> n100 = 3));
                month = (n + 50) div 32;
                preceding = days_before_month ! nat month
                  + (if 2 < month \<and> leapyear then 1 else 0)
            in if n < preceding
               then (let month = month - 1;
                         preceding = preceding - (days_in_month_tab ! nat month
                           + (if month = 2 \<and> leapyear then 1 else 0))
                     in (year, month, n - preceding + 1))
               else (year, month, n - preceding + 1)))"

definition digit_char :: "int \<Rightarrow> char" where
  "digit_char d = ''0123456789'' ! nat (d mod 10)"

text \<open>\<open>format(n, "0wd")\<close> for a number of at most \<open>w\<close> digits.\<close>

primrec zpad :: "nat \<Rightarrow> int \<Rightarrow> string" where
  "zpad 0 n = []"
| "zpad (Suc w) n = zpad w (n div 10) @ [digit_char n]"

definition iso_date :: "int \<Rightarrow> string" where
  "iso_date d =
     (case ord2ymd (d + 1) of (y, m, dd) \<Rightarrow>
        zpad 4 y @ ''-'' @ zpad 2 m @ ''-'' @ zpad 2 dd)"

definition iso_clock :: "int \<Rightarrow> string" where
  "iso_clock s = zpad 2 (s div 3600) @ '':'' @ zpad 2 (s div 60 mod 60) @ '':'' @ zpad 2 (s mod 60)"

text \<open>\<open>value.isoformat().replace("+00:00", "Z")\<close> of a time in UTC: the fraction is left
  out when it is zero.\<close>

definition isoformat_z :: "instant \<Rightarrow> string" where
  "isoformat_z i =
     (let us = i mod 1000000; secs = i div 1000000
      in iso_date (secs div 86400) @ ''T'' @ iso_clock (secs mod 86400)
         @ (if us = 0 then [] else ''.'' @ zpad 6 us) @ ''Z'')"

text \<open>\<open>isoformat(timespec="microseconds")\<close>: always six digits.\<close>

definition isoformat_us_z :: "instant \<Rightarrow> string" where
  "isoformat_us_z i =
     (let us = i mod 1000000; secs = i div 1000000
      in iso_date (secs div 86400) @ ''T'' @ iso_clock (secs mod 86400)
         @ ''.'' @ zpad 6 us @ ''Z'')"

end
