(* ===== verification/Sha256.thy ===== *)
theory Sha256
  imports Prelude "HOL-Library.Word"
begin

unbundle bit_operations_syntax

text \<open>
  The digest every package of the runtime takes of its canonical content,
  \<open>hashlib.sha256(content).hexdigest()\<close>, as FIPS 180-4 defines it on 32-bit words that
  wrap.  It is a concrete function: no law of it is assumed anywhere.  What the rest of
  the development uses of it is its shape (64 lowercase hexadecimal characters); where a
  property needs that two contents with one digest are equal, it says so as "equal, or
  these two contents collide".
\<close>

section \<open>The compression function\<close>

type_synonym w32 = "32 word"

text \<open>The constants, from their definition in the standard: the first 32 bits of the
  fractional parts of the cube roots of the first 64 primes, and of the square roots of the
  first eight.  \<open>root_bits k n 0 b\<close> is the integer \<open>k\<close>-th root of \<open>n\<close>, below \<open>2 ^ b\<close>.\<close>

primrec root_bits :: "nat \<Rightarrow> int \<Rightarrow> int \<Rightarrow> nat \<Rightarrow> int" where
  "root_bits k n r 0 = r"
| "root_bits k n r (Suc b) = root_bits k n (if (r + 2 ^ b) ^ k \<le> n then r + 2 ^ b else r) b"

definition sha_primes :: "nat list" where
  "sha_primes = filter (\<lambda>n. list_all (\<lambda>d. n mod d \<noteq> 0) [2..<n]) [2..<312]"

definition sha_k :: "w32 list" where
  "sha_k = map (\<lambda>p. word_of_int (root_bits 3 (int p * 2 ^ 96) 0 36)) sha_primes"

definition sha_h0 :: "w32 list" where
  "sha_h0 = map (\<lambda>p. word_of_int (root_bits 2 (int p * 2 ^ 64) 0 36)) (take 8 sha_primes)"

definition rotr :: "nat \<Rightarrow> w32 \<Rightarrow> w32" where
  "rotr n w = (drop_bit n w) OR (push_bit (32 - n) w)"

definition small_sigma0 :: "w32 \<Rightarrow> w32" where
  "small_sigma0 w = rotr 7 w XOR rotr 18 w XOR drop_bit 3 w"

definition small_sigma1 :: "w32 \<Rightarrow> w32" where
  "small_sigma1 w = rotr 17 w XOR rotr 19 w XOR drop_bit 10 w"

definition big_sigma0 :: "w32 \<Rightarrow> w32" where
  "big_sigma0 w = rotr 2 w XOR rotr 13 w XOR rotr 22 w"

definition big_sigma1 :: "w32 \<Rightarrow> w32" where
  "big_sigma1 w = rotr 6 w XOR rotr 11 w XOR rotr 25 w"

definition ch :: "w32 \<Rightarrow> w32 \<Rightarrow> w32 \<Rightarrow> w32" where
  "ch x y z = (x AND y) XOR (NOT x AND z)"

definition maj :: "w32 \<Rightarrow> w32 \<Rightarrow> w32 \<Rightarrow> w32" where
  "maj x y z = (x AND y) XOR (x AND z) XOR (y AND z)"

text \<open>The message schedule, the latest word first.\<close>

primrec schedule :: "nat \<Rightarrow> w32 list \<Rightarrow> w32 list" where
  "schedule 0 r = r"
| "schedule (Suc n) r =
     schedule n ((small_sigma1 (r ! 1) + r ! 6 + small_sigma0 (r ! 14) + r ! 15) # r)"

type_synonym sha_state = "w32 \<times> w32 \<times> w32 \<times> w32 \<times> w32 \<times> w32 \<times> w32 \<times> w32"

fun sha_round :: "w32 \<times> w32 \<Rightarrow> sha_state \<Rightarrow> sha_state" where
  "sha_round (k, w) (a, b, c, d, e, f, g, h) =
     (let t1 = h + big_sigma1 e + ch e f g + k + w;
          t2 = big_sigma0 a + maj a b c
      in (t1 + t2, a, b, c, d + t1, e, f, g))"

fun add_state :: "sha_state \<Rightarrow> sha_state \<Rightarrow> sha_state" where
  "add_state (a, b, c, d, e, f, g, h) (a', b', c', d', e', f', g', h') =
     (a + a', b + b', c + c', d + d', e + e', f + f', g + g', h + h')"

definition compress :: "w32 list \<Rightarrow> sha_state \<Rightarrow> sha_state" where
  "compress ws s =
     add_state s (fold sha_round (zip sha_k (rev (schedule 48 (rev ws)))) s)"

section \<open>Padding and blocks\<close>

definition byte_of :: "nat \<Rightarrow> int \<Rightarrow> int" where
  "byte_of i n = n div 256 ^ i mod 256"

definition sha_pad :: "int list \<Rightarrow> int list" where
  "sha_pad bs =
     bs @ [128] @ replicate ((119 - length bs mod 64) mod 64) 0
        @ map (\<lambda>i. byte_of i (8 * int (length bs))) [7, 6, 5, 4, 3, 2, 1, 0]"

fun be_words :: "int list \<Rightarrow> w32 list" where
  "be_words (a # b # c # d # bs) =
     of_int (((a * 256 + b) * 256 + c) * 256 + d) # be_words bs"
| "be_words bs = []"

function sha_blocks :: "w32 list \<Rightarrow> sha_state \<Rightarrow> sha_state" where
  "sha_blocks ws s = (if ws = [] then s else sha_blocks (drop 16 ws) (compress (take 16 ws) s))"
  by pat_completeness auto
termination
  by (relation "measure (\<lambda>(ws, s). length ws)") auto

declare sha_blocks.simps [simp del]

definition sha_init :: sha_state where
  "sha_init =
     (sha_h0 ! 0, sha_h0 ! 1, sha_h0 ! 2, sha_h0 ! 3,
      sha_h0 ! 4, sha_h0 ! 5, sha_h0 ! 6, sha_h0 ! 7)"

section \<open>The hexadecimal digest\<close>

definition hex_digits :: string where
  "hex_digits = ''0123456789abcdef''"

definition hex_char :: "int \<Rightarrow> char" where
  "hex_char n = hex_digits ! nat (n mod 16)"

definition hex_word :: "w32 \<Rightarrow> string" where
  "hex_word w = map (\<lambda>i. hex_char (uint w div 16 ^ i)) [7, 6, 5, 4, 3, 2, 1, 0]"

fun hex_state :: "sha_state \<Rightarrow> string" where
  "hex_state (a, b, c, d, e, f, g, h) =
     hex_word a @ hex_word b @ hex_word c @ hex_word d
     @ hex_word e @ hex_word f @ hex_word g @ hex_word h"

definition sha256_hex :: "string \<Rightarrow> string" where
  "sha256_hex s = hex_state (sha_blocks (be_words (sha_pad (map of_char s))) sha_init)"

text \<open>The digest under a namespace, as each package's \<open>_sha256\<close> or
  \<open>namespaced_digest\<close> takes it.\<close>

definition namespaced_digest :: "string \<Rightarrow> string \<Rightarrow> string" where
  "namespaced_digest ns content = sha256_hex (ns @ [CHR 0x0A] @ content)"

section \<open>The shape of a digest\<close>

definition is_sha256_hex :: "string \<Rightarrow> bool" where
  "is_sha256_hex s \<longleftrightarrow> length s = 64 \<and> list_all (\<lambda>c. c \<in> set hex_digits) s"

lemma hex_char_in: "hex_char n \<in> set hex_digits"
proof -
  have "nat (n mod 16) < length hex_digits" by (simp add: hex_digits_def nat_less_iff)
  then show ?thesis unfolding hex_char_def by (rule nth_mem)
qed

lemma hex_word_shape: "length (hex_word w) = 8" "list_all (\<lambda>c. c \<in> set hex_digits) (hex_word w)"
  by (simp_all add: hex_word_def hex_char_in)

lemma hex_state_shape: "is_sha256_hex (hex_state st)"
  by (cases st rule: hex_state.cases) (simp add: is_sha256_hex_def hex_word_shape)

lemma sha256_hex_shape [simp]: "is_sha256_hex (sha256_hex s)"
  by (simp add: sha256_hex_def hex_state_shape)

lemma namespaced_digest_shape [simp]: "is_sha256_hex (namespaced_digest ns s)"
  by (simp add: namespaced_digest_def)

lemma is_sha256_hex_nonempty [dest]: "is_sha256_hex s \<Longrightarrow> s \<noteq> []"
  by (auto simp: is_sha256_hex_def)

lemma namespaced_digest_nonempty [simp]: "namespaced_digest ns s \<noteq> []"
  by (rule is_sha256_hex_nonempty) simp

lemma namespaced_digest_length [simp]: "length (namespaced_digest ns s) = 64"
  using namespaced_digest_shape [of ns s] by (simp add: is_sha256_hex_def)

text \<open>A collision: two different byte strings with one digest.\<close>

definition sha256_collision :: "string \<Rightarrow> string \<Rightarrow> bool" where
  "sha256_collision a b \<longleftrightarrow> a \<noteq> b \<and> sha256_hex a = sha256_hex b"

lemma namespaced_digest_eqD:
  assumes "namespaced_digest ns a = namespaced_digest ns b"
  shows "a = b \<or> sha256_collision (ns @ [CHR 0x0A] @ a) (ns @ [CHR 0x0A] @ b)"
  using assms by (auto simp: namespaced_digest_def sha256_collision_def)

end
