(* ===== verification/Canonical.thy ===== *)
theory Canonical
  imports PyTime Sha256
begin

text \<open>
  The canonical values and the canonical JSON of the runtime packages.  Each package has
  its own copy of the traversal (\<open>_immutable_value\<close>, \<open>_canonical_value\<close>,
  \<open>canonical_value\<close>), and the copies differ in the exception they raise, in
  whether they take enumerations, times and floats, and in nothing else.  \<open>freeze\<close> is
  that traversal with the differences as a configuration; each component instantiates
  it.  \<open>json_dumps\<close> is \<open>json.dumps\<close> with the options every package passes.

  \<open>unicodedata.normalize("NFC", s)\<close> is driven by the Unicode tables, which are not
  part of the program: it is the argument \<open>nfc\<close> of every definition that uses it, and
  what properties need of it is named \<open>nfc_laws\<close>.
\<close>

section \<open>Values\<close>

datatype pyfloat = Finite string | NonFinite string

datatype pykey = KStr string | KOther string

datatype pyval =
    PNone
  | PBool bool
  | PInt int
  | PFloat pyfloat
  | PStr string
  | PEnum string
  | PTime pytime
  | PSeq "pyval list"
  | PMap "(pykey \<times> pyval) list"
  | POther string

text \<open>What a traversal returns: the values JSON can write.  An object is the list of its
  items; an immutable mapping of the code is an object sorted by key.\<close>

datatype json =
    JNull
  | JBool bool
  | JInt int
  | JFloat string
  | JStr string
  | JList "json list"
  | JObj "(string \<times> json) list"

primrec of_json :: "json \<Rightarrow> pyval" where
  "of_json JNull = PNone"
| "of_json (JBool b) = PBool b"
| "of_json (JInt i) = PInt i"
| "of_json (JFloat r) = PFloat (Finite r)"
| "of_json (JStr s) = PStr s"
| "of_json (JList js) = PSeq (map of_json js)"
| "of_json (JObj kvs) = PMap (map (map_prod KStr of_json) kvs)"

text \<open>A document written with literal string keys.\<close>

definition pdict :: "(string \<times> pyval) list \<Rightarrow> pyval" where
  "pdict kvs = PMap (map (map_prod KStr id) kvs)"

definition ptuple :: "string list \<Rightarrow> pyval" where
  "ptuple xs = PSeq (map PStr xs)"

primrec popt :: "string option \<Rightarrow> pyval" where
  "popt None = PNone"
| "popt (Some s) = PStr s"

text \<open>Python's \<open>==\<close> on values does not separate \<open>True\<close> from \<open>1\<close>.\<close>

primrec json_num :: "json \<Rightarrow> json" where
  "json_num JNull = JNull"
| "json_num (JBool b) = JInt (if b then 1 else 0)"
| "json_num (JInt i) = JInt i"
| "json_num (JFloat r) = JFloat r"
| "json_num (JStr s) = JStr s"
| "json_num (JList js) = JList (map json_num js)"
| "json_num (JObj kvs) = JObj (map (map_prod id json_num) kvs)"

definition py_eq :: "json \<Rightarrow> json \<Rightarrow> bool" where
  "py_eq a b \<longleftrightarrow> json_num a = json_num b"

lemma py_eq_refl [simp]: "py_eq a a"
  by (simp add: py_eq_def)

lemma py_eq_str [simp]: "py_eq (JStr s) j \<longleftrightarrow> j = JStr s" "py_eq j (JStr s) \<longleftrightarrow> j = JStr s"
  by (cases j; auto simp: py_eq_def)+

text \<open>\<open>not value\<close>.\<close>

fun py_falsy :: "json \<Rightarrow> bool" where
  "py_falsy JNull = True"
| "py_falsy (JBool b) = (\<not> b)"
| "py_falsy (JInt i) = (i = 0)"
| "py_falsy (JFloat r) = (r \<in> {''0.0'', ''-0.0''})"
| "py_falsy (JStr s) = (s = [])"
| "py_falsy (JList js) = (js = [])"
| "py_falsy (JObj kvs) = (kvs = [])"

fun pv_falsy :: "pyval \<Rightarrow> bool" where
  "pv_falsy PNone = True"
| "pv_falsy (PBool b) = (\<not> b)"
| "pv_falsy (PInt i) = (i = 0)"
| "pv_falsy (PFloat (Finite r)) = (r \<in> {''0.0'', ''-0.0''})"
| "pv_falsy (PStr s) = (s = [])"
| "pv_falsy (PEnum s) = (s = [])"
| "pv_falsy (PSeq vs) = (vs = [])"
| "pv_falsy (PMap kvs) = (kvs = [])"
| "pv_falsy _ = False"

lemma pv_falsy_of_json [simp]: "pv_falsy (of_json j) = py_falsy j"
  by (cases j) auto

section \<open>The canonical traversal\<close>

record freeze_cfg =
  fz_err :: exc
  fz_enum_raw :: bool
  fz_time :: "(instant \<Rightarrow> string) option"
  fz_float :: bool

type_synonym normalizer = "string \<Rightarrow> string"

definition is_str_key :: "pykey \<times> 'v \<Rightarrow> bool" where
  "is_str_key kv = (case fst kv of KStr _ \<Rightarrow> True | KOther _ \<Rightarrow> False)"

primrec key_text :: "pykey \<Rightarrow> string" where
  "key_text (KStr s) = s"
| "key_text (KOther s) = s"

fun freeze :: "freeze_cfg \<Rightarrow> normalizer \<Rightarrow> pyval \<Rightarrow> json res"
  and freeze_list :: "freeze_cfg \<Rightarrow> normalizer \<Rightarrow> pyval list \<Rightarrow> json list res"
  and freeze_items :: "freeze_cfg \<Rightarrow> normalizer \<Rightarrow> (pykey \<times> pyval) list \<Rightarrow> (string \<times> json) list res"
where
  "freeze c nfc (PEnum s) = Inr (JStr (if fz_enum_raw c then s else nfc s))"
| "freeze c nfc (PTime t) =
     (case fz_time c of
        None \<Rightarrow> Inl (fz_err c)
      | Some fmt \<Rightarrow> bindr (utc_or_raise (fz_err c) t) (\<lambda>i. Inr (JStr (fmt i))))"
| "freeze c nfc (PMap kvs) =
     (if \<not> list_all is_str_key kvs then Inl (fz_err c)
      else bindr (freeze_items c nfc kvs) (\<lambda>items.
        if distinct (map fst items) then Inr (JObj (sort_key fst items))
        else Inl (fz_err c)))"
| "freeze c nfc (PSeq vs) = bindr (freeze_list c nfc vs) (\<lambda>js. Inr (JList js))"
| "freeze c nfc (PStr s) = Inr (JStr (nfc s))"
| "freeze c nfc (PFloat (Finite r)) = (if fz_float c then Inr (JFloat r) else Inl (fz_err c))"
| "freeze c nfc (PFloat (NonFinite r)) = Inl (fz_err c)"
| "freeze c nfc PNone = Inr JNull"
| "freeze c nfc (PBool b) = Inr (JBool b)"
| "freeze c nfc (PInt i) = Inr (JInt i)"
| "freeze c nfc (POther s) = Inl (fz_err c)"
| "freeze_list c nfc [] = Inr []"
| "freeze_list c nfc (v # vs) =
     bindr (freeze c nfc v) (\<lambda>j. bindr (freeze_list c nfc vs) (\<lambda>js. Inr (j # js)))"
| "freeze_items c nfc [] = Inr []"
| "freeze_items c nfc ((k, v) # kvs) =
     bindr (freeze c nfc v) (\<lambda>j.
       bindr (freeze_items c nfc kvs) (\<lambda>items. Inr ((nfc (key_text k), j) # items)))"

section \<open>Rendering\<close>

definition hex4_of :: "nat \<Rightarrow> string" where
  "hex4_of n = map (\<lambda>i. hex_char (int n div 16 ^ i)) [3, 2, 1, 0]"

text \<open>The escapes of \<open>json.dumps(\<dots>, ensure_ascii=False)\<close>.\<close>

definition json_escape :: "char \<Rightarrow> string" where
  "json_escape c =
     (if c = CHR 0x22 then [CHR 0x5C, CHR 0x22]
      else if c = CHR 0x5C then [CHR 0x5C, CHR 0x5C]
      else if c = CHR 0x0A then [CHR 0x5C, CHR ''n'']
      else if c = CHR 0x0D then [CHR 0x5C, CHR ''r'']
      else if c = CHR 0x09 then [CHR 0x5C, CHR ''t'']
      else if c = CHR 0x0C then [CHR 0x5C, CHR ''f'']
      else if c = CHR 0x08 then [CHR 0x5C, CHR ''b'']
      else if of_char c < (32 :: nat) then [CHR 0x5C, CHR ''u''] @ hex4_of (of_char c)
      else [c])"

definition json_quote :: "string \<Rightarrow> string" where
  "json_quote s = CHR 0x22 # concat (map json_escape s) @ [CHR 0x22]"

fun show_nat :: "nat \<Rightarrow> string" where
  "show_nat n = (if n < 10 then [digit_char (int n)] else show_nat (n div 10) @ [digit_char (int n)])"

declare show_nat.simps [simp del]

definition show_int :: "int \<Rightarrow> string" where
  "show_int i = (if i < 0 then ''-'' @ show_nat (nat (- i)) else show_nat (nat i))"

fun comma_join :: "string list \<Rightarrow> string" where
  "comma_join [] = []"
| "comma_join [x] = x"
| "comma_join (x # y # zs) = x @ '','' @ comma_join (y # zs)"

fun json_dumps :: "json \<Rightarrow> string"
  and dumps_list :: "json list \<Rightarrow> string list"
  and dumps_items :: "(string \<times> json) list \<Rightarrow> (string \<times> string) list"
where
  "json_dumps JNull = ''null''"
| "json_dumps (JBool b) = (if b then ''true'' else ''false'')"
| "json_dumps (JInt i) = show_int i"
| "json_dumps (JFloat r) = r"
| "json_dumps (JStr s) = json_quote s"
| "json_dumps (JList js) = ''['' @ comma_join (dumps_list js) @ '']''"
| "json_dumps (JObj kvs) =
     CHR 0x7B # comma_join (map snd (sort_key fst (dumps_items kvs))) @ [CHR 0x7D]"
| "dumps_list [] = []"
| "dumps_list (j # js) = json_dumps j # dumps_list js"
| "dumps_items [] = []"
| "dumps_items ((k, j) # kvs) = (k, json_quote k @ '':'' @ json_dumps j) # dumps_items kvs"

text \<open>A package's \<open>canonical_json(value)\<close>.\<close>

definition canonical_json :: "freeze_cfg \<Rightarrow> normalizer \<Rightarrow> pyval \<Rightarrow> string res" where
  "canonical_json c nfc v = bindr (freeze c nfc v) (\<lambda>j. Inr (json_dumps j))"

section \<open>UTF-8\<close>

text \<open>Well-formed UTF-8: no overlong form, no surrogate, nothing beyond U+10FFFF.  A Python
  string with a lone surrogate is the one kind of string that does not encode.\<close>

definition cont :: "nat \<Rightarrow> bool" where
  "cont b \<longleftrightarrow> 128 \<le> b \<and> b < 192"

fun utf8_codes :: "nat list \<Rightarrow> bool" where
  "utf8_codes [] = True"
| "utf8_codes (a # bs) =
     (if a < 128 then utf8_codes bs
      else if 194 \<le> a \<and> a < 224 then
        (case bs of b # cs \<Rightarrow> cont b \<and> utf8_codes cs | _ \<Rightarrow> False)
      else if 224 \<le> a \<and> a < 240 then
        (case bs of b # c # ds \<Rightarrow>
           cont b \<and> cont c \<and> (a = 224 \<longrightarrow> 160 \<le> b) \<and> (a = 237 \<longrightarrow> b < 160) \<and> utf8_codes ds
         | _ \<Rightarrow> False)
      else if 240 \<le> a \<and> a < 245 then
        (case bs of b # c # d # es \<Rightarrow>
           cont b \<and> cont c \<and> cont d \<and> (a = 240 \<longrightarrow> 144 \<le> b) \<and> (a = 244 \<longrightarrow> b < 144)
           \<and> utf8_codes es
         | _ \<Rightarrow> False)
      else False)"

definition utf8_valid :: "string \<Rightarrow> bool" where
  "utf8_valid s = utf8_codes (map of_char s)"

text \<open>\<open>text.encode("utf-8")\<close>.\<close>

definition encode_utf8 :: "string \<Rightarrow> string res" where
  "encode_utf8 s = (if utf8_valid s then Inr s else Inl UnicodeEncodeError)"

definition canonical_bytes :: "freeze_cfg \<Rightarrow> normalizer \<Rightarrow> pyval \<Rightarrow> string res" where
  "canonical_bytes c nfc v = bindr (canonical_json c nfc v) encode_utf8"

section \<open>Canonical values\<close>

text \<open>The shape \<open>freeze\<close> gives a value: normalised strings, and objects sorted by
  distinct normalised keys.\<close>

fun canonical :: "normalizer \<Rightarrow> json \<Rightarrow> bool" where
  "canonical nfc (JStr s) = (nfc s = s)"
| "canonical nfc (JList js) = (\<forall>j \<in> set js. canonical nfc j)"
| "canonical nfc (JObj kvs) =
     (sorted (map fst kvs) \<and> distinct (map fst kvs)
      \<and> (\<forall>k \<in> fst ` set kvs. nfc k = k) \<and> (\<forall>j \<in> snd ` set kvs. canonical nfc j))"
| "canonical nfc _ = True"

fun no_float :: "json \<Rightarrow> bool" where
  "no_float (JFloat r) = False"
| "no_float (JList js) = (\<forall>j \<in> set js. no_float j)"
| "no_float (JObj kvs) = (\<forall>j \<in> snd ` set kvs. no_float j)"
| "no_float _ = True"

text \<open>What the code relies on in the normalisation: normal forms and ASCII strings stay as
  they are, and a string is not normalised to nothing.\<close>

definition ascii :: "string \<Rightarrow> bool" where
  "ascii s = list_all (\<lambda>c. of_char c < (128 :: nat)) s"

definition nfc_laws :: "normalizer \<Rightarrow> bool" where
  "nfc_laws nfc \<longleftrightarrow>
     (\<forall>s. nfc (nfc s) = nfc s) \<and> (\<forall>s. nfc s = [] \<longleftrightarrow> s = []) \<and> (\<forall>s. ascii s \<longrightarrow> nfc s = s)"

lemma nfc_laws_id [simp]: "nfc_laws (\<lambda>s. s)"
  by (simp add: nfc_laws_def)

lemma nfc_lawsD:
  assumes "nfc_laws nfc"
  shows "nfc (nfc s) = nfc s" and "nfc s = [] \<longleftrightarrow> s = []"
  using assms by (simp_all add: nfc_laws_def)

lemma nfc_ascii: "nfc_laws nfc \<Longrightarrow> ascii s \<Longrightarrow> nfc s = s"
  by (simp add: nfc_laws_def)

lemma ascii_simps [simp]: "ascii []" "ascii (c # s) \<longleftrightarrow> of_char c < (128 :: nat) \<and> ascii s"
  by (simp_all add: ascii_def)

lemma ascii_append [simp]: "ascii (s @ t) \<longleftrightarrow> ascii s \<and> ascii t"
  by (simp add: ascii_def)

definition plain_cfg :: "freeze_cfg \<Rightarrow> bool" where
  "plain_cfg c \<longleftrightarrow> \<not> fz_enum_raw c \<and> fz_time c = None \<and> \<not> fz_float c"

lemma freeze_canonical_mutual:
  assumes c: "plain_cfg c" and n: "nfc_laws nfc"
  shows "freeze c nfc v = Inr j \<Longrightarrow> canonical nfc j \<and> no_float j"
    and "freeze_list c nfc vs = Inr js \<Longrightarrow> \<forall>j \<in> set js. canonical nfc j \<and> no_float j"
    and "freeze_items c nfc kvs = Inr items \<Longrightarrow>
      (\<forall>k \<in> fst ` set items. nfc k = k)
      \<and> (\<forall>j \<in> snd ` set items. canonical nfc j \<and> no_float j)"
  using c n
  by (induction c nfc v and c nfc vs and c nfc kvs arbitrary: j and js and items
      rule: freeze_freeze_list_freeze_items.induct)
    (auto simp: bindr_Inr_conv plain_cfg_def nfc_lawsD split: if_splits, (fastforce+)?)

lemma freeze_canonical:
  "plain_cfg c \<Longrightarrow> nfc_laws nfc \<Longrightarrow> freeze c nfc v = Inr j \<Longrightarrow> canonical nfc j"
  "plain_cfg c \<Longrightarrow> nfc_laws nfc \<Longrightarrow> freeze c nfc v = Inr j \<Longrightarrow> no_float j"
  using freeze_canonical_mutual(1) by blast+

lemma list_all_is_str_key [simp]: "list_all is_str_key (map (map_prod KStr f) kvs)"
  by (induction kvs) (auto simp: is_str_key_def)

lemma freeze_list_of_json:
  "(\<And>j. j \<in> set js \<Longrightarrow> freeze c nfc (of_json j) = Inr j) \<Longrightarrow>
     freeze_list c nfc (map of_json js) = Inr js"
  by (induction js) auto

lemma freeze_items_of_json:
  "(\<And>k j. (k, j) \<in> set kvs \<Longrightarrow> freeze c nfc (of_json j) = Inr j \<and> nfc k = k) \<Longrightarrow>
     freeze_items c nfc (map (map_prod KStr of_json) kvs) = Inr kvs"
proof (induction kvs)
  case (Cons kv kvs)
  have "freeze_items c nfc (map (map_prod KStr of_json) kvs) = Inr kvs"
    by (rule Cons.IH) (use Cons.prems in auto)
  moreover have "freeze c nfc (of_json (snd kv)) = Inr (snd kv)" "nfc (fst kv) = fst kv"
    using Cons.prems [of "fst kv" "snd kv"] by auto
  ultimately show ?case by (cases kv) simp
qed simp

text \<open>A canonical value is a fixed point of the traversal.\<close>

lemma freeze_of_json:
  "canonical nfc j \<Longrightarrow> no_float j \<or> fz_float c \<Longrightarrow> freeze c nfc (of_json j) = Inr j"
proof (induction j)
  case (JList js)
  then show ?case by (auto simp: freeze_list_of_json)
next
  case (JObj kvs)
  have "freeze c nfc (of_json j) = Inr j \<and> nfc k = k" if "(k, j) \<in> set kvs" for k j
    using JObj that by (auto 0 4 intro: JObj.IH)
  with JObj.prems(1) show ?case by (simp add: freeze_items_of_json sort_key_id)
qed auto

lemma freeze_idem:
  assumes "plain_cfg c" and "nfc_laws nfc" and "freeze c nfc v = Inr j"
  shows "freeze c' nfc (of_json j) = Inr j"
  using assms by (simp add: freeze_of_json freeze_canonical)

text \<open>Equality up to the types of numbers is equality of the values Python compares.\<close>

lemma canonical_bytes_of_json:
  assumes "canonical nfc j" and "no_float j"
  shows "canonical_bytes c nfc (of_json j) = encode_utf8 (json_dumps j)"
  using assms by (simp add: canonical_bytes_def canonical_json_def freeze_of_json)

lemma encode_utf8_Inr [res_simps]: "encode_utf8 s = Inr t \<longleftrightarrow> utf8_valid s \<and> t = s"
  by (auto simp: encode_utf8_def)

lemma canonical_bytes_Inr:
  "canonical_bytes c nfc v = Inr b \<longleftrightarrow>
     (\<exists>j. freeze c nfc v = Inr j \<and> b = json_dumps j \<and> utf8_valid b)"
  by (auto simp: canonical_bytes_def canonical_json_def res_simps)

end
