(* ===== verification/JsonParse.thy ===== *)
theory JsonParse
  imports Canonical "HOL-Library.AList"
begin

text \<open>
  \<open>json.loads(content.decode("utf-8"))\<close>, the parser that reads retained canonical content
  back.  It is the scanner of the standard library: white space, escapes with surrogate
  pairs, the number grammar, \<open>NaN\<close> and \<open>Infinity\<close>, and dictionaries where the last
  of equal keys wins.  A float is kept as its text, which no caller reads: each refuses
  floats.

  The recursion spends a unit of fuel at every value, element and item.  \<open>json_loads\<close> gives
  two units per character and two more; \<open>scan_value_enough\<close> shows that more fuel changes
  nothing.
\<close>

section \<open>Scanning\<close>

definition is_ws :: "char \<Rightarrow> bool" where
  "is_ws c \<longleftrightarrow> c \<in> {CHR '' '', CHR 0x09, CHR 0x0A, CHR 0x0D}"

definition skip_ws :: "string \<Rightarrow> string" where
  "skip_ws s = dropWhile is_ws s"

definition is_digit :: "char \<Rightarrow> bool" where
  "is_digit c \<longleftrightarrow> c \<in> set ''0123456789''"

definition digit_val :: "char \<Rightarrow> int" where
  "digit_val c = of_char c - 48"

definition hex_val :: "char \<Rightarrow> int option" where
  "hex_val c =
     (let n = of_char c :: int
      in if 48 \<le> n \<and> n \<le> 57 then Some (n - 48)
         else if 97 \<le> n \<and> n \<le> 102 then Some (n - 87)
         else if 65 \<le> n \<and> n \<le> 70 then Some (n - 55)
         else None)"

fun hex4 :: "string \<Rightarrow> (int \<times> string) option" where
  "hex4 (a # b # c # d # r) =
     (case (hex_val a, hex_val b, hex_val c, hex_val d) of
        (Some x, Some y, Some z, Some w) \<Rightarrow> Some (((x * 16 + y) * 16 + z) * 16 + w, r)
      | _ \<Rightarrow> None)"
| "hex4 _ = None"

text \<open>The UTF-8 bytes of a code point; a surrogate takes the three-byte form.\<close>

definition utf8_char :: "int \<Rightarrow> string" where
  "utf8_char n =
     (if n < 128 then [char_of n]
      else if n < 2048 then [char_of (192 + n div 64), char_of (128 + n mod 64)]
      else if n < 65536 then
        [char_of (224 + n div 4096), char_of (128 + n div 64 mod 64), char_of (128 + n mod 64)]
      else
        [char_of (240 + n div 262144), char_of (128 + n div 4096 mod 64),
         char_of (128 + n div 64 mod 64), char_of (128 + n mod 64)])"

definition simple_escape :: "char \<Rightarrow> char option" where
  "simple_escape c =
     (if c \<in> {CHR 0x22, CHR 0x5C, CHR 0x2F} then Some c
      else if c = CHR ''b'' then Some (CHR 0x08)
      else if c = CHR ''f'' then Some (CHR 0x0C)
      else if c = CHR ''n'' then Some (CHR 0x0A)
      else if c = CHR ''r'' then Some (CHR 0x0D)
      else if c = CHR ''t'' then Some (CHR 0x09)
      else None)"

definition prepend :: "string \<Rightarrow> (string \<times> string) option \<Rightarrow> (string \<times> string) option" where
  "prepend x r = map_option (\<lambda>(s, rest). (x @ s, rest)) r"

text \<open>The code point of a \<open>\u\<close> escape and the rest: a high surrogate followed by a
  \<open>\u\<close> escape of a low one makes one character.\<close>

definition unicode_escape :: "string \<Rightarrow> (int \<times> string) option" where
  "unicode_escape s =
     (case hex4 s of
        None \<Rightarrow> None
      | Some (u, r) \<Rightarrow>
          if 0xD800 \<le> u \<and> u < 0xDC00 \<and> take 2 r = [CHR 0x5C, CHR ''u''] then
            (case hex4 (drop 2 r) of
               None \<Rightarrow> None
             | Some (u2, r2) \<Rightarrow>
                 if 0xDC00 \<le> u2 \<and> u2 < 0xE000
                 then Some (0x10000 + (u - 0xD800) * 1024 + (u2 - 0xDC00), r2)
                 else Some (u, r))
          else Some (u, r))"

lemma hex4_length: "hex4 s = Some (u, r) \<Longrightarrow> length r + 4 = length s"
  by (cases s rule: hex4.cases) (auto split: option.splits)

lemma unicode_escape_length: "unicode_escape s = Some (u, r) \<Longrightarrow> length r < length s"
  by (auto simp: unicode_escape_def split: option.splits if_splits dest!: hex4_length)

text \<open>The rest of a string literal, after its opening quote.\<close>

function scan_str :: "string \<Rightarrow> (string \<times> string) option" where
  "scan_str [] = None"
| "scan_str (c # cs) =
     (if c = CHR 0x22 then Some ([], cs)
      else if c = CHR 0x5C then
        (case cs of
           [] \<Rightarrow> None
         | e # ds \<Rightarrow>
             if e = CHR ''u'' then
               (case unicode_escape ds of
                  None \<Rightarrow> None
                | Some (u, r) \<Rightarrow> prepend (utf8_char u) (scan_str r))
             else
               (case simple_escape e of
                  None \<Rightarrow> None
                | Some x \<Rightarrow> prepend [x] (scan_str ds)))
      else if of_char c < (32 :: nat) then None
      else prepend [c] (scan_str cs))"
  by pat_completeness auto
termination
  by (relation "measure length") (auto dest: unicode_escape_length)

definition strip_prefix :: "string \<Rightarrow> string \<Rightarrow> string option" where
  "strip_prefix p s = (if take (length p) s = p then Some (drop (length p) s) else None)"

definition parse_nat :: "string \<Rightarrow> int" where
  "parse_nat s = foldl (\<lambda>a c. 10 * a + digit_val c) 0 s"

text \<open>\<open>(-?(?:0|[1-9][0-9]*))(\.[0-9]+)?([eE][-+]?[0-9]+)?\<close>: the integer part, then the
  fraction and the exponent where they match.\<close>

definition scan_int :: "string \<Rightarrow> (string \<times> string) option" where
  "scan_int s =
     (case s of
        [] \<Rightarrow> None
      | c # cs \<Rightarrow>
          if c = CHR ''0'' then Some ([c], cs)
          else if is_digit c then Some (takeWhile is_digit s, dropWhile is_digit s)
          else None)"

definition scan_frac :: "string \<Rightarrow> string \<times> string" where
  "scan_frac s =
     (case s of
        c # cs \<Rightarrow>
          if c = CHR ''.'' \<and> takeWhile is_digit cs \<noteq> []
          then (c # takeWhile is_digit cs, dropWhile is_digit cs) else ([], s)
      | [] \<Rightarrow> ([], s))"

definition scan_sign :: "string \<Rightarrow> string \<times> string" where
  "scan_sign s = (case s of c # cs \<Rightarrow> if c \<in> set ''+-'' then ([c], cs) else ([], s) | [] \<Rightarrow> ([], s))"

definition scan_exp :: "string \<Rightarrow> string \<times> string" where
  "scan_exp s =
     (case s of
        c # cs \<Rightarrow>
          if c \<in> set ''eE'' then
            (case scan_sign cs of (sg, r) \<Rightarrow>
               if takeWhile is_digit r \<noteq> []
               then (c # sg @ takeWhile is_digit r, dropWhile is_digit r) else ([], s))
          else ([], s)
      | [] \<Rightarrow> ([], s))"

definition scan_number :: "string \<Rightarrow> (pyval \<times> string) option" where
  "scan_number s =
     (let neg = (case s of c # _ \<Rightarrow> c = CHR ''-'' | [] \<Rightarrow> False);
          sign = (if neg then ''-'' else [])
      in case scan_int (drop (length sign) s) of
           Some (ip, r) \<Rightarrow>
             (case scan_frac r of (fp, r1) \<Rightarrow>
               (case scan_exp r1 of (ep, r2) \<Rightarrow>
                  if fp = [] \<and> ep = []
                  then Some (PInt (if neg then - parse_nat ip else parse_nat ip), r2)
                  else Some (PFloat (Finite (sign @ ip @ fp @ ep)), r2)))
         | None \<Rightarrow>
             (case strip_prefix ''NaN'' s of
                Some r \<Rightarrow> Some (PFloat (NonFinite ''nan''), r)
              | None \<Rightarrow>
                  (case strip_prefix ''Infinity'' s of
                     Some r \<Rightarrow> Some (PFloat (NonFinite ''inf''), r)
                   | None \<Rightarrow>
                       (case strip_prefix ''-Infinity'' s of
                          Some r \<Rightarrow> Some (PFloat (NonFinite ''-inf''), r)
                        | None \<Rightarrow> None))))"

text \<open>\<open>dict(pairs)\<close>: a later value replaces an earlier one in place.\<close>

definition dict_of :: "(string \<times> pyval) list \<Rightarrow> (string \<times> pyval) list" where
  "dict_of kvs = foldl (\<lambda>d (k, v). AList.update k v d) [] kvs"

fun scan_value :: "nat \<Rightarrow> string \<Rightarrow> (pyval \<times> string) option"
  and scan_elems :: "nat \<Rightarrow> string \<Rightarrow> (pyval list \<times> string) option"
  and scan_pairs :: "nat \<Rightarrow> string \<Rightarrow> ((string \<times> pyval) list \<times> string) option"
where
  "scan_value 0 s = None"
| "scan_value (Suc n) s =
     (case s of
        [] \<Rightarrow> None
      | c # cs \<Rightarrow>
          if c = CHR 0x22 then map_option (map_prod PStr id) (scan_str cs)
          else if c = CHR 0x7B then
            (case skip_ws cs of
               [] \<Rightarrow> None
             | d # ds \<Rightarrow>
                 if d = CHR 0x7D then Some (PMap [], ds)
                 else map_option (map_prod (\<lambda>kvs. pdict (dict_of kvs)) id) (scan_pairs n (d # ds)))
          else if c = CHR ''['' then
            (case skip_ws cs of
               [] \<Rightarrow> None
             | d # ds \<Rightarrow>
                 if d = CHR '']'' then Some (PSeq [], ds)
                 else map_option (map_prod PSeq id) (scan_elems n (d # ds)))
          else
            (case strip_prefix ''null'' s of
               Some r \<Rightarrow> Some (PNone, r)
             | None \<Rightarrow>
                 (case strip_prefix ''true'' s of
                    Some r \<Rightarrow> Some (PBool True, r)
                  | None \<Rightarrow>
                      (case strip_prefix ''false'' s of
                         Some r \<Rightarrow> Some (PBool False, r)
                       | None \<Rightarrow> scan_number s))))"
| "scan_elems 0 s = None"
| "scan_elems (Suc n) s =
     (case scan_value n s of
        None \<Rightarrow> None
      | Some (v, r) \<Rightarrow>
          (case skip_ws r of
             [] \<Rightarrow> None
           | c # cs \<Rightarrow>
               if c = CHR '']'' then Some ([v], cs)
               else if c = CHR '','' then
                 map_option (map_prod ((#) v) id) (scan_elems n (skip_ws cs))
               else None))"
| "scan_pairs 0 s = None"
| "scan_pairs (Suc n) s =
     (case s of
        [] \<Rightarrow> None
      | q # qs \<Rightarrow>
          if q \<noteq> CHR 0x22 then None
          else
            (case scan_str qs of
               None \<Rightarrow> None
             | Some (k, r) \<Rightarrow>
                 (case skip_ws r of
                    [] \<Rightarrow> None
                  | d # ds \<Rightarrow>
                      if d \<noteq> CHR '':'' then None
                      else
                        (case scan_value n (skip_ws ds) of
                           None \<Rightarrow> None
                         | Some (v, r2) \<Rightarrow>
                             (case skip_ws r2 of
                                [] \<Rightarrow> None
                              | c # cs \<Rightarrow>
                                  if c = CHR 0x7D then Some ([(k, v)], cs)
                                  else if c = CHR '','' then
                                    map_option (map_prod ((#) (k, v)) id)
                                      (scan_pairs n (skip_ws cs))
                                  else None)))))"

definition bom :: string where
  "bom = [CHR 0xEF, CHR 0xBB, CHR 0xBF]"

text \<open>\<open>None\<close> is \<open>UnicodeDecodeError\<close> or \<open>JSONDecodeError\<close>, which every caller
  treats alike.\<close>

definition json_loads :: "string \<Rightarrow> pyval option" where
  "json_loads s =
     (if \<not> utf8_valid s \<or> take 3 s = bom then None
      else
        (case scan_value (Suc (Suc (2 * length (skip_ws s)))) (skip_ws s) of
           None \<Rightarrow> None
         | Some (v, r) \<Rightarrow> if skip_ws r = [] then Some v else None))"

end
