(* ===== verification/JsonRoundtrip.thy ===== *)
theory JsonRoundtrip
  imports JsonParse
begin

text \<open>
  The parser reads back what the writer wrote: \<open>json_loads (json_dumps j) = of_json j\<close>
  for a canonical value without floats.  With it the canonical text of a value determines
  the value, which is what makes a digest of the text a digest of the value.
\<close>

section \<open>Strings\<close>

lemma control_escape:
  assumes "of_char c < (32 :: nat)"
  shows "unicode_escape (hex4_of (of_char c) @ s) = Some (of_char c, s)"
proof -
  have "\<forall>n \<in> set [0..<32]. hex4 (hex4_of n @ s) = Some (int n, s)"
    by (simp add: upt_rec hex4_of_def hex_char_def hex_digits_def hex_val_def Let_def)
  with assms have "hex4 (hex4_of (of_char c) @ s) = Some (int (of_char c), s)" by simp
  with assms have "unicode_escape (hex4_of (of_char c) @ s) = Some (int (of_char c), s)"
    by (simp add: unicode_escape_def)
  then show ?thesis by (simp only: of_nat_of_char)
qed

lemma utf8_char_ascii:
  assumes "of_char c < (128 :: nat)"
  shows "utf8_char (of_char c) = [c]"
proof -
  have "(of_char c :: int) = int (of_char c)" by (simp only: of_nat_of_char)
  with assms show ?thesis by (simp add: utf8_char_def)
qed

lemma json_escape_scan:
  "scan_str (json_escape c @ s) = prepend [c] (scan_str s)"
  by (auto simp: json_escape_def simple_escape_def control_escape utf8_char_ascii)

lemma scan_str_quote: "scan_str (concat (map json_escape s) @ CHR 0x22 # rest) = Some (s, rest)"
  by (induction s) (simp_all add: json_escape_scan prepend_def)

section \<open>Numbers\<close>

lemma digit_cases:
  fixes d :: int
  obtains "d mod 10 = 0" | "d mod 10 = 1" | "d mod 10 = 2" | "d mod 10 = 3" | "d mod 10 = 4"
    | "d mod 10 = 5" | "d mod 10 = 6" | "d mod 10 = 7" | "d mod 10 = 8" | "d mod 10 = 9"
proof -
  have "d mod 10 = 0 \<or> d mod 10 = 1 \<or> d mod 10 = 2 \<or> d mod 10 = 3 \<or> d mod 10 = 4
    \<or> d mod 10 = 5 \<or> d mod 10 = 6 \<or> d mod 10 = 7 \<or> d mod 10 = 8 \<or> d mod 10 = 9"
    by presburger
  then show ?thesis by (elim disjE) (rule that; assumption)+
qed

lemma digit_char_props:
  "is_digit (digit_char d)" "digit_val (digit_char d) = d mod 10"
  by (cases d rule: digit_cases; simp add: digit_char_def is_digit_def digit_val_def)+

lemma digit_char_0: "digit_char d = CHR ''0'' \<longleftrightarrow> d mod 10 = 0"
  by (cases d rule: digit_cases; simp add: digit_char_def)

lemma parse_nat_snoc: "parse_nat (s @ [c]) = 10 * parse_nat s + digit_val c"
  by (simp add: parse_nat_def)

lemma parse_show_nat: "parse_nat (show_nat n) = int n"
proof (induction n rule: show_nat.induct)
  case (1 n)
  show ?case
  proof (cases "n < 10")
    case True
    then show ?thesis
      by (simp add: show_nat.simps [of n] parse_nat_def digit_char_props)
  next
    case False
    with 1 show ?thesis
      by (simp add: show_nat.simps [of n] parse_nat_snoc digit_char_props zdiv_int zmod_int)
  qed
qed

lemma show_nat_digits: "list_all is_digit (show_nat n)"
  by (induction n rule: show_nat.induct)
    (subst show_nat.simps, auto simp: digit_char_props)

lemma show_nat_Cons:
  obtains c cs where "show_nat n = c # cs" "is_digit c" "c = CHR ''0'' \<longrightarrow> cs = []"
proof -
  have "show_nat n \<noteq> [] \<and> is_digit (hd (show_nat n))
      \<and> (hd (show_nat n) = CHR ''0'' \<longrightarrow> tl (show_nat n) = [] \<and> n = 0)"
  proof (induction n rule: show_nat.induct)
    case (1 n)
    show ?case
    proof (cases "n < 10")
      case True
      then show ?thesis
        by (auto simp: show_nat.simps [of n] show_nat.simps [of 0] digit_char_props digit_char_0)
    next
      case False
      with 1 show ?thesis by (auto simp: show_nat.simps [of n])
    qed
  qed
  then show ?thesis using that by (cases "show_nat n") auto
qed

text \<open>What can follow a value in canonical text.\<close>

definition delim :: "string \<Rightarrow> bool" where
  "delim s \<longleftrightarrow> s = [] \<or> hd s \<in> {CHR '','', CHR '']'', CHR 0x7D}"

lemma delim_digits: "delim r \<Longrightarrow> takeWhile is_digit r = [] \<and> dropWhile is_digit r = r"
  by (cases r) (auto simp: delim_def is_digit_def)

lemma delim_frac_exp: "delim r \<Longrightarrow> scan_frac r = ([], r) \<and> scan_exp r = ([], r)"
  by (cases r) (auto simp: delim_def scan_frac_def scan_exp_def)

lemma scan_int_show_nat:
  assumes "delim r"
  shows "scan_int (show_nat n @ r) = Some (show_nat n, r)"
proof -
  obtain c cs where s: "show_nat n = c # cs" and d: "is_digit c" "c = CHR ''0'' \<longrightarrow> cs = []"
    by (rule show_nat_Cons)
  have all: "\<forall>x \<in> set (c # cs). is_digit x"
    using show_nat_digits [of n] s by (simp add: list_all_iff)
  then have tw: "takeWhile is_digit ((c # cs) @ r) = c # cs" "dropWhile is_digit ((c # cs) @ r) = r"
    using delim_digits [OF assms] by (simp_all add: takeWhile_append dropWhile_append)
  show ?thesis using d tw by (simp add: s scan_int_def del: takeWhile.simps dropWhile.simps)
qed

lemma scan_number_show_int:
  assumes "delim r"
  shows "scan_number (show_int i @ r) = Some (PInt i, r)"
proof (cases "i < 0")
  case True
  then show ?thesis
    using scan_int_show_nat [OF assms, of "nat (- i)"] delim_frac_exp [OF assms]
    by (simp add: scan_number_def show_int_def parse_show_nat)
next
  case False
  obtain c cs where s: "show_nat (nat i) = c # cs" "is_digit c"
    by (rule show_nat_Cons)
  then have c: "c \<noteq> CHR ''-''" by (auto simp: is_digit_def)
  have "scan_int (c # cs @ r) = Some (c # cs, r)"
    using scan_int_show_nat [OF assms, of "nat i"] s by simp
  moreover have "parse_nat (c # cs) = i"
    using parse_show_nat [of "nat i"] s False by simp
  ultimately show ?thesis
    using False delim_frac_exp [OF assms] c s
    by (simp add: scan_number_def show_int_def)
qed

section \<open>Fuel\<close>

lemma skip_ws_length: "length (skip_ws s) \<le> length s"
  unfolding skip_ws_def by (rule length_dropWhile_le)

lemma prepend_Some: "prepend x m = Some (t, r) \<Longrightarrow> \<exists>u. m = Some (u, r) \<and> t = x @ u"
  by (auto simp: prepend_def)

lemma scan_str_length: "scan_str s = Some (t, r) \<Longrightarrow> length r < length s"
proof (induction "length s" arbitrary: s t r rule: less_induct)
  case less
  note IH = less.hyps
  show ?case
  proof (cases s)
    case (Cons c cs)
    with less.prems show ?thesis
      by (auto split: if_splits list.splits option.splits dest!: prepend_Some unicode_escape_length
          dest: less_trans [OF IH] less_trans [OF IH, rotated] IH [rotated])
  qed (use less.prems in simp)
qed

lemma strip_prefix_length: "strip_prefix p s = Some r \<Longrightarrow> p \<noteq> [] \<Longrightarrow> length r < length s"
  by (cases s) (auto simp: strip_prefix_def split: if_splits)

lemma scan_int_length: "scan_int s = Some (ip, r) \<Longrightarrow> length r < length s"
  by (auto simp: scan_int_def split: list.splits if_splits intro: le_less_trans [OF length_dropWhile_le])

lemma scan_frac_length: "scan_frac s = (fp, r) \<Longrightarrow> length r \<le> length s"
  by (auto simp: scan_frac_def split: list.splits if_splits intro: le_trans [OF length_dropWhile_le])

lemma scan_sign_length: "scan_sign s = (sg, r) \<Longrightarrow> length r \<le> length s"
  by (auto simp: scan_sign_def split: list.splits if_splits)

lemma scan_exp_length: "scan_exp s = (ep, r) \<Longrightarrow> length r \<le> length s"
  by (auto simp: scan_exp_def split: list.splits if_splits prod.splits dest!: scan_sign_length
      intro: le_trans [OF length_dropWhile_le])

lemma scan_number_length: "scan_number s = Some (v, r) \<Longrightarrow> length r < length s"
  unfolding scan_number_def Let_def
  by (auto split: list.splits option.splits if_splits prod.splits
      dest!: scan_int_length scan_frac_length scan_exp_length strip_prefix_length)

lemma scan_length:
  "(\<forall>s v r. scan_value n s = Some (v, r) \<longrightarrow> length r < length s)
    \<and> (\<forall>s vs r. scan_elems n s = Some (vs, r) \<longrightarrow> length r < length s)
    \<and> (\<forall>s kvs r. scan_pairs n s = Some (kvs, r) \<longrightarrow> length r < length s)"
proof (induction n)
  case (Suc n)
  then have IH: "\<And>s v r. scan_value n s = Some (v, r) \<Longrightarrow> length r < length s"
    "\<And>s v r. scan_elems n s = Some (v, r) \<Longrightarrow> length r < length s"
    "\<And>s v r. scan_pairs n s = Some (v, r) \<Longrightarrow> length r < length s" by blast+
  have ws: "skip_ws s = c # cs \<Longrightarrow> length cs < length s" for s c cs
    using skip_ws_length [of s] by simp
  have "length r < length s" if "scan_value (Suc n) s = Some (v, r)" for s v r
    using that
    by (auto split: list.splits if_splits option.splits dest!: IH ws scan_str_length
        scan_number_length strip_prefix_length)
  moreover have "length r < length s" if "scan_elems (Suc n) s = Some (v, r)" for s v r
  proof -
    from that obtain v0 r0 c cs where r: "scan_value n s = Some (v0, r0)" "skip_ws r0 = c # cs"
      by (auto split: list.splits option.splits)
    then have "length (skip_ws cs) < length s"
      using IH(1) [OF r(1)] ws [OF r(2)] skip_ws_length [of cs] by linarith
    with that r IH(1) [OF r(1)] ws [OF r(2)] show ?thesis
      by (auto split: if_splits dest!: IH(2))
  qed
  moreover have "length r < length s" if "scan_pairs (Suc n) s = Some (v, r)" for s v r
  proof -
    from that obtain qs k r0 d ds v0 r1 c cs where r: "s = CHR 0x22 # qs" "scan_str qs = Some (k, r0)"
      "skip_ws r0 = d # ds" "scan_value n (skip_ws ds) = Some (v0, r1)" "skip_ws r1 = c # cs"
      by (auto split: list.splits option.splits if_splits)
    then have le: "length cs < length s" "length (skip_ws cs) < length s"
      using IH(1) [OF r(4)] ws [OF r(3)] ws [OF r(5)] scan_str_length [OF r(2)]
        skip_ws_length [of cs] skip_ws_length [of ds] by auto
    with that r show ?thesis by (auto split: if_splits dest!: IH(3))
  qed
  ultimately show ?case by blast
qed simp

lemma scan_shorter:
  "scan_value n s = Some (v, r) \<Longrightarrow> length r < length s"
  "scan_elems n s = Some (vs, r) \<Longrightarrow> length r < length s"
  "scan_pairs n s = Some (kvs, r) \<Longrightarrow> length r < length s"
  using scan_length by blast+

lemma skip_ws_shorter: "skip_ws s = c # cs \<Longrightarrow> length (c # cs) \<le> length s"
  using skip_ws_length [of s] by simp

text \<open>One step of each scanner with more fuel, given that the scanners it calls on shorter
  input return the same.\<close>

lemma scan_value_step:
  assumes p: "\<And>t r. scan_pairs n t = Some r \<Longrightarrow> length t < length s \<Longrightarrow> scan_pairs m t = Some r"
    and e: "\<And>t r. scan_elems n t = Some r \<Longrightarrow> length t < length s \<Longrightarrow> scan_elems m t = Some r"
  shows "scan_value (Suc n) s = Some r \<Longrightarrow> scan_value (Suc m) s = Some r"
  by (auto split: list.splits if_splits dest: skip_ws_shorter dest!: p e)

lemma scan_elems_step:
  assumes v: "\<And>r. scan_value n s = Some r \<Longrightarrow> scan_value m s = Some r"
    and e: "\<And>t r. scan_elems n t = Some r \<Longrightarrow> length t < length s \<Longrightarrow> scan_elems m t = Some r"
    and s: "scan_elems (Suc n) s = Some r"
  shows "scan_elems (Suc m) s = Some r"
proof -
  from s obtain v0 r0 c cs where r: "scan_value n s = Some (v0, r0)" "skip_ws r0 = c # cs"
    by (auto split: list.splits option.splits)
  then have "length (skip_ws cs) < length s"
    using scan_shorter(1) [OF r(1)] skip_ws_shorter [OF r(2)] skip_ws_length [of cs] by simp
  with e have "scan_elems n (skip_ws cs) = Some x \<Longrightarrow> scan_elems m (skip_ws cs) = Some x" for x by blast
  with s r v [OF r(1)] show ?thesis by (auto split: if_splits)
qed

lemma scan_pairs_step:
  assumes v: "\<And>t r. scan_value n t = Some r \<Longrightarrow> length t < length s \<Longrightarrow> scan_value m t = Some r"
    and p: "\<And>t r. scan_pairs n t = Some r \<Longrightarrow> length t < length s \<Longrightarrow> scan_pairs m t = Some r"
    and s: "scan_pairs (Suc n) s = Some r"
  shows "scan_pairs (Suc m) s = Some r"
proof -
  from s obtain qs k r0 d ds v0 r1 c cs where r: "s = CHR 0x22 # qs" "scan_str qs = Some (k, r0)"
    "skip_ws r0 = d # ds" "scan_value n (skip_ws ds) = Some (v0, r1)" "skip_ws r1 = c # cs"
    by (auto split: list.splits option.splits if_splits)
  then have l: "length (skip_ws ds) < length s" "length (skip_ws cs) < length s"
    using scan_shorter(1) [OF r(4)] skip_ws_shorter [OF r(3)] skip_ws_shorter [OF r(5)]
      scan_str_length [OF r(2)] skip_ws_length [of cs] skip_ws_length [of ds] by auto
  have "scan_pairs n (skip_ws cs) = Some x \<Longrightarrow> scan_pairs m (skip_ws cs) = Some x" for x
    using p l(2) by blast
  with s r v [OF r(4) l(1)] show ?thesis by (auto split: if_splits)
qed

lemma scan_mono_Suc:
  "(\<forall>s r. scan_value n s = Some r \<longrightarrow> scan_value (Suc n) s = Some r)
    \<and> (\<forall>s r. scan_elems n s = Some r \<longrightarrow> scan_elems (Suc n) s = Some r)
    \<and> (\<forall>s r. scan_pairs n s = Some r \<longrightarrow> scan_pairs (Suc n) s = Some r)"
proof (induction n)
  case (Suc n)
  then show ?case
    using scan_value_step [where n = n and m = "Suc n"] scan_elems_step [where n = n and m = "Suc n"]
      scan_pairs_step [where n = n and m = "Suc n"]
    by blast
qed simp

lemma scan_mono:
  assumes "n \<le> m"
  shows "scan_value n s = Some r \<Longrightarrow> scan_value m s = Some r"
    and "scan_elems n s = Some r' \<Longrightarrow> scan_elems m s = Some r'"
    and "scan_pairs n s = Some r'' \<Longrightarrow> scan_pairs m s = Some r''"
  using assms by (induction rule: inc_induct) (blast dest: scan_mono_Suc [THEN conjunct1, rule_format]
      scan_mono_Suc [THEN conjunct2, THEN conjunct1, rule_format]
      scan_mono_Suc [THEN conjunct2, THEN conjunct2, rule_format])+

text \<open>Two units of fuel per character are enough: a scan that returns with any fuel
  returns the same with them.\<close>

lemma scan_enough_all:
  "(\<forall>s r. scan_value n s = Some r \<longrightarrow> scan_value (Suc (2 * length s)) s = Some r)
    \<and> (\<forall>s r. scan_elems n s = Some r \<longrightarrow> scan_elems (Suc (Suc (2 * length s))) s = Some r)
    \<and> (\<forall>s r. scan_pairs n s = Some r \<longrightarrow> scan_pairs (Suc (Suc (2 * length s))) s = Some r)"
proof (induction n)
  case (Suc n)
  then have IH: "\<And>s r. scan_value n s = Some r \<Longrightarrow> scan_value (Suc (2 * length s)) s = Some r"
    "\<And>s r. scan_elems n s = Some r \<Longrightarrow> scan_elems (Suc (Suc (2 * length s))) s = Some r"
    "\<And>s r. scan_pairs n s = Some r \<Longrightarrow> scan_pairs (Suc (Suc (2 * length s))) s = Some r"
    by blast+
  have V: "scan_value m s = Some r" if "scan_value n s = Some r" "2 * length s < m" for s r m
    by (rule scan_mono(1) [OF _ IH(1) [OF that(1)]]) (use that(2) in simp)
  have E: "scan_elems m s = Some r" if "scan_elems n s = Some r" "2 * length s + 2 \<le> m" for s r m
    by (rule scan_mono(2) [OF _ IH(2) [OF that(1)]]) (use that(2) in simp)
  have P: "scan_pairs m s = Some r" if "scan_pairs n s = Some r" "2 * length s + 2 \<le> m" for s r m
    by (rule scan_mono(3) [OF _ IH(3) [OF that(1)]]) (use that(2) in simp)
  have "scan_value (Suc (2 * length s)) s = Some r" if "scan_value (Suc n) s = Some r" for s r
    by (rule scan_value_step [OF _ _ that]) (rule E P; simp)+
  moreover have "scan_elems (Suc (Suc (2 * length s))) s = Some r"
    if "scan_elems (Suc n) s = Some r" for s r
    by (rule scan_elems_step [OF _ _ that]) (rule V E; simp)+
  moreover have "scan_pairs (Suc (Suc (2 * length s))) s = Some r"
    if "scan_pairs (Suc n) s = Some r" for s r
    by (rule scan_pairs_step [OF _ _ that]) (rule V P; simp)+
  ultimately show ?case by blast
qed simp

lemma scan_value_enough:
  assumes "scan_value n s = Some r" and "2 * length s < m"
  shows "scan_value m s = Some r"
proof (rule scan_mono(1))
  show "scan_value (Suc (2 * length s)) s = Some r"
    using assms(1) scan_enough_all [THEN conjunct1, rule_format] by blast
qed (use assms(2) in simp)

section \<open>Reading back what was written\<close>

lemma dict_of_distinct:
  assumes "distinct (map fst kvs)"
  shows "dict_of kvs = kvs"
proof -
  have new: "k \<notin> fst ` set d \<Longrightarrow> AList.update k v d = d @ [(k, v)]" for k v and d :: "(string \<times> pyval) list"
    by (induction d) auto
  have "distinct (map fst (d @ kvs)) \<Longrightarrow> foldl (\<lambda>d (k, v). AList.update k v d) d kvs = d @ kvs" for d
    by (induction kvs arbitrary: d) (auto simp: new)
  from this [of "[]"] assms show ?thesis by (simp add: dict_of_def)
qed

lemma dumps_list_map: "dumps_list js = map json_dumps js"
  by (induction js) auto

lemma dumps_items_map: "dumps_items kvs = map (\<lambda>(k, j). (k, json_quote k @ '':'' @ json_dumps j)) kvs"
  by (induction kvs) auto

lemma fst_dumps_items [simp]: "map fst (dumps_items kvs) = map fst kvs"
  by (induction kvs) auto

lemma show_int_Cons:
  obtains c cs where "show_int i = c # cs" "is_digit c \<or> c = CHR ''-''"
  by (metis append_Cons append_Nil show_int_def show_nat_Cons)

definition plain_start :: "char \<Rightarrow> bool" where
  "plain_start c \<longleftrightarrow> \<not> is_ws c \<and> c \<noteq> CHR '']'' \<and> c \<noteq> CHR 0x7D \<and> c \<noteq> CHR 0xEF"

lemma show_int_start: "\<exists>c cs. show_int i = c # cs \<and> plain_start c"
  by (rule show_int_Cons [of i]) (auto simp: is_digit_def is_ws_def plain_start_def)

lemma dumps_start: "no_float j \<Longrightarrow> \<exists>c cs. json_dumps j = c # cs \<and> plain_start c"
  using show_int_start by (cases j) (auto simp: json_quote_def is_ws_def plain_start_def)

lemma dumps_Cons:
  assumes "no_float j"
  obtains c cs where "json_dumps j = c # cs" "\<not> is_ws c" "c \<noteq> CHR '']''" "c \<noteq> CHR 0x7D" "c \<noteq> CHR 0xEF"
  using dumps_start [OF assms] unfolding plain_start_def by blast

lemma skip_ws_dumps [simp]: "no_float j \<Longrightarrow> skip_ws (json_dumps j @ r) = json_dumps j @ r"
  by (rule dumps_Cons [of j]) (simp_all add: skip_ws_def)

lemma skip_ws_delims [simp]:
  "skip_ws (CHR '','' # s) = CHR '','' # s" "skip_ws (CHR '']'' # s) = CHR '']'' # s"
  "skip_ws (CHR 0x7D # s) = CHR 0x7D # s" "skip_ws (CHR '':'' # s) = CHR '':'' # s"
  "skip_ws (CHR 0x22 # s) = CHR 0x22 # s"
  by (simp_all add: skip_ws_def is_ws_def)

lemma delim_simps [simp]:
  "delim []" "delim (CHR '','' # s)" "delim (CHR '']'' # s)" "delim (CHR 0x7D # s)"
  by (simp_all add: delim_def)

definition reads_back :: "json \<Rightarrow> bool" where
  "reads_back j \<longleftrightarrow> (\<forall>rest. delim rest \<longrightarrow> (\<exists>n. scan_value n (json_dumps j @ rest) = Some (of_json j, rest)))"

lemma reads_backI:
  "(\<And>rest. delim rest \<Longrightarrow> \<exists>n. scan_value n (json_dumps j @ rest) = Some (of_json j, rest)) \<Longrightarrow> reads_back j"
  by (simp add: reads_back_def)

lemma reads_backD:
  assumes "reads_back j" and "delim rest"
  shows "\<exists>n. scan_value n (json_dumps j @ rest) = Some (of_json j, rest)"
  using assms unfolding reads_back_def by blast

lemma scan_elems_dumps:
  assumes "js \<noteq> []" and "\<And>j. j \<in> set js \<Longrightarrow> reads_back j \<and> no_float j"
  shows "\<exists>n. scan_elems n (comma_join (map json_dumps js) @ CHR '']'' # rest) = Some (map of_json js, rest)"
  using assms
proof (induction js rule: induct_list012)
  case (2 j)
  then have "reads_back j" by simp
  then obtain n where "scan_value n (json_dumps j @ CHR '']'' # rest) = Some (of_json j, CHR '']'' # rest)"
    using reads_backD [of j "CHR '']'' # rest"] by auto
  then have "scan_elems (Suc n) (comma_join (map json_dumps [j]) @ CHR '']'' # rest) = Some ([of_json j], rest)"
    by (simp del: scan_value.simps)
  then show ?case by (metis list.map)
next
  case (3 j k js)
  let ?t = "comma_join (map json_dumps (k # js)) @ CHR '']'' # rest"
  from 3 obtain n where n: "scan_elems n ?t = Some (map of_json (k # js), rest)" by auto
  obtain m where m: "scan_value m (json_dumps j @ CHR '','' # ?t) = Some (of_json j, CHR '','' # ?t)"
    using reads_backD [of j "CHR '','' # ?t"] "3.prems"(2) [of j] by auto
  have ws: "skip_ws ?t = ?t" using "3.prems"(2) [of k] by (cases js) simp_all
  have "scan_elems (Suc (max n m)) (json_dumps j @ CHR '','' # ?t)
      = Some (of_json j # map of_json (k # js), rest)"
    using scan_mono(2) [OF _ n, of "max n m"] scan_mono(1) [OF _ m, of "max n m"] ws
    by (simp del: scan_value.simps comma_join.simps list.map)
  then show ?case by (intro exI [of _ "Suc (max n m)"]) simp
qed simp

definition dump_item :: "string \<times> json \<Rightarrow> string" where
  "dump_item kv = json_quote (fst kv) @ '':'' @ json_dumps (snd kv)"

lemma dump_item_quote [simp]: "skip_ws (dump_item kv @ s) = dump_item kv @ s"
  by (simp add: dump_item_def json_quote_def)

lemma scan_pairs_item:
  assumes "scan_value n (json_dumps j @ c # s) = Some (v, c # s)" and "no_float j"
    and "c = CHR '','' \<or> c = CHR 0x7D"
  shows "scan_pairs (Suc n) (dump_item (k, j) @ c # s) =
    (if c = CHR 0x7D then Some ([(k, v)], s)
     else map_option (map_prod ((#) (k, v)) id) (scan_pairs n (skip_ws s)))"
  using assms by (auto simp: dump_item_def json_quote_def scan_str_quote simp del: scan_value.simps)

lemma scan_pairs_dumps:
  assumes "kvs \<noteq> []" and "\<And>k j. (k, j) \<in> set kvs \<Longrightarrow> reads_back j \<and> no_float j"
  shows "\<exists>n. scan_pairs n (comma_join (map dump_item kvs) @ CHR 0x7D # rest)
    = Some (map (map_prod id of_json) kvs, rest)"
  using assms
proof (induction kvs rule: induct_list012)
  case (2 kv)
  obtain k j where kv: "kv = (k, j)" by (cases kv)
  with 2 have j: "reads_back j" "no_float j" by auto
  obtain n where "scan_value n (json_dumps j @ CHR 0x7D # rest) = Some (of_json j, CHR 0x7D # rest)"
    using reads_backD [OF j(1), of "CHR 0x7D # rest"] by auto
  from scan_pairs_item [OF this j(2), of k] show ?case
    by (intro exI [of _ "Suc n"]) (simp add: kv)
next
  case (3 kv kv' kvs)
  let ?t = "comma_join (map dump_item (kv' # kvs)) @ CHR 0x7D # rest"
  obtain k j where kv: "kv = (k, j)" by (cases kv)
  with 3 have j: "reads_back j" "no_float j" by auto
  have "\<exists>n. scan_pairs n ?t = Some (map (map_prod id of_json) (kv' # kvs), rest)"
    by (rule "3.IH"(2)) (use "3.prems" in auto)
  then obtain n where n: "scan_pairs n ?t = Some (map (map_prod id of_json) (kv' # kvs), rest)" by blast
  obtain m where m: "scan_value m (json_dumps j @ CHR '','' # ?t) = Some (of_json j, CHR '','' # ?t)"
    using reads_backD [OF j(1), of "CHR '','' # ?t"] by auto
  have ws: "skip_ws ?t = ?t" by (cases kvs) simp_all
  have m': "scan_value (max n m) (json_dumps j @ CHR '','' # ?t) = Some (of_json j, CHR '','' # ?t)"
    by (rule scan_mono(1) [OF _ m]) simp
  have n': "scan_pairs (max n m) ?t = Some (map (map_prod id of_json) (kv' # kvs), rest)"
    by (rule scan_mono(3) [OF _ n]) simp
  have "scan_pairs (Suc (max n m)) (dump_item (k, j) @ CHR '','' # ?t)
      = Some ((k, of_json j) # map (map_prod id of_json) (kv' # kvs), rest)"
    unfolding scan_pairs_item [OF m' j(2) disjI1 [OF refl], of k] ws n' by simp
  moreover have "comma_join (map dump_item (kv # kv' # kvs)) @ CHR 0x7D # rest
      = dump_item (k, j) @ CHR '','' # ?t"
    "map (map_prod id of_json) (kv # kv' # kvs)
      = (k, of_json j) # map (map_prod id of_json) (kv' # kvs)" by (simp_all add: kv)
  ultimately show ?case by (simp only:) blast
qed simp

lemma json_dumps_obj:
  "sorted (map fst kvs) \<Longrightarrow> json_dumps (JObj kvs) = CHR 0x7B # comma_join (map dump_item kvs) @ [CHR 0x7D]"
  by (simp add: sort_key_id) (simp add: dumps_items_map dump_item_def [abs_def] split_beta comp_def)

lemma scan_value_delim_word: "delim r \<Longrightarrow> strip_prefix w (w @ r) = Some r"
  by (simp add: strip_prefix_def)

lemma show_int_not_word:
  "c \<in> {CHR ''n'', CHR ''t'', CHR ''f'', CHR ''['', CHR 0x7B, CHR 0x22} \<Longrightarrow> hd (show_int i @ r) \<noteq> c"
  by (rule show_int_Cons [of i]) (auto simp: is_digit_def)

lemma dump_item_Cons: "\<exists>t. comma_join (map dump_item (kv # kvs)) = CHR 0x22 # t"
  by (cases kvs) (auto simp: dump_item_def json_quote_def)

lemma dumps_elems_Cons:
  assumes "no_float j"
  obtains c t where "comma_join (map json_dumps (j # js)) = c # t" "\<not> is_ws c" "c \<noteq> CHR '']''"
  by (rule dumps_Cons [OF assms]) (cases js; force intro: that)

lemma reads_back_canonical: "canonical nfc j \<Longrightarrow> no_float j \<Longrightarrow> reads_back j"
proof (induction j)
  case (JInt i)
  show ?case
  proof (rule reads_backI)
    fix r assume "delim r"
    obtain c cs where s: "show_int i = c # cs" "is_digit c \<or> c = CHR ''-''" by (rule show_int_Cons)
    then have "c \<notin> {CHR ''n'', CHR ''t'', CHR ''f'', CHR ''['', CHR 0x7B, CHR 0x22}"
      by (auto simp: is_digit_def)
    then have "scan_value (Suc 0) (c # cs @ r) = scan_number (c # cs @ r)"
      by (simp add: strip_prefix_def)
    with scan_number_show_int [OF \<open>delim r\<close>, of i] s
    show "\<exists>n. scan_value n (json_dumps (JInt i) @ r) = Some (of_json (JInt i), r)"
      by (intro exI [of _ "Suc 0"]) (simp del: scan_value.simps)
  qed
next
  case (JList js)
  show ?case
  proof (cases js)
    case Nil
    then show ?thesis by (auto intro!: reads_backI exI [of _ 1])
  next
    case (Cons j js')
    show ?thesis
    proof (rule reads_backI)
      fix r
      obtain n where n: "scan_elems n (comma_join (map json_dumps js) @ CHR '']'' # r) = Some (map of_json js, r)"
        using scan_elems_dumps [of js r] JList Cons by auto
      obtain c t where "comma_join (map json_dumps js) = c # t" "\<not> is_ws c" "c \<noteq> CHR '']''"
        using dumps_elems_Cons [of j js'] JList.prems Cons by auto
      with n show "\<exists>n. scan_value n (json_dumps (JList js) @ r) = Some (of_json (JList js), r)"
        by (intro exI [of _ "Suc n"]) (simp add: dumps_list_map skip_ws_def del: scan_elems.simps)
    qed
  qed
next
  case (JObj kvs)
  then have sorted: "sorted (map fst kvs)" "distinct (map fst kvs)" by simp_all
  show ?case
  proof (cases kvs)
    case Nil
    then show ?thesis by (auto intro!: reads_backI exI [of _ 1] simp: pdict_def)
  next
    case (Cons kv kvs')
    show ?thesis
    proof (rule reads_backI)
      fix r
      have "reads_back j \<and> no_float j" if "(k, j) \<in> set kvs" for k j
        using JObj that by (auto 0 4)
      then obtain n where n: "scan_pairs n (comma_join (map dump_item kvs) @ CHR 0x7D # r)
          = Some (map (map_prod id of_json) kvs, r)"
        using scan_pairs_dumps [of kvs r] Cons by auto
      obtain t where "comma_join (map dump_item kvs) = CHR 0x22 # t"
        using dump_item_Cons [of kv kvs'] Cons by auto
      with n show "\<exists>n. scan_value n (json_dumps (JObj kvs) @ r) = Some (of_json (JObj kvs), r)"
        unfolding json_dumps_obj [OF sorted(1)]
        by (intro exI [of _ "Suc n"])
          (simp add: dict_of_distinct sorted pdict_def comp_def map_prod_def split_beta
            del: scan_pairs.simps)
    qed
  qed
qed (auto intro!: reads_backI exI [of _ 1] simp: json_quote_def scan_str_quote scan_value_delim_word strip_prefix_def)

text \<open>The round trip, and with it: the text determines the value.\<close>

lemma json_loads_dumps:
  assumes "canonical nfc j" and "no_float j" and "utf8_valid (json_dumps j)"
  shows "json_loads (json_dumps j) = Some (of_json j)"
proof -
  obtain n where n: "scan_value n (json_dumps j) = Some (of_json j, [])"
    using reads_backD [OF reads_back_canonical [OF assms(1,2)], of "[]"] by auto
  have ws: "skip_ws (json_dumps j) = json_dumps j" using skip_ws_dumps [OF assms(2), of "[]"] by simp
  have "take 3 (json_dumps j) \<noteq> bom"
    by (rule dumps_Cons [OF assms(2)]) (simp add: bom_def)
  with scan_value_enough [OF n, of "Suc (Suc (2 * length (json_dumps j)))"] assms(3) ws
  show ?thesis by (simp add: json_loads_def skip_ws_def del: scan_value.simps)
qed

lemma map_inj_elem:
  "map f xs = map f ys \<Longrightarrow> (\<And>x y. x \<in> set xs \<Longrightarrow> f x = f y \<Longrightarrow> x = y) \<Longrightarrow> xs = ys"
  by (induction xs arbitrary: ys) (auto simp: Cons_eq_map_conv)

lemma of_json_inj: "of_json j = of_json k \<Longrightarrow> j = k"
proof (induction j arbitrary: k)
  case (JList js)
  from JList.prems obtain ks where k: "k = JList ks" "map of_json js = map of_json ks"
    by (cases k) auto
  show ?case unfolding k(1) using map_inj_elem [OF k(2)] JList.IH by blast
next
  case (JObj kvs)
  from JObj.prems obtain ks where k: "k = JObj ks"
    "map (map_prod KStr of_json) kvs = map (map_prod KStr of_json) ks"
    by (cases k) auto
  have "x = y" if "x \<in> set kvs" "map_prod KStr of_json x = map_prod KStr of_json y" for x y
    using JObj.IH [of x "snd x" "snd y"] that by (cases x; cases y) auto
  with map_inj_elem [OF k(2)] show ?case unfolding k(1) by blast
next
  case (JFloat x) then show ?case by (cases k) auto
qed (case_tac k; simp)+

lemma json_dumps_inj:
  assumes "canonical nfc j" "no_float j" "canonical nfc' k" "no_float k"
    and "utf8_valid (json_dumps j)" and "json_dumps j = json_dumps k"
  shows "j = k"
proof -
  have "Some (of_json j) = Some (of_json k)"
    using json_loads_dumps [OF assms(1,2)] json_loads_dumps [OF assms(3,4)] assms(5,6) by simp
  then show ?thesis by (auto dest: of_json_inj)
qed

section \<open>The order of a dictionary\<close>

text \<open>Two values that differ in the order of the items of their dictionaries, at any
  depth.\<close>

inductive dict_eq :: "pyval \<Rightarrow> pyval \<Rightarrow> bool" where
  same: "dict_eq v v"
| seq: "list_all2 dict_eq vs ws \<Longrightarrow> dict_eq (PSeq vs) (PSeq ws)"
| items: "list_all2 (\<lambda>x y. fst x = fst y \<and> dict_eq (snd x) (snd y)) kvs xs \<Longrightarrow> mset xs = mset kvs'
    \<Longrightarrow> dict_eq (PMap kvs) (PMap kvs')"

lemma freeze_err_mutual:
  "freeze c nfc v = Inl e \<Longrightarrow> e = fz_err c"
  "freeze_list c nfc vs = Inl e \<Longrightarrow> e = fz_err c"
  "freeze_items c nfc kvs = Inl e \<Longrightarrow> e = fz_err c"
  by (induction c nfc v and c nfc vs and c nfc kvs arbitrary: e and e and e
      rule: freeze_freeze_list_freeze_items.induct)
    (auto simp: bindr_Inl_conv utc_or_raise_def split: if_splits option.splits)

lemma freeze_items_conv:
  "freeze_items c nfc kvs = Inr items \<longleftrightarrow>
     list_all2 (\<lambda>kv it. fst it = nfc (key_text (fst kv)) \<and> freeze c nfc (snd kv) = Inr (snd it)) kvs items"
  by (induction kvs arbitrary: items) (auto simp: bindr_Inr_conv list_all2_Cons1)

lemma freeze_list_cong:
  "list_all2 (\<lambda>v w. freeze c nfc v = freeze c nfc w) vs ws \<Longrightarrow> freeze_list c nfc vs = freeze_list c nfc ws"
  by (induction rule: list_all2_induct) auto

lemma freeze_items_cong:
  "list_all2 (\<lambda>x y. fst x = fst y \<and> freeze c nfc (snd x) = freeze c nfc (snd y)) kvs xs \<Longrightarrow>
     freeze_items c nfc kvs = freeze_items c nfc xs \<and> map fst kvs = map fst xs"
  by (induction rule: list_all2_induct) auto

lemma list_all_str_fst: "list_all is_str_key kvs = list_all (\<lambda>k. is_str_key (k, ())) (map fst kvs)"
  by (simp add: list_all_iff is_str_key_def)

lemma freeze_map_perm:
  assumes "mset xs = mset ys"
  shows "freeze c nfc (PMap xs) = freeze c nfc (PMap ys)"
proof -
  have set: "set xs = set ys" by (metis assms set_mset_mset)
  have perm: "freeze c nfc (PMap ys) = Inr j"
    if "freeze c nfc (PMap xs) = Inr j" and eq: "mset xs = mset ys" for xs ys j
  proof -
    from that obtain items where i: "freeze_items c nfc xs = Inr items" "distinct (map fst items)"
      "j = JObj (sort_key fst items)" "list_all is_str_key xs"
      by (auto simp: bindr_Inr_conv split: if_splits)
    obtain items' where i': "freeze_items c nfc ys = Inr items'" "mset items' = mset items"
      using list_all2_reorder_left_invariance [OF i(1) [unfolded freeze_items_conv] eq [symmetric]]
      unfolding freeze_items_conv by blast
    then have d: "distinct (map fst items')" "set items' = set items"
      using i(2) by (metis mset_eq_imp_distinct_iff mset_map) (metis i'(2) set_mset_mset)
    moreover have "list_all is_str_key ys"
      using i(4) eq by (metis list_all_iff set_mset_mset)
    ultimately show ?thesis
      using i i'(1) sort_key_fst_unique [OF d(2) d(1) i(2)] by simp
  qed
  show ?thesis
  proof (cases "freeze c nfc (PMap xs)")
    case (Inl e)
    then show ?thesis
      using perm [of ys _ xs] assms freeze_err_mutual(1)
      by (cases "freeze c nfc (PMap ys)") (metis, metis sum.distinct(1))
  next
    case (Inr j)
    with perm [OF Inr assms] show ?thesis by simp
  qed
qed

lemma freeze_dict_eq: "dict_eq v w \<Longrightarrow> freeze c nfc v = freeze c nfc w"
proof (induction rule: dict_eq.induct)
  case (seq vs ws)
  then have "list_all2 (\<lambda>v w. freeze c nfc v = freeze c nfc w) vs ws"
    by (rule list_all2_mono) simp
  from freeze_list_cong [OF this] show ?case by simp
next
  case (items kvs xs kvs')
  then have "list_all2 (\<lambda>x y. fst x = fst y \<and> freeze c nfc (snd x) = freeze c nfc (snd y)) kvs xs"
    by (auto elim: list_all2_mono)
  from freeze_items_cong [OF this] have "freeze c nfc (PMap kvs) = freeze c nfc (PMap xs)"
    by (simp add: list_all_str_fst)
  with freeze_map_perm [OF items(2)] show ?case by simp
qed simp

end
