(* ===== verification/Documents.thy ===== *)
theory Documents
  imports JsonRoundtrip
begin

text \<open>
  Documents: dictionaries with literal keys that a component writes as canonical JSON and
  reads back.  The lemmas say what the traversal makes of such a dictionary, that its text
  is read back as written, and how a key of it is looked up.
\<close>

section \<open>Reading a document\<close>

text \<open>\<open>document.get(key)\<close> and \<open>document[key]\<close> on what \<open>json.loads\<close> returned: a key that
  is missing is a \<open>KeyError\<close>, and a value that is not a dictionary has no string index.\<close>

fun py_items :: "pyval \<Rightarrow> (pykey \<times> pyval) list" where
  "py_items (PMap kvs) = kvs"
| "py_items _ = []"

definition dget :: "pyval \<Rightarrow> string \<Rightarrow> pyval" where
  "dget d k = (case map_of (py_items d) (KStr k) of Some v \<Rightarrow> v | None \<Rightarrow> PNone)"

fun subscript :: "pyval \<Rightarrow> string \<Rightarrow> pyval res" where
  "subscript (PMap kvs) k = (case map_of kvs (KStr k) of Some v \<Rightarrow> Inr v | None \<Rightarrow> Inl KeyError)"
| "subscript _ k = Inl TypeError"

fun is_dict :: "pyval \<Rightarrow> bool" where
  "is_dict (PMap _) = True"
| "is_dict _ = False"

lemma map_of_items [simp]:
  "map_of (map (map_prod KStr f) kvs) (KStr k) = map_option f (map_of kvs k)"
  by (induction kvs) auto

lemma dget_JObj [simp]:
  "dget (of_json (JObj kvs)) k = (case map_of kvs k of Some j \<Rightarrow> of_json j | None \<Rightarrow> PNone)"
  by (simp add: dget_def split: option.split)

lemma subscript_JObj [simp]:
  "subscript (of_json (JObj kvs)) k = (case map_of kvs k of Some j \<Rightarrow> Inr (of_json j) | None \<Rightarrow> Inl KeyError)"
  by (simp split: option.split)

lemma is_dict_JObj [simp]: "is_dict (of_json (JObj kvs))"
  by simp

lemma of_json_eq_simps [simp]:
  "of_json j = PNone \<longleftrightarrow> j = JNull"
  "of_json j = PStr s \<longleftrightarrow> j = JStr s"
  "of_json j = PInt i \<longleftrightarrow> j = JInt i"
  by (cases j; simp)+

section \<open>Writing a document\<close>

fun doc_keys :: "string list \<Rightarrow> bool" where
  "doc_keys [] = True"
| "doc_keys [k] = ascii k"
| "doc_keys (k # l # ks) = (ascii k \<and> k < l \<and> doc_keys (l # ks))"

lemma doc_keysD:
  "doc_keys ks \<Longrightarrow> list_all ascii ks \<and> sorted_wrt (<) ks"
  by (induction ks rule: doc_keys.induct) (auto simp: less_le_trans)

lemma doc_keys_sorted:
  assumes "doc_keys ks"
  shows "list_all ascii ks" "sorted ks" "distinct ks"
  using doc_keysD [OF assms] by (auto simp: strict_sorted_iff)

text \<open>With distinct ASCII keys in order, the traversal only converts the values.\<close>

fun freeze_doc :: "freeze_cfg \<Rightarrow> normalizer \<Rightarrow> (string \<times> pyval) list \<Rightarrow> (string \<times> json) list res" where
  "freeze_doc c nfc [] = Inr []"
| "freeze_doc c nfc ((k, v) # kvs) =
     bindr (freeze c nfc v) (\<lambda>j. bindr (freeze_doc c nfc kvs) (\<lambda>items. Inr ((k, j) # items)))"

lemma freeze_items_doc:
  "nfc_laws nfc \<Longrightarrow> list_all ascii (map fst kvs) \<Longrightarrow>
     freeze_items c nfc (map (map_prod KStr id) kvs) = freeze_doc c nfc kvs"
  by (induction kvs) (auto simp: nfc_ascii)

lemma freeze_doc_keys: "freeze_doc c nfc kvs = Inr items \<Longrightarrow> map fst items = map fst kvs"
  by (induction kvs arbitrary: items) (auto simp: bindr_Inr_conv)

lemma freeze_pdict:
  assumes "nfc_laws nfc" and "doc_keys (map fst kvs)"
  shows "freeze c nfc (pdict kvs) = bindr (freeze_doc c nfc kvs) (\<lambda>items. Inr (JObj items))"
  using doc_keys_sorted [OF assms(2)]
  by (auto simp: pdict_def freeze_items_doc [OF assms(1)] sort_key_id freeze_doc_keys intro!: bindr_cong)

text \<open>What was written is read back, and canonicalises to itself.\<close>

lemma written:
  assumes "plain_cfg c" and "nfc_laws nfc" and "canonical_bytes c nfc v = Inr b"
  obtains j where "freeze c nfc v = Inr j" "canonical nfc j" "no_float j" "b = json_dumps j"
    "utf8_valid b" "json_loads b = Some (of_json j)" "\<And>c'. canonical_bytes c' nfc (of_json j) = Inr b"
proof -
  from assms(3) obtain j where j: "freeze c nfc v = Inr j" "b = json_dumps j" "utf8_valid b"
    by (auto simp: canonical_bytes_Inr)
  have "canonical nfc j" "no_float j" using freeze_canonical [OF assms(1,2) j(1)] .
  moreover from this have "canonical_bytes c' nfc (of_json j) = Inr b" for c'
    using j by (simp add: canonical_bytes_of_json encode_utf8_def)
  moreover from calculation have "json_loads b = Some (of_json j)"
    using json_loads_dumps j by blast
  ultimately show ?thesis using that j by blast
qed

lemma json_dumps_nonempty [simp]: "no_float j \<Longrightarrow> json_dumps j \<noteq> []"
  using dumps_start by fastforce

section \<open>Hexadecimal digests\<close>

lemma is_sha256_hex_ascii: "is_sha256_hex s \<Longrightarrow> ascii s"
proof -
  have "\<forall>c \<in> set hex_digits. of_char c < (128 :: nat)" by (simp add: hex_digits_def)
  moreover assume "is_sha256_hex s"
  ultimately show ?thesis unfolding is_sha256_hex_def ascii_def list_all_iff by blast
qed

lemma is_sha256_hex_Nil [simp]: "\<not> is_sha256_hex []"
  by (simp add: is_sha256_hex_def)

lemma nfc_hex: "nfc_laws nfc \<Longrightarrow> is_sha256_hex s \<Longrightarrow> nfc s = s"
  by (simp add: nfc_ascii is_sha256_hex_ascii)

section \<open>ASCII documents\<close>

text \<open>Text of ASCII strings is ASCII, and ASCII text is well-formed UTF-8.\<close>

fun ascii_json :: "json \<Rightarrow> bool" where
  "ascii_json (JFloat r) = ascii r"
| "ascii_json (JStr s) = ascii s"
| "ascii_json (JList js) = (\<forall>j \<in> set js. ascii_json j)"
| "ascii_json (JObj kvs) = (\<forall>kv \<in> set kvs. ascii (fst kv) \<and> ascii_json (snd kv))"
| "ascii_json _ = True"

lemma ascii_concat: "ascii (concat ss) \<longleftrightarrow> (\<forall>s \<in> set ss. ascii s)"
  by (auto simp: ascii_def list_all_iff)

lemma ascii_comma_join: "\<forall>s \<in> set ss. ascii s \<Longrightarrow> ascii (comma_join ss)"
  by (induction ss rule: comma_join.induct) auto

lemma hex_char_ascii: "of_char (hex_char n) < (128 :: nat)"
proof -
  have "\<forall>c \<in> set hex_digits. of_char c < (128 :: nat)" by (simp add: hex_digits_def)
  then show ?thesis using hex_char_in [of n] by blast
qed

lemma ascii_escape: "of_char c < (128 :: nat) \<Longrightarrow> ascii (json_escape c)"
  by (auto simp: json_escape_def hex4_of_def hex_char_ascii)

lemma ascii_quote: "ascii s \<Longrightarrow> ascii (json_quote s)"
  by (induction s) (auto simp: json_quote_def ascii_escape)

lemma digit_char_ascii: "of_char (digit_char d) < (128 :: nat)"
  by (cases d rule: digit_cases; simp add: digit_char_def)

lemma ascii_show_nat: "ascii (show_nat n)"
  by (induction n rule: show_nat.induct) (subst show_nat.simps, simp add: digit_char_ascii)

lemma ascii_dumps: "ascii_json j \<Longrightarrow> ascii (json_dumps j)"
proof (induction j)
  case (JInt i)
  then show ?case by (simp add: show_int_def ascii_show_nat)
next
  case (JList js)
  then show ?case by (auto simp: dumps_list_map intro!: ascii_comma_join)
next
  case (JObj kvs)
  have "ascii (json_quote k @ '':'' @ json_dumps j)" if "(k, j) \<in> set kvs" for k j
    using JObj that ascii_quote by (auto 0 4)
  then show ?case by (auto simp: dumps_items_map intro!: ascii_comma_join)
qed (auto simp: ascii_quote)

lemma utf8_valid_ascii: "ascii s \<Longrightarrow> utf8_valid s"
  by (induction s) (auto simp: utf8_valid_def)

lemma encode_dumps_ascii: "ascii_json j \<Longrightarrow> encode_utf8 (json_dumps j) = Inr (json_dumps j)"
  by (simp add: encode_utf8_def utf8_valid_ascii ascii_dumps)

text \<open>Values of ASCII strings, integers and aware times, with distinct string keys, are
  always written.\<close>

fun plain_pv :: "pyval \<Rightarrow> bool" where
  "plain_pv (PStr s) = ascii s"
| "plain_pv (PEnum s) = ascii s"
| "plain_pv (PTime t) = (utcoffset t \<noteq> None)"
| "plain_pv (PSeq vs) = (\<forall>v \<in> set vs. plain_pv v)"
| "plain_pv (PMap kvs) =
     (distinct (map fst kvs) \<and> (\<forall>kv \<in> set kvs. is_str_key kv \<and> ascii (key_text (fst kv)) \<and> plain_pv (snd kv)))"
| "plain_pv (PFloat _) = False"
| "plain_pv (POther _) = False"
| "plain_pv _ = True"

definition time_cfg :: "freeze_cfg \<Rightarrow> bool" where
  "time_cfg c \<longleftrightarrow> (\<exists>fmt. fz_time c = Some fmt \<and> (\<forall>i. ascii (fmt i)))"

lemma freeze_items_plain:
  assumes "nfc_laws nfc" and "\<And>kv. kv \<in> set kvs \<Longrightarrow> ascii (key_text (fst kv)) \<and> (\<exists>j. freeze c nfc (snd kv) = Inr j \<and> ascii_json j)"
  shows "\<exists>items. freeze_items c nfc kvs = Inr items \<and> map fst items = map (key_text \<circ> fst) kvs
    \<and> (\<forall>it \<in> set items. ascii (fst it) \<and> ascii_json (snd it))"
  using assms(2)
proof (induction kvs)
  case (Cons kv kvs)
  obtain k v where kv: "kv = (k, v)" by (cases kv)
  from Cons obtain items where "freeze_items c nfc kvs = Inr items" "map fst items = map (key_text \<circ> fst) kvs"
    "\<forall>it \<in> set items. ascii (fst it) \<and> ascii_json (snd it)" by force
  moreover from Cons.prems [of kv] kv obtain j where "freeze c nfc v = Inr j" "ascii_json j" "ascii (key_text k)"
    by auto
  ultimately show ?case using kv by (auto simp: nfc_ascii [OF assms(1)])
qed simp

lemma freeze_plain:
  assumes nfc: "nfc_laws nfc" and c: "time_cfg c"
  shows "plain_pv v \<Longrightarrow> \<exists>j. freeze c nfc v = Inr j \<and> ascii_json j"
proof (induction v)
  case (PTime t)
  then obtain i where "utc_or_raise (fz_err c) t = Inr i" by (auto simp: utc_or_raise_def)
  with c show ?case by (auto simp: time_cfg_def)
next
  case (PSeq vs)
  then have "\<exists>js. freeze_list c nfc vs = Inr js \<and> (\<forall>j \<in> set js. ascii_json j)"
    by (induction vs) fastforce+
  then show ?case by auto
next
  case (PMap kvs)
  have key: "KStr (key_text k) = k" if "k \<in> fst ` set kvs" for k
  proof -
    from that obtain kv where "kv \<in> set kvs" "k = fst kv" by blast
    with PMap.prems have "is_str_key kv" "k = fst kv" by auto
    then show ?thesis by (cases "fst kv") (simp_all add: is_str_key_def)
  qed
  have "\<exists>items. freeze_items c nfc kvs = Inr items \<and> map fst items = map (key_text \<circ> fst) kvs
    \<and> (\<forall>it \<in> set items. ascii (fst it) \<and> ascii_json (snd it))"
    by (rule freeze_items_plain [OF nfc]) (use PMap in \<open>auto 0 4\<close>)
  then obtain items where i: "freeze_items c nfc kvs = Inr items" "map fst items = map (key_text \<circ> fst) kvs"
    "\<forall>it \<in> set items. ascii (fst it) \<and> ascii_json (snd it)" by blast
  have "inj_on key_text (fst ` set kvs)" by (rule inj_on_inverseI [of _ KStr]) (rule key)
  then have "distinct (map fst items)"
    using PMap.prems i(2) by (simp add: distinct_map comp_inj_on flip: map_map)
  moreover have "list_all is_str_key kvs" using PMap.prems by (simp add: list_all_iff)
  ultimately show ?case using i by auto
next
  case (PStr s)
  then show ?case using nfc by (simp add: nfc_ascii)
next
  case (PEnum s)
  then show ?case using nfc by (simp add: nfc_ascii)
qed auto

lemma canonical_bytes_plain:
  assumes "nfc_laws nfc" and "time_cfg c" and "plain_pv v"
  shows "\<exists>b. canonical_bytes c nfc v = Inr b"
  using freeze_plain [OF assms] encode_dumps_ascii
  by (auto simp: canonical_bytes_def canonical_json_def)

lemma plain_pdict [simp]:
  "plain_pv (pdict kvs) \<longleftrightarrow> distinct (map fst kvs) \<and> (\<forall>kv \<in> set kvs. ascii (fst kv) \<and> plain_pv (snd kv))"
proof -
  have "map fst (map (map_prod KStr id) kvs) = map KStr (map fst kvs)" by simp
  then have "distinct (map fst (map (map_prod KStr id) kvs)) \<longleftrightarrow> distinct (map fst kvs)"
    by (metis distinct_map inj_onI pykey.inject(1))
  then show ?thesis by (auto simp: pdict_def is_str_key_def)
qed

lemma plain_ptuple [simp]: "plain_pv (ptuple xs) \<longleftrightarrow> (\<forall>x \<in> set xs. ascii x)"
  by (simp add: ptuple_def)

lemma ascii_zpad [simp]: "ascii (zpad w n)"
  by (induction w arbitrary: n) (auto simp: digit_char_ascii)

lemma ascii_iso_date [simp]: "ascii (iso_date d)"
  by (simp add: iso_date_def split: prod.split)

lemma ascii_iso_clock [simp]: "ascii (iso_clock s)"
  by (simp add: iso_clock_def)

lemma ascii_isoformat [simp]: "ascii (isoformat_z i)" "ascii (isoformat_us_z i)"
  by (simp_all add: isoformat_z_def isoformat_us_z_def Let_def)

text \<open>The normalisation of ASCII text, for concrete instances.\<close>

definition nf :: normalizer where
  "nf s = s"

lemma nf_simps [simp]: "nf s = s" "nfc_laws nf"
  by (simp_all add: nf_def nfc_laws_def)

end
