(* ===== verification/ExecutionRequest.thy ===== *)
theory ExecutionRequest
  imports Documents
begin

text \<open>
  Execution requests: \<open>app/runtime/execution_request/domain.py\<close> and
  \<open>serialization.py\<close>.

  The fields that Python types as \<open>str\<close> or \<open>Mapping\<close> but does not check are JSON
  values here, as \<open>reconstruct_execution_request\<close> fills them from any document; an
  absent payload is \<open>JNull\<close>.  A constructor takes the raw values of its caller and
  returns the record or the exception its \<open>__post_init__\<close> raises.  The digest of a
  payload reference stays as it was given, so it is a raw value.
\<close>

section \<open>Domain\<close>

definition invalid_request :: exc where
  "invalid_request = RequestError ExecutionRequestInvalid"

definition request_cfg :: freeze_cfg where
  "request_cfg = \<lparr>fz_err = invalid_request, fz_enum_raw = False, fz_time = None, fz_float = False\<rparr>"

lemma plain_request_cfg [simp]: "plain_cfg request_cfg"
  by (simp add: plain_cfg_def request_cfg_def)

definition supported_request_schema :: string where
  "supported_request_schema = ''execution-request.v1''"

text \<open>\<open>immutable_mapping\<close>: \<open>values or {}\<close>, and an assertion that a mapping came out.\<close>

definition immutable_mapping :: "normalizer \<Rightarrow> pyval \<Rightarrow> json res" where
  "immutable_mapping nfc values =
     bindr (freeze request_cfg nfc (if pv_falsy values then PMap [] else values)) (\<lambda>frozen.
       case frozen of JObj _ \<Rightarrow> Inr frozen | _ \<Rightarrow> Inl AssertionError)"

text \<open>\<open>len(d) != 64 or any(c not in "0123456789abcdef" for c in d)\<close>.  On a list or a
  dictionary Python iterates over the elements or the keys, and \<open>in\<close> is the substring
  test.\<close>

definition hex_piece :: "pyval \<Rightarrow> bool res" where
  "hex_piece v =
     (case v of PStr s \<Rightarrow> Inr (\<exists>i \<le> 16. take (length s) (drop i hex_digits) = s) | _ \<Rightarrow> Inl TypeError)"

fun hex_pieces :: "pyval list \<Rightarrow> bool res" where
  "hex_pieces [] = Inr True"
| "hex_pieces (v # vs) = bindr (hex_piece v) (\<lambda>b. if b then hex_pieces vs else Inr False)"

primrec key_value :: "pykey \<Rightarrow> pyval" where
  "key_value (KStr s) = PStr s"
| "key_value (KOther s) = POther s"

fun is_hex64 :: "pyval \<Rightarrow> bool res" where
  "is_hex64 (PStr s) = Inr (is_sha256_hex s)"
| "is_hex64 (PEnum s) = Inr (is_sha256_hex s)"
| "is_hex64 (PSeq vs) = (if length vs = 64 then hex_pieces vs else Inr False)"
| "is_hex64 (PMap kvs) = (if length kvs = 64 then hex_pieces (map (key_value \<circ> fst) kvs) else Inr False)"
| "is_hex64 _ = Inl TypeError"

record payload_reference =
  pr_reference :: json
  pr_digest :: pyval
  pr_schema :: json

definition immutable_payload_reference ::
  "normalizer \<Rightarrow> pyval \<Rightarrow> pyval \<Rightarrow> pyval \<Rightarrow> payload_reference res"
where
  "immutable_payload_reference nfc reference digest schema =
     bindr (raise_if (pv_falsy reference \<or> pv_falsy digest \<or> pv_falsy schema) invalid_request) (\<lambda>_.
     bindr (is_hex64 digest) (\<lambda>hex.
     bindr (raise_if (\<not> hex) invalid_request) (\<lambda>_.
     bindr (freeze request_cfg nfc reference) (\<lambda>r.
     bindr (freeze request_cfg nfc schema) (\<lambda>s.
       Inr \<lparr>pr_reference = r, pr_digest = digest, pr_schema = s\<rparr>)))))"

record request_draft =
  dr_organization :: json
  dr_workload :: json
  dr_work_type :: json
  dr_payload :: json
  dr_reference :: "payload_reference option"
  dr_constraints :: json
  dr_provenance :: json
  dr_schema :: json

text \<open>One turn of the loop over the required fields.\<close>

definition required_value :: "normalizer \<Rightarrow> pyval \<Rightarrow> json res" where
  "required_value nfc v =
     bindr (raise_if (pv_falsy v) invalid_request) (\<lambda>_. freeze request_cfg nfc v)"

definition execution_request_draft ::
  "normalizer \<Rightarrow> pyval \<Rightarrow> pyval \<Rightarrow> pyval \<Rightarrow> pyval \<Rightarrow> payload_reference option \<Rightarrow> pyval \<Rightarrow> pyval \<Rightarrow> pyval
    \<Rightarrow> request_draft res"
where
  "execution_request_draft nfc organization workload work_type payload reference constraints
      provenance schema =
     bindr (required_value nfc organization) (\<lambda>org.
     bindr (required_value nfc workload) (\<lambda>wl.
     bindr (required_value nfc work_type) (\<lambda>wt.
     bindr (required_value nfc schema) (\<lambda>sv.
     bindr (raise_if (sv \<noteq> JStr supported_request_schema)
             (RequestError ExecutionRequestSchemaVersionUnsupported)) (\<lambda>_.
     bindr (raise_if ((payload \<noteq> PNone) = (reference \<noteq> None)) invalid_request) (\<lambda>_.
     bindr (if payload \<noteq> PNone then freeze request_cfg nfc payload else Inr JNull) (\<lambda>pl.
     bindr (immutable_mapping nfc constraints) (\<lambda>cs.
     bindr (immutable_mapping nfc provenance) (\<lambda>pv.
     bindr (raise_if (py_falsy pv) invalid_request) (\<lambda>_.
       Inr \<lparr>dr_organization = org, dr_workload = wl, dr_work_type = wt, dr_payload = pl,
            dr_reference = reference, dr_constraints = cs, dr_provenance = pv,
            dr_schema = sv\<rparr>))))))))))"

record execution_request =
  rq_id :: string
  rq_organization :: json
  rq_workload :: json
  rq_schema :: json
  rq_work_type :: json
  rq_payload :: json
  rq_reference :: "payload_reference option"
  rq_constraints :: json
  rq_provenance :: json
  rq_idempotency :: string
  rq_digest :: string

text \<open>\<open>ExecutionRequest.__post_init__\<close>, on the fields of a draft.\<close>

definition make_request :: "normalizer \<Rightarrow> string \<Rightarrow> request_draft \<Rightarrow> string \<Rightarrow> string \<Rightarrow> execution_request res" where
  "make_request nfc request_id d idempotency digest =
     bindr (raise_if (request_id = [] \<or> py_falsy (dr_organization d) \<or> py_falsy (dr_workload d)
             \<or> py_falsy (dr_schema d) \<or> py_falsy (dr_work_type d) \<or> idempotency = [] \<or> digest = [])
             invalid_request) (\<lambda>_.
     bindr (raise_if (dr_schema d \<noteq> JStr supported_request_schema)
             (RequestError ExecutionRequestSchemaVersionUnsupported)) (\<lambda>_.
     bindr (raise_if (\<not> is_sha256_hex request_id \<or> \<not> is_sha256_hex idempotency
             \<or> \<not> is_sha256_hex digest) invalid_request) (\<lambda>_.
     bindr (raise_if ((dr_payload d \<noteq> JNull) = (dr_reference d \<noteq> None)) invalid_request) (\<lambda>_.
     bindr (immutable_mapping nfc (of_json (dr_constraints d))) (\<lambda>cs.
     bindr (immutable_mapping nfc (of_json (dr_provenance d))) (\<lambda>pv.
     bindr (raise_if (py_falsy pv) invalid_request) (\<lambda>_.
     bindr (if dr_payload d \<noteq> JNull then freeze request_cfg nfc (of_json (dr_payload d))
            else Inr JNull) (\<lambda>pl.
       Inr \<lparr>rq_id = request_id, rq_organization = dr_organization d, rq_workload = dr_workload d,
            rq_schema = dr_schema d, rq_work_type = dr_work_type d, rq_payload = pl,
            rq_reference = dr_reference d, rq_constraints = cs, rq_provenance = pv,
            rq_idempotency = idempotency, rq_digest = digest\<rparr>))))))))"

text \<open>The \<open>==\<close> of the dataclasses.\<close>

definition reference_eq :: "payload_reference option \<Rightarrow> payload_reference option \<Rightarrow> bool" where
  "reference_eq a b =
     (case (a, b) of
        (None, None) \<Rightarrow> True
      | (Some x, Some y) \<Rightarrow>
          py_eq (pr_reference x) (pr_reference y) \<and> pr_digest x = pr_digest y
          \<and> py_eq (pr_schema x) (pr_schema y)
      | _ \<Rightarrow> False)"

definition request_eq :: "execution_request \<Rightarrow> execution_request \<Rightarrow> bool" where
  "request_eq a b \<longleftrightarrow>
     rq_id a = rq_id b \<and> py_eq (rq_organization a) (rq_organization b)
     \<and> py_eq (rq_workload a) (rq_workload b) \<and> py_eq (rq_schema a) (rq_schema b)
     \<and> py_eq (rq_work_type a) (rq_work_type b) \<and> py_eq (rq_payload a) (rq_payload b)
     \<and> reference_eq (rq_reference a) (rq_reference b)
     \<and> py_eq (rq_constraints a) (rq_constraints b) \<and> py_eq (rq_provenance a) (rq_provenance b)
     \<and> rq_idempotency a = rq_idempotency b \<and> rq_digest a = rq_digest b"

section \<open>Serialization\<close>

definition request_digest_ns :: string where
  "request_digest_ns = ''edgeiq.execution-request.v1''"

definition request_id_ns :: string where
  "request_id_ns = ''edgeiq.execution-request-id.v1''"

definition request_idempotency_ns :: string where
  "request_idempotency_ns = ''edgeiq.execution-request-idempotency.v1''"

definition serialization_version :: string where
  "serialization_version = ''canonical-json.v1''"

definition idempotency_identity :: "normalizer \<Rightarrow> json \<Rightarrow> json \<Rightarrow> string \<Rightarrow> string res" where
  "idempotency_identity nfc organization workload submitted_key =
     bindr (raise_if (submitted_key = []) invalid_request) (\<lambda>_.
     bindr (canonical_bytes request_cfg nfc (pdict [
         (''operation'', PStr ''admit-execution-request''),
         (''organization_id'', of_json organization),
         (''submitted_key'', PStr submitted_key),
         (''workload_context_id'', of_json workload)])) (\<lambda>scoped.
       Inr (namespaced_digest request_idempotency_ns scoped)))"

text \<open>A payload reference is written as the dictionary that \<open>_canonical_value\<close> makes of it.\<close>

definition reference_document :: "payload_reference option \<Rightarrow> pyval" where
  "reference_document r =
     (case r of
        None \<Rightarrow> PNone
      | Some p \<Rightarrow> pdict [
          (''canonical_digest'', pr_digest p),
          (''reference'', of_json (pr_reference p)),
          (''schema_version'', of_json (pr_schema p))])"

definition canonical_request_document :: "request_draft \<Rightarrow> string \<Rightarrow> pyval" where
  "canonical_request_document d idempotency = pdict [
     (''idempotency_identity'', PStr idempotency),
     (''immutable_payload'', of_json (dr_payload d)),
     (''immutable_payload_reference'', reference_document (dr_reference d)),
     (''organization_id'', of_json (dr_organization d)),
     (''provenance'', of_json (dr_provenance d)),
     (''request_constraints'', of_json (dr_constraints d)),
     (''request_schema_version'', of_json (dr_schema d)),
     (''requested_work_type'', of_json (dr_work_type d)),
     (''serialization_version'', PStr serialization_version),
     (''workload_context_id'', of_json (dr_workload d))]"

definition canonical_request_bytes :: "normalizer \<Rightarrow> request_draft \<Rightarrow> string \<Rightarrow> string res" where
  "canonical_request_bytes nfc d idempotency =
     canonical_bytes request_cfg nfc (canonical_request_document d idempotency)"

definition build_execution_request ::
  "normalizer \<Rightarrow> request_draft \<Rightarrow> string \<Rightarrow> (execution_request \<times> string) res"
where
  "build_execution_request nfc d idempotency =
     bindr (canonical_request_bytes nfc d idempotency) (\<lambda>content.
       let digest = namespaced_digest request_digest_ns content;
           request_id = namespaced_digest request_id_ns digest
       in bindr (make_request nfc request_id d idempotency digest) (\<lambda>request.
         Inr (request, content)))"

definition request_failed :: exc where
  "request_failed = RequestError ExecutionRequestReconstructionFailed"

definition request_schema_unsupported :: exc where
  "request_schema_unsupported = RequestError ExecutionRequestSchemaVersionUnsupported"

text \<open>\<open>except (KeyError, TypeError, ExecutionRequestInvalid)\<close>.\<close>

definition caught_by_reconstruct :: "exc \<Rightarrow> bool" where
  "caught_by_reconstruct e \<longleftrightarrow> e \<in> {KeyError, TypeError, RequestError ExecutionRequestInvalid}"

definition reconstruct_reference :: "normalizer \<Rightarrow> pyval \<Rightarrow> payload_reference option res" where
  "reconstruct_reference nfc doc =
     (if doc = PNone then Inr None
      else
        bindr (subscript doc ''reference'') (\<lambda>reference.
        bindr (subscript doc ''canonical_digest'') (\<lambda>digest.
        bindr (subscript doc ''schema_version'') (\<lambda>schema.
        bindr (immutable_payload_reference nfc reference digest schema) (\<lambda>p.
          Inr (Some p))))))"

definition reconstruct_draft :: "normalizer \<Rightarrow> pyval \<Rightarrow> (request_draft \<times> string) res" where
  "reconstruct_draft nfc document =
     bindr (reconstruct_reference nfc (dget document ''immutable_payload_reference'')) (\<lambda>reference.
     bindr (subscript document ''organization_id'') (\<lambda>organization.
     bindr (subscript document ''workload_context_id'') (\<lambda>workload.
     bindr (subscript document ''requested_work_type'') (\<lambda>work_type.
     bindr (subscript document ''request_constraints'') (\<lambda>constraints.
     bindr (subscript document ''provenance'') (\<lambda>provenance.
     bindr (subscript document ''request_schema_version'') (\<lambda>schema.
     bindr (execution_request_draft nfc organization workload work_type
             (dget document ''immutable_payload'') reference constraints provenance schema) (\<lambda>draft.
     bindr (subscript document ''idempotency_identity'') (\<lambda>accepted.
       case accepted of
         PStr s \<Rightarrow> if s = [] then Inl invalid_request else Inr (draft, s)
       | _ \<Rightarrow> Inl invalid_request)))))))))"

definition reconstruct_execution_request ::
  "normalizer \<Rightarrow> string \<Rightarrow> string \<Rightarrow> execution_request res"
where
  "reconstruct_execution_request nfc content expected_digest =
     bindr (raise_if (content = []) request_failed) (\<lambda>_.
     bindr (raise_if (namespaced_digest request_digest_ns content \<noteq> expected_digest)
             (RequestError ExecutionRequestDigestMismatch)) (\<lambda>_.
     bindr (case json_loads content of None \<Rightarrow> Inl request_failed | Some v \<Rightarrow> Inr v) (\<lambda>document.
     bindr (raise_if (\<not> is_dict document) request_failed) (\<lambda>_.
     bindr (raise_if (dget document ''serialization_version'' \<noteq> PStr serialization_version)
             request_schema_unsupported) (\<lambda>_.
     bindr (raise_if (dget document ''request_schema_version'' \<noteq> PStr supported_request_schema)
             request_schema_unsupported) (\<lambda>_.
     bindr (canonical_bytes request_cfg nfc document) (\<lambda>rendered.
     bindr (raise_if (rendered \<noteq> content) request_failed) (\<lambda>_.
     bindr (catch (reconstruct_draft nfc document) caught_by_reconstruct request_failed) (\<lambda>(draft, accepted).
     bindr (build_execution_request nfc draft accepted) (\<lambda>(reconstructed, reconstructed_content).
     bindr (raise_if (reconstructed_content \<noteq> content) request_failed) (\<lambda>_.
       Inr reconstructed)))))))))))"

section \<open>Well-formed drafts\<close>

lemma pv_falsy_freeze:
  assumes "plain_cfg c" and "nfc_laws nfc" and "freeze c nfc v = Inr j"
  shows "py_falsy j = pv_falsy v"
proof (cases v)
  case (PMap kvs)
  with assms obtain items where "freeze_items c nfc kvs = Inr items" "j = JObj (sort_key fst items)"
    by (auto simp: bindr_Inr_conv split: if_splits)
  moreover from this have "length items = length kvs"
    by (auto simp: freeze_items_conv list_all2_lengthD)
  ultimately show ?thesis using PMap by (cases items; cases kvs) (auto simp: sort_key_def)
next
  case (PSeq vs)
  with assms show ?thesis by (cases vs) (auto simp: bindr_Inr_conv)
next
  case (PFloat f)
  with assms show ?thesis by (cases f) (auto simp: plain_cfg_def)
qed (use assms in \<open>auto simp: plain_cfg_def nfc_lawsD\<close>)

definition field_ok :: "normalizer \<Rightarrow> json \<Rightarrow> bool" where
  "field_ok nfc j \<longleftrightarrow> canonical nfc j \<and> no_float j"

definition mapping_ok :: "normalizer \<Rightarrow> json \<Rightarrow> bool" where
  "mapping_ok nfc j \<longleftrightarrow> field_ok nfc j \<and> (\<exists>kvs. j = JObj kvs)"

definition reference_ok :: "normalizer \<Rightarrow> payload_reference \<Rightarrow> bool" where
  "reference_ok nfc p \<longleftrightarrow>
     field_ok nfc (pr_reference p) \<and> \<not> py_falsy (pr_reference p)
     \<and> field_ok nfc (pr_schema p) \<and> \<not> py_falsy (pr_schema p)
     \<and> (\<exists>s. pr_digest p = PStr s \<and> is_sha256_hex s)"

definition draft_ok :: "normalizer \<Rightarrow> request_draft \<Rightarrow> bool" where
  "draft_ok nfc d \<longleftrightarrow>
     field_ok nfc (dr_organization d) \<and> \<not> py_falsy (dr_organization d)
     \<and> field_ok nfc (dr_workload d) \<and> \<not> py_falsy (dr_workload d)
     \<and> field_ok nfc (dr_work_type d) \<and> \<not> py_falsy (dr_work_type d)
     \<and> dr_schema d = JStr supported_request_schema
     \<and> field_ok nfc (dr_payload d) \<and> (dr_payload d \<noteq> JNull \<longleftrightarrow> dr_reference d = None)
     \<and> (\<forall>p. dr_reference d = Some p \<longrightarrow> reference_ok nfc p)
     \<and> mapping_ok nfc (dr_constraints d)
     \<and> mapping_ok nfc (dr_provenance d) \<and> \<not> py_falsy (dr_provenance d)"

lemma freeze_field: "nfc_laws nfc \<Longrightarrow> freeze request_cfg nfc v = Inr j \<Longrightarrow> field_ok nfc j"
  by (auto simp: field_ok_def dest: freeze_canonical [OF plain_request_cfg])

lemma freeze_field_ok [simp]: "field_ok nfc j \<Longrightarrow> freeze c nfc (of_json j) = Inr j"
  by (simp add: field_ok_def freeze_of_json)

lemma required_value_ok [simp]: "field_ok nfc j \<Longrightarrow> \<not> py_falsy j \<Longrightarrow> required_value nfc (of_json j) = Inr j"
  by (simp add: required_value_def)

lemma required_value_Inr:
  "nfc_laws nfc \<Longrightarrow> required_value nfc v = Inr j \<Longrightarrow> field_ok nfc j \<and> \<not> py_falsy j"
  by (auto simp: required_value_def res_simps freeze_field pv_falsy_freeze [OF plain_request_cfg])

lemma immutable_mapping_Inr:
  "nfc_laws nfc \<Longrightarrow> immutable_mapping nfc v = Inr j \<Longrightarrow> mapping_ok nfc j"
proof -
  assume "nfc_laws nfc" and "immutable_mapping nfc v = Inr j"
  moreover from this obtain x where "freeze request_cfg nfc (if pv_falsy v then PMap [] else v) = Inr x"
    by (auto simp: immutable_mapping_def bindr_Inr_conv)
  ultimately show ?thesis
    by (cases x) (auto simp: immutable_mapping_def mapping_ok_def dest: freeze_field)
qed

lemma immutable_mapping_ok [simp]:
  assumes "mapping_ok nfc j"
  shows "immutable_mapping nfc (of_json j) = Inr j"
proof -
  from assms obtain kvs where j: "j = JObj kvs" "field_ok nfc j" by (auto simp: mapping_ok_def)
  show ?thesis
  proof (cases kvs)
    case Nil
    then show ?thesis using j by (simp add: immutable_mapping_def)
  next
    case (Cons kv kvs')
    with freeze_field_ok [OF j(2), of request_cfg] show ?thesis
      unfolding immutable_mapping_def using j(1) by (simp del: freeze.simps)
  qed
qed

lemma supported_schema_ok [simp]: "nfc_laws nfc \<Longrightarrow> field_ok nfc (JStr supported_request_schema)"
  by (simp add: field_ok_def nfc_ascii supported_request_schema_def)

lemma required_schema_ok [simp]:
  "nfc_laws nfc \<Longrightarrow> required_value nfc (PStr supported_request_schema) = Inr (JStr supported_request_schema)"
  using required_value_ok [of nfc "JStr supported_request_schema"] supported_schema_ok [of nfc]
  by (simp add: supported_request_schema_def del: supported_schema_ok)

lemma immutable_payload_reference_ok:
  assumes "nfc_laws nfc" and "immutable_payload_reference nfc r (PStr s) v = Inr p"
  shows "reference_ok nfc p"
  using assms
  by (auto simp: immutable_payload_reference_def reference_ok_def res_simps freeze_field
      pv_falsy_freeze [OF plain_request_cfg])

lemma reference_rebuild:
  assumes "reference_ok nfc p"
  shows "immutable_payload_reference nfc (of_json (pr_reference p)) (pr_digest p) (of_json (pr_schema p)) = Inr p"
proof -
  obtain s where "pr_digest p = PStr s" "is_sha256_hex s" "s \<noteq> []"
    using assms by (auto simp: reference_ok_def)
  with assms show ?thesis by (cases p) (simp add: immutable_payload_reference_def reference_ok_def)
qed

lemma draft_constructed:
  assumes nfc: "nfc_laws nfc"
    and d: "execution_request_draft nfc org wl wt pl r cs pv sv = Inr d"
    and r: "\<And>p. r = Some p \<Longrightarrow> reference_ok nfc p"
  shows "draft_ok nfc d"
proof -
  have null: "field_ok nfc JNull" by (simp add: field_ok_def)
  have pl: "j \<noteq> JNull" if "freeze request_cfg nfc v = Inr j" "v \<noteq> PNone" for v j
    using that by (cases v rule: pyval.exhaust) (auto simp: request_cfg_def bindr_Inr_conv split: if_splits,
        (rename_tac f, case_tac f; simp))
  show ?thesis
    using d r required_value_Inr [OF nfc] immutable_mapping_Inr [OF nfc] freeze_field [OF nfc] null
    by (auto simp: execution_request_draft_def draft_ok_def res_simps split: if_splits dest: pl)
qed

lemma draft_rebuild:
  assumes "nfc_laws nfc" and "draft_ok nfc d"
  shows "execution_request_draft nfc (of_json (dr_organization d)) (of_json (dr_workload d))
      (of_json (dr_work_type d)) (of_json (dr_payload d)) (dr_reference d)
      (of_json (dr_constraints d)) (of_json (dr_provenance d)) (of_json (dr_schema d)) = Inr d"
  using assms by (auto simp: execution_request_draft_def draft_ok_def)

section \<open>Building and reading back\<close>

definition request_of :: "request_draft \<Rightarrow> string \<Rightarrow> string \<Rightarrow> execution_request" where
  "request_of d idempotency content =
     \<lparr>rq_id = namespaced_digest request_id_ns (namespaced_digest request_digest_ns content),
      rq_organization = dr_organization d, rq_workload = dr_workload d, rq_schema = dr_schema d,
      rq_work_type = dr_work_type d, rq_payload = dr_payload d, rq_reference = dr_reference d,
      rq_constraints = dr_constraints d, rq_provenance = dr_provenance d,
      rq_idempotency = idempotency, rq_digest = namespaced_digest request_digest_ns content\<rparr>"

lemma make_request_ok:
  assumes "draft_ok nfc d"
  shows "make_request nfc (namespaced_digest request_id_ns (namespaced_digest request_digest_ns content))
      d i (namespaced_digest request_digest_ns content) =
    (if is_sha256_hex i then Inr (request_of d i content) else Inl invalid_request)"
  using assms
  by (cases "i = []") (auto simp: make_request_def draft_ok_def request_of_def
      supported_request_schema_def)

lemma build_Inr:
  assumes "draft_ok nfc d"
  shows "build_execution_request nfc d i = Inr (q, content) \<longleftrightarrow>
    canonical_request_bytes nfc d i = Inr content \<and> is_sha256_hex i \<and> q = request_of d i content"
  using make_request_ok [OF assms]
  by (auto simp: build_execution_request_def bindr_Inr_conv Let_def)

text \<open>The canonical document of a draft, as the traversal leaves it.\<close>

definition reference_json :: "payload_reference option \<Rightarrow> json" where
  "reference_json r =
     (case r of
        None \<Rightarrow> JNull
      | Some p \<Rightarrow> JObj [
          (''canonical_digest'', case pr_digest p of PStr s \<Rightarrow> JStr s | _ \<Rightarrow> JNull),
          (''reference'', pr_reference p),
          (''schema_version'', pr_schema p)])"

definition request_json :: "request_draft \<Rightarrow> string \<Rightarrow> json" where
  "request_json d i = JObj [
     (''idempotency_identity'', JStr i),
     (''immutable_payload'', dr_payload d),
     (''immutable_payload_reference'', reference_json (dr_reference d)),
     (''organization_id'', dr_organization d),
     (''provenance'', dr_provenance d),
     (''request_constraints'', dr_constraints d),
     (''request_schema_version'', dr_schema d),
     (''requested_work_type'', dr_work_type d),
     (''serialization_version'', JStr serialization_version),
     (''workload_context_id'', dr_workload d)]"

lemma reference_keys: "doc_keys [''canonical_digest'', ''reference'', ''schema_version'']"
  by code_simp

lemma request_keys: "doc_keys [''idempotency_identity'', ''immutable_payload'',
    ''immutable_payload_reference'', ''organization_id'', ''provenance'', ''request_constraints'',
    ''request_schema_version'', ''requested_work_type'', ''serialization_version'',
    ''workload_context_id'']"
  by code_simp

lemma freeze_reference:
  assumes "nfc_laws nfc" and "\<And>p. r = Some p \<Longrightarrow> reference_ok nfc p"
  shows "freeze c nfc (reference_document r) = Inr (reference_json r)"
proof (cases r)
  case (Some p)
  then obtain s where p: "pr_digest p = PStr s" "is_sha256_hex s" "field_ok nfc (pr_reference p)"
    "field_ok nfc (pr_schema p)"
    using assms(2) [OF Some] by (auto simp: reference_ok_def)
  with Some reference_keys show ?thesis
    by (simp add: reference_document_def reference_json_def freeze_pdict [OF assms(1)]
        nfc_hex [OF assms(1)])
qed (simp add: reference_document_def reference_json_def)

lemma freeze_request:
  assumes "nfc_laws nfc" and "draft_ok nfc d" and "is_sha256_hex i"
  shows "freeze c nfc (canonical_request_document d i) = Inr (request_json d i)"
proof -
  have v: "nfc serialization_version = serialization_version"
    "nfc supported_request_schema = supported_request_schema"
    using assms(1) by (simp_all add: nfc_ascii serialization_version_def supported_request_schema_def)
  have r: "freeze c nfc (reference_document (dr_reference d)) = Inr (reference_json (dr_reference d))"
    by (rule freeze_reference [OF assms(1)]) (use assms(2) in \<open>simp add: draft_ok_def\<close>)
  show ?thesis
    using assms(2,3) request_keys v r
    by (simp add: canonical_request_document_def request_json_def freeze_pdict [OF assms(1)]
        nfc_hex [OF assms(1)] draft_ok_def mapping_ok_def)
qed

lemma reconstruct_reference_json:
  assumes "\<And>p. r = Some p \<Longrightarrow> reference_ok nfc p"
  shows "reconstruct_reference nfc (of_json (reference_json r)) = Inr r"
proof (cases r)
  case (Some p)
  then obtain s where "pr_digest p = PStr s"
    using assms by (auto simp: reference_ok_def)
  with reference_rebuild [OF assms [OF Some]] Some show ?thesis
    by (simp add: reconstruct_reference_def reference_json_def)
qed (simp add: reconstruct_reference_def reference_json_def)

lemma request_json_lookup:
  "subscript (of_json (request_json d i)) ''organization_id'' = Inr (of_json (dr_organization d))"
  "subscript (of_json (request_json d i)) ''workload_context_id'' = Inr (of_json (dr_workload d))"
  "subscript (of_json (request_json d i)) ''requested_work_type'' = Inr (of_json (dr_work_type d))"
  "subscript (of_json (request_json d i)) ''request_constraints'' = Inr (of_json (dr_constraints d))"
  "subscript (of_json (request_json d i)) ''provenance'' = Inr (of_json (dr_provenance d))"
  "subscript (of_json (request_json d i)) ''request_schema_version'' = Inr (of_json (dr_schema d))"
  "subscript (of_json (request_json d i)) ''idempotency_identity'' = Inr (PStr i)"
  "dget (of_json (request_json d i)) ''immutable_payload'' = of_json (dr_payload d)"
  "dget (of_json (request_json d i)) ''request_schema_version'' = of_json (dr_schema d)"
  "dget (of_json (request_json d i)) ''serialization_version'' = PStr serialization_version"
  "dget (of_json (request_json d i)) ''immutable_payload_reference'' = of_json (reference_json (dr_reference d))"
  "is_dict (of_json (request_json d i))"
  unfolding request_json_def subscript_JObj dget_JObj by simp_all

lemma reconstruct_draft_json:
  assumes "nfc_laws nfc" and "draft_ok nfc d" and "is_sha256_hex i"
  shows "reconstruct_draft nfc (of_json (request_json d i)) = Inr (d, i)"
proof -
  have "reconstruct_reference nfc (of_json (reference_json (dr_reference d))) = Inr (dr_reference d)"
    by (rule reconstruct_reference_json) (use assms(2) in \<open>simp add: draft_ok_def\<close>)
  then show ?thesis
    unfolding reconstruct_draft_def request_json_lookup
    using draft_rebuild [OF assms(1,2)] is_sha256_hex_nonempty [OF assms(3)] by simp
qed

lemma canonical_request_bytes_json:
  assumes "nfc_laws nfc" and "draft_ok nfc d" and "is_sha256_hex i"
  shows "canonical_request_bytes nfc d i = encode_utf8 (json_dumps (request_json d i))"
  unfolding canonical_request_bytes_def canonical_bytes_def canonical_json_def
    freeze_request [OF assms] by simp

lemma reconstruct_built:
  assumes "nfc_laws nfc" and "draft_ok nfc d" and "build_execution_request nfc d i = Inr (q, content)"
  shows "reconstruct_execution_request nfc content (rq_digest q) = Inr q"
proof -
  note b = assms(3) [unfolded build_Inr [OF assms(2)]]
  then have bytes: "canonical_bytes request_cfg nfc (canonical_request_document d i) = Inr content"
    by (simp add: canonical_request_bytes_def)
  note f = freeze_request [OF assms(1,2) conjunct1 [OF conjunct2 [OF b]], of request_cfg]
  from written [OF plain_request_cfg assms(1) bytes] f
  have w: "content \<noteq> []" "json_loads content = Some (of_json (request_json d i))"
    "canonical_bytes request_cfg nfc (of_json (request_json d i)) = Inr content"
    by (metis Inr_inject json_dumps_nonempty)+
  have s: "dr_schema d = JStr supported_request_schema" using assms(2) by (simp add: draft_ok_def)
  have "rq_digest q = namespaced_digest request_digest_ns content"
    using b by (simp add: request_of_def)
  then show ?thesis
    using w b s assms(3) reconstruct_draft_json [OF assms(1,2), of i]
    by (simp add: reconstruct_execution_request_def request_json_lookup del: of_json.simps)
qed

text \<open>Equal contents come from equal drafts and equal identities.\<close>

lemma reference_json_inj:
  assumes "\<And>p. r = Some p \<Longrightarrow> reference_ok nfc p" "\<And>p. r' = Some p \<Longrightarrow> reference_ok nfc' p"
    and "reference_json r = reference_json r'"
  shows "r = r'"
proof (cases r; cases r')
  fix p p' assume r: "r = Some p" "r' = Some p'"
  with assms obtain s s' where "pr_digest p = PStr s" "pr_digest p' = PStr s'"
    by (metis reference_ok_def)
  with assms(3) r show ?thesis by (cases p; cases p') (simp add: reference_json_def)
qed (use assms(3) in \<open>auto simp: reference_json_def\<close>)

lemma request_json_inj:
  assumes "draft_ok nfc d" "draft_ok nfc' d'" "request_json d i = request_json d' i'"
  shows "d = d' \<and> i = i'"
proof -
  have "dr_reference d = dr_reference d'"
    by (rule reference_json_inj [of _ nfc _ nfc']) (use assms in \<open>auto simp: draft_ok_def request_json_def\<close>)
  with assms(3) show ?thesis by (cases d; cases d') (simp add: request_json_def)
qed

lemma canonical_request_bytes_inj:
  assumes "nfc_laws nfc" "draft_ok nfc d" "draft_ok nfc d'" "is_sha256_hex i" "is_sha256_hex i'"
    and "canonical_request_bytes nfc d i = Inr b" "canonical_request_bytes nfc d' i' = Inr b"
  shows "d = d' \<and> i = i'"
proof -
  have field: "field_ok nfc (request_json d i)" if "draft_ok nfc d" "is_sha256_hex i" for d i
    using freeze_field [OF assms(1) freeze_request [OF assms(1) that]] .
  have "request_json d i = request_json d' i'"
    using json_dumps_inj [of nfc "request_json d i" nfc "request_json d' i'"] field assms
    by (auto simp: canonical_request_bytes_json field_ok_def res_simps)
  then show ?thesis using request_json_inj assms by blast
qed

end
