(* ===== verification/RequestService.thy ===== *)
theory RequestService
  imports ExecutionRequest
begin

text \<open>
  Admission of execution requests: the repository protocol of
  \<open>app/runtime/execution_request/ports.py\<close>, the in-memory repository and the service of
  \<open>service.py\<close>.  A method of the service takes the repository operations it calls as
  arguments; the locale \<open>request_repository\<close> is the contract it relies on, and the
  in-memory repository is its interpretation.

  The lock makes an \<open>admit\<close> one step, so a state is the pair of maps the code publishes,
  and an operation that raises leaves it as it was.
\<close>

section \<open>Records and the in-memory repository\<close>

record request_record =
  rr_request :: execution_request
  rr_content :: string

record request_state =
  rs_by_id :: "string \<rightharpoonup> request_record"
  rs_by_idempotency :: "string \<rightharpoonup> request_record"

definition request_init :: request_state where
  "request_init = \<lparr>rs_by_id = Map.empty, rs_by_idempotency = Map.empty\<rparr>"

definition digest_mismatch :: exc where
  "digest_mismatch = RequestError ExecutionRequestDigestMismatch"

definition idempotency_conflict :: exc where
  "idempotency_conflict = RequestError ExecutionRequestIdempotencyConflict"

definition validate_record :: "normalizer \<Rightarrow> request_record \<Rightarrow> unit res" where
  "validate_record nfc r =
     bindr (reconstruct_execution_request nfc (rr_content r) (rq_digest (rr_request r))) (\<lambda>q.
       raise_if (\<not> request_eq q (rr_request r)) digest_mismatch)"

definition request_admit ::
  "normalizer \<Rightarrow> request_state \<Rightarrow> request_record \<Rightarrow> (request_state \<times> execution_request \<times> bool) res"
where
  "request_admit nfc st r =
     bindr (validate_record nfc r) (\<lambda>_.
       let q = rr_request r in
       case rs_by_idempotency st (rq_idempotency q) of
         Some prior \<Rightarrow>
           if rq_digest (rr_request prior) \<noteq> rq_digest q \<or> rr_content prior \<noteq> rr_content r
           then Inl idempotency_conflict
           else Inr (st, rr_request prior, False)
       | None \<Rightarrow>
           (case rs_by_id st (rq_id q) of
              Some prior \<Rightarrow>
                if rr_content prior \<noteq> rr_content r then Inl digest_mismatch
                else Inr (st\<lparr>rs_by_idempotency := (rs_by_idempotency st)(rq_idempotency q \<mapsto> prior)\<rparr>,
                          rr_request prior, False)
            | None \<Rightarrow>
                Inr (\<lparr>rs_by_id = (rs_by_id st)(rq_id q \<mapsto> r),
                      rs_by_idempotency = (rs_by_idempotency st)(rq_idempotency q \<mapsto> r)\<rparr>, q, True)))"

definition request_get :: "request_state \<Rightarrow> string \<Rightarrow> execution_request option" where
  "request_get st i = map_option rr_request (rs_by_id st i)"

definition request_record_of :: "request_state \<Rightarrow> string \<Rightarrow> request_record option" where
  "request_record_of st i = rs_by_id st i"

section \<open>The service\<close>

datatype admission_outcome = Created | ExistingEquivalent

definition service_admit ::
  "('s \<Rightarrow> request_record \<Rightarrow> ('s \<times> execution_request \<times> bool) res) \<Rightarrow> normalizer \<Rightarrow> 's \<Rightarrow> request_draft
    \<Rightarrow> string \<Rightarrow> ('s \<times> admission_outcome \<times> execution_request) res"
where
  "service_admit admit nfc st d key =
     bindr (idempotency_identity nfc (dr_organization d) (dr_workload d) key) (\<lambda>i.
     bindr (build_execution_request nfc d i) (\<lambda>(q, content).
     bindr (admit st \<lparr>rr_request = q, rr_content = content\<rparr>) (\<lambda>(st', accepted, created).
       Inr (st', if created then Created else ExistingEquivalent, accepted))))"

definition service_get ::
  "('s \<Rightarrow> string \<Rightarrow> execution_request option) \<Rightarrow> 's \<Rightarrow> string \<Rightarrow> string \<Rightarrow> execution_request option"
where
  "service_get get st i organization =
     (case get st i of
        None \<Rightarrow> None
      | Some q \<Rightarrow> if rq_organization q \<noteq> JStr organization then None else Some q)"

definition service_reconstruct ::
  "('s \<Rightarrow> string \<Rightarrow> request_record option) \<Rightarrow> normalizer \<Rightarrow> 's \<Rightarrow> string \<Rightarrow> string \<Rightarrow> execution_request res"
where
  "service_reconstruct record_of nfc st i organization =
     (case record_of st i of
        None \<Rightarrow> Inl (RequestError ExecutionRequestNotFound)
      | Some r \<Rightarrow>
          if rq_organization (rr_request r) \<noteq> JStr organization
          then Inl (RequestError ExecutionRequestNotFound)
          else
            bindr (reconstruct_execution_request nfc (rr_content r) (rq_digest (rr_request r))) (\<lambda>q.
            bindr (raise_if (\<not> request_eq q (rr_request r)) digest_mismatch) (\<lambda>_. Inr q)))"

section \<open>What reconstruction says of a request\<close>

lemma reconstruct_Inr:
  assumes "reconstruct_execution_request nfc content e = Inr q"
  shows "content \<noteq> []" and "e = namespaced_digest request_digest_ns content" and "rq_digest q = e"
    and "rq_id q = namespaced_digest request_id_ns e" and "is_sha256_hex (rq_idempotency q)"
  using assms
  by (auto simp: reconstruct_execution_request_def build_execution_request_def make_request_def
      res_simps Let_def split: prod.splits)

definition record_ok :: "normalizer \<Rightarrow> request_record \<Rightarrow> bool" where
  "record_ok nfc r \<longleftrightarrow> validate_record nfc r = Inr ()"

lemma record_ok_conv:
  "record_ok nfc r \<longleftrightarrow>
     (\<exists>q. reconstruct_execution_request nfc (rr_content r) (rq_digest (rr_request r)) = Inr q
       \<and> request_eq q (rr_request r))"
  by (auto simp: record_ok_def validate_record_def res_simps)

lemma record_okD:
  assumes "record_ok nfc r"
  obtains q where "reconstruct_execution_request nfc (rr_content r) (rq_digest (rr_request r)) = Inr q"
    "request_eq q (rr_request r)"
    "rq_digest (rr_request r) = namespaced_digest request_digest_ns (rr_content r)"
    "rq_id (rr_request r) = namespaced_digest request_id_ns (rq_digest (rr_request r))"
    "rq_idempotency (rr_request r) = rq_idempotency q"
  using assms reconstruct_Inr unfolding record_ok_conv request_eq_def by metis

text \<open>Valid records with the same content agree on what identifies the request.\<close>

lemma record_ok_same:
  assumes "record_ok nfc r" "record_ok nfc r'" "rr_content r = rr_content r'"
  shows "rq_digest (rr_request r) = rq_digest (rr_request r')"
    and "rq_id (rr_request r) = rq_id (rr_request r')"
    and "rq_idempotency (rr_request r) = rq_idempotency (rr_request r')"
proof -
  show d: "rq_digest (rr_request r) = rq_digest (rr_request r')"
    using assms by (elim record_okD) simp
  show "rq_id (rr_request r) = rq_id (rr_request r')"
    using assms d by (elim record_okD) simp
  show "rq_idempotency (rr_request r) = rq_idempotency (rr_request r')"
    using assms d by (elim record_okD) simp
qed

section \<open>The invariant of the repository\<close>

definition request_inv :: "normalizer \<Rightarrow> request_state \<Rightarrow> bool" where
  "request_inv nfc st \<longleftrightarrow>
     (\<forall>i r. rs_by_id st i = Some r \<longrightarrow>
        record_ok nfc r \<and> rq_id (rr_request r) = i
        \<and> rs_by_idempotency st (rq_idempotency (rr_request r)) = Some r)
     \<and> (\<forall>k r. rs_by_idempotency st k = Some r \<longrightarrow>
        record_ok nfc r \<and> rq_idempotency (rr_request r) = k \<and> rs_by_id st (rq_id (rr_request r)) = Some r)"

lemma request_inv_init: "request_inv nfc request_init"
  by (simp add: request_inv_def request_init_def)

text \<open>The second branch of \<open>admit\<close>, which aliases a retained record under another
  idempotency identity, is never taken: the identity is part of the content.\<close>

lemma no_alias:
  assumes "request_inv nfc st" and "record_ok nfc r"
    and "rs_by_id st i = Some prior" and "rr_content prior = rr_content r"
  shows "rs_by_idempotency st (rq_idempotency (rr_request r)) = Some prior"
  using assms record_ok_same(3) [of nfc prior r] unfolding request_inv_def by metis

lemma request_admit_cases:
  assumes "request_inv nfc st" and "request_admit nfc st r = Inr (st', q, created)"
  obtains (existing) prior where "record_ok nfc r" "created = False" "st' = st"
      "rs_by_idempotency st (rq_idempotency (rr_request r)) = Some prior" "q = rr_request prior"
      "rr_content prior = rr_content r"
    | (fresh) "record_ok nfc r" "created = True" "q = rr_request r"
      "rs_by_idempotency st (rq_idempotency (rr_request r)) = None"
      "rs_by_id st (rq_id (rr_request r)) = None"
      "st' = \<lparr>rs_by_id = (rs_by_id st)(rq_id (rr_request r) \<mapsto> r),
              rs_by_idempotency = (rs_by_idempotency st)(rq_idempotency (rr_request r) \<mapsto> r)\<rparr>"
  using assms no_alias [OF assms(1), of r]
  by (auto simp: request_admit_def Let_def bindr_Inr_conv record_ok_def
      split: option.splits if_splits)

lemma request_admit_inv:
  assumes "request_inv nfc st" and "request_admit nfc st r = Inr (st', q, created)"
  shows "request_inv nfc st'"
  using assms
proof (cases rule: request_admit_cases)
  case fresh
  have "rq_idempotency (rr_request s) \<noteq> rq_idempotency (rr_request r)" if "rs_by_id st i = Some s" for i s
    using that fresh(4) assms(1) unfolding request_inv_def by (metis option.distinct(1))
  moreover have "rq_id (rr_request s) \<noteq> rq_id (rr_request r)" if "rs_by_idempotency st k = Some s" for k s
    using that fresh(5) assms(1) unfolding request_inv_def by (metis option.distinct(1))
  ultimately show ?thesis
    using assms(1) fresh(1,6) unfolding request_inv_def by auto
qed (use assms in simp)

lemma request_admit_keeps:
  assumes "request_inv nfc st" and "request_admit nfc st r = Inr (st', q, created)"
  shows "rs_by_id st \<subseteq>\<^sub>m rs_by_id st'"
  using assms by (cases rule: request_admit_cases) (auto simp: map_le_def)

lemma request_admit_retains:
  assumes "request_inv nfc st" and "request_admit nfc st r = Inr (st', q, created)"
  shows "\<exists>r'. rs_by_id st' (rq_id q) = Some r' \<and> rr_request r' = q \<and> rr_content r' = rr_content r"
  using assms
proof (cases rule: request_admit_cases)
  case (existing prior)
  with assms(1) show ?thesis unfolding request_inv_def by auto
qed auto

lemma request_admit_again:
  assumes "request_inv nfc st" and "request_admit nfc st r = Inr (st', q, created)"
  shows "request_admit nfc st' r = Inr (st', q, False)"
  using assms
proof (cases rule: request_admit_cases)
  case (existing prior)
  then have "record_ok nfc prior" using assms(1) unfolding request_inv_def by blast
  with existing record_ok_same(1) [of nfc prior r] show ?thesis
    by (simp add: request_admit_def record_ok_def Let_def)
next
  case fresh
  then show ?thesis by (simp add: request_admit_def record_ok_def Let_def)
qed

section \<open>The contract of the repository, and the service over it\<close>

locale request_repository =
  fixes nfc :: normalizer
    and admit :: "'s \<Rightarrow> request_record \<Rightarrow> ('s \<times> execution_request \<times> bool) res"
    and record_of :: "'s \<Rightarrow> string \<Rightarrow> request_record option"
    and ok :: "'s \<Rightarrow> bool"
  assumes admit_ok: "ok st \<Longrightarrow> admit st r = Inr (st', q, c) \<Longrightarrow> ok st'"
    and admit_keeps: "ok st \<Longrightarrow> admit st r = Inr (st', q, c) \<Longrightarrow> record_of st \<subseteq>\<^sub>m record_of st'"
    and admit_retains: "ok st \<Longrightarrow> admit st r = Inr (st', q, c) \<Longrightarrow>
      \<exists>r'. record_of st' (rq_id q) = Some r' \<and> rr_request r' = q \<and> rr_content r' = rr_content r"
    and admit_again: "ok st \<Longrightarrow> admit st r = Inr (st', q, c) \<Longrightarrow> admit st' r = Inr (st', q, False)"
    and record_of_ok: "ok st \<Longrightarrow> record_of st i = Some r \<Longrightarrow> record_ok nfc r"
begin

lemma service_admit_ok:
  "ok st \<Longrightarrow> service_admit admit nfc st d key = Inr (st', out, q) \<Longrightarrow> ok st'"
  by (auto simp: service_admit_def bindr_Inr_conv dest: admit_ok)

lemma service_admit_keeps:
  "ok st \<Longrightarrow> service_admit admit nfc st d key = Inr (st', out, q) \<Longrightarrow> record_of st \<subseteq>\<^sub>m record_of st'"
  by (auto simp: service_admit_def bindr_Inr_conv dest: admit_keeps)

lemma service_admit_again:
  "ok st \<Longrightarrow> service_admit admit nfc st d key = Inr (st', out, q) \<Longrightarrow>
     service_admit admit nfc st' d key = Inr (st', ExistingEquivalent, q)"
  by (auto simp: service_admit_def bindr_Inr_conv intro!: exI [of _ False] dest: admit_again)

lemma service_reconstruct_ok:
  assumes "ok st" and "record_of st i = Some r" and "rq_organization (rr_request r) = JStr org"
  shows "\<exists>q. service_reconstruct record_of nfc st i org = Inr q \<and> request_eq q (rr_request r)"
  using record_of_ok [OF assms(1,2)] assms(2,3)
  by (auto simp: service_reconstruct_def record_ok_conv)

lemma service_admit_reconstruct:
  assumes "ok st" and "service_admit admit nfc st d key = Inr (st', out, q)"
    and "rq_organization q = JStr org" and "ok st''" and "record_of st' \<subseteq>\<^sub>m record_of st''"
  shows "\<exists>q'. service_reconstruct record_of nfc st'' (rq_id q) org = Inr q' \<and> request_eq q' q"
proof -
  obtain r where "record_of st' (rq_id q) = Some r" "rr_request r = q"
    using assms(2) admit_retains [OF assms(1)] by (fastforce simp: service_admit_def bindr_Inr_conv)
  moreover from this have "record_of st'' (rq_id q) = Some r"
    using assms(5) by (metis domI map_le_def)
  ultimately show ?thesis using service_reconstruct_ok assms(3,4) by blast
qed

end

lemma request_inv_record: "request_inv nfc st \<Longrightarrow> rs_by_id st i = Some r \<Longrightarrow> record_ok nfc r"
  unfolding request_inv_def by blast

interpretation requests: request_repository nfc "request_admit nfc" request_record_of "request_inv nfc"
  for nfc
  by unfold_locales
    (auto simp: request_record_of_def [abs_def] dest: request_inv_record request_admit_inv
      request_admit_keeps request_admit_retains request_admit_again)

end
