(* ===== verification/RequestProperties.thy ===== *)
theory RequestProperties
  imports RequestService
begin

text \<open>
  What execution requests promise: the canonical content is a faithful encoding of a draft,
  and admission is idempotent, append-only, and private to an organization.
\<close>

section \<open>Histories of the service\<close>

text \<open>The states the in-memory repository reaches when only the service writes to it, and
  the states that come after one.\<close>

inductive request_steps :: "normalizer \<Rightarrow> request_state \<Rightarrow> request_state \<Rightarrow> bool" for nfc where
  none: "request_steps nfc st st"
| admit: "request_steps nfc st st1 \<Longrightarrow>
    service_admit (request_admit nfc) nfc st1 d key = Inr (st2, out, q) \<Longrightarrow> request_steps nfc st st2"

lemma request_steps_inv:
  "request_steps nfc st st' \<Longrightarrow> request_inv nfc st \<Longrightarrow>
     request_inv nfc st' \<and> request_record_of st \<subseteq>\<^sub>m request_record_of st'"
  by (induction rule: request_steps.induct)
    (auto intro: requests.service_admit_ok map_le_trans dest: requests.service_admit_keeps)

lemma request_reachable_inv: "request_steps nfc request_init st \<Longrightarrow> request_inv nfc st"
  using request_steps_inv request_inv_init by blast

lemma service_admitD:
  "service_admit admit nfc st d key = Inr (st', out, q) \<Longrightarrow> \<exists>r c. admit st r = Inr (st', q, c)"
  by (auto simp: service_admit_def bindr_Inr_conv)

section \<open>A concrete draft\<close>

definition sample_args :: "pyval list" where
  "sample_args = [PStr ''org-1'', PStr ''workload-7'', PStr ''train'',
     pdict [(''epochs'', PInt 3), (''dry_run'', PBool False)], PMap [], pdict [(''source'', PStr ''cli'')]]"

definition sample_draft :: request_draft where
  "sample_draft = \<lparr>dr_organization = JStr ''org-1'', dr_workload = JStr ''workload-7'',
     dr_work_type = JStr ''train'',
     dr_payload = JObj [(''dry_run'', JBool False), (''epochs'', JInt 3)], dr_reference = None,
     dr_constraints = JObj [], dr_provenance = JObj [(''source'', JStr ''cli'')],
     dr_schema = JStr supported_request_schema\<rparr>"

lemma sample_constructed:
  "execution_request_draft (\<lambda>s. s) (sample_args ! 0) (sample_args ! 1) (sample_args ! 2) (sample_args ! 3)
     None (sample_args ! 4) (sample_args ! 5) (PStr supported_request_schema) = Inr sample_draft"
  by code_simp

lemma sample_ok: "draft_ok (\<lambda>s. s) sample_draft"
  by (rule draft_constructed [OF nfc_laws_id sample_constructed]) simp

lemma sample_content:
  assumes "is_sha256_hex i"
  shows "build_execution_request (\<lambda>s. s) sample_draft i =
    Inr (request_of sample_draft i (json_dumps (request_json sample_draft i)),
         json_dumps (request_json sample_draft i))"
proof -
  have "ascii_json (request_json sample_draft i)"
    using is_sha256_hex_ascii [OF assms]
    by (simp add: request_json_def sample_draft_def reference_json_def supported_request_schema_def
        serialization_version_def)
  then show ?thesis
    using canonical_request_bytes_json [OF nfc_laws_id sample_ok assms] assms
    by (simp add: build_Inr [OF sample_ok] encode_dumps_ascii)
qed

lemma idempotency_identity_ascii:
  assumes "nfc_laws nfc" and "field_ok nfc org" "field_ok nfc wl" and "ascii_json org" "ascii_json wl"
    and "ascii key" "key \<noteq> []"
  shows "\<exists>i. idempotency_identity nfc org wl key = Inr i \<and> is_sha256_hex i"
proof -
  have k: "doc_keys [''operation'', ''organization_id'', ''submitted_key'', ''workload_context_id'']"
    by code_simp
  have "ascii ''admit-execution-request''" by code_simp
  then have f: "freeze request_cfg nfc (pdict [
      (''operation'', PStr ''admit-execution-request''), (''organization_id'', of_json org),
      (''submitted_key'', PStr key), (''workload_context_id'', of_json wl)])
    = Inr (JObj [(''operation'', JStr ''admit-execution-request''), (''organization_id'', org),
      (''submitted_key'', JStr key), (''workload_context_id'', wl)])"
    using assms by (simp add: freeze_pdict [OF assms(1)] k nfc_ascii [OF assms(1)])
  show ?thesis
    unfolding idempotency_identity_def canonical_bytes_def canonical_json_def f
    by (simp add: assms encode_dumps_ascii del: json_dumps.simps)
qed

lemma sample_identity:
  obtains i where "idempotency_identity (\<lambda>s. s) (dr_organization sample_draft) (dr_workload sample_draft)
      ''key-1'' = Inr i" "is_sha256_hex i"
proof -
  have "field_ok (\<lambda>s. s) (dr_organization sample_draft)" "field_ok (\<lambda>s. s) (dr_workload sample_draft)"
    using sample_ok by (simp_all add: draft_ok_def)
  moreover have "ascii_json (dr_organization sample_draft)" "ascii_json (dr_workload sample_draft)"
    by (simp_all add: sample_draft_def)
  ultimately show ?thesis using that idempotency_identity_ascii [OF nfc_laws_id, of _ _ "''key-1''"] by auto
qed

section \<open>Properties\<close>

text \<open>C1: the canonical content of an execution request is read back as the same request.
  Whatever the caller passes to the draft (any nesting of mappings, sequences, strings and
  integers, with or without a payload reference), if the draft is accepted and the request
  is built, then \<open>reconstruct_execution_request\<close> of the content and the digest succeeds
  and gives exactly the request that was built.\<close>

theorem request_roundtrip:
  assumes "nfc_laws nfc"
    and "reference = None \<or> (\<exists>r s v p. immutable_payload_reference nfc r (PStr s) v = Inr p \<and> reference = Some p)"
    and "execution_request_draft nfc organization workload work_type payload reference constraints
      provenance schema = Inr d"
    and "build_execution_request nfc d identity = Inr (q, content)"
  shows "reconstruct_execution_request nfc content (rq_digest q) = Inr q"
proof -
  have "draft_ok nfc d"
    by (rule draft_constructed [OF assms(1,3)])
      (use assms(1,2) immutable_payload_reference_ok in blast)
  then show ?thesis using reconstruct_built assms(1,4) by blast
qed

lemma request_roundtrip_witness:
  "\<exists>q content. build_execution_request (\<lambda>s. s) sample_draft (sha256_hex ''key'') = Inr (q, content)
     \<and> reconstruct_execution_request (\<lambda>s. s) content (rq_digest q) = Inr q"
  using request_roundtrip [OF nfc_laws_id _ sample_constructed
      sample_content [OF sha256_hex_shape [of "''key''"]]]
    sample_content [OF sha256_hex_shape [of "''key''"]]
  by blast



text \<open>C3: the order in which dictionaries list their items, at any depth of the payload, of
  the constraints and of the provenance, does not matter: the draft is the same, or the
  same exception is raised, so digest and identifier are the same too.\<close>

theorem request_order_independent:
  assumes "dict_eq payload payload'" and "dict_eq constraints constraints'" and "dict_eq provenance provenance'"
  shows "execution_request_draft nfc organization workload work_type payload reference constraints
      provenance schema
    = execution_request_draft nfc organization workload work_type payload' reference constraints'
      provenance' schema"
proof -
  have falsy: "pv_falsy v = pv_falsy w" if "dict_eq v w" for v w
    using that by cases (auto dest: list_all2_lengthD mset_eq_length)
  have none: "v = PNone \<longleftrightarrow> w = PNone" if "dict_eq v w" for v w
    using that by cases auto
  have "immutable_mapping nfc v = immutable_mapping nfc w" if "dict_eq v w" for v w
    using freeze_dict_eq [OF that, of request_cfg nfc] falsy [OF that] by (simp add: immutable_mapping_def)
  then show ?thesis
    using assms none [OF assms(1)] freeze_dict_eq [OF assms(1), of request_cfg nfc]
    by (simp add: execution_request_draft_def)
qed

lemma request_order_independent_witness:
  "execution_request_draft (\<lambda>s. s) (PStr ''o'') (PStr ''w'') (PStr ''t'')
      (pdict [(''b'', PInt 2), (''a'', PSeq [pdict [(''y'', PInt 0), (''x'', PNone)]])]) None (PMap [])
      (pdict [(''src'', PStr ''p'')]) (PStr supported_request_schema)
    = execution_request_draft (\<lambda>s. s) (PStr ''o'') (PStr ''w'') (PStr ''t'')
      (pdict [(''a'', PSeq [pdict [(''x'', PNone), (''y'', PInt 0)]]), (''b'', PInt 2)]) None (PMap [])
      (pdict [(''src'', PStr ''p'')]) (PStr supported_request_schema)"
proof (rule request_order_independent [OF _ dict_eq.same dict_eq.same])
  have inner: "dict_eq (PSeq [pdict [(''y'', PInt 0), (''x'', PNone)]]) (PSeq [pdict [(''x'', PNone), (''y'', PInt 0)]])"
    unfolding pdict_def
    by (rule dict_eq.seq) (auto intro!: dict_eq.items [where xs = "[(KStr ''y'', PInt 0), (KStr ''x'', PNone)]"] dict_eq.same)
  show "dict_eq (pdict [(''b'', PInt 2), (''a'', PSeq [pdict [(''y'', PInt 0), (''x'', PNone)]])])
     (pdict [(''a'', PSeq [pdict [(''x'', PNone), (''y'', PInt 0)]]), (''b'', PInt 2)])"
    unfolding pdict_def [of "[(''b'', _), _]"] pdict_def [of "[(''a'', _), _]"]
    by (rule dict_eq.items [where xs = "[(KStr ''b'', PInt 2), (KStr ''a'', PSeq [pdict [(''x'', PNone), (''y'', PInt 0)]])]"])
      (use inner in \<open>auto intro: dict_eq.same\<close>)
qed

lemma sample_admitted:
  obtains st q where "service_admit (request_admit (\<lambda>s. s)) (\<lambda>s. s) request_init sample_draft ''key-1'' = Inr (st, Created, q)"
    "rq_organization q = JStr ''org-1''"
proof -
  obtain i where i: "idempotency_identity (\<lambda>s. s) (dr_organization sample_draft) (dr_workload sample_draft)
      ''key-1'' = Inr i" "is_sha256_hex i" by (rule sample_identity)
  obtain c where b: "build_execution_request (\<lambda>s. s) sample_draft i = Inr (request_of sample_draft i c, c)"
    using sample_content [OF i(2)] by blast
  have r: "reconstruct_execution_request (\<lambda>s. s) c (rq_digest (request_of sample_draft i c))
      = Inr (request_of sample_draft i c)"
    by (rule reconstruct_built [OF nfc_laws_id sample_ok b])
  have eq: "request_eq q q" for q
    by (simp add: request_eq_def reference_eq_def split: option.split)
  have v: "validate_record (\<lambda>s. s) \<lparr>rr_request = request_of sample_draft i c, rr_content = c\<rparr> = Inr ()"
    by (simp add: validate_record_def r eq)
  show ?thesis
  proof (rule that)
    show "service_admit (request_admit (\<lambda>s. s)) (\<lambda>s. s) request_init sample_draft ''key-1''
      = Inr (\<lparr>rs_by_id = [rq_id (request_of sample_draft i c) \<mapsto> \<lparr>rr_request = request_of sample_draft i c, rr_content = c\<rparr>],
          rs_by_idempotency = [rq_idempotency (request_of sample_draft i c) \<mapsto>
            \<lparr>rr_request = request_of sample_draft i c, rr_content = c\<rparr>]\<rparr>, Created, request_of sample_draft i c)"
      by (simp add: service_admit_def i(1) b request_admit_def v request_init_def)
  qed (simp add: request_of_def sample_draft_def)
qed

text \<open>C4: every state the service reaches is consistent.  Each record under its identifier
  reconstructs to a request equal to the retained one, the two indexes of the repository
  describe the same records, and later admissions keep every record.\<close>

theorem request_repository_invariant:
  assumes "request_steps nfc request_init st" and "request_steps nfc st st'"
  shows "request_inv nfc st \<and> rs_by_id st \<subseteq>\<^sub>m rs_by_id st'"
  using request_reachable_inv [OF assms(1)] request_steps_inv [OF assms(2)]
  by (auto simp: request_record_of_def [abs_def])

lemma request_repository_invariant_witness:
  "\<exists>st. request_steps (\<lambda>s. s) request_init st \<and> st \<noteq> request_init
     \<and> request_inv (\<lambda>s. s) request_init \<and> rs_by_id request_init \<subseteq>\<^sub>m rs_by_id st"
proof -
  obtain st q where a: "service_admit (request_admit (\<lambda>s. s)) (\<lambda>s. s) request_init sample_draft ''key-1'' = Inr (st, Created, q)"
    by (rule sample_admitted)
  then have "request_steps (\<lambda>s. s) request_init st"
    by (rule request_steps.admit [OF request_steps.none])
  moreover obtain r c where "request_admit (\<lambda>s. s) request_init r = Inr (st, q, c)"
    using service_admitD [OF a] by blast
  then have "\<exists>r. rs_by_id st (rq_id q) = Some r"
    using request_admit_retains [OF request_inv_init] by blast
  then have "st \<noteq> request_init" by (auto simp: request_init_def)
  ultimately show ?thesis using request_repository_invariant [OF request_steps.none] by blast
qed

text \<open>Admission is idempotent.  After a draft was admitted under a key, admitting it
  again under that key reports \<open>ExistingEquivalent\<close>, returns the same request and leaves
  the repository as it was.\<close>

theorem request_admission_idempotent:
  assumes "request_steps nfc request_init st"
    and "service_admit (request_admit nfc) nfc st d key = Inr (st', outcome, q)"
  shows "service_admit (request_admit nfc) nfc st' d key = Inr (st', ExistingEquivalent, q)"
  using requests.service_admit_again [OF request_reachable_inv [OF assms(1)] assms(2)] .

lemma request_admission_idempotent_witness:
  "\<exists>st q. service_admit (request_admit (\<lambda>s. s)) (\<lambda>s. s) request_init sample_draft ''key-1'' = Inr (st, Created, q)
     \<and> service_admit (request_admit (\<lambda>s. s)) (\<lambda>s. s) st sample_draft ''key-1'' = Inr (st, ExistingEquivalent, q)"
proof -
  obtain st q where a: "service_admit (request_admit (\<lambda>s. s)) (\<lambda>s. s) request_init sample_draft ''key-1'' = Inr (st, Created, q)"
    by (rule sample_admitted)
  with request_admission_idempotent [OF request_steps.none a] show ?thesis by blast
qed

text \<open>A key is not reused for another draft.  Once a draft is admitted under a key, a
  different draft of the same organization and workload context under the same key is an
  \<open>ExecutionRequestIdempotencyConflict\<close>, in every later state of the repository.\<close>

theorem request_key_conflict:
  assumes "nfc_laws nfc" and "request_steps nfc request_init st"
    and "draft_ok nfc d" and "service_admit (request_admit nfc) nfc st d key = Inr (st', outcome, q)"
    and "request_steps nfc st' st''"
    and "draft_ok nfc d'" and "d' \<noteq> d"
    and "dr_organization d' = dr_organization d" and "dr_workload d' = dr_workload d"
    and "idempotency_identity nfc (dr_organization d) (dr_workload d) key = Inr i"
    and "build_execution_request nfc d' i = Inr (q', content')"
  shows "service_admit (request_admit nfc) nfc st'' d' key = Inl idempotency_conflict"
proof -
  note inv = request_reachable_inv [OF assms(2)]
  obtain c b where b: "build_execution_request nfc d i = Inr (request_of d i c, c)"
    and a: "request_admit nfc st \<lparr>rr_request = request_of d i c, rr_content = c\<rparr> = Inr (st', q, b)"
    and i: "is_sha256_hex i"
    using assms(4) assms(10) by (auto simp: service_admit_def bindr_Inr_conv build_Inr [OF assms(3)])
  obtain r where r: "rs_by_id st' (rq_id q) = Some r" "rr_request r = q" "rr_content r = c"
    using request_admit_retains [OF inv a] by auto
  have inv': "request_inv nfc st'" using request_admit_inv [OF inv a] .
  have "rs_by_id st'' (rq_id q) = Some r"
    using request_steps_inv [OF assms(5) inv'] r(1)
    by (metis domI map_le_def request_record_of_def)
  moreover have inv'': "request_inv nfc st''" using request_steps_inv [OF assms(5) inv'] by simp
  ultimately have "rs_by_idempotency st'' (rq_idempotency q) = Some r" "record_ok nfc r"
    using r(2) unfolding request_inv_def by metis+
  moreover have "rq_idempotency q = i"
  proof -
    have "record_ok nfc \<lparr>rr_request = request_of d i c, rr_content = c\<rparr>"
      using a by (auto simp: request_admit_def record_ok_def bindr_Inr_conv)
    from record_ok_same(3) [OF \<open>record_ok nfc r\<close> this] r show ?thesis by (simp add: request_of_def)
  qed
  moreover have "content' \<noteq> c"
    using canonical_request_bytes_inj [OF assms(1,3,6) i i] b assms(7,11)
    by (auto simp: build_Inr [OF assms(3)] build_Inr [OF assms(6)])
  moreover have "record_ok nfc \<lparr>rr_request = q', rr_content = content'\<rparr>" "rq_idempotency q' = i"
    using reconstruct_built [OF assms(1,6,11)] assms(11)
    by (auto simp: record_ok_conv request_eq_def reference_eq_def build_Inr [OF assms(6)] request_of_def
        split: option.split)
  ultimately show ?thesis
    using assms(8-11) r(3) by (simp add: service_admit_def request_admit_def record_ok_def Let_def)
qed

definition other_draft :: request_draft where
  "other_draft = sample_draft\<lparr>dr_work_type := JStr ''evaluate''\<rparr>"

lemma other_ok: "draft_ok (\<lambda>s. s) other_draft" "other_draft \<noteq> sample_draft"
  using sample_ok by (simp_all add: other_draft_def draft_ok_def field_ok_def sample_draft_def)

lemma other_content:
  assumes "is_sha256_hex i"
  shows "\<exists>q c. build_execution_request (\<lambda>s. s) other_draft i = Inr (q, c)"
proof -
  have "ascii_json (request_json other_draft i)"
    using is_sha256_hex_ascii [OF assms]
    by (simp add: request_json_def sample_draft_def other_draft_def reference_json_def
        supported_request_schema_def serialization_version_def)
  then show ?thesis
    using canonical_request_bytes_json [OF nfc_laws_id other_ok(1) assms] assms
    by (simp add: build_Inr [OF other_ok(1)] encode_dumps_ascii)
qed

lemma request_key_conflict_witness:
  "\<exists>st. service_admit (request_admit (\<lambda>s. s)) (\<lambda>s. s) st other_draft ''key-1'' = Inl idempotency_conflict"
proof -
  obtain st q where a: "service_admit (request_admit (\<lambda>s. s)) (\<lambda>s. s) request_init sample_draft ''key-1'' = Inr (st, Created, q)"
    by (rule sample_admitted)
  obtain i where i: "idempotency_identity (\<lambda>s. s) (dr_organization sample_draft) (dr_workload sample_draft)
      ''key-1'' = Inr i" "is_sha256_hex i" by (rule sample_identity)
  obtain q' c where b: "build_execution_request (\<lambda>s. s) other_draft i = Inr (q', c)"
    using other_content [OF i(2)] by blast
  have "service_admit (request_admit (\<lambda>s. s)) (\<lambda>s. s) st other_draft ''key-1'' = Inl idempotency_conflict"
    by (rule request_key_conflict [OF nfc_laws_id request_steps.none sample_ok a request_steps.none
          other_ok _ _ i(1) b]) (simp_all add: other_draft_def)
  then show ?thesis by (rule exI [of _ st])
qed

text \<open>An admitted request can be reconstructed for ever, and only by its organization.
  In every later state, \<open>reconstruct\<close> under the organization of the request succeeds and
  gives a request equal to the admitted one; under any other organization \<open>get\<close> returns
  nothing and \<open>reconstruct\<close> raises \<open>ExecutionRequestNotFound\<close>.\<close>

theorem request_reconstruct_admitted:
  assumes "request_steps nfc request_init st"
    and "service_admit (request_admit nfc) nfc st d key = Inr (st', outcome, q)"
    and "request_steps nfc st' st''" and "rq_organization q = JStr organization"
  shows "(\<exists>q'. service_reconstruct request_record_of nfc st'' (rq_id q) organization = Inr q' \<and> request_eq q' q)
    \<and> (\<forall>other. other \<noteq> organization \<longrightarrow>
         service_get request_get st'' (rq_id q) other = None
         \<and> service_reconstruct request_record_of nfc st'' (rq_id q) other
             = Inl (RequestError ExecutionRequestNotFound))"
proof -
  note inv = request_reachable_inv [OF assms(1)]
  have inv': "request_inv nfc st'" by (rule requests.service_admit_ok [OF inv assms(2)])
  note later = request_steps_inv [OF assms(3) inv']
  obtain r where "request_record_of st' (rq_id q) = Some r" "rr_request r = q"
    using assms(2) requests.admit_retains [OF inv] by (fastforce simp: service_admit_def bindr_Inr_conv)
  moreover from this have "request_record_of st'' (rq_id q) = Some r"
    using later by (metis domI map_le_def)
  ultimately have "service_get request_get st'' (rq_id q) other = None
         \<and> service_reconstruct request_record_of nfc st'' (rq_id q) other
             = Inl (RequestError ExecutionRequestNotFound)" if "other \<noteq> organization" for other
    using assms(4) that
    by (simp add: service_get_def service_reconstruct_def request_get_def request_record_of_def)
  then show ?thesis
    using requests.service_admit_reconstruct [OF inv assms(2,4)] later by blast
qed

lemma request_reconstruct_admitted_witness:
  "\<exists>st q q'. service_admit (request_admit (\<lambda>s. s)) (\<lambda>s. s) request_init sample_draft ''key-1'' = Inr (st, Created, q)
     \<and> service_reconstruct request_record_of (\<lambda>s. s) st (rq_id q) ''org-1'' = Inr q' \<and> request_eq q' q
     \<and> service_get request_get st (rq_id q) ''org-2'' = None"
proof -
  obtain st q where a: "service_admit (request_admit (\<lambda>s. s)) (\<lambda>s. s) request_init sample_draft ''key-1'' = Inr (st, Created, q)"
    "rq_organization q = JStr ''org-1''" by (rule sample_admitted)
  note p = request_reconstruct_admitted [OF request_steps.none a(1) request_steps.none a(2)]
  obtain q' where "service_reconstruct request_record_of (\<lambda>s. s) st (rq_id q) ''org-1'' = Inr q'" "request_eq q' q"
    using conjunct1 [OF p] by (elim exE conjE)
  moreover have "service_get request_get st (rq_id q) ''org-2'' = None"
    by (rule conjunct1 [OF conjunct2 [OF p, rule_format, of "''org-2''"]]) simp
  ultimately show ?thesis using a(1) by (intro exI conjI)
qed

text \<open>A draft that was admitted is recognised in every later state.\<close>

lemma request_admit_later:
  assumes "request_inv nfc st" and "request_admit nfc st r = Inr (st', q, created)"
    and "request_steps nfc st' st''"
  shows "request_admit nfc st'' r = Inr (st'', q, False)"
proof -
  have inv': "request_inv nfc st'" by (rule request_admit_inv [OF assms(1,2)])
  obtain p where p: "rs_by_id st' (rq_id q) = Some p" "rr_request p = q" "rr_content p = rr_content r"
    using request_admit_retains [OF assms(1,2)] by blast
  have "rs_by_id st'' (rq_id q) = Some p"
    using request_steps_inv [OF assms(3) inv'] p(1) by (metis domI map_le_def request_record_of_def)
  moreover have "request_inv nfc st''" using request_steps_inv [OF assms(3) inv'] by simp
  ultimately have "rs_by_idempotency st'' (rq_idempotency q) = Some p" "record_ok nfc p"
    using p(2) unfolding request_inv_def by metis+
  moreover have "record_ok nfc r" using assms(2) by (auto simp: request_admit_def record_ok_def bindr_Inr_conv)
  moreover note record_ok_same [of nfc p r]
  ultimately show ?thesis
    using p(2,3) by (simp add: request_admit_def record_ok_def Let_def)
qed

lemma service_admit_later:
  assumes "request_inv nfc st" and "service_admit (request_admit nfc) nfc st d key = Inr (st', outcome, q)"
    and "request_steps nfc st' st''"
  shows "service_admit (request_admit nfc) nfc st'' d key = Inr (st'', ExistingEquivalent, q)"
proof -
  obtain i p content created where h: "idempotency_identity nfc (dr_organization d) (dr_workload d) key = Inr i"
    "build_execution_request nfc d i = Inr (p, content)"
    "request_admit nfc st \<lparr>rr_request = p, rr_content = content\<rparr> = Inr (st', q, created)"
    using assms(2) by (auto simp: service_admit_def bindr_Inr_conv)
  with request_admit_later [OF assms(1) h(3) assms(3)] show ?thesis by (simp add: service_admit_def)
qed

text \<open>C5: an admission is settled.  After a draft was admitted under a key, in every later state:
  admitting it again under that key reports \<open>ExistingEquivalent\<close>, returns the same request and
  changes nothing; admitting a different draft of the same organization and workload context
  under it is an \<open>ExecutionRequestIdempotencyConflict\<close>; \<open>reconstruct\<close> under the organization
  of the request gives a request equal to the admitted one, and under any other organization
  \<open>get\<close> returns nothing and \<open>reconstruct\<close> raises \<open>ExecutionRequestNotFound\<close>.\<close>

theorem request_admission_settled:
  assumes "nfc_laws nfc" and "request_steps nfc request_init st" and "draft_ok nfc d"
    and "service_admit (request_admit nfc) nfc st d key = Inr (st', outcome, q)"
    and "request_steps nfc st' st''" and "rq_organization q = JStr organization"
  shows "service_admit (request_admit nfc) nfc st'' d key = Inr (st'', ExistingEquivalent, q)
    \<and> (\<forall>d' i q' content. draft_ok nfc d' \<and> d' \<noteq> d
         \<and> dr_organization d' = dr_organization d \<and> dr_workload d' = dr_workload d
         \<and> idempotency_identity nfc (dr_organization d) (dr_workload d) key = Inr i
         \<and> build_execution_request nfc d' i = Inr (q', content)
         \<longrightarrow> service_admit (request_admit nfc) nfc st'' d' key = Inl idempotency_conflict)
    \<and> (\<exists>q'. service_reconstruct request_record_of nfc st'' (rq_id q) organization = Inr q' \<and> request_eq q' q)
    \<and> (\<forall>other. other \<noteq> organization \<longrightarrow>
         service_get request_get st'' (rq_id q) other = None
         \<and> service_reconstruct request_record_of nfc st'' (rq_id q) other
             = Inl (RequestError ExecutionRequestNotFound))"
  using service_admit_later [OF request_reachable_inv [OF assms(2)] assms(4,5)]
    request_key_conflict [OF assms(1-5)] request_reconstruct_admitted [OF assms(2,4-6)]
  by blast

lemma request_admission_settled_witness:
  "\<exists>st q. service_admit (request_admit (\<lambda>s. s)) (\<lambda>s. s) request_init sample_draft ''key-1'' = Inr (st, Created, q)
     \<and> service_admit (request_admit (\<lambda>s. s)) (\<lambda>s. s) st sample_draft ''key-1'' = Inr (st, ExistingEquivalent, q)
     \<and> service_admit (request_admit (\<lambda>s. s)) (\<lambda>s. s) st other_draft ''key-1'' = Inl idempotency_conflict
     \<and> service_get request_get st (rq_id q) ''org-2'' = None"
proof -
  obtain st q where a: "service_admit (request_admit (\<lambda>s. s)) (\<lambda>s. s) request_init sample_draft ''key-1'' = Inr (st, Created, q)"
    "rq_organization q = JStr ''org-1''" by (rule sample_admitted)
  obtain i where i: "idempotency_identity (\<lambda>s. s) (dr_organization sample_draft) (dr_workload sample_draft)
      ''key-1'' = Inr i" "is_sha256_hex i" by (rule sample_identity)
  obtain q' c where b: "build_execution_request (\<lambda>s. s) other_draft i = Inr (q', c)"
    using other_content [OF i(2)] by blast
  note p = request_admission_settled [OF nfc_laws_id request_steps.none sample_ok a(1) request_steps.none a(2)]
  have "service_admit (request_admit (\<lambda>s. s)) (\<lambda>s. s) st other_draft ''key-1'' = Inl idempotency_conflict"
    by (rule conjunct1 [OF conjunct2 [OF p], rule_format, of other_draft i q' c])
      (use other_ok i(1) b in \<open>simp add: other_draft_def\<close>)
  moreover have "service_get request_get st (rq_id q) ''org-2'' = None"
    by (rule conjunct1 [OF conjunct2 [OF conjunct2 [OF conjunct2 [OF p]], rule_format, of "''org-2''"]]) simp
  ultimately show ?thesis using a(1) conjunct1 [OF p] by (intro exI conjI)
qed

end
