(* ===== verification/Retained.thy ===== *)
theory Retained
  imports Documents
begin

text \<open>
  What the evidence packages share: the checks of a field (\<open>required_text\<close>,
  \<open>sha256_hex\<close>, \<open>utc_time\<close> of each \<open>domain.py\<close>, with the exception of the package
  as an argument), references to evidence, and the in-memory source of retained evidence
  (\<open>InMemoryEvidenceSource\<close>, \<open>InMemoryScopedEvidenceSource\<close>).
\<close>

section \<open>Fields\<close>

definition required_text :: "exc \<Rightarrow> normalizer \<Rightarrow> string \<Rightarrow> string res" where
  "required_text e nfc s = (if s = [] then Inl e else Inr (nfc s))"

definition optional_text :: "exc \<Rightarrow> normalizer \<Rightarrow> string option \<Rightarrow> string option res" where
  "optional_text e nfc v =
     (case v of None \<Rightarrow> Inr None | Some s \<Rightarrow> bindr (required_text e nfc s) (\<lambda>t. Inr (Some t)))"

definition sha256_field :: "exc \<Rightarrow> normalizer \<Rightarrow> string \<Rightarrow> string res" where
  "sha256_field e nfc s =
     bindr (required_text e nfc s) (\<lambda>t. if is_sha256_hex t then Inr t else Inl e)"

lemma required_text_Inr [res_simps]: "required_text e nfc s = Inr t \<longleftrightarrow> s \<noteq> [] \<and> t = nfc s"
  by (auto simp: required_text_def)

lemma sha256_field_Inr [res_simps]: "sha256_field e nfc s = Inr t \<longleftrightarrow> s \<noteq> [] \<and> t = nfc s \<and> is_sha256_hex t"
  by (auto simp: sha256_field_def res_simps)

lemma sha256_field_hex [simp]: "nfc_laws nfc \<Longrightarrow> is_sha256_hex s \<Longrightarrow> sha256_field e nfc s = Inr s"
  by (auto simp: sha256_field_def required_text_def nfc_hex)

lemma optional_text_Inr [res_simps]:
  "optional_text e nfc v = Inr w \<longleftrightarrow> v \<noteq> Some [] \<and> w = map_option nfc v"
  by (auto simp: optional_text_def res_simps split: option.splits)

text \<open>Text that \<open>required_text\<close> leaves as it is.\<close>

definition text_ok :: "normalizer \<Rightarrow> string \<Rightarrow> bool" where
  "text_ok nfc s \<longleftrightarrow> s \<noteq> [] \<and> nfc s = s"

lemma required_text_ok [simp]: "text_ok nfc s \<Longrightarrow> required_text e nfc s = Inr s"
  by (simp add: text_ok_def required_text_def)

lemma text_ok_required: "nfc_laws nfc \<Longrightarrow> required_text e nfc s = Inr t \<Longrightarrow> text_ok nfc t"
  by (auto simp: required_text_Inr text_ok_def nfc_lawsD)

lemma text_ok_hex: "nfc_laws nfc \<Longrightarrow> is_sha256_hex s \<Longrightarrow> text_ok nfc s"
  by (auto simp: text_ok_def nfc_hex)

section \<open>References to evidence\<close>

datatype evidence_ref = EvidenceReference (artifact_id: string) (reference_digest: string)

instantiation evidence_ref :: linorder
begin

definition less_eq_evidence_ref :: "evidence_ref \<Rightarrow> evidence_ref \<Rightarrow> bool" where
  "less_eq_evidence_ref a b \<longleftrightarrow> (artifact_id a, reference_digest a) \<le> (artifact_id b, reference_digest b)"

definition less_evidence_ref :: "evidence_ref \<Rightarrow> evidence_ref \<Rightarrow> bool" where
  "less_evidence_ref a b \<longleftrightarrow> (artifact_id a, reference_digest a) < (artifact_id b, reference_digest b)"

instance
proof
  fix a b c :: evidence_ref
  show "a < b \<longleftrightarrow> a \<le> b \<and> \<not> b \<le> a"
    unfolding less_eq_evidence_ref_def less_evidence_ref_def by (rule less_le_not_le)
  show "a \<le> a" unfolding less_eq_evidence_ref_def by (rule order_refl)
  show "a \<le> c" if "a \<le> b" "b \<le> c"
    using that unfolding less_eq_evidence_ref_def by (rule order_trans)
  show "a = b" if "a \<le> b" "b \<le> a"
    using antisym [OF that [unfolded less_eq_evidence_ref_def]] by (cases a; cases b) simp
  show "a \<le> b \<or> b \<le> a" unfolding less_eq_evidence_ref_def by (rule linear)
qed

end

definition make_reference :: "exc \<Rightarrow> normalizer \<Rightarrow> string \<Rightarrow> string \<Rightarrow> evidence_ref res" where
  "make_reference e nfc i d =
     bindr (required_text e nfc i) (\<lambda>i'. bindr (sha256_field e nfc d) (\<lambda>d'. Inr (EvidenceReference i' d')))"

lemma make_reference_ok [simp]:
  "nfc_laws nfc \<Longrightarrow> text_ok nfc i \<Longrightarrow> is_sha256_hex d \<Longrightarrow> make_reference e nfc i d = Inr (EvidenceReference i d)"
  by (simp add: make_reference_def)

definition reference_doc :: "evidence_ref \<Rightarrow> pyval" where
  "reference_doc r = pdict [(''artifact_id'', PStr (artifact_id r)), (''canonical_digest'', PStr (reference_digest r))]"

section \<open>What documents are written from\<close>

definition supported_serialization :: string where
  "supported_serialization = ''canonical-json.v1''"

definition ptime :: "instant \<Rightarrow> pyval" where
  "ptime i = PTime (utc i)"

text \<open>A reference written from an identifier and a digest.\<close>

definition ref_doc :: "string \<Rightarrow> string \<Rightarrow> pyval" where
  "ref_doc i d = pdict [(''artifact_id'', PStr i), (''canonical_digest'', PStr d)]"

definition popt_time :: "instant option \<Rightarrow> pyval" where
  "popt_time t = (case t of None \<Rightarrow> PNone | Some i \<Rightarrow> ptime i)"

definition popt_int :: "int option \<Rightarrow> pyval" where
  "popt_int n = (case n of None \<Rightarrow> PNone | Some i \<Rightarrow> PInt i)"

section \<open>Sources of retained evidence\<close>

type_synonym 'a items = "string \<rightharpoonup> 'a"

text \<open>\<open>retain\<close>: validate, refuse to replace, store.\<close>

definition source_retain :: "exc \<Rightarrow> ('a \<Rightarrow> unit res) \<Rightarrow> ('a \<Rightarrow> string) \<Rightarrow> 'a items \<Rightarrow> 'a \<Rightarrow> 'a items res" where
  "source_retain e validator identity items v =
     bindr (validator v) (\<lambda>_.
       case items (identity v) of
         Some prior \<Rightarrow> if prior \<noteq> v then Inl e else Inr (items(identity v \<mapsto> v))
       | None \<Rightarrow> Inr (items(identity v \<mapsto> v)))"

text \<open>\<open>get_scoped\<close>: the value in its scope, validated again.\<close>

definition source_get ::
  "('a \<Rightarrow> unit res) \<Rightarrow> ('a \<Rightarrow> string) \<Rightarrow> ('a \<Rightarrow> string) \<Rightarrow> 'a items \<Rightarrow> string \<Rightarrow> string \<Rightarrow> string \<Rightarrow> 'a option res"
where
  "source_get validator organization workload items i org wl =
     (case items i of
        None \<Rightarrow> Inr None
      | Some v \<Rightarrow>
          if organization v \<noteq> org \<or> workload v \<noteq> wl then Inr None
          else bindr (validator v) (\<lambda>_. Inr (Some v)))"

text \<open>\<open>require_evidence\<close> over the \<open>get_scoped\<close> of a source.\<close>

definition require_evidence ::
  "exc \<Rightarrow> (string \<Rightarrow> string \<Rightarrow> string \<Rightarrow> 'a option res) \<Rightarrow> string \<Rightarrow> string \<Rightarrow> string \<Rightarrow> 'a res"
where
  "require_evidence missing get i org wl =
     bindr (get i org wl) (\<lambda>v. case v of None \<Rightarrow> Inl missing | Some x \<Rightarrow> Inr x)"

lemma require_evidence_Inr [res_simps]:
  "require_evidence missing get i org wl = Inr v \<longleftrightarrow> get i org wl = Inr (Some v)"
  by (auto simp: require_evidence_def res_simps split: option.splits)

definition source_ok :: "('a \<Rightarrow> string) \<Rightarrow> 'a items \<Rightarrow> bool" where
  "source_ok identity items \<longleftrightarrow> (\<forall>i v. items i = Some v \<longrightarrow> identity v = i)"

lemma source_ok_empty [simp]: "source_ok identity Map.empty"
  by (simp add: source_ok_def)

text \<open>The contract of a source of evidence: what it returns is in scope and valid, and what
  it has returned it returns for ever.\<close>

locale evidence_source =
  fixes get :: "'s \<Rightarrow> string \<Rightarrow> string \<Rightarrow> string \<Rightarrow> 'a option res"
    and retain :: "'s \<Rightarrow> 'a \<Rightarrow> 's res"
    and identity :: "'a \<Rightarrow> string"
    and organization :: "'a \<Rightarrow> string"
    and workload :: "'a \<Rightarrow> string"
    and valid :: "'a \<Rightarrow> bool"
    and ok :: "'s \<Rightarrow> bool"
  assumes get_scoped: "ok s \<Longrightarrow> get s i org wl = Inr (Some v) \<Longrightarrow>
      identity v = i \<and> organization v = org \<and> workload v = wl \<and> valid v"
    and retain_ok: "ok s \<Longrightarrow> retain s v = Inr s' \<Longrightarrow> ok s'"
    and retain_keeps: "retain s v = Inr s' \<Longrightarrow> get s i org wl = Inr (Some u) \<Longrightarrow> get s' i org wl = Inr (Some u)"
    and retain_get: "retain s v = Inr s' \<Longrightarrow> get s' (identity v) (organization v) (workload v) = Inr (Some v)"
begin

lemma require_scoped:
  assumes "ok s" and "require_evidence missing (get s) i org wl = Inr v"
  shows "identity v = i" "organization v = org" "workload v = wl" "valid v"
  using get_scoped [OF assms(1)] assms(2) by (auto simp: require_evidence_Inr)

lemma require_keeps:
  "retain s v = Inr s' \<Longrightarrow> require_evidence missing (get s) i org wl = Inr u \<Longrightarrow>
     require_evidence missing (get s') i org wl = Inr u"
  by (auto simp: require_evidence_Inr intro: retain_keeps)

lemma require_retained:
  "retain s v = Inr s' \<Longrightarrow>
     require_evidence missing (get s') (identity v) (organization v) (workload v) = Inr v"
  by (simp add: require_evidence_Inr retain_get)

end

lemma source_retain_Inr:
  "source_retain e validator identity items v = Inr items' \<longleftrightarrow>
     validator v = Inr () \<and> (items (identity v) = None \<or> items (identity v) = Some v)
     \<and> items' = items(identity v \<mapsto> v)"
  by (auto simp: source_retain_def bindr_Inr_conv split: option.splits)

lemma source_get_Inr:
  "source_get validator organization workload items i org wl = Inr (Some v) \<longleftrightarrow>
     items i = Some v \<and> organization v = org \<and> workload v = wl \<and> validator v = Inr ()"
  by (auto simp: source_get_def bindr_Inr_conv split: option.splits)

interpretation source: evidence_source
  "source_get validator organization workload" "source_retain e validator identity"
  identity organization workload "\<lambda>v. validator v = Inr ()" "source_ok identity"
  for e validator identity organization workload
proof
  fix s s' :: "'a items" and i org wl u v
  show "identity v = i \<and> organization v = org \<and> workload v = wl \<and> validator v = Inr ()"
    if "source_ok identity s" "source_get validator organization workload s i org wl = Inr (Some v)"
    using that by (simp add: source_get_Inr source_ok_def)
  assume r: "source_retain e validator identity s v = Inr s'"
  show "source_ok identity s'" if "source_ok identity s"
    using that r by (simp add: source_retain_Inr source_ok_def)
  show "source_get validator organization workload s' i org wl = Inr (Some u)"
    if "source_get validator organization workload s i org wl = Inr (Some u)"
    using that r by (auto simp: source_retain_Inr source_get_Inr)
  show "source_get validator organization workload s' (identity v) (organization v) (workload v) = Inr (Some v)"
    using r by (simp add: source_retain_Inr source_get_Inr)
qed

end
