(* ===== verification/DispatchEvidence.thy ===== *)
theory DispatchEvidence
  imports Retained
begin

text \<open>
  Evidence that dispatch decisions rest on: \<open>app/runtime/dispatch_decision/canonical.py\<close>,
  the field checks and references of \<open>domain.py\<close>, and the builders and validators of
  \<open>evidence.py\<close>.

  A builder turns the times it is given into UTC, so a record holds instants; a validator
  builds the record again from its own fields and compares.
\<close>

section \<open>Exceptions and canonical form\<close>

definition dispatch_invalid :: exc where
  "dispatch_invalid = DispatchError DispatchDecisionInvalid"

definition dispatch_mismatch :: exc where
  "dispatch_mismatch = DispatchError DispatchDecisionDigestMismatch"

definition dispatch_unsupported :: exc where
  "dispatch_unsupported = DispatchError DispatchDecisionVersionUnsupported"

definition dispatch_cfg :: freeze_cfg where
  "dispatch_cfg = \<lparr>fz_err = dispatch_invalid, fz_enum_raw = True, fz_time = Some isoformat_z, fz_float = False\<rparr>"

definition dispatch_content :: "normalizer \<Rightarrow> (string \<times> pyval) list \<Rightarrow> string res" where
  "dispatch_content nfc document = canonical_bytes dispatch_cfg nfc (pdict document)"

definition dispatch_text :: "normalizer \<Rightarrow> string \<Rightarrow> string res" where
  "dispatch_text = required_text dispatch_invalid"

definition dispatch_hex :: "normalizer \<Rightarrow> string \<Rightarrow> string res" where
  "dispatch_hex = sha256_field dispatch_invalid"

definition dispatch_time :: "pytime \<Rightarrow> instant res" where
  "dispatch_time = utc_or_raise dispatch_invalid"

definition dispatch_reference :: "normalizer \<Rightarrow> string \<Rightarrow> string \<Rightarrow> evidence_ref res" where
  "dispatch_reference = make_reference dispatch_invalid"

section \<open>Plans\<close>

definition plan_evidence_ns :: string where
  "plan_evidence_ns = ''edgeiq.dispatch-plan-evidence.v1''"

definition supported_plan_evidence_schema :: string where
  "supported_plan_evidence_schema = ''execution-plan.v1''"

definition supported_planning_rule :: string where
  "supported_planning_rule = ''execution-plan.rule.v1''"

record plan_evidence =
  pe_plan :: string
  pe_organization :: string
  pe_workload :: string
  pe_items :: "string list"
  pe_schema :: string
  pe_rule :: string
  pe_digest :: string
  pe_content :: string

definition build_plan_evidence ::
  "normalizer \<Rightarrow> string \<Rightarrow> string \<Rightarrow> string \<Rightarrow> string list \<Rightarrow> string \<Rightarrow> string \<Rightarrow> plan_evidence res"
where
  "build_plan_evidence nfc plan_id organization workload work_items schema rule =
     bindr (mapr (dispatch_text nfc) work_items) (\<lambda>texts.
     let items = sort texts in
     bindr (raise_if (items = [] \<or> \<not> distinct items) dispatch_invalid) (\<lambda>_.
     bindr (dispatch_text nfc organization) (\<lambda>org.
     bindr (dispatch_text nfc plan_id) (\<lambda>plan.
     bindr (dispatch_text nfc workload) (\<lambda>wl.
     bindr (dispatch_content nfc [
         (''organization_id'', PStr org),
         (''plan_id'', PStr plan),
         (''planning_rule_version'', PStr rule),
         (''schema_version'', PStr schema),
         (''work_item_ids'', ptuple items),
         (''workload_context_id'', PStr wl)]) (\<lambda>content.
       Inr \<lparr>pe_plan = plan, pe_organization = org, pe_workload = wl, pe_items = items,
            pe_schema = schema, pe_rule = rule,
            pe_digest = namespaced_digest plan_evidence_ns content, pe_content = content\<rparr>))))))"

definition validate_plan :: "normalizer \<Rightarrow> plan_evidence \<Rightarrow> unit res" where
  "validate_plan nfc v =
     bindr (build_plan_evidence nfc (pe_plan v) (pe_organization v) (pe_workload v) (pe_items v)
             (pe_schema v) (pe_rule v)) (\<lambda>rebuilt.
     bindr (raise_if (pe_schema v \<noteq> supported_plan_evidence_schema \<or> pe_rule v \<noteq> supported_planning_rule)
             dispatch_unsupported) (\<lambda>_.
     raise_if (v \<noteq> rebuilt) dispatch_mismatch))"

section \<open>Readiness\<close>

definition readiness_evidence_ns :: string where
  "readiness_evidence_ns = ''edgeiq.dispatch-readiness-evidence.v1''"

definition supported_readiness_schema :: string where
  "supported_readiness_schema = ''worker-readiness.v1''"

record readiness_evidence =
  re_readiness :: string
  re_organization :: string
  re_workload :: string
  re_evaluated :: instant
  re_expires :: instant
  re_superseded :: bool
  re_schema :: string
  re_digest :: string
  re_content :: string

definition build_readiness_evidence ::
  "normalizer \<Rightarrow> string \<Rightarrow> string \<Rightarrow> string \<Rightarrow> pytime \<Rightarrow> pytime \<Rightarrow> bool \<Rightarrow> string \<Rightarrow> readiness_evidence res"
where
  "build_readiness_evidence nfc readiness_id organization workload evaluated_at expires_at superseded schema =
     bindr (dispatch_time evaluated_at) (\<lambda>evaluated.
     bindr (dispatch_time expires_at) (\<lambda>expires.
     bindr (raise_if (expires < evaluated) dispatch_invalid) (\<lambda>_.
     bindr (dispatch_text nfc organization) (\<lambda>org.
     bindr (dispatch_text nfc readiness_id) (\<lambda>rid.
     bindr (dispatch_text nfc workload) (\<lambda>wl.
     bindr (dispatch_content nfc [
         (''evaluated_at'', ptime evaluated),
         (''expires_at'', ptime expires),
         (''organization_id'', PStr org),
         (''readiness_id'', PStr rid),
         (''schema_version'', PStr schema),
         (''superseded'', PBool superseded),
         (''workload_context_id'', PStr wl)]) (\<lambda>content.
       Inr \<lparr>re_readiness = rid, re_organization = org, re_workload = wl, re_evaluated = evaluated,
            re_expires = expires, re_superseded = superseded, re_schema = schema,
            re_digest = namespaced_digest readiness_evidence_ns content, re_content = content\<rparr>)))))))"

definition validate_readiness :: "normalizer \<Rightarrow> readiness_evidence \<Rightarrow> unit res" where
  "validate_readiness nfc v =
     bindr (build_readiness_evidence nfc (re_readiness v) (re_organization v) (re_workload v)
             (utc (re_evaluated v)) (utc (re_expires v)) (re_superseded v) (re_schema v)) (\<lambda>rebuilt.
     bindr (raise_if (re_schema v \<noteq> supported_readiness_schema) dispatch_unsupported) (\<lambda>_.
     raise_if (v \<noteq> rebuilt) dispatch_mismatch))"

section \<open>Selections\<close>

datatype selection_candidate =
  SelectionCandidate (candidate_id: string) (candidate_readiness: "evidence_ref list")

instantiation selection_candidate :: linorder
begin

definition less_eq_selection_candidate :: "selection_candidate \<Rightarrow> selection_candidate \<Rightarrow> bool" where
  "less_eq_selection_candidate a b \<longleftrightarrow>
     (candidate_id a, candidate_readiness a) \<le> (candidate_id b, candidate_readiness b)"

definition less_selection_candidate :: "selection_candidate \<Rightarrow> selection_candidate \<Rightarrow> bool" where
  "less_selection_candidate a b \<longleftrightarrow>
     (candidate_id a, candidate_readiness a) < (candidate_id b, candidate_readiness b)"

instance
proof
  fix a b c :: selection_candidate
  show "a < b \<longleftrightarrow> a \<le> b \<and> \<not> b \<le> a"
    unfolding less_eq_selection_candidate_def less_selection_candidate_def by (rule less_le_not_le)
  show "a \<le> a" unfolding less_eq_selection_candidate_def by (rule order_refl)
  show "a \<le> c" if "a \<le> b" "b \<le> c"
    using that unfolding less_eq_selection_candidate_def by (rule order_trans)
  show "a = b" if "a \<le> b" "b \<le> a"
    using antisym [OF that [unfolded less_eq_selection_candidate_def]] by (cases a; cases b) simp
  show "a \<le> b \<or> b \<le> a" unfolding less_eq_selection_candidate_def by (rule linear)
qed

end

definition retained_selection_candidate ::
  "normalizer \<Rightarrow> string \<Rightarrow> evidence_ref list \<Rightarrow> selection_candidate res"
where
  "retained_selection_candidate nfc candidate readiness =
     bindr (dispatch_text nfc candidate) (\<lambda>c.
     let references = sort readiness in
     bindr (raise_if (references = [] \<or> \<not> distinct references) dispatch_invalid) (\<lambda>_.
       Inr (SelectionCandidate c references)))"

definition selection_evidence_ns :: string where
  "selection_evidence_ns = ''edgeiq.dispatch-selection-evidence.v1''"

definition supported_selection_schema :: string where
  "supported_selection_schema = ''worker-selection.v1''"

definition supported_selection_policy :: string where
  "supported_selection_policy = ''worker-selection.scoring.v1''"

record selection_evidence =
  se_selection :: string
  se_organization :: string
  se_workload :: string
  se_plan :: evidence_ref
  se_candidates :: "selection_candidate list"
  se_boundary :: string
  se_schema :: string
  se_policy :: string
  se_digest :: string
  se_content :: string

definition candidate_doc :: "selection_candidate \<Rightarrow> pyval" where
  "candidate_doc c = pdict [
     (''candidate_id'', PStr (candidate_id c)),
     (''readiness_references'', PSeq (map reference_doc (candidate_readiness c)))]"

definition build_selection_evidence ::
  "normalizer \<Rightarrow> string \<Rightarrow> string \<Rightarrow> string \<Rightarrow> evidence_ref \<Rightarrow> selection_candidate list \<Rightarrow> string \<Rightarrow> string
    \<Rightarrow> string \<Rightarrow> selection_evidence res"
where
  "build_selection_evidence nfc selection_id organization workload plan candidates boundary schema policy =
     (let ordered = sort candidates in
     bindr (raise_if (ordered = [] \<or> \<not> distinct (map candidate_id ordered)) dispatch_invalid) (\<lambda>_.
     bindr (dispatch_text nfc boundary) (\<lambda>bd.
     bindr (dispatch_text nfc organization) (\<lambda>org.
     bindr (dispatch_text nfc selection_id) (\<lambda>sid.
     bindr (dispatch_text nfc workload) (\<lambda>wl.
     bindr (dispatch_content nfc [
         (''candidates'', PSeq (map candidate_doc ordered)),
         (''evaluation_boundary'', PStr bd),
         (''organization_id'', PStr org),
         (''plan_reference'', reference_doc plan),
         (''schema_version'', PStr schema),
         (''selection_id'', PStr sid),
         (''selection_policy_version'', PStr policy),
         (''workload_context_id'', PStr wl)]) (\<lambda>content.
       Inr \<lparr>se_selection = sid, se_organization = org, se_workload = wl, se_plan = plan,
            se_candidates = ordered, se_boundary = bd, se_schema = schema, se_policy = policy,
            se_digest = namespaced_digest selection_evidence_ns content, se_content = content\<rparr>)))))))"

definition validate_selection :: "normalizer \<Rightarrow> selection_evidence \<Rightarrow> unit res" where
  "validate_selection nfc v =
     bindr (build_selection_evidence nfc (se_selection v) (se_organization v) (se_workload v) (se_plan v)
             (se_candidates v) (se_boundary v) (se_schema v) (se_policy v)) (\<lambda>rebuilt.
     bindr (raise_if (se_schema v \<noteq> supported_selection_schema \<or> se_policy v \<noteq> supported_selection_policy)
             dispatch_unsupported) (\<lambda>_.
     raise_if (v \<noteq> rebuilt) dispatch_mismatch))"

section \<open>Leases\<close>

definition lease_evidence_ns :: string where
  "lease_evidence_ns = ''edgeiq.dispatch-lease-evidence.v1''"

definition supported_lease_schema :: string where
  "supported_lease_schema = ''execution-lease.v1''"

definition supported_lease_policy :: string where
  "supported_lease_policy = ''execution-lease.policy.v1''"

record lease_evidence =
  le_lease :: string
  le_organization :: string
  le_workload :: string
  le_plan :: string
  le_items :: "string list"
  le_bounded :: bool
  le_effective :: instant
  le_expires :: instant
  le_revoked :: bool
  le_authorization :: evidence_ref
  le_schema :: string
  le_policy :: string
  le_digest :: string
  le_content :: string

definition build_lease_evidence ::
  "normalizer \<Rightarrow> string \<Rightarrow> string \<Rightarrow> string \<Rightarrow> string \<Rightarrow> string list \<Rightarrow> bool \<Rightarrow> pytime \<Rightarrow> pytime \<Rightarrow> bool
    \<Rightarrow> evidence_ref \<Rightarrow> string \<Rightarrow> string \<Rightarrow> lease_evidence res"
where
  "build_lease_evidence nfc lease_id organization workload plan_id work_items bounded effective_at
      expires_at revoked authorization schema policy =
     bindr (mapr (dispatch_text nfc) work_items) (\<lambda>texts.
     let items = sort texts in
     bindr (raise_if (items = [] \<or> \<not> distinct items) dispatch_invalid) (\<lambda>_.
     bindr (dispatch_time effective_at) (\<lambda>effective.
     bindr (dispatch_time expires_at) (\<lambda>expires.
     bindr (raise_if (expires < effective) dispatch_invalid) (\<lambda>_.
     bindr (dispatch_text nfc lease_id) (\<lambda>lid.
     bindr (dispatch_text nfc organization) (\<lambda>org.
     bindr (dispatch_text nfc plan_id) (\<lambda>plan.
     bindr (dispatch_text nfc workload) (\<lambda>wl.
     bindr (dispatch_content nfc [
         (''bounded_permission'', PBool bounded),
         (''causal_authorization_reference'', reference_doc authorization),
         (''effective_at'', ptime effective),
         (''expires_at'', ptime expires),
         (''lease_id'', PStr lid),
         (''lease_policy_version'', PStr policy),
         (''organization_id'', PStr org),
         (''plan_id'', PStr plan),
         (''revoked'', PBool revoked),
         (''schema_version'', PStr schema),
         (''work_item_ids'', ptuple items),
         (''workload_context_id'', PStr wl)]) (\<lambda>content.
       Inr \<lparr>le_lease = lid, le_organization = org, le_workload = wl, le_plan = plan, le_items = items,
            le_bounded = bounded, le_effective = effective, le_expires = expires, le_revoked = revoked,
            le_authorization = authorization, le_schema = schema, le_policy = policy,
            le_digest = namespaced_digest lease_evidence_ns content, le_content = content\<rparr>))))))))))"

definition validate_lease :: "normalizer \<Rightarrow> lease_evidence \<Rightarrow> unit res" where
  "validate_lease nfc v =
     bindr (build_lease_evidence nfc (le_lease v) (le_organization v) (le_workload v) (le_plan v)
             (le_items v) (le_bounded v) (utc (le_effective v)) (utc (le_expires v)) (le_revoked v)
             (le_authorization v) (le_schema v) (le_policy v)) (\<lambda>rebuilt.
     bindr (raise_if (le_schema v \<noteq> supported_lease_schema \<or> le_policy v \<noteq> supported_lease_policy)
             dispatch_unsupported) (\<lambda>_.
     raise_if (v \<noteq> rebuilt) dispatch_mismatch))"

end
