(* ===== verification/DispatchDecision.thy ===== *)
theory DispatchDecision
  imports DispatchEvidence
begin

text \<open>
  Dispatch decisions: requests and decisions of \<open>app/runtime/dispatch_decision/domain.py\<close>,
  the registered policy of \<open>policy.py\<close> and the canonical content of \<open>serialization.py\<close>.
\<close>

section \<open>Requests\<close>

definition supported_dispatch_schema :: string where
  "supported_dispatch_schema = ''dispatch-decision.v1''"

definition supported_dispatch_component :: string where
  "supported_dispatch_component = ''dispatch-decision.evaluator.v1''"

datatype dispatch_outcome = Approved | Denied

primrec dispatch_outcome_value :: "dispatch_outcome \<Rightarrow> string" where
  "dispatch_outcome_value Approved = ''Approved''"
| "dispatch_outcome_value Denied = ''Denied''"

record dispatch_request =
  dq_organization :: string
  dq_workload :: string
  dq_plan :: string
  dq_plan_digest :: string
  dq_item :: string
  dq_selection :: string
  dq_selection_digest :: string
  dq_candidate :: string
  dq_lease :: string
  dq_lease_digest :: string
  dq_policy :: string
  dq_policy_version :: string
  dq_policy_digest :: string
  dq_boundary :: string
  dq_effective :: instant
  dq_clock :: string
  dq_clock_version :: string
  dq_configuration :: string
  dq_schema :: string
  dq_component :: string
  dq_serialization :: string

text \<open>\<open>DispatchRequest.__post_init__\<close>: the argument holds the values the caller passed,
  but for the time, which is passed beside it.\<close>

definition dispatch_request_init :: "normalizer \<Rightarrow> dispatch_request \<Rightarrow> pytime \<Rightarrow> dispatch_request res" where
  "dispatch_request_init nfc q effective_at =
     bindr (dispatch_text nfc (dq_organization q)) (\<lambda>organization.
     bindr (dispatch_text nfc (dq_workload q)) (\<lambda>workload.
     bindr (dispatch_text nfc (dq_plan q)) (\<lambda>plan.
     bindr (dispatch_text nfc (dq_item q)) (\<lambda>item.
     bindr (dispatch_text nfc (dq_selection q)) (\<lambda>selection.
     bindr (dispatch_text nfc (dq_candidate q)) (\<lambda>candidate.
     bindr (dispatch_text nfc (dq_lease q)) (\<lambda>lease.
     bindr (dispatch_text nfc (dq_policy q)) (\<lambda>policy.
     bindr (dispatch_text nfc (dq_policy_version q)) (\<lambda>policy_version.
     bindr (dispatch_text nfc (dq_boundary q)) (\<lambda>boundary.
     bindr (dispatch_text nfc (dq_clock q)) (\<lambda>clk.
     bindr (dispatch_text nfc (dq_clock_version q)) (\<lambda>clk_version.
     bindr (dispatch_text nfc (dq_configuration q)) (\<lambda>configuration.
     bindr (dispatch_hex nfc (dq_plan_digest q)) (\<lambda>plan_digest.
     bindr (dispatch_hex nfc (dq_selection_digest q)) (\<lambda>selection_digest.
     bindr (dispatch_hex nfc (dq_lease_digest q)) (\<lambda>lease_digest.
     bindr (dispatch_hex nfc (dq_policy_digest q)) (\<lambda>policy_digest.
     bindr (dispatch_time effective_at) (\<lambda>effective.
     bindr (raise_if (dq_schema q \<noteq> supported_dispatch_schema) dispatch_unsupported) (\<lambda>_.
     bindr (raise_if (dq_component q \<noteq> supported_dispatch_component) dispatch_unsupported) (\<lambda>_.
     bindr (raise_if (dq_serialization q \<noteq> supported_serialization) dispatch_unsupported) (\<lambda>_.
       Inr (q\<lparr>dq_organization := organization, dq_workload := workload, dq_plan := plan,
              dq_item := item, dq_selection := selection, dq_candidate := candidate, dq_lease := lease,
              dq_policy := policy, dq_policy_version := policy_version, dq_boundary := boundary,
              dq_clock := clk, dq_clock_version := clk_version, dq_configuration := configuration,
              dq_plan_digest := plan_digest, dq_selection_digest := selection_digest,
              dq_lease_digest := lease_digest, dq_policy_digest := policy_digest,
              dq_effective := effective\<rparr>))))))))))))))))))))))"

type_synonym dispatch_key = "string \<times> string \<times> string \<times> string \<times> string"

definition dispatch_stream_key :: "dispatch_request \<Rightarrow> dispatch_key" where
  "dispatch_stream_key q = (dq_organization q, dq_workload q, dq_plan q, dq_item q, dq_candidate q)"

section \<open>Decisions\<close>

record dispatch_metadata =
  dm_boundary :: string
  dm_effective :: instant
  dm_clock :: string
  dm_clock_version :: string
  dm_configuration :: string
  dm_component :: string
  dm_serialization :: string

record dispatch_decision =
  dd_id :: string
  dd_organization :: string
  dd_workload :: string
  dd_plan :: evidence_ref
  dd_item :: string
  dd_selection :: evidence_ref
  dd_candidate :: string
  dd_readiness :: "evidence_ref list"
  dd_lease :: evidence_ref
  dd_authorization :: evidence_ref
  dd_policy :: evidence_ref
  dd_policy_version :: string
  dd_outcome :: dispatch_outcome
  dd_reasons :: "string list"
  dd_input_digest :: string
  dd_digest :: string
  dd_version :: int
  dd_idempotency :: string
  dd_metadata :: dispatch_metadata
  dd_recorded :: instant
  dd_schema :: string

text \<open>\<open>DispatchDecision.__post_init__\<close>, with the time of recording beside the record.\<close>

definition dispatch_decision_init :: "normalizer \<Rightarrow> dispatch_decision \<Rightarrow> pytime \<Rightarrow> dispatch_decision res" where
  "dispatch_decision_init nfc d recorded_at =
     bindr (dispatch_hex nfc (dd_id d)) (\<lambda>i.
     bindr (dispatch_hex nfc (dd_input_digest d)) (\<lambda>input.
     bindr (dispatch_hex nfc (dd_digest d)) (\<lambda>digest.
     bindr (dispatch_hex nfc (dd_idempotency d)) (\<lambda>idem.
     bindr (raise_if (dd_version d < 1) dispatch_invalid) (\<lambda>_.
     bindr (mapr (dispatch_text nfc) (dd_reasons d)) (\<lambda>texts.
     let reasons = sort texts in
     bindr (raise_if (reasons = [] \<or> \<not> distinct reasons) dispatch_invalid) (\<lambda>_.
     bindr (dispatch_time recorded_at) (\<lambda>recorded.
     bindr (raise_if (dd_schema d \<noteq> supported_dispatch_schema) dispatch_unsupported) (\<lambda>_.
       Inr (d\<lparr>dd_id := i, dd_input_digest := input, dd_digest := digest, dd_idempotency := idem,
              dd_reasons := reasons, dd_readiness := sort (dd_readiness d),
              dd_recorded := recorded\<rparr>))))))))))"

section \<open>The policy\<close>

definition dispatch_policy_ns :: string where
  "dispatch_policy_ns = ''edgeiq.dispatch-policy.v1''"

record verified_evidence =
  ve_request :: dispatch_request
  ve_plan :: plan_evidence
  ve_selection :: selection_evidence
  ve_candidate :: selection_candidate
  ve_readiness :: "readiness_evidence list"
  ve_lease :: lease_evidence

record dispatch_policy =
  dp_id :: string
  dp_version :: string
  dp_digest :: string

definition evaluate_dispatch :: "verified_evidence \<Rightarrow> dispatch_outcome \<times> string list" where
  "evaluate_dispatch v =
     (let instant = dq_effective (ve_request v);
          lease = ve_lease v;
          reasons =
            (if \<not> le_bounded lease \<or> instant < le_effective lease then [''LEASE_INAPPLICABLE''] else [])
            @ (if le_expires lease < instant then [''LEASE_EXPIRED''] else [])
            @ (if le_revoked lease then [''LEASE_REVOKED''] else [])
            @ (if list_ex (\<lambda>r. re_expires r < instant) (ve_readiness v) then [''READINESS_EXPIRED''] else [])
            @ (if list_ex re_superseded (ve_readiness v) then [''READINESS_SUPERSEDED''] else [])
      in if reasons \<noteq> [] then (Denied, sort reasons) else (Approved, [''OFFER_APPROVED'']))"

definition make_dispatch_policy :: "normalizer \<Rightarrow> string \<Rightarrow> string \<Rightarrow> dispatch_policy res" where
  "make_dispatch_policy nfc policy_id policy_version =
     bindr (dispatch_content nfc [
         (''evaluation_rules'', ptuple [''bounded_lease'', ''lease_effective_time'', ''lease_expiry'',
            ''lease_revocation'', ''readiness_expiry'', ''readiness_supersession'']),
         (''policy_id'', PStr policy_id),
         (''policy_version'', PStr policy_version)]) (\<lambda>content.
       Inr \<lparr>dp_id = policy_id, dp_version = policy_version,
            dp_digest = namespaced_digest dispatch_policy_ns content\<rparr>)"

definition dispatch_policy_v1 :: "normalizer \<Rightarrow> dispatch_policy res" where
  "dispatch_policy_v1 nfc = make_dispatch_policy nfc ''dispatch-policy'' ''dispatch-policy.v1''"

definition dispatch_policy_for :: "normalizer \<Rightarrow> string \<Rightarrow> string \<Rightarrow> string \<Rightarrow> dispatch_policy res" where
  "dispatch_policy_for nfc policy_id policy_version digest =
     bindr (dispatch_policy_v1 nfc) (\<lambda>v1.
       case filter (\<lambda>p. dp_id p = policy_id \<and> dp_version p = policy_version) [v1] of
         [p] \<Rightarrow> if dp_digest p \<noteq> digest then Inl dispatch_mismatch else Inr p
       | _ \<Rightarrow> Inl dispatch_unsupported)"

section \<open>Serialization\<close>

definition dispatch_input_ns :: string where
  "dispatch_input_ns = ''edgeiq.dispatch-decision-input.v1''"

definition dispatch_digest_ns :: string where
  "dispatch_digest_ns = ''edgeiq.dispatch-decision.v1''"

definition dispatch_id_ns :: string where
  "dispatch_id_ns = ''edgeiq.dispatch-decision-id.v1''"

definition dispatch_idempotency_ns :: string where
  "dispatch_idempotency_ns = ''edgeiq.dispatch-decision-idempotency.v1''"

definition policy_doc :: "dispatch_policy \<Rightarrow> pyval" where
  "policy_doc p = pdict [(''artifact_id'', PStr (dp_id p)), (''canonical_digest'', PStr (dp_digest p)),
     (''policy_version'', PStr (dp_version p))]"

definition dispatch_input_document :: "verified_evidence \<Rightarrow> dispatch_policy \<Rightarrow> (string \<times> pyval) list" where
  "dispatch_input_document v p =
     (let q = ve_request v; plan = ve_plan v; selection = ve_selection v; lease = ve_lease v in
      [(''causal_authorization_reference'', reference_doc (le_authorization lease)),
       (''clock_source_id'', PStr (dq_clock q)),
       (''clock_source_version'', PStr (dq_clock_version q)),
       (''component_version'', PStr (dq_component q)),
       (''configuration_version'', PStr (dq_configuration q)),
       (''effective_at'', ptime (dq_effective q)),
       (''evaluation_boundary'', PStr (dq_boundary q)),
       (''lease_reference'', ref_doc (le_lease lease) (le_digest lease)),
       (''lease_policy_version'', PStr (le_policy lease)),
       (''lease_schema_version'', PStr (le_schema lease)),
       (''organization_id'', PStr (dq_organization q)),
       (''plan_reference'', ref_doc (pe_plan plan) (pe_digest plan)),
       (''plan_schema_version'', PStr (pe_schema plan)),
       (''planning_rule_version'', PStr (pe_rule plan)),
       (''policy_reference'', policy_doc p),
       (''readiness_references'', PSeq (map (\<lambda>r. ref_doc (re_readiness r) (re_digest r)) (ve_readiness v))),
       (''schema_version'', PStr (dq_schema q)),
       (''selected_candidate_id'', PStr (dq_candidate q)),
       (''selection_policy_version'', PStr (se_policy selection)),
       (''selection_reference'', ref_doc (se_selection selection) (se_digest selection)),
       (''selection_schema_version'', PStr (se_schema selection)),
       (''serialization_version'', PStr (dq_serialization q)),
       (''work_item_id'', PStr (dq_item q)),
       (''workload_context_id'', PStr (dq_workload q))])"

definition dispatch_input_content :: "normalizer \<Rightarrow> verified_evidence \<Rightarrow> dispatch_policy \<Rightarrow> string res" where
  "dispatch_input_content nfc v p = dispatch_content nfc (dispatch_input_document v p)"

definition dispatch_idempotency_identity :: "normalizer \<Rightarrow> dispatch_request \<Rightarrow> string \<Rightarrow> string res" where
  "dispatch_idempotency_identity nfc q submitted_key =
     bindr (raise_if (submitted_key = []) dispatch_invalid) (\<lambda>_.
     bindr (dispatch_content nfc [
         (''operation'', PStr ''evaluate_dispatch''),
         (''organization_id'', PStr (dq_organization q)),
         (''plan_id'', PStr (dq_plan q)),
         (''selected_candidate_id'', PStr (dq_candidate q)),
         (''submitted_key'', PStr submitted_key),
         (''work_item_id'', PStr (dq_item q)),
         (''workload_context_id'', PStr (dq_workload q))]) (\<lambda>content.
       Inr (namespaced_digest dispatch_idempotency_ns content)))"

definition dispatch_payload ::
  "verified_evidence \<Rightarrow> dispatch_policy \<Rightarrow> string \<Rightarrow> int \<Rightarrow> string \<Rightarrow> evidence_ref list \<Rightarrow> (string \<times> pyval) list"
where
  "dispatch_payload v p input_digest stream_version idempotency readiness_refs =
     (let q = ve_request v; plan = ve_plan v; selection = ve_selection v; lease = ve_lease v;
          (outcome, reasons) = evaluate_dispatch v in
      [(''canonical_input_digest'', PStr input_digest),
       (''causal_authorization_reference'', reference_doc (le_authorization lease)),
       (''dispatch_policy_reference'', policy_doc p),
       (''idempotency_identity'', PStr idempotency),
       (''lease_reference'', ref_doc (le_lease lease) (le_digest lease)),
       (''organization_id'', PStr (dq_organization q)),
       (''outcome'', PEnum (dispatch_outcome_value outcome)),
       (''plan_reference'', ref_doc (pe_plan plan) (pe_digest plan)),
       (''readiness_references'', PSeq (map reference_doc readiness_refs)),
       (''reason_codes'', ptuple reasons),
       (''reconstruction_metadata'', pdict [
          (''clock_source_id'', PStr (dq_clock q)),
          (''clock_source_version'', PStr (dq_clock_version q)),
          (''component_version'', PStr (dq_component q)),
          (''configuration_version'', PStr (dq_configuration q)),
          (''effective_at'', ptime (dq_effective q)),
          (''history_boundary'', PStr (dq_boundary q)),
          (''serialization_version'', PStr (dq_serialization q))]),
       (''schema_version'', PStr (dq_schema q)),
       (''selected_candidate_id'', PStr (dq_candidate q)),
       (''selection_reference'', ref_doc (se_selection selection) (se_digest selection)),
       (''stream_version'', PInt stream_version),
       (''work_item_id'', PStr (dq_item q)),
       (''workload_context_id'', PStr (dq_workload q))])"

text \<open>\<open>build_dispatch_decision\<close> up to the construction of the decision: its fields, the
  canonical input and the canonical decision.\<close>

definition assemble_dispatch_decision ::
  "normalizer \<Rightarrow> verified_evidence \<Rightarrow> dispatch_policy \<Rightarrow> int \<Rightarrow> string
    \<Rightarrow> (dispatch_decision \<times> string \<times> string) res"
where
  "assemble_dispatch_decision nfc v p stream_version idempotency =
     (let q = ve_request v; plan = ve_plan v; selection = ve_selection v; lease = ve_lease v in
     bindr (dispatch_input_content nfc v p) (\<lambda>input_content.
     let input_digest = namespaced_digest dispatch_input_ns input_content;
         (outcome, reasons) = evaluate_dispatch v in
     bindr (mapr (\<lambda>r. dispatch_reference nfc (re_readiness r) (re_digest r)) (ve_readiness v)) (\<lambda>readiness_refs.
     bindr (dispatch_content nfc (dispatch_payload v p input_digest stream_version idempotency readiness_refs))
       (\<lambda>decision_content.
     let decision_digest = namespaced_digest dispatch_digest_ns decision_content in
     bindr (dispatch_content nfc [
         (''canonical_decision_digest'', PStr decision_digest),
         (''stream_key'', ptuple [dq_organization q, dq_workload q, dq_plan q, dq_item q, dq_candidate q]),
         (''stream_version'', PInt stream_version)]) (\<lambda>id_content.
     bindr (dispatch_reference nfc (pe_plan plan) (pe_digest plan)) (\<lambda>plan_ref.
     bindr (dispatch_reference nfc (se_selection selection) (se_digest selection)) (\<lambda>selection_ref.
     bindr (dispatch_reference nfc (le_lease lease) (le_digest lease)) (\<lambda>lease_ref.
     bindr (dispatch_reference nfc (dp_id p) (dp_digest p)) (\<lambda>policy_ref.
       Inr (\<lparr>dd_id = namespaced_digest dispatch_id_ns id_content, dd_organization = dq_organization q,
          dd_workload = dq_workload q, dd_plan = plan_ref, dd_item = dq_item q,
          dd_selection = selection_ref, dd_candidate = dq_candidate q, dd_readiness = readiness_refs,
          dd_lease = lease_ref, dd_authorization = le_authorization lease, dd_policy = policy_ref,
          dd_policy_version = dp_version p, dd_outcome = outcome, dd_reasons = reasons,
          dd_input_digest = input_digest, dd_digest = decision_digest, dd_version = stream_version,
          dd_idempotency = idempotency,
          dd_metadata = \<lparr>dm_boundary = dq_boundary q, dm_effective = dq_effective q, dm_clock = dq_clock q,
             dm_clock_version = dq_clock_version q, dm_configuration = dq_configuration q,
             dm_component = supported_dispatch_component, dm_serialization = supported_serialization\<rparr>,
          dd_recorded = 0, dd_schema = supported_dispatch_schema\<rparr>,
          input_content, decision_content))))))))))"

definition build_dispatch_decision ::
  "normalizer \<Rightarrow> verified_evidence \<Rightarrow> dispatch_policy \<Rightarrow> int \<Rightarrow> string \<Rightarrow> pytime
    \<Rightarrow> (dispatch_decision \<times> string \<times> string) res"
where
  "build_dispatch_decision nfc v p stream_version idempotency recorded_at =
     bindr (assemble_dispatch_decision nfc v p stream_version idempotency)
       (\<lambda>(fields, input_content, decision_content).
     bindr (dispatch_decision_init nfc fields recorded_at) (\<lambda>decision.
       Inr (decision, input_content, decision_content)))"

definition dispatch_verify_recorded :: "dispatch_decision \<Rightarrow> string \<Rightarrow> string \<Rightarrow> unit res" where
  "dispatch_verify_recorded d input_content decision_content =
     bindr (raise_if (namespaced_digest dispatch_input_ns input_content \<noteq> dd_input_digest d) dispatch_mismatch) (\<lambda>_.
     raise_if (namespaced_digest dispatch_digest_ns decision_content \<noteq> dd_digest d) dispatch_mismatch)"

end
