(* ===== verification/StreamStore.thy ===== *)
theory StreamStore
  imports Prelude
begin

text \<open>
  The append-only store that the selection, plan, dispatch, claim and lease packages share
  in design: streams of records, an index by identifier, an index by idempotency identity,
  and an append that compares the expected version with the length of the stream.  Each
  package has its own class; the locale is what they have in common, proved once and
  interpreted on each of them.

  A dictionary of tuples that is read with \<open>get(key, ())\<close> is a function from keys to
  lists.
\<close>

definition store_inv ::
  "('k \<Rightarrow> 'r list) \<Rightarrow> (string \<Rightarrow> 'r option) \<Rightarrow> ('i \<Rightarrow> 'r option) \<Rightarrow> ('r \<Rightarrow> 'k) \<Rightarrow> ('r \<Rightarrow> 'i) \<Rightarrow>
     ('r \<Rightarrow> string) \<Rightarrow> ('r \<Rightarrow> int) \<Rightarrow> bool"
where
  "store_inv stream by_id idem key ikey ident version \<longleftrightarrow>
     (\<forall>k n. n < length (stream k) \<longrightarrow>
        version (stream k ! n) = int n + 1 \<and> key (stream k ! n) = k
        \<and> by_id (ident (stream k ! n)) = Some (stream k ! n))
     \<and> (\<forall>i r. by_id i = Some r \<longrightarrow> ident r = i \<and> r \<in> set (stream (key r)))
     \<and> (\<forall>i r. idem i = Some r \<longrightarrow> ikey r = i \<and> r \<in> set (stream (key r)))"

lemma store_inv_empty: "store_inv (\<lambda>_. []) (\<lambda>_. None) (\<lambda>_. None) key ikey ident version"
  by (simp add: store_inv_def)

lemma store_inv_append:
  assumes inv: "store_inv stream by_id idem key ikey ident version"
    and new: "by_id (ident r) = None"
    and ver: "version r = int (length (stream (key r))) + 1"
  shows "store_inv (stream(key r := stream (key r) @ [r])) (by_id(ident r \<mapsto> r)) (idem(ikey r \<mapsto> r))
    key ikey ident version"
proof -
  have fresh: "ident (stream k ! n) \<noteq> ident r" if "n < length (stream k)" for k n
    using inv new that unfolding store_inv_def by (metis option.distinct(1))
  have "version (s ! n) = int n + 1 \<and> key (s ! n) = k \<and> (by_id(ident r \<mapsto> r)) (ident (s ! n)) = Some (s ! n)"
    if "s = (stream(key r := stream (key r) @ [r])) k" "n < length s" for k n s
  proof (cases "k = key r \<and> n = length (stream k)")
    case True
    with that ver show ?thesis by simp
  next
    case False
    with that have "s ! n = stream k ! n" "n < length (stream k)"
      by (auto simp: nth_append split: if_splits)
    with fresh [of n k] inv show ?thesis unfolding store_inv_def by simp
  qed
  moreover have "x \<in> set ((stream(key r := stream (key r) @ [r])) (key x))" if "x \<in> set (stream (key x))" for x
    using that by (cases "key x = key r") auto
  moreover have "ident x = i \<and> x \<in> set (stream (key x))" if "by_id i = Some x" for i x
    using inv that unfolding store_inv_def by blast
  moreover have "ikey x = i \<and> x \<in> set (stream (key x))" if "idem i = Some x" for i x
    using inv that unfolding store_inv_def by blast
  ultimately show ?thesis unfolding store_inv_def by (simp split: if_split_asm)
qed

lemma store_inv_versions:
  assumes "store_inv stream by_id idem key ikey ident version"
  shows "map version (stream k) = map (\<lambda>n. int n + 1) [0..<length (stream k)]"
  using assms by (intro nth_equalityI) (simp_all add: store_inv_def)

lemma store_inv_stream:
  assumes "store_inv stream by_id idem key ikey ident version" and "r \<in> set (stream k)"
  shows "by_id (ident r) = Some r" and "key r = k"
  using assms unfolding store_inv_def by (metis in_set_conv_nth)+

locale stream_store =
  fixes append :: "'s \<Rightarrow> 'r \<Rightarrow> int \<Rightarrow> ('s \<times> 'e \<times> bool) res"
    and stream :: "'s \<Rightarrow> 'k \<Rightarrow> 'r list"
    and by_id :: "'s \<Rightarrow> string \<Rightarrow> 'r option"
    and idem :: "'s \<Rightarrow> 'i \<Rightarrow> 'r option"
    and key :: "'r \<Rightarrow> 'k"
    and ikey :: "'r \<Rightarrow> 'i"
    and content :: "'r \<Rightarrow> string"
    and value_of :: "'r \<Rightarrow> 'e"
    and ident :: "'r \<Rightarrow> string"
    and version :: "'r \<Rightarrow> int"
  assumes append_Inr: "append st r n = Inr (st', e, created) \<Longrightarrow>
      (\<exists>prior. idem st (ikey r) = Some prior \<and> content prior = content r \<and> st' = st
         \<and> e = value_of prior \<and> \<not> created)
      \<or> (idem st (ikey r) = None \<and> n = int (length (stream st (key r))) \<and> version r = n + 1
         \<and> by_id st (ident r) = None
         \<and> stream st' = (stream st)(key r := stream st (key r) @ [r])
         \<and> by_id st' = (by_id st)(ident r \<mapsto> r) \<and> idem st' = (idem st)(ikey r \<mapsto> r)
         \<and> e = value_of r \<and> created)"
    and append_known: "idem st (ikey r) = Some prior \<Longrightarrow> content prior = content r \<Longrightarrow>
      append st r n = Inr (st, value_of prior, False)"
begin

lemma append_inv:
  assumes "store_inv (stream st) (by_id st) (idem st) key ikey ident version"
    and "append st r n = Inr (st', e, created)"
  shows "store_inv (stream st') (by_id st') (idem st') key ikey ident version"
  using append_Inr [OF assms(2)] store_inv_append [OF assms(1), of r] assms(1) by auto

text \<open>A stream only grows, at its end, and no identifier is bound anew.\<close>

lemma append_prefix:
  assumes "append st r n = Inr (st', e, created)"
  shows "\<exists>new. stream st' k = stream st k @ new"
  using append_Inr [OF assms] by auto

lemma append_keeps_id:
  assumes "append st r n = Inr (st', e, created)" and "by_id st i = Some x"
  shows "by_id st' i = Some x"
  using append_Inr [OF assms(1)] assms(2) by auto

lemma append_keeps_idem:
  assumes "append st r n = Inr (st', e, created)" and "idem st i = Some x"
  shows "idem st' i = Some x"
  using append_Inr [OF assms(1)] assms(2) by auto

lemma append_again:
  assumes "append st r n = Inr (st', e, created)" and "ikey r' = ikey r" and "content r' = content r"
  shows "append st' r' m = Inr (st', e, False)"
  using append_Inr [OF assms(1)] append_known [of st' r'] assms(2,3) by auto

lemma append_created:
  assumes "append st r n = Inr (st', e, True)"
  shows "n = int (length (stream st (key r)))" "version r = n + 1" "e = value_of r"
    "stream st' (key r) = stream st (key r) @ [r]" "by_id st' (ident r) = Some r" "idem st (ikey r) = None"
  using append_Inr [OF assms] by auto

lemma append_retained:
  assumes "store_inv (stream st) (by_id st) (idem st) key ikey ident version"
    and "append st r n = Inr (st', e, created)"
  shows "\<exists>x. by_id st' (ident x) = Some x \<and> e = value_of x \<and> content x = content r \<and> ikey x = ikey r"
proof -
  from append_Inr [OF assms(2)] show ?thesis
  proof
    assume "\<exists>prior. idem st (ikey r) = Some prior \<and> content prior = content r \<and> st' = st
         \<and> e = value_of prior \<and> \<not> created"
    then obtain prior where p: "idem st (ikey r) = Some prior" "content prior = content r" "st' = st" "e = value_of prior"
      by blast
    with assms(1) have "prior \<in> set (stream st (key prior))" "ikey prior = ikey r"
      unfolding store_inv_def by metis+
    with store_inv_stream(1) [OF assms(1)] p show ?thesis by metis
  qed auto
qed

text \<open>Of two appends that expect the same version of a stream, at most one creates an
  entry.\<close>

lemma append_race:
  assumes "append st r n = Inr (st1, e, True)" and "key r' = key r"
  shows "append st1 r' n \<noteq> Inr (st2, e', True)"
proof
  assume "append st1 r' n = Inr (st2, e', True)"
  from append_created(1) [OF this] append_created(1,4) [OF assms(1)] assms(2) show False by simp
qed

end

end
