(* ===== verification/DispatchService.thy ===== *)
theory DispatchService
  imports DispatchDecision StreamStore
begin

text \<open>
  The repository and the service of \<open>app/runtime/dispatch_decision/service.py\<close> with the
  record of \<open>ports.py\<close>.  The time at which a decision is recorded, which the code reads
  from the clock, is an argument; whether the accepted decision is the one just built,
  which the code tests with \<open>is\<close>, is a flag that \<open>append\<close> returns.
\<close>

section \<open>The repository\<close>

record dispatch_record =
  dr_request :: dispatch_request
  dr_decision :: dispatch_decision
  dr_idempotency :: string
  dr_input :: string
  dr_content :: string

record dispatch_state =
  ds_streams :: "dispatch_key \<Rightarrow> dispatch_record list"
  ds_by_id :: "string \<rightharpoonup> dispatch_record"
  ds_idempotency :: "dispatch_key \<times> string \<rightharpoonup> dispatch_record"

definition dispatch_init :: dispatch_state where
  "dispatch_init = \<lparr>ds_streams = (\<lambda>_. []), ds_by_id = Map.empty, ds_idempotency = Map.empty\<rparr>"

definition dispatch_record_key :: "dispatch_record \<Rightarrow> dispatch_key" where
  "dispatch_record_key r = dispatch_stream_key (dr_request r)"

definition dispatch_append ::
  "dispatch_state \<Rightarrow> dispatch_record \<Rightarrow> int \<Rightarrow> (dispatch_state \<times> dispatch_decision \<times> bool) res"
where
  "dispatch_append st r expected_version =
     (let key = dispatch_record_key r; d = dr_decision r in
      case ds_idempotency st (key, dr_idempotency r) of
        Some prior \<Rightarrow>
          if dr_input prior \<noteq> dr_input r then Inl (DispatchError DispatchDecisionIdempotencyConflict)
          else Inr (st, dr_decision prior, False)
      | None \<Rightarrow>
          (let history = ds_streams st key in
           if expected_version \<noteq> int (length history)
           then Inl (DispatchError DispatchDecisionVersionConflict)
           else if dd_version d \<noteq> expected_version + 1
           then Inl (DispatchError DispatchDecisionVersionConflict)
           else if ds_by_id st (dd_id d) \<noteq> None
           then Inl (DispatchError DispatchDecisionIdempotencyConflict)
           else Inr (\<lparr>ds_streams = (ds_streams st)(key := history @ [r]),
                      ds_by_id = (ds_by_id st)(dd_id d \<mapsto> r),
                      ds_idempotency = (ds_idempotency st)((key, dr_idempotency r) \<mapsto> r)\<rparr>, d, True)))"

definition dispatch_current :: "dispatch_state \<Rightarrow> dispatch_key \<Rightarrow> dispatch_decision option" where
  "dispatch_current st key =
     (let history = ds_streams st key in if history = [] then None else Some (dr_decision (last history)))"

definition dispatch_store_inv :: "dispatch_state \<Rightarrow> bool" where
  "dispatch_store_inv st \<longleftrightarrow>
     store_inv (ds_streams st) (ds_by_id st) (ds_idempotency st) dispatch_record_key
       (\<lambda>r. (dispatch_record_key r, dr_idempotency r)) (\<lambda>r. dd_id (dr_decision r))
       (\<lambda>r. dd_version (dr_decision r))"

interpretation dispatches: stream_store dispatch_append ds_streams ds_by_id ds_idempotency
  dispatch_record_key "\<lambda>r. (dispatch_record_key r, dr_idempotency r)" dr_input dr_decision
  "\<lambda>r. dd_id (dr_decision r)" "\<lambda>r. dd_version (dr_decision r)"
  by unfold_locales
    (auto simp: dispatch_append_def Let_def split: option.splits if_splits)

section \<open>The service\<close>

text \<open>What the service asks its four sources: \<open>get_scoped\<close> of each.\<close>

type_synonym 'a lookup = "string \<Rightarrow> string \<Rightarrow> string \<Rightarrow> 'a option res"

record dispatch_sources =
  src_plans :: "plan_evidence lookup"
  src_selections :: "selection_evidence lookup"
  src_readiness :: "readiness_evidence lookup"
  src_leases :: "lease_evidence lookup"

definition dispatch_missing :: exc where
  "dispatch_missing = DispatchError DispatchEvidenceMissing"

definition resolve_readiness ::
  "readiness_evidence lookup \<Rightarrow> string \<Rightarrow> string \<Rightarrow> evidence_ref \<Rightarrow> readiness_evidence res"
where
  "resolve_readiness get org wl reference =
     bindr (require_evidence dispatch_missing get (artifact_id reference) org wl) (\<lambda>retained.
     bindr (raise_if (re_digest retained \<noteq> reference_digest reference) dispatch_mismatch) (\<lambda>_.
       Inr retained))"

definition dispatch_resolve ::
  "normalizer \<Rightarrow> dispatch_sources \<Rightarrow> dispatch_request \<Rightarrow> (verified_evidence \<times> dispatch_policy) res"
where
  "dispatch_resolve nfc src q =
     (let org = dq_organization q; wl = dq_workload q in
     bindr (require_evidence dispatch_missing (src_plans src) (dq_plan q) org wl) (\<lambda>plan.
     bindr (require_evidence dispatch_missing (src_selections src) (dq_selection q) org wl) (\<lambda>selection.
     bindr (require_evidence dispatch_missing (src_leases src) (dq_lease q) org wl) (\<lambda>lease.
     bindr (raise_if (pe_digest plan \<noteq> dq_plan_digest q) dispatch_mismatch) (\<lambda>_.
     bindr (raise_if (se_digest selection \<noteq> dq_selection_digest q) dispatch_mismatch) (\<lambda>_.
     bindr (raise_if (le_digest lease \<noteq> dq_lease_digest q) dispatch_mismatch) (\<lambda>_.
     bindr (raise_if (dq_item q \<notin> set (pe_items plan)) dispatch_invalid) (\<lambda>_.
     bindr (raise_if (artifact_id (se_plan selection) \<noteq> pe_plan plan
             \<or> reference_digest (se_plan selection) \<noteq> pe_digest plan) dispatch_invalid) (\<lambda>_.
     bindr (case filter (\<lambda>c. candidate_id c = dq_candidate q) (se_candidates selection) of
              [c] \<Rightarrow> Inr c
            | _ \<Rightarrow> Inl dispatch_invalid) (\<lambda>candidate.
     bindr (raise_if (se_boundary selection \<noteq> dq_boundary q) dispatch_invalid) (\<lambda>_.
     bindr (mapr (resolve_readiness (src_readiness src) org wl) (candidate_readiness candidate)) (\<lambda>readiness.
     bindr (raise_if (le_plan lease \<noteq> pe_plan plan) dispatch_invalid) (\<lambda>_.
     bindr (raise_if (dq_item q \<notin> set (le_items lease)) dispatch_invalid) (\<lambda>_.
     bindr (dispatch_policy_for nfc (dq_policy q) (dq_policy_version q) (dq_policy_digest q)) (\<lambda>policy.
       Inr (\<lparr>ve_request = q, ve_plan = plan, ve_selection = selection, ve_candidate = candidate,
             ve_readiness = readiness, ve_lease = lease\<rparr>, policy))))))))))))))))"

datatype evaluation_outcome = EvaluationCreated | EvaluationExistingEquivalent

definition evaluation_outcome_of :: "bool \<Rightarrow> evaluation_outcome" where
  "evaluation_outcome_of created = (if created then EvaluationCreated else EvaluationExistingEquivalent)"

definition dispatch_evaluate ::
  "normalizer \<Rightarrow> dispatch_sources \<Rightarrow> dispatch_state \<Rightarrow> dispatch_request \<Rightarrow> int \<Rightarrow> string \<Rightarrow> pytime
    \<Rightarrow> (dispatch_state \<times> evaluation_outcome \<times> dispatch_decision \<times> int) res"
where
  "dispatch_evaluate nfc src st q expected_version key now =
     bindr (dispatch_resolve nfc src q) (\<lambda>(evidence, policy).
     bindr (dispatch_idempotency_identity nfc q key) (\<lambda>identity.
     bindr (build_dispatch_decision nfc evidence policy (expected_version + 1) identity now)
       (\<lambda>(decision, input_content, decision_content).
     bindr (dispatch_append st \<lparr>dr_request = q, dr_decision = decision, dr_idempotency = identity,
              dr_input = input_content, dr_content = decision_content\<rparr> expected_version)
       (\<lambda>(st', accepted, created).
       Inr (st', evaluation_outcome_of created, accepted, dd_version accepted)))))"

definition dispatch_get :: "dispatch_state \<Rightarrow> string \<Rightarrow> string \<Rightarrow> dispatch_decision res" where
  "dispatch_get st i org =
     (case ds_by_id st i of
        None \<Rightarrow> Inl (DispatchError DispatchDecisionNotFound)
      | Some r \<Rightarrow>
          if dd_organization (dr_decision r) \<noteq> org then Inl (DispatchError DispatchDecisionNotFound)
          else Inr (dr_decision r))"

definition dispatch_history :: "dispatch_state \<Rightarrow> dispatch_request \<Rightarrow> dispatch_decision list" where
  "dispatch_history st q = map dr_decision (ds_streams st (dispatch_stream_key q))"

definition dispatch_reconstruct ::
  "normalizer \<Rightarrow> dispatch_sources \<Rightarrow> dispatch_state \<Rightarrow> string \<Rightarrow> string \<Rightarrow> dispatch_decision res"
where
  "dispatch_reconstruct nfc src st i org =
     (case ds_by_id st i of
        None \<Rightarrow> Inl (DispatchError DispatchDecisionNotFound)
      | Some r \<Rightarrow>
          if dd_organization (dr_decision r) \<noteq> org then Inl (DispatchError DispatchDecisionNotFound)
          else
            (let history = ds_streams st (dispatch_record_key r) in
            bindr (raise_if (history = []
                \<or> map (\<lambda>x. dd_version (dr_decision x)) history \<noteq> map (\<lambda>n. int n + 1) [0..<length history])
              (DispatchError DispatchDecisionReconstructionFailed)) (\<lambda>_.
            bindr (dispatch_verify_recorded (dr_decision r) (dr_input r) (dr_content r)) (\<lambda>_.
            bindr (dispatch_resolve nfc src (dr_request r)) (\<lambda>(evidence, policy).
            bindr (dispatch_input_content nfc evidence policy) (\<lambda>expected_input.
            bindr (raise_if (expected_input \<noteq> dr_input r) dispatch_mismatch) (\<lambda>_.
            bindr (build_dispatch_decision nfc evidence policy (dd_version (dr_decision r))
                (dr_idempotency r) (utc (dd_recorded (dr_decision r))))
              (\<lambda>(rebuilt, rebuilt_input, rebuilt_content).
            bindr (raise_if (rebuilt_input \<noteq> dr_input r \<or> rebuilt_content \<noteq> dr_content r
                \<or> rebuilt \<noteq> dr_decision r) (DispatchError DispatchDecisionReplayDiverged)) (\<lambda>_.
              Inr (rebuilt\<lparr>dd_recorded := dd_recorded (dr_decision r)\<rparr>))))))))))"

end
