(* ===== verification/DispatchProperties.thy ===== *)
theory DispatchProperties
  imports DispatchService
begin

text \<open>
  What dispatch decisions promise: an approval is backed by retained evidence, a decision
  is reproduced from that evidence in every later state, and the stream of a work item is
  written by compare-and-set.
\<close>

section \<open>Worlds\<close>

text \<open>The four in-memory sources and the repository of a service, and what can happen to
  them: evidence is retained, or a request is evaluated.\<close>

record dispatch_world =
  dw_plans :: "plan_evidence items"
  dw_selections :: "selection_evidence items"
  dw_readiness :: "readiness_evidence items"
  dw_leases :: "lease_evidence items"
  dw_repository :: dispatch_state

definition dispatch_world_init :: dispatch_world where
  "dispatch_world_init = \<lparr>dw_plans = Map.empty, dw_selections = Map.empty, dw_readiness = Map.empty,
     dw_leases = Map.empty, dw_repository = dispatch_init\<rparr>"

definition dispatch_sources_of :: "normalizer \<Rightarrow> dispatch_world \<Rightarrow> dispatch_sources" where
  "dispatch_sources_of nfc w =
     \<lparr>src_plans = source_get (validate_plan nfc) pe_organization pe_workload (dw_plans w),
      src_selections = source_get (validate_selection nfc) se_organization se_workload (dw_selections w),
      src_readiness = source_get (validate_readiness nfc) re_organization re_workload (dw_readiness w),
      src_leases = source_get (validate_lease nfc) le_organization le_workload (dw_leases w)\<rparr>"

inductive dispatch_step :: "normalizer \<Rightarrow> dispatch_world \<Rightarrow> dispatch_world \<Rightarrow> bool" for nfc where
  plan: "source_retain dispatch_invalid (validate_plan nfc) pe_plan (dw_plans w) v = Inr items \<Longrightarrow>
    dispatch_step nfc w (w\<lparr>dw_plans := items\<rparr>)"
| selection: "source_retain dispatch_invalid (validate_selection nfc) se_selection (dw_selections w) v = Inr items \<Longrightarrow>
    dispatch_step nfc w (w\<lparr>dw_selections := items\<rparr>)"
| readiness: "source_retain dispatch_invalid (validate_readiness nfc) re_readiness (dw_readiness w) v = Inr items \<Longrightarrow>
    dispatch_step nfc w (w\<lparr>dw_readiness := items\<rparr>)"
| lease: "source_retain dispatch_invalid (validate_lease nfc) le_lease (dw_leases w) v = Inr items \<Longrightarrow>
    dispatch_step nfc w (w\<lparr>dw_leases := items\<rparr>)"
| evaluate: "dispatch_evaluate nfc (dispatch_sources_of nfc w) (dw_repository w) q n key now = Inr (st, out, d, m) \<Longrightarrow>
    dispatch_step nfc w (w\<lparr>dw_repository := st\<rparr>)"

inductive dispatch_steps :: "normalizer \<Rightarrow> dispatch_world \<Rightarrow> dispatch_world \<Rightarrow> bool" for nfc where
  none: "dispatch_steps nfc w w"
| step: "dispatch_steps nfc w w1 \<Longrightarrow> dispatch_step nfc w1 w2 \<Longrightarrow> dispatch_steps nfc w w2"

section \<open>Evidence stays\<close>

definition sources_le :: "dispatch_sources \<Rightarrow> dispatch_sources \<Rightarrow> bool" where
  "sources_le a b \<longleftrightarrow>
     (\<forall>i org wl v. src_plans a i org wl = Inr (Some v) \<longrightarrow> src_plans b i org wl = Inr (Some v))
     \<and> (\<forall>i org wl v. src_selections a i org wl = Inr (Some v) \<longrightarrow> src_selections b i org wl = Inr (Some v))
     \<and> (\<forall>i org wl v. src_readiness a i org wl = Inr (Some v) \<longrightarrow> src_readiness b i org wl = Inr (Some v))
     \<and> (\<forall>i org wl v. src_leases a i org wl = Inr (Some v) \<longrightarrow> src_leases b i org wl = Inr (Some v))"

lemma sources_le_refl [simp]: "sources_le a a"
  by (simp add: sources_le_def)

lemma sources_le_trans: "sources_le a b \<Longrightarrow> sources_le b c \<Longrightarrow> sources_le a c"
  by (simp add: sources_le_def)

lemma dispatch_step_sources:
  assumes "dispatch_step nfc w w'"
  shows "sources_le (dispatch_sources_of nfc w) (dispatch_sources_of nfc w')"
  using assms
  by cases (auto simp: sources_le_def dispatch_sources_of_def dest: source.retain_keeps)

lemma mapr_Inr_mono:
  "(\<And>x y. f x = Inr y \<Longrightarrow> g x = Inr y) \<Longrightarrow> mapr f xs = Inr ys \<Longrightarrow> mapr g xs = Inr ys"
  unfolding mapr_Inr_conv by (rule list_all2_mono)

lemma resolve_readiness_mono:
  "(\<And>i v. get i org wl = Inr (Some v) \<Longrightarrow> get' i org wl = Inr (Some v)) \<Longrightarrow>
     resolve_readiness get org wl r = Inr x \<Longrightarrow> resolve_readiness get' org wl r = Inr x"
  by (auto simp: resolve_readiness_def res_simps)

lemma dispatch_resolve_Inr:
  "dispatch_resolve nfc src q = Inr (v, p) \<longleftrightarrow>
     (let org = dq_organization q; wl = dq_workload q in
      ve_request v = q
      \<and> src_plans src (dq_plan q) org wl = Inr (Some (ve_plan v))
      \<and> src_selections src (dq_selection q) org wl = Inr (Some (ve_selection v))
      \<and> src_leases src (dq_lease q) org wl = Inr (Some (ve_lease v))
      \<and> pe_digest (ve_plan v) = dq_plan_digest q \<and> se_digest (ve_selection v) = dq_selection_digest q
      \<and> le_digest (ve_lease v) = dq_lease_digest q
      \<and> dq_item q \<in> set (pe_items (ve_plan v))
      \<and> artifact_id (se_plan (ve_selection v)) = pe_plan (ve_plan v)
      \<and> reference_digest (se_plan (ve_selection v)) = pe_digest (ve_plan v)
      \<and> filter (\<lambda>c. candidate_id c = dq_candidate q) (se_candidates (ve_selection v)) = [ve_candidate v]
      \<and> se_boundary (ve_selection v) = dq_boundary q
      \<and> mapr (resolve_readiness (src_readiness src) org wl) (candidate_readiness (ve_candidate v)) = Inr (ve_readiness v)
      \<and> le_plan (ve_lease v) = pe_plan (ve_plan v) \<and> dq_item q \<in> set (le_items (ve_lease v))
      \<and> dispatch_policy_for nfc (dq_policy q) (dq_policy_version q) (dq_policy_digest q) = Inr p)"
  by (cases v) (auto simp: dispatch_resolve_def Let_def res_simps split: list.splits)

lemma dispatch_resolve_mono:
  assumes "sources_le a b" and "dispatch_resolve nfc a q = Inr (v, p)"
  shows "dispatch_resolve nfc b q = Inr (v, p)"
proof -
  have "mapr (resolve_readiness (src_readiness b) org wl) cs = Inr rs"
    if "mapr (resolve_readiness (src_readiness a) org wl) cs = Inr rs" for org wl cs rs
    by (rule mapr_Inr_mono [OF resolve_readiness_mono that]) (use assms(1) in \<open>simp_all add: sources_le_def\<close>)
  with assms show ?thesis unfolding dispatch_resolve_Inr Let_def sources_le_def by blast
qed

section \<open>Decisions are rebuilt\<close>

lemma dispatch_decision_init_Inr:
  "dispatch_decision_init nfc d t = Inr d' \<Longrightarrow>
     d' = d\<lparr>dd_id := nfc (dd_id d), dd_input_digest := nfc (dd_input_digest d), dd_digest := nfc (dd_digest d),
        dd_idempotency := nfc (dd_idempotency d), dd_reasons := dd_reasons d',
        dd_readiness := sort (dd_readiness d), dd_recorded := instant_of t\<rparr>
     \<and> dd_version d \<ge> 1 \<and> dispatch_decision_init nfc d (utc (dd_recorded d')) = Inr d'"
  by (auto simp: dispatch_decision_init_def res_simps Let_def dispatch_hex_def dispatch_time_def)

lemma assemble_dispatch_Inr:
  "assemble_dispatch_decision nfc v p n i = Inr (d, ic, dc) \<Longrightarrow>
     dispatch_input_content nfc v p = Inr ic \<and> dd_input_digest d = namespaced_digest dispatch_input_ns ic
     \<and> dd_digest d = namespaced_digest dispatch_digest_ns dc \<and> dd_version d = n
     \<and> dd_organization d = dq_organization (ve_request v) \<and> dd_outcome d = fst (evaluate_dispatch v)"
  unfolding assemble_dispatch_decision_def Let_def
  by (cases "evaluate_dispatch v") (auto simp only: bindr_Inr_conv prod.case fst_conv sum.inject prod.inject
      dispatch_decision.select_convs)

lemma build_dispatch_Inr:
  assumes "nfc_laws nfc" and "build_dispatch_decision nfc v p n i t = Inr (d, ic, dc)"
  shows "build_dispatch_decision nfc v p n i (utc (dd_recorded d)) = Inr (d, ic, dc)"
    and "dispatch_input_content nfc v p = Inr ic" and "dispatch_verify_recorded d ic dc = Inr ()"
    and "dd_version d = n" and "n \<ge> 1" and "dd_organization d = dq_organization (ve_request v)"
    and "dd_outcome d = fst (evaluate_dispatch v)"
proof -
  from assms(2) obtain raw where raw: "assemble_dispatch_decision nfc v p n i = Inr (raw, ic, dc)"
    "dispatch_decision_init nfc raw t = Inr d"
    by (auto simp: build_dispatch_decision_def bindr_Inr_conv)
  note a = assemble_dispatch_Inr [OF raw(1)] and b = dispatch_decision_init_Inr [OF raw(2)]
  from b raw(1) show "build_dispatch_decision nfc v p n i (utc (dd_recorded d)) = Inr (d, ic, dc)"
    by (simp add: build_dispatch_decision_def)
  from a show "dispatch_input_content nfc v p = Inr ic" by blast
  have "dd_input_digest d = dd_input_digest raw" "dd_digest d = dd_digest raw" "dd_version d = dd_version raw"
    "dd_organization d = dd_organization raw" "dd_outcome d = dd_outcome raw" "1 \<le> dd_version raw"
    using a arg_cong [OF conjunct1 [OF b], of dd_input_digest] arg_cong [OF conjunct1 [OF b], of dd_digest]
      arg_cong [OF conjunct1 [OF b], of dd_version] arg_cong [OF conjunct1 [OF b], of dd_organization]
      arg_cong [OF conjunct1 [OF b], of dd_outcome] b
    by (simp_all add: nfc_hex [OF assms(1)])
  with a show "dispatch_verify_recorded d ic dc = Inr ()" "dd_version d = n" "n \<ge> 1"
    "dd_organization d = dq_organization (ve_request v)" "dd_outcome d = fst (evaluate_dispatch v)"
    by (simp_all add: dispatch_verify_recorded_def)
qed

definition produced_by :: "normalizer \<Rightarrow> dispatch_sources \<Rightarrow> dispatch_record \<Rightarrow> bool" where
  "produced_by nfc src r \<longleftrightarrow>
     (\<exists>v p t. dispatch_resolve nfc src (dr_request r) = Inr (v, p)
       \<and> build_dispatch_decision nfc v p (dd_version (dr_decision r)) (dr_idempotency r) t
           = Inr (dr_decision r, dr_input r, dr_content r))"

definition dispatch_inv :: "normalizer \<Rightarrow> dispatch_world \<Rightarrow> bool" where
  "dispatch_inv nfc w \<longleftrightarrow>
     dispatch_store_inv (dw_repository w)
     \<and> (\<forall>i r. ds_by_id (dw_repository w) i = Some r \<longrightarrow> produced_by nfc (dispatch_sources_of nfc w) r)
     \<and> source_ok pe_plan (dw_plans w) \<and> source_ok se_selection (dw_selections w)
     \<and> source_ok re_readiness (dw_readiness w) \<and> source_ok le_lease (dw_leases w)"

lemma produced_by_mono: "sources_le a b \<Longrightarrow> produced_by nfc a r \<Longrightarrow> produced_by nfc b r"
  unfolding produced_by_def using dispatch_resolve_mono by blast

lemma dispatch_evaluate_Inr:
  assumes "dispatch_evaluate nfc src st q n key now = Inr (st', out, d, m)"
  obtains v p identity d0 ic dc created where
    "dispatch_resolve nfc src q = Inr (v, p)"
    "dispatch_idempotency_identity nfc q key = Inr identity"
    "build_dispatch_decision nfc v p (n + 1) identity now = Inr (d0, ic, dc)"
    "dispatch_append st \<lparr>dr_request = q, dr_decision = d0, dr_idempotency = identity, dr_input = ic, dr_content = dc\<rparr> n
      = Inr (st', d, created)"
    "out = evaluation_outcome_of created" "m = dd_version d"
  using assms by (auto simp: dispatch_evaluate_def bindr_Inr_conv)

lemma dispatch_store_inv_append:
  "dispatch_store_inv st \<Longrightarrow> dispatch_append st r n = Inr (st', d, c) \<Longrightarrow> dispatch_store_inv st'"
  unfolding dispatch_store_inv_def by (rule dispatches.append_inv)

lemma dispatch_step_inv:
  assumes nfc: "nfc_laws nfc" and step: "dispatch_step nfc w w'" and inv: "dispatch_inv nfc w"
  shows "dispatch_inv nfc w'"
proof -
  note le = dispatch_step_sources [OF step]
  have p: "produced_by nfc (dispatch_sources_of nfc w') r" if "ds_by_id (dw_repository w) i = Some r" for i r
    using inv that produced_by_mono [OF le] unfolding dispatch_inv_def by blast
  from step show ?thesis
  proof cases
    case (evaluate q n key now st out d m)
    then obtain v p identity d0 ic dc created where e:
      "dispatch_resolve nfc (dispatch_sources_of nfc w) q = Inr (v, p)"
      "build_dispatch_decision nfc v p (n + 1) identity now = Inr (d0, ic, dc)"
      "dispatch_append (dw_repository w) \<lparr>dr_request = q, dr_decision = d0, dr_idempotency = identity, dr_input = ic, dr_content = dc\<rparr> n
        = Inr (st, d, created)" (is "dispatch_append _ ?r _ = _")
      by (elim dispatch_evaluate_Inr)
    have "produced_by nfc (dispatch_sources_of nfc w) ?r"
      using e build_dispatch_Inr(4) [OF nfc e(2)] unfolding produced_by_def by auto
    moreover have "dispatch_sources_of nfc w' = dispatch_sources_of nfc w"
      by (simp add: evaluate(1) dispatch_sources_of_def)
    moreover have "ds_by_id st = ds_by_id (dw_repository w) \<or> ds_by_id st = (ds_by_id (dw_repository w))(dd_id d0 \<mapsto> ?r)"
      using dispatches.append_Inr [OF e(3)] by auto
    ultimately show ?thesis
      using inv p dispatch_store_inv_append [OF _ e(3)] evaluate(1)
      unfolding dispatch_inv_def by (auto split: if_splits)
  qed (use inv p in \<open>auto simp: dispatch_inv_def dest: source.retain_ok\<close>)
qed

lemma dispatch_init_inv: "dispatch_inv nfc dispatch_world_init"
  by (simp add: dispatch_inv_def dispatch_world_init_def dispatch_init_def dispatch_store_inv_def store_inv_empty)

lemma dispatch_steps_inv:
  assumes "nfc_laws nfc"
  shows "dispatch_steps nfc w w' \<Longrightarrow> dispatch_inv nfc w \<Longrightarrow> dispatch_inv nfc w'"
  by (induction rule: dispatch_steps.induct) (auto intro: dispatch_step_inv [OF assms])

lemma dispatch_step_keeps:
  assumes "dispatch_step nfc w w'" and "ds_by_id (dw_repository w) i = Some r"
  shows "ds_by_id (dw_repository w') i = Some r"
  using assms
proof cases
  case (evaluate q n key now st out d m)
  then show ?thesis
    using assms(2) by (elim dispatch_evaluate_Inr) (auto dest: dispatches.append_keeps_id)
qed (use assms in simp_all)

lemma dispatch_steps_keep:
  "dispatch_steps nfc w w' \<Longrightarrow> ds_by_id (dw_repository w) i = Some r \<Longrightarrow> ds_by_id (dw_repository w') i = Some r"
  by (induction rule: dispatch_steps.induct) (auto dest: dispatch_step_keeps)

text \<open>Reconstruction of a retained record succeeds.\<close>

lemma dispatch_reconstruct_retained:
  assumes nfc: "nfc_laws nfc" and inv: "dispatch_inv nfc w" and r: "ds_by_id (dw_repository w) i = Some r"
    and org: "dd_organization (dr_decision r) = org"
  shows "dispatch_reconstruct nfc (dispatch_sources_of nfc w) (dw_repository w) i org = Inr (dr_decision r)"
proof -
  let ?h = "ds_streams (dw_repository w) (dispatch_record_key r)"
  from inv r obtain v p t where b: "dispatch_resolve nfc (dispatch_sources_of nfc w) (dr_request r) = Inr (v, p)"
    "build_dispatch_decision nfc v p (dd_version (dr_decision r)) (dr_idempotency r) t
      = Inr (dr_decision r, dr_input r, dr_content r)"
    unfolding dispatch_inv_def produced_by_def by blast
  have s: "store_inv (ds_streams (dw_repository w)) (ds_by_id (dw_repository w)) (ds_idempotency (dw_repository w))
      dispatch_record_key (\<lambda>r. (dispatch_record_key r, dr_idempotency r)) (\<lambda>r. dd_id (dr_decision r))
      (\<lambda>r. dd_version (dr_decision r))"
    using inv unfolding dispatch_inv_def dispatch_store_inv_def by blast
  then have "?h \<noteq> []" using r unfolding store_inv_def by (metis empty_iff empty_set)
  then show ?thesis
    using r org b build_dispatch_Inr [OF nfc b(2)] store_inv_versions [OF s, of "dispatch_record_key r"]
    by (simp add: dispatch_reconstruct_def Let_def)
qed

section \<open>The policy\<close>

lemma list_all_not_ex:
  "list_all (\<lambda>r. P r \<and> \<not> Q r) rs = (\<not> list_ex (\<lambda>r. \<not> P r) rs \<and> \<not> list_ex Q rs)"
  by (induction rs) auto

lemma approved_iff:
  "fst (evaluate_dispatch v) = Approved \<longleftrightarrow>
     le_bounded (ve_lease v)
      \<and> le_effective (ve_lease v) \<le> dq_effective (ve_request v)
      \<and> dq_effective (ve_request v) \<le> le_expires (ve_lease v)
      \<and> \<not> le_revoked (ve_lease v)
      \<and> list_all (\<lambda>r. dq_effective (ve_request v) \<le> re_expires r \<and> \<not> re_superseded r) (ve_readiness v)"
  unfolding evaluate_dispatch_def Let_def list_all_not_ex by (auto simp: not_le not_less)

text \<open>A retry: the decision is built again with another time of recording.\<close>

lemma build_dispatch_retry:
  assumes "build_dispatch_decision nfc v p n i t = Inr (d, ic, dc)" and "utcoffset t' \<noteq> None"
  shows "\<exists>d'. build_dispatch_decision nfc v p n i t' = Inr (d', ic, dc)"
  using assms
  by (auto simp: build_dispatch_decision_def dispatch_decision_init_def bindr_Inr_conv Let_def dispatch_time_def
      utc_or_raise_def raise_if_Inr_conv split: option.splits)

lemma dispatch_evaluate_again:
  assumes "dispatch_evaluate nfc src st q n key now = Inr (st', out, d, m)"
    and "sources_le src src'" and "utcoffset now' \<noteq> None"
    and idem: "\<And>i r. ds_idempotency st' i = Some r \<Longrightarrow> ds_idempotency st'' i = Some r"
  shows "dispatch_evaluate nfc src' st'' q n key now' = Inr (st'', EvaluationExistingEquivalent, d, m)"
proof -
  from assms(1) obtain v p identity d0 ic dc created where e:
    "dispatch_resolve nfc src q = Inr (v, p)" "dispatch_idempotency_identity nfc q key = Inr identity"
    "build_dispatch_decision nfc v p (n + 1) identity now = Inr (d0, ic, dc)"
    "dispatch_append st \<lparr>dr_request = q, dr_decision = d0, dr_idempotency = identity, dr_input = ic, dr_content = dc\<rparr> n
      = Inr (st', d, created)" "m = dd_version d"
    by (elim dispatch_evaluate_Inr)
  obtain d' where d': "build_dispatch_decision nfc v p (n + 1) identity now' = Inr (d', ic, dc)"
    using build_dispatch_retry [OF e(3) assms(3)] by blast
  let ?r = "\<lparr>dr_request = q, dr_decision = d', dr_idempotency = identity, dr_input = ic, dr_content = dc\<rparr>"
  obtain x where x: "ds_idempotency st' (dispatch_record_key ?r, identity) = Some x" "dr_input x = ic" "dr_decision x = d"
    using dispatches.append_Inr [OF e(4)] by (auto simp: dispatch_record_key_def)
  have "dispatch_append st'' ?r n = Inr (st'', d, False)"
    using dispatches.append_known [of st'' ?r x n] idem [OF x(1)] x(2,3) by simp
  then show ?thesis
    using e d' dispatch_resolve_mono [OF assms(2) e(1)]
    by (simp add: dispatch_evaluate_def evaluation_outcome_of_def)
qed

lemma dispatch_steps_sources:
  "dispatch_steps nfc w w' \<Longrightarrow> sources_le (dispatch_sources_of nfc w) (dispatch_sources_of nfc w')"
  by (induction rule: dispatch_steps.induct) (auto intro: sources_le_trans dispatch_step_sources)

lemma dispatch_steps_idem:
  "dispatch_steps nfc w w' \<Longrightarrow> ds_idempotency (dw_repository w) i = Some r \<Longrightarrow>
     ds_idempotency (dw_repository w') i = Some r"
proof (induction rule: dispatch_steps.induct)
  case (step w w1 w2)
  from step.hyps(2) show ?case
  proof cases
    case (evaluate q n key now st out d m)
    then show ?thesis
      using step by (elim dispatch_evaluate_Inr) (auto dest: dispatches.append_keeps_idem)
  qed (use step in simp_all)
qed

end
