(* ===== verification/DispatchSample.thy ===== *)
theory DispatchSample
  imports DispatchProperties
begin

text \<open>
  A concrete world for the dispatch properties: retained evidence with ASCII fields and a
  request that is approved.
\<close>

section \<open>A concrete world\<close>

text \<open>Evidence with ASCII fields, built and retained, and a request that is approved.  The
  digests are those the builders compute, kept symbolic.\<close>

lemma time_dispatch_cfg [simp]: "time_cfg dispatch_cfg"
  by (simp add: time_cfg_def dispatch_cfg_def)

lemma dispatch_content_plain:
  "nfc_laws nfc \<Longrightarrow> plain_pv (pdict doc) \<Longrightarrow> \<exists>b. dispatch_content nfc doc = Inr b"
  unfolding dispatch_content_def by (rule canonical_bytes_plain) simp_all

lemma dispatch_content_plainE:
  assumes "nfc_laws nfc" and "plain_pv (pdict doc)"
  obtains b where "dispatch_content nfc doc = Inr b"
  using dispatch_content_plain [OF assms] by blast

lemma plain_docs [simp]:
  "plain_pv (ptime i)"
  "plain_pv (ref_doc x d) \<longleftrightarrow> ascii x \<and> ascii d"
  "plain_pv (reference_doc r) \<longleftrightarrow> ascii (artifact_id r) \<and> ascii (reference_digest r)"
  "plain_pv (policy_doc p) \<longleftrightarrow> ascii (dp_id p) \<and> ascii (dp_digest p) \<and> ascii (dp_version p)"
  by (simp_all add: ptime_def utc_def ref_doc_def reference_doc_def policy_doc_def)

lemma ascii_digest [simp]: "ascii (namespaced_digest ns c)"
  by (rule is_sha256_hex_ascii) simp

definition sample_hour :: instant where
  "sample_hour = 3600000000"

lemma sample_hour_pos [simp]: "0 < sample_hour" "0 \<le> sample_hour" "\<not> sample_hour < 0"
  by (simp_all add: sample_hour_def)

lemma sample_plan:
  obtains v where "build_plan_evidence nf ''plan-1'' ''org-1'' ''wl-1'' [''item-1'']
      supported_plan_evidence_schema supported_planning_rule = Inr v"
    "pe_plan v = ''plan-1''" "pe_organization v = ''org-1''" "pe_workload v = ''wl-1''"
    "pe_items v = [''item-1'']" "is_sha256_hex (pe_digest v)"
    "pe_schema v = supported_plan_evidence_schema" "pe_rule v = supported_planning_rule" "validate_plan nf v = Inr ()"
proof -
  have "\<exists>b. dispatch_content nf [
         (''organization_id'', PStr ''org-1''), (''plan_id'', PStr ''plan-1''),
         (''planning_rule_version'', PStr supported_planning_rule),
         (''schema_version'', PStr supported_plan_evidence_schema),
         (''work_item_ids'', ptuple [''item-1'']), (''workload_context_id'', PStr ''wl-1'')] = Inr b"
    by (rule dispatch_content_plain [OF nf_simps(2)])
      (simp_all add: supported_planning_rule_def supported_plan_evidence_schema_def)
  then obtain b where b: "dispatch_content nf [
         (''organization_id'', PStr ''org-1''), (''plan_id'', PStr ''plan-1''),
         (''planning_rule_version'', PStr supported_planning_rule),
         (''schema_version'', PStr supported_plan_evidence_schema),
         (''work_item_ids'', ptuple [''item-1'']), (''workload_context_id'', PStr ''wl-1'')] = Inr b" ..
  let ?v = "\<lparr>pe_plan = ''plan-1'', pe_organization = ''org-1'', pe_workload = ''wl-1'', pe_items = [''item-1''],
    pe_schema = supported_plan_evidence_schema, pe_rule = supported_planning_rule,
    pe_digest = namespaced_digest plan_evidence_ns b, pe_content = b\<rparr>"
  have build: "build_plan_evidence nf ''plan-1'' ''org-1'' ''wl-1'' [''item-1'']
      supported_plan_evidence_schema supported_planning_rule = Inr ?v"
    by (simp add: build_plan_evidence_def dispatch_text_def dispatch_time_def required_text_def b Let_def)
  then have "validate_plan nf ?v = Inr ()" by (simp add: validate_plan_def)
  with build show ?thesis by (intro that [of ?v]) simp_all
qed

lemma sample_ready:
  obtains v where "build_readiness_evidence nf ''ready-1'' ''org-1'' ''wl-1'' (utc 0) (utc sample_hour) False
      supported_readiness_schema = Inr v"
    "re_readiness v = ''ready-1''" "re_organization v = ''org-1''" "re_workload v = ''wl-1''"
    "re_expires v = sample_hour" "\<not> re_superseded v" "is_sha256_hex (re_digest v)" "validate_readiness nf v = Inr ()"
proof -
  have "\<exists>b. dispatch_content nf [
         (''evaluated_at'', ptime 0), (''expires_at'', ptime sample_hour),
         (''organization_id'', PStr ''org-1''), (''readiness_id'', PStr ''ready-1''),
         (''schema_version'', PStr supported_readiness_schema),
         (''superseded'', PBool False), (''workload_context_id'', PStr ''wl-1'')] = Inr b"
    by (rule dispatch_content_plain [OF nf_simps(2)]) (simp_all add: supported_readiness_schema_def)
  then obtain b where b: "dispatch_content nf [
         (''evaluated_at'', ptime 0), (''expires_at'', ptime sample_hour),
         (''organization_id'', PStr ''org-1''), (''readiness_id'', PStr ''ready-1''),
         (''schema_version'', PStr supported_readiness_schema),
         (''superseded'', PBool False), (''workload_context_id'', PStr ''wl-1'')] = Inr b" ..
  let ?v = "\<lparr>re_readiness = ''ready-1'', re_organization = ''org-1'', re_workload = ''wl-1'', re_evaluated = 0,
    re_expires = sample_hour, re_superseded = False, re_schema = supported_readiness_schema,
    re_digest = namespaced_digest readiness_evidence_ns b, re_content = b\<rparr>"
  have build: "build_readiness_evidence nf ''ready-1'' ''org-1'' ''wl-1'' (utc 0) (utc sample_hour) False
      supported_readiness_schema = Inr ?v"
    by (simp add: build_readiness_evidence_def dispatch_text_def dispatch_time_def required_text_def b Let_def)
  then have "validate_readiness nf ?v = Inr ()" by (simp add: validate_readiness_def)
  with build show ?thesis by (intro that [of ?v]) simp_all
qed

lemma sample_selection:
  assumes "is_sha256_hex pd" "is_sha256_hex rd"
  obtains v where "build_selection_evidence nf ''selection-1'' ''org-1'' ''wl-1''
      (EvidenceReference ''plan-1'' pd) [SelectionCandidate ''worker-1'' [EvidenceReference ''ready-1'' rd]]
      ''boundary-1'' supported_selection_schema supported_selection_policy = Inr v"
    "se_selection v = ''selection-1''" "se_organization v = ''org-1''" "se_workload v = ''wl-1''"
    "se_plan v = EvidenceReference ''plan-1'' pd" "se_boundary v = ''boundary-1''"
    "se_candidates v = [SelectionCandidate ''worker-1'' [EvidenceReference ''ready-1'' rd]]"
    "se_schema v = supported_selection_schema" "se_policy v = supported_selection_policy"
    "is_sha256_hex (se_digest v)" "validate_selection nf v = Inr ()"
proof -
  have "\<exists>b. dispatch_content nf [
         (''candidates'', PSeq [candidate_doc (SelectionCandidate ''worker-1'' [EvidenceReference ''ready-1'' rd])]),
         (''evaluation_boundary'', PStr ''boundary-1''), (''organization_id'', PStr ''org-1''),
         (''plan_reference'', reference_doc (EvidenceReference ''plan-1'' pd)),
         (''schema_version'', PStr supported_selection_schema), (''selection_id'', PStr ''selection-1''),
         (''selection_policy_version'', PStr supported_selection_policy),
         (''workload_context_id'', PStr ''wl-1'')] = Inr b"
    by (rule dispatch_content_plain [OF nf_simps(2)])
      (simp_all add: supported_selection_schema_def supported_selection_policy_def candidate_doc_def
        is_sha256_hex_ascii assms)
  then obtain b where b: "dispatch_content nf [
         (''candidates'', PSeq [candidate_doc (SelectionCandidate ''worker-1'' [EvidenceReference ''ready-1'' rd])]),
         (''evaluation_boundary'', PStr ''boundary-1''), (''organization_id'', PStr ''org-1''),
         (''plan_reference'', reference_doc (EvidenceReference ''plan-1'' pd)),
         (''schema_version'', PStr supported_selection_schema), (''selection_id'', PStr ''selection-1''),
         (''selection_policy_version'', PStr supported_selection_policy),
         (''workload_context_id'', PStr ''wl-1'')] = Inr b" ..
  let ?v = "\<lparr>se_selection = ''selection-1'', se_organization = ''org-1'', se_workload = ''wl-1'',
    se_plan = EvidenceReference ''plan-1'' pd,
    se_candidates = [SelectionCandidate ''worker-1'' [EvidenceReference ''ready-1'' rd]],
    se_boundary = ''boundary-1'', se_schema = supported_selection_schema, se_policy = supported_selection_policy,
    se_digest = namespaced_digest selection_evidence_ns b, se_content = b\<rparr>"
  have build: "build_selection_evidence nf ''selection-1'' ''org-1'' ''wl-1''
      (EvidenceReference ''plan-1'' pd) [SelectionCandidate ''worker-1'' [EvidenceReference ''ready-1'' rd]]
      ''boundary-1'' supported_selection_schema supported_selection_policy = Inr ?v"
    by (simp add: build_selection_evidence_def dispatch_text_def dispatch_time_def required_text_def b Let_def)
  then have "validate_selection nf ?v = Inr ()" by (simp add: validate_selection_def)
  with build show ?thesis by (intro that [of ?v]) simp_all
qed

lemma sample_lease:
  obtains v where "build_lease_evidence nf ''lease-1'' ''org-1'' ''wl-1'' ''plan-1'' [''item-1''] True (utc 0)
      (utc sample_hour) False (EvidenceReference ''auth-1'' (namespaced_digest ''a'' ''b''))
      supported_lease_schema supported_lease_policy = Inr v"
    "le_lease v = ''lease-1''" "le_organization v = ''org-1''" "le_workload v = ''wl-1''" "le_plan v = ''plan-1''"
    "le_items v = [''item-1'']" "le_bounded v" "le_effective v = 0" "le_expires v = sample_hour" "\<not> le_revoked v"
    "le_authorization v = EvidenceReference ''auth-1'' (namespaced_digest ''a'' ''b'')"
    "le_schema v = supported_lease_schema" "le_policy v = supported_lease_policy"
    "is_sha256_hex (le_digest v)" "validate_lease nf v = Inr ()"
proof -
  have "\<exists>b. dispatch_content nf [
         (''bounded_permission'', PBool True),
         (''causal_authorization_reference'', reference_doc (EvidenceReference ''auth-1'' (namespaced_digest ''a'' ''b''))),
         (''effective_at'', ptime 0), (''expires_at'', ptime sample_hour),
         (''lease_id'', PStr ''lease-1''), (''lease_policy_version'', PStr supported_lease_policy),
         (''organization_id'', PStr ''org-1''), (''plan_id'', PStr ''plan-1''), (''revoked'', PBool False),
         (''schema_version'', PStr supported_lease_schema), (''work_item_ids'', ptuple [''item-1'']),
         (''workload_context_id'', PStr ''wl-1'')] = Inr b"
    by (rule dispatch_content_plain [OF nf_simps(2)])
      (simp_all add: supported_lease_schema_def supported_lease_policy_def)
  then obtain b where b: "dispatch_content nf [
         (''bounded_permission'', PBool True),
         (''causal_authorization_reference'', reference_doc (EvidenceReference ''auth-1'' (namespaced_digest ''a'' ''b''))),
         (''effective_at'', ptime 0), (''expires_at'', ptime sample_hour),
         (''lease_id'', PStr ''lease-1''), (''lease_policy_version'', PStr supported_lease_policy),
         (''organization_id'', PStr ''org-1''), (''plan_id'', PStr ''plan-1''), (''revoked'', PBool False),
         (''schema_version'', PStr supported_lease_schema), (''work_item_ids'', ptuple [''item-1'']),
         (''workload_context_id'', PStr ''wl-1'')] = Inr b" ..
  let ?v = "\<lparr>le_lease = ''lease-1'', le_organization = ''org-1'', le_workload = ''wl-1'', le_plan = ''plan-1'',
    le_items = [''item-1''], le_bounded = True, le_effective = 0, le_expires = sample_hour, le_revoked = False,
    le_authorization = EvidenceReference ''auth-1'' (namespaced_digest ''a'' ''b''),
    le_schema = supported_lease_schema, le_policy = supported_lease_policy,
    le_digest = namespaced_digest lease_evidence_ns b, le_content = b\<rparr>"
  have build: "build_lease_evidence nf ''lease-1'' ''org-1'' ''wl-1'' ''plan-1'' [''item-1''] True (utc 0)
      (utc sample_hour) False (EvidenceReference ''auth-1'' (namespaced_digest ''a'' ''b''))
      supported_lease_schema supported_lease_policy = Inr ?v"
    by (simp add: build_lease_evidence_def dispatch_text_def dispatch_time_def required_text_def b Let_def)
  then have "validate_lease nf ?v = Inr ()" by (simp add: validate_lease_def)
  with build show ?thesis by (intro that [of ?v]) simp_all
qed

lemma sample_policy:
  obtains p where "dispatch_policy_v1 nf = Inr p" "dp_id p = ''dispatch-policy''"
    "dp_version p = ''dispatch-policy.v1''" "is_sha256_hex (dp_digest p)"
proof -
  have "\<exists>b. dispatch_content nf [
         (''evaluation_rules'', ptuple [''bounded_lease'', ''lease_effective_time'', ''lease_expiry'',
            ''lease_revocation'', ''readiness_expiry'', ''readiness_supersession'']),
         (''policy_id'', PStr ''dispatch-policy''), (''policy_version'', PStr ''dispatch-policy.v1'')] = Inr b"
    by (rule dispatch_content_plain) simp_all
  then show ?thesis using that
    by (auto simp: dispatch_policy_v1_def make_dispatch_policy_def)
qed

definition sample_request :: "string \<Rightarrow> string \<Rightarrow> string \<Rightarrow> string \<Rightarrow> instant \<Rightarrow> dispatch_request" where
  "sample_request plan_digest selection_digest lease_digest policy_digest t =
     \<lparr>dq_organization = ''org-1'', dq_workload = ''wl-1'', dq_plan = ''plan-1'', dq_plan_digest = plan_digest,
      dq_item = ''item-1'', dq_selection = ''selection-1'', dq_selection_digest = selection_digest,
      dq_candidate = ''worker-1'', dq_lease = ''lease-1'', dq_lease_digest = lease_digest,
      dq_policy = ''dispatch-policy'', dq_policy_version = ''dispatch-policy.v1'',
      dq_policy_digest = policy_digest, dq_boundary = ''boundary-1'', dq_effective = t,
      dq_clock = ''clock-1'', dq_clock_version = ''v1'', dq_configuration = ''v1'',
      dq_schema = supported_dispatch_schema, dq_component = supported_dispatch_component,
      dq_serialization = supported_serialization\<rparr>"

text \<open>A decision on plain evidence can be built.\<close>

definition plain_evidence :: "verified_evidence \<Rightarrow> dispatch_policy \<Rightarrow> bool" where
  "plain_evidence v p \<longleftrightarrow>
     (let q = ve_request v in
      list_all ascii [dq_organization q, dq_workload q, dq_plan q, dq_item q, dq_candidate q, dq_boundary q,
        dq_clock q, dq_clock_version q, dq_configuration q, dq_schema q, dq_component q, dq_serialization q,
        pe_schema (ve_plan v), pe_rule (ve_plan v), se_policy (ve_selection v), se_schema (ve_selection v),
        le_policy (ve_lease v), le_schema (ve_lease v), dp_version p,
        artifact_id (le_authorization (ve_lease v)), reference_digest (le_authorization (ve_lease v))]
      \<and> list_all (\<lambda>(i, d). ascii i \<and> i \<noteq> [] \<and> is_sha256_hex d)
          ([(pe_plan (ve_plan v), pe_digest (ve_plan v)), (se_selection (ve_selection v), se_digest (ve_selection v)),
            (le_lease (ve_lease v), le_digest (ve_lease v)), (dp_id p, dp_digest p)]
           @ map (\<lambda>r. (re_readiness r, re_digest r)) (ve_readiness v)))"

lemma plain_evidence_reasons: "list_all ascii (snd (evaluate_dispatch v))"
  by (simp add: evaluate_dispatch_def Let_def list_all_iff)

lemma plain_outcome [simp]: "ascii (dispatch_outcome_value o')"
  by (cases o') simp_all

lemma assemble_plain:
  assumes e: "plain_evidence v p" and i: "ascii i"
  shows "\<exists>d ic dc. assemble_dispatch_decision nf v p n i = Inr (d, ic, dc)
    \<and> is_sha256_hex (dd_id d) \<and> is_sha256_hex (dd_input_digest d) \<and> is_sha256_hex (dd_digest d)
    \<and> dd_idempotency d = i \<and> dd_version d = n \<and> dd_reasons d = snd (evaluate_dispatch v)
    \<and> dd_schema d = supported_dispatch_schema \<and> dd_organization d = dq_organization (ve_request v)
    \<and> dd_outcome d = fst (evaluate_dispatch v)"
proof -
  let ?q = "ve_request v"
  have ref: "dispatch_reference nf i d = Inr (EvidenceReference i d)" if "i \<noteq> []" "is_sha256_hex d" for i d
    using that by (simp add: dispatch_reference_def text_ok_def)
  have refs: "mapr (\<lambda>r. dispatch_reference nf (re_readiness r) (re_digest r)) (ve_readiness v)
      = Inr (map (\<lambda>r. EvidenceReference (re_readiness r) (re_digest r)) (ve_readiness v))" (is "_ = Inr ?refs")
    using e by (intro mapr_ident) (auto simp: plain_evidence_def Let_def list_all_iff ref)
  have "\<exists>b. dispatch_input_content nf v p = Inr b"
    unfolding dispatch_input_content_def
    by (rule dispatch_content_plain)
      (use e in \<open>auto simp: plain_evidence_def dispatch_input_document_def Let_def list_all_iff is_sha256_hex_ascii\<close>)
  then obtain ic where ic: "dispatch_input_content nf v p = Inr ic" ..
  obtain out reasons where ev: "evaluate_dispatch v = (out, reasons)" by (cases "evaluate_dispatch v")
  have reasons: "\<forall>r \<in> set reasons. ascii r" using plain_evidence_reasons [of v] ev by (simp add: list_all_iff)
  have "\<exists>b. dispatch_content nf (dispatch_payload v p (namespaced_digest dispatch_input_ns ic) n i ?refs) = Inr b"
    by (rule dispatch_content_plain)
      (use e i ev reasons in \<open>auto simp: plain_evidence_def dispatch_payload_def Let_def list_all_iff is_sha256_hex_ascii\<close>)
  then obtain dc where dc: "dispatch_content nf (dispatch_payload v p (namespaced_digest dispatch_input_ns ic) n i ?refs) = Inr dc" ..
  have "\<exists>b. dispatch_content nf [
         (''canonical_decision_digest'', PStr (namespaced_digest dispatch_digest_ns dc)),
         (''stream_key'', ptuple [dq_organization ?q, dq_workload ?q, dq_plan ?q, dq_item ?q, dq_candidate ?q]),
         (''stream_version'', PInt n)] = Inr b"
    by (rule dispatch_content_plain) (use e in \<open>simp_all add: plain_evidence_def Let_def\<close>)
  then obtain b where b: "dispatch_content nf [
         (''canonical_decision_digest'', PStr (namespaced_digest dispatch_digest_ns dc)),
         (''stream_key'', ptuple [dq_organization ?q, dq_workload ?q, dq_plan ?q, dq_item ?q, dq_candidate ?q]),
         (''stream_version'', PInt n)] = Inr b" ..
  have r: "dispatch_reference nf (pe_plan (ve_plan v)) (pe_digest (ve_plan v)) = Inr (EvidenceReference (pe_plan (ve_plan v)) (pe_digest (ve_plan v)))"
    "dispatch_reference nf (se_selection (ve_selection v)) (se_digest (ve_selection v)) = Inr (EvidenceReference (se_selection (ve_selection v)) (se_digest (ve_selection v)))"
    "dispatch_reference nf (le_lease (ve_lease v)) (le_digest (ve_lease v)) = Inr (EvidenceReference (le_lease (ve_lease v)) (le_digest (ve_lease v)))"
    "dispatch_reference nf (dp_id p) (dp_digest p) = Inr (EvidenceReference (dp_id p) (dp_digest p))"
    by (rule ref; use e in \<open>simp add: plain_evidence_def Let_def\<close>)+
  show ?thesis
    unfolding assemble_dispatch_decision_def Let_def ic bindr_simps ev prod.case refs dc b r
    by simp
qed

lemma build_plain:
  assumes e: "plain_evidence v p" and i: "is_sha256_hex i" and n: "n \<ge> 1"
  shows "\<exists>d ic dc. build_dispatch_decision nf v p n i (utc t) = Inr (d, ic, dc)
    \<and> dd_version d = n \<and> dd_organization d = dq_organization (ve_request v)
    \<and> dd_outcome d = fst (evaluate_dispatch v)"
proof -
  have reasons: "snd (evaluate_dispatch v) \<noteq> []" "distinct (snd (evaluate_dispatch v))"
    "\<forall>r \<in> set (snd (evaluate_dispatch v)). r \<noteq> []"
    by (simp_all add: evaluate_dispatch_def Let_def)
  have texts: "mapr (dispatch_text nf) (snd (evaluate_dispatch v)) = Inr (snd (evaluate_dispatch v))"
    using reasons(3) mapr_ident [of "snd (evaluate_dispatch v)" "dispatch_text nf" "\<lambda>s. s"]
    by (simp add: dispatch_text_def required_text_def)
  obtain d ic dc where d: "assemble_dispatch_decision nf v p n i = Inr (d, ic, dc)"
    "is_sha256_hex (dd_id d)" "is_sha256_hex (dd_input_digest d)" "is_sha256_hex (dd_digest d)"
    "dd_idempotency d = i" "dd_version d = n" "dd_reasons d = snd (evaluate_dispatch v)"
    "dd_schema d = supported_dispatch_schema" "dd_organization d = dq_organization (ve_request v)"
    "dd_outcome d = fst (evaluate_dispatch v)"
    using assemble_plain [OF e is_sha256_hex_ascii [OF i], of n] by blast
  moreover have "sort (snd (evaluate_dispatch v)) \<noteq> []"
    using reasons(1) by (metis set_empty set_sort)
  ultimately show ?thesis
    using i n texts reasons
    by (simp add: build_dispatch_decision_def dispatch_decision_init_def dispatch_hex_def dispatch_time_def Let_def)
qed

lemma sample_identity_dispatch:
  "\<exists>i. dispatch_idempotency_identity nf (sample_request a b c d t) ''key-1'' = Inr i \<and> is_sha256_hex i"
proof -
  have "\<exists>x. dispatch_content nf [
         (''operation'', PStr ''evaluate_dispatch''), (''organization_id'', PStr ''org-1''),
         (''plan_id'', PStr ''plan-1''), (''selected_candidate_id'', PStr ''worker-1''),
         (''submitted_key'', PStr ''key-1''), (''work_item_id'', PStr ''item-1''),
         (''workload_context_id'', PStr ''wl-1'')] = Inr x"
    by (rule dispatch_content_plain) simp_all
  then show ?thesis by (auto simp: dispatch_idempotency_identity_def sample_request_def)
qed

text \<open>The world: the four pieces of evidence are retained, and the request is approved at
  any time within the hour in which the lease and the readiness hold.\<close>

lemma sample_world:
  assumes "0 \<le> t" "t \<le> sample_hour"
  obtains w q st d where "dispatch_steps nf dispatch_world_init w"
    "dw_repository w = dispatch_init" "dq_effective q = t"
    "dispatch_evaluate nf (dispatch_sources_of nf w) dispatch_init q 0 ''key-1'' (utc t)
      = Inr (st, EvaluationCreated, d, 1)"
    "dd_outcome d = Approved" "dd_organization d = ''org-1''"
proof -
  obtain pl where pl: "pe_plan pl = ''plan-1''" "pe_organization pl = ''org-1''" "pe_workload pl = ''wl-1''"
    "pe_items pl = [''item-1'']" "is_sha256_hex (pe_digest pl)"
    "pe_schema pl = supported_plan_evidence_schema" "pe_rule pl = supported_planning_rule" "validate_plan nf pl = Inr ()"
    by (rule sample_plan)
  obtain rd where rd: "re_readiness rd = ''ready-1''" "re_organization rd = ''org-1''" "re_workload rd = ''wl-1''"
    "re_expires rd = sample_hour" "\<not> re_superseded rd" "is_sha256_hex (re_digest rd)" "validate_readiness nf rd = Inr ()"
    by (rule sample_ready)
  obtain se where se: "se_selection se = ''selection-1''" "se_organization se = ''org-1''" "se_workload se = ''wl-1''"
    "se_plan se = EvidenceReference ''plan-1'' (pe_digest pl)" "se_boundary se = ''boundary-1''"
    "se_candidates se = [SelectionCandidate ''worker-1'' [EvidenceReference ''ready-1'' (re_digest rd)]]"
    "se_schema se = supported_selection_schema" "se_policy se = supported_selection_policy"
    "is_sha256_hex (se_digest se)" "validate_selection nf se = Inr ()"
    by (rule sample_selection [OF pl(5) rd(6)])
  obtain le where le: "le_lease le = ''lease-1''" "le_organization le = ''org-1''" "le_workload le = ''wl-1''" "le_plan le = ''plan-1''"
    "le_items le = [''item-1'']" "le_bounded le" "le_effective le = 0" "le_expires le = sample_hour" "\<not> le_revoked le"
    "le_authorization le = EvidenceReference ''auth-1'' (namespaced_digest ''a'' ''b'')"
    "le_schema le = supported_lease_schema" "le_policy le = supported_lease_policy"
    "is_sha256_hex (le_digest le)" "validate_lease nf le = Inr ()"
    by (rule sample_lease)
  obtain p where p: "dispatch_policy_v1 nf = Inr p" "dp_id p = ''dispatch-policy''"
    "dp_version p = ''dispatch-policy.v1''" "is_sha256_hex (dp_digest p)" by (rule sample_policy)
  define w where "w = dispatch_world_init\<lparr>dw_plans := [''plan-1'' \<mapsto> pl]\<rparr>\<lparr>dw_selections := [''selection-1'' \<mapsto> se]\<rparr>
    \<lparr>dw_readiness := [''ready-1'' \<mapsto> rd]\<rparr>\<lparr>dw_leases := [''lease-1'' \<mapsto> le]\<rparr>"
  define q where "q = sample_request (pe_digest pl) (se_digest se) (le_digest le) (dp_digest p) t"
  define v where "v = \<lparr>ve_request = q, ve_plan = pl, ve_selection = se,
    ve_candidate = SelectionCandidate ''worker-1'' [EvidenceReference ''ready-1'' (re_digest rd)],
    ve_readiness = [rd], ve_lease = le\<rparr>"
  have steps: "dispatch_steps nf dispatch_world_init w"
    unfolding w_def
    by (intro dispatch_steps.step [OF dispatch_steps.step [OF dispatch_steps.step [OF dispatch_steps.step
            [OF dispatch_steps.none dispatch_step.plan [where v = pl]] dispatch_step.selection [where v = se]]
          dispatch_step.readiness [where v = rd]] dispatch_step.lease [where v = le]])
      (simp_all add: source_retain_Inr pl se rd le dispatch_world_init_def)
  have res: "dispatch_resolve nf (dispatch_sources_of nf w) q = Inr (v, p)"
    unfolding dispatch_resolve_Inr Let_def
    by (simp add: v_def q_def sample_request_def dispatch_sources_of_def w_def source_get_Inr pl se rd le p
        resolve_readiness_def require_evidence_def dispatch_policy_for_def dispatch_world_init_def
        source_get_def)
  have plain: "plain_evidence v p"
    by (simp add: plain_evidence_def v_def q_def sample_request_def pl se rd le p supported_dispatch_schema_def
        supported_dispatch_component_def supported_serialization_def supported_plan_evidence_schema_def
        supported_planning_rule_def supported_selection_schema_def supported_selection_policy_def
        supported_lease_schema_def supported_lease_policy_def is_sha256_hex_ascii)
  obtain i where i: "dispatch_idempotency_identity nf q ''key-1'' = Inr i" "is_sha256_hex i"
    using sample_identity_dispatch unfolding q_def by blast
  have ok: "evaluate_dispatch v = (Approved, [''OFFER_APPROVED''])"
    using assms by (simp add: evaluate_dispatch_def v_def q_def sample_request_def le rd not_less Let_def)
  obtain d ic dc where b: "build_dispatch_decision nf v p 1 i (utc t) = Inr (d, ic, dc)" "dd_version d = 1"
    "dd_organization d = dq_organization q" "dd_outcome d = Approved"
    using build_plain [OF plain i(2), of 1 t] ok by (auto simp: v_def)
  have "\<exists>st. dispatch_evaluate nf (dispatch_sources_of nf w) dispatch_init q 0 ''key-1'' (utc t)
      = Inr (st, EvaluationCreated, d, 1)"
    by (simp add: dispatch_evaluate_def res i b dispatch_append_def dispatch_init_def evaluation_outcome_of_def Let_def)
  then obtain st where st: "dispatch_evaluate nf (dispatch_sources_of nf w) dispatch_init q 0 ''key-1'' (utc t)
      = Inr (st, EvaluationCreated, d, 1)" ..
  show ?thesis
    using that [OF steps _ _ st b(4)] b(3)
    by (simp add: w_def dispatch_world_init_def q_def sample_request_def)
qed

end
