(* ===== verification/DispatchTheorems.thy ===== *)
theory DispatchTheorems
  imports DispatchSample
begin

text \<open>The properties of dispatch decisions, each with an instance.\<close>


text \<open>C7: an approved decision is backed by evidence.  In every state the service reaches, a
  retained decision that approves has, among the retained evidence, the lease its request
  names by identifier and digest; the lease covers the plan and the work item, is bounded,
  was in effect at the requested instant, and is not revoked; the plan contains the work
  item, and the selection names the candidate.\<close>

theorem dispatch_approval_backed:
  assumes "nfc_laws nfc" and "dispatch_steps nfc dispatch_world_init w"
    and "ds_by_id (dw_repository w) i = Some r" and "dd_outcome (dr_decision r) = Approved"
  shows "\<exists>lease plan selection.
    dw_leases w (dq_lease (dr_request r)) = Some lease \<and> le_digest lease = dq_lease_digest (dr_request r)
    \<and> le_organization lease = dq_organization (dr_request r)
    \<and> le_plan lease = dq_plan (dr_request r) \<and> dq_item (dr_request r) \<in> set (le_items lease)
    \<and> le_bounded lease \<and> \<not> le_revoked lease
    \<and> le_effective lease \<le> dq_effective (dr_request r) \<and> dq_effective (dr_request r) \<le> le_expires lease
    \<and> dw_plans w (dq_plan (dr_request r)) = Some plan \<and> dq_item (dr_request r) \<in> set (pe_items plan)
    \<and> dw_selections w (dq_selection (dr_request r)) = Some selection
    \<and> dq_candidate (dr_request r) \<in> candidate_id ` set (se_candidates selection)"
proof -
  have inv: "dispatch_inv nfc w" by (rule dispatch_steps_inv [OF assms(1,2) dispatch_init_inv])
  then obtain v p t where res: "dispatch_resolve nfc (dispatch_sources_of nfc w) (dr_request r) = Inr (v, p)"
    and b: "build_dispatch_decision nfc v p (dd_version (dr_decision r)) (dr_idempotency r) t
      = Inr (dr_decision r, dr_input r, dr_content r)"
    using assms(3) unfolding dispatch_inv_def produced_by_def by blast
  have ok: "fst (evaluate_dispatch v) = Approved"
    using build_dispatch_Inr(7) [OF assms(1) b] assms(4) by simp
  note e = res [unfolded dispatch_resolve_Inr Let_def]
  have src: "dw_leases w (dq_lease (dr_request r)) = Some (ve_lease v)" "le_organization (ve_lease v) = dq_organization (dr_request r)"
    "dw_plans w (dq_plan (dr_request r)) = Some (ve_plan v)" "dw_selections w (dq_selection (dr_request r)) = Some (ve_selection v)"
    using e by (simp_all add: dispatch_sources_of_def source_get_Inr)
  have "pe_plan (ve_plan v) = dq_plan (dr_request r)"
    using inv src(3) unfolding dispatch_inv_def source_ok_def by blast
  moreover have "ve_candidate v \<in> set (filter (\<lambda>c. candidate_id c = dq_candidate (dr_request r)) (se_candidates (ve_selection v)))"
    using e by (metis list.set_intros(1))
  then have "dq_candidate (dr_request r) \<in> candidate_id ` set (se_candidates (ve_selection v))"
    using imageI [of "ve_candidate v" _ candidate_id] by simp
  moreover have "ve_request v = dr_request r" using e by simp
  ultimately show ?thesis
    using e src ok [unfolded approved_iff] by (intro exI [of _ "ve_lease v"] exI [of _ "ve_plan v"] exI [of _ "ve_selection v"]) simp
qed

lemma dispatch_approval_backed_witness:
  "\<exists>w i r lease. dispatch_steps nf dispatch_world_init w \<and> ds_by_id (dw_repository w) i = Some r
     \<and> dd_outcome (dr_decision r) = Approved
     \<and> dw_leases w (dq_lease (dr_request r)) = Some lease \<and> le_bounded lease \<and> \<not> le_revoked lease"
proof -
  obtain w q st d where w: "dispatch_steps nf dispatch_world_init w" "dw_repository w = dispatch_init"
    "dispatch_evaluate nf (dispatch_sources_of nf w) dispatch_init q 0 ''key-1'' (utc 0) = Inr (st, EvaluationCreated, d, 1)"
    "dd_outcome d = Approved"
    by (rule sample_world [of 0]) simp_all
  have w': "dispatch_steps nf dispatch_world_init (w\<lparr>dw_repository := st\<rparr>)"
    by (rule dispatch_steps.step [OF w(1) dispatch_step.evaluate]) (use w(2,3) in simp)
  from w(3) obtain r where r: "ds_by_id st (dd_id d) = Some r" "dr_decision r = d"
    by (elim dispatch_evaluate_Inr) (use dispatches.append_Inr in \<open>fastforce simp: dispatch_init_def\<close>)
  have "ds_by_id (dw_repository (w\<lparr>dw_repository := st\<rparr>)) (dd_id d) = Some r" "dd_outcome (dr_decision r) = Approved"
    using r w(4) by simp_all
  from dispatch_approval_backed [OF nf_simps(2) w' this] obtain lease where
    "dw_leases (w\<lparr>dw_repository := st\<rparr>) (dq_lease (dr_request r)) = Some lease" "le_bounded lease" "\<not> le_revoked lease"
    by blast
  then show ?thesis
    using w' \<open>dd_outcome (dr_decision r) = Approved\<close> r(1)
    by (intro exI [of _ "w\<lparr>dw_repository := st\<rparr>"] exI [of _ "dd_id d"] exI [of _ r] exI [of _ lease] conjI)
      simp_all
qed

text \<open>A dispatch decision is reproduced from the retained evidence for ever.  After
  \<open>evaluate\<close> returned a decision, \<open>reconstruct\<close> under the decision's organization gives
  exactly that decision in every later state, whatever evidence is retained and whatever is
  evaluated in between; another organization is told that there is none.\<close>

theorem dispatch_replay:
  assumes "nfc_laws nfc" and "dispatch_steps nfc dispatch_world_init w"
    and "dispatch_evaluate nfc (dispatch_sources_of nfc w) (dw_repository w) q n key now = Inr (st, outcome, d, m)"
    and "dispatch_steps nfc (w\<lparr>dw_repository := st\<rparr>) w'"
  shows "dispatch_reconstruct nfc (dispatch_sources_of nfc w') (dw_repository w') (dd_id d) org
    = (if dd_organization d = org then Inr d else Inl (DispatchError DispatchDecisionNotFound))"
proof -
  have inv: "dispatch_inv nfc w" by (rule dispatch_steps_inv [OF assms(1,2) dispatch_init_inv])
  let ?w = "w\<lparr>dw_repository := st\<rparr>"
  have step: "dispatch_step nfc w ?w" by (rule dispatch_step.evaluate [OF assms(3)])
  have inv': "dispatch_inv nfc w'"
    by (rule dispatch_steps_inv [OF assms(1,4) dispatch_step_inv [OF assms(1) step inv]])
  have "dispatch_store_inv (dw_repository w)" using inv by (simp add: dispatch_inv_def)
  with assms(3) obtain r where r: "ds_by_id st (dd_id d) = Some r" "dr_decision r = d"
    unfolding dispatch_store_inv_def
    by (elim dispatch_evaluate_Inr) (auto dest!: dispatches.append_retained)
  then have r': "ds_by_id (dw_repository w') (dd_id d) = Some r"
    using dispatch_steps_keep [OF assms(4)] by simp
  show ?thesis
  proof (cases "dd_organization d = org")
    case True
    with dispatch_reconstruct_retained [OF assms(1) inv' r'] r(2) show ?thesis by simp
  next
    case False
    with r' r(2) show ?thesis by (simp add: dispatch_reconstruct_def)
  qed
qed

lemma dispatch_replay_witness:
  "\<exists>w d. dispatch_reconstruct nf (dispatch_sources_of nf w) (dw_repository w) (dd_id d) ''org-1'' = Inr d
     \<and> dd_outcome d = Approved"
proof -
  obtain w q st d where w: "dispatch_steps nf dispatch_world_init w" "dw_repository w = dispatch_init"
    "dispatch_evaluate nf (dispatch_sources_of nf w) dispatch_init q 0 ''key-1'' (utc 0) = Inr (st, EvaluationCreated, d, 1)"
    "dd_outcome d = Approved" "dd_organization d = ''org-1''"
    by (rule sample_world [of 0]) simp_all
  have "dispatch_reconstruct nf (dispatch_sources_of nf (w\<lparr>dw_repository := st\<rparr>)) (dw_repository (w\<lparr>dw_repository := st\<rparr>))
      (dd_id d) ''org-1'' = (if dd_organization d = ''org-1'' then Inr d else Inl (DispatchError DispatchDecisionNotFound))"
    by (rule dispatch_replay [OF nf_simps(2) w(1) _ dispatch_steps.none]) (use w(2,3) in simp)
  then show ?thesis
    by (intro exI [of _ "w\<lparr>dw_repository := st\<rparr>"] exI [of _ d]) (use w(4,5) in simp)
qed

text \<open>Evaluating is idempotent.  A retry of the same request under the same key and
  expected version, at any later time and in any later state, returns the decision that was
  accepted first, reports \<open>ExistingEquivalent\<close>, and changes nothing.\<close>

theorem dispatch_retry:
  assumes "dispatch_evaluate nfc (dispatch_sources_of nfc w) (dw_repository w) q n key now = Inr (st, outcome, d, m)"
    and "dispatch_steps nfc (w\<lparr>dw_repository := st\<rparr>) w'" and "utcoffset now' \<noteq> None"
  shows "dispatch_evaluate nfc (dispatch_sources_of nfc w') (dw_repository w') q n key now'
    = Inr (dw_repository w', EvaluationExistingEquivalent, d, m)"
proof (rule dispatch_evaluate_again [OF assms(1) _ assms(3)])
  have "dispatch_sources_of nfc (w\<lparr>dw_repository := st\<rparr>) = dispatch_sources_of nfc w"
    by (simp add: dispatch_sources_of_def)
  with dispatch_steps_sources [OF assms(2)]
  show "sources_le (dispatch_sources_of nfc w) (dispatch_sources_of nfc w')" by simp
  show "ds_idempotency (dw_repository w') i = Some r" if "ds_idempotency st i = Some r" for i r
    using dispatch_steps_idem [OF assms(2)] that by simp
qed

lemma dispatch_retry_witness:
  "\<exists>src st q d. dispatch_evaluate nf src st q 0 ''key-1'' (PyTime 9000000 (Some 3600000000))
     = Inr (st, EvaluationExistingEquivalent, d, 1)"
proof -
  obtain w q st d where w: "dispatch_steps nf dispatch_world_init w" "dw_repository w = dispatch_init"
    "dispatch_evaluate nf (dispatch_sources_of nf w) dispatch_init q 0 ''key-1'' (utc 0) = Inr (st, EvaluationCreated, d, 1)"
    by (rule sample_world [of 0]) simp_all
  let ?w = "w\<lparr>dw_repository := st\<rparr>"
  have "dispatch_evaluate nf (dispatch_sources_of nf ?w) (dw_repository ?w) q 0 ''key-1''
      (PyTime 9000000 (Some 3600000000)) = Inr (dw_repository ?w, EvaluationExistingEquivalent, d, 1)"
    by (rule dispatch_retry [OF _ dispatch_steps.none]) (use w(2,3) in simp_all)
  then show ?thesis by blast
qed

text \<open>C8: a decision is settled.  Once the service has returned a decision, in every later state
  it is reconstructed exactly, by its organization and by no other; and a retry of the same
  request under the same key and expected version, at any later time, returns it again,
  reports \<open>ExistingEquivalent\<close> and changes nothing.\<close>

theorem dispatch_decision_settled:
  assumes "nfc_laws nfc" and "dispatch_steps nfc dispatch_world_init w"
    and "dispatch_evaluate nfc (dispatch_sources_of nfc w) (dw_repository w) q n key now = Inr (st, outcome, d, m)"
    and "dispatch_steps nfc (w\<lparr>dw_repository := st\<rparr>) w'" and "utcoffset now' \<noteq> None"
  shows "dispatch_reconstruct nfc (dispatch_sources_of nfc w') (dw_repository w') (dd_id d) org
      = (if dd_organization d = org then Inr d else Inl (DispatchError DispatchDecisionNotFound))
    \<and> dispatch_evaluate nfc (dispatch_sources_of nfc w') (dw_repository w') q n key now'
      = Inr (dw_repository w', EvaluationExistingEquivalent, d, m)"
  by (rule conjI [OF dispatch_replay [OF assms(1-4)] dispatch_retry [OF assms(3-5)]])

lemma dispatch_decision_settled_witness:
  "\<exists>w q d. dispatch_reconstruct nf (dispatch_sources_of nf w) (dw_repository w) (dd_id d) ''org-1'' = Inr d
     \<and> dd_outcome d = Approved
     \<and> dispatch_evaluate nf (dispatch_sources_of nf w) (dw_repository w) q 0 ''key-1'' (PyTime 9000000 (Some 3600000000))
       = Inr (dw_repository w, EvaluationExistingEquivalent, d, 1)"
proof -
  obtain w q st d where w: "dispatch_steps nf dispatch_world_init w" "dw_repository w = dispatch_init"
    "dispatch_evaluate nf (dispatch_sources_of nf w) dispatch_init q 0 ''key-1'' (utc 0) = Inr (st, EvaluationCreated, d, 1)"
    "dd_outcome d = Approved" "dd_organization d = ''org-1''"
    by (rule sample_world [of 0]) simp_all
  have e: "dispatch_evaluate nf (dispatch_sources_of nf w) (dw_repository w) q 0 ''key-1'' (utc 0)
      = Inr (st, EvaluationCreated, d, 1)" using w(2,3) by simp
  have t: "utcoffset (PyTime 9000000 (Some 3600000000)) \<noteq> None" by simp
  note p = dispatch_decision_settled [OF nf_simps(2) w(1) e dispatch_steps.none t, of "''org-1''"]
  show ?thesis
    by (intro exI [of _ "w\<lparr>dw_repository := st\<rparr>"] exI [of _ q] exI [of _ d]) (use p w(4,5) in simp)
qed

text \<open>C9: a stream of decisions is written by compare-and-set.  In every reachable state
  the versions of a stream are 1, 2, 3, and so on, an accepted decision extends its stream at
  the end, and of two evaluations that expect the same version of a stream at most one
  creates a decision.\<close>

theorem dispatch_stream_compare_and_set:
  assumes "nfc_laws nfc" and "dispatch_steps nfc dispatch_world_init w"
    and "dispatch_evaluate nfc (dispatch_sources_of nfc w) (dw_repository w) q n key now
      = Inr (st, EvaluationCreated, d, m)"
    and "dispatch_stream_key q' = dispatch_stream_key q"
  shows "map dd_version (map dr_decision (ds_streams st k)) = map (\<lambda>n. int n + 1) [0..<length (ds_streams st k)]
    \<and> map dr_decision (ds_streams st (dispatch_stream_key q))
        = map dr_decision (ds_streams (dw_repository w) (dispatch_stream_key q)) @ [d]
    \<and> dispatch_evaluate nfc src' st q' n key' now' \<noteq> Inr (st', EvaluationCreated, d', m')"
proof (intro conjI)
  have inv: "dispatch_inv nfc w" by (rule dispatch_steps_inv [OF assms(1,2) dispatch_init_inv])
  then have "dispatch_inv nfc (w\<lparr>dw_repository := st\<rparr>)"
    by (rule dispatch_step_inv [OF assms(1) dispatch_step.evaluate [OF assms(3)]])
  then have s: "dispatch_store_inv st" by (simp add: dispatch_inv_def)
  from store_inv_versions [OF s [unfolded dispatch_store_inv_def], of k]
  show "map dd_version (map dr_decision (ds_streams st k)) = map (\<lambda>n. int n + 1) [0..<length (ds_streams st k)]"
    by (simp add: comp_def)
  note created = evaluation_outcome_of_def dispatch_record_key_def
  obtain r where r: "dispatch_append (dw_repository w) r n = Inr (st, d, True)" "dispatch_record_key r = dispatch_stream_key q"
    using assms(3) by (elim dispatch_evaluate_Inr) (auto simp: created split: if_splits)
  from dispatches.append_created [OF r(1)] r(2)
  show "map dr_decision (ds_streams st (dispatch_stream_key q))
        = map dr_decision (ds_streams (dw_repository w) (dispatch_stream_key q)) @ [d]"
    by simp
  show "dispatch_evaluate nfc src' st q' n key' now' \<noteq> Inr (st', EvaluationCreated, d', m')"
  proof
    assume "dispatch_evaluate nfc src' st q' n key' now' = Inr (st', EvaluationCreated, d', m')"
    then obtain r' where "dispatch_append st r' n = Inr (st', d', True)"
      "dispatch_record_key r' = dispatch_stream_key q'"
      by (elim dispatch_evaluate_Inr) (auto simp: created split: if_splits)
    then show False using dispatches.append_race [OF r(1), of r' st' d'] r(2) assms(4) by simp
  qed
qed

lemma dispatch_stream_compare_and_set_witness:
  "\<exists>src st q d. map dr_decision (ds_streams st (dispatch_stream_key q)) = [d]
     \<and> dispatch_evaluate nf src st q 0 ''key-2'' (utc 7) \<noteq> Inr (dispatch_init, EvaluationCreated, d, 1)"
proof -
  obtain w q st d where w: "dispatch_steps nf dispatch_world_init w" "dw_repository w = dispatch_init"
    "dispatch_evaluate nf (dispatch_sources_of nf w) dispatch_init q 0 ''key-1'' (utc 0) = Inr (st, EvaluationCreated, d, 1)"
    by (rule sample_world [of 0]) simp_all
  note p = dispatch_stream_compare_and_set [OF nf_simps(2) w(1) _ refl, of q 0 "''key-1''" "utc 0" st d 1
      "dispatch_stream_key q" "dispatch_sources_of nf w" "''key-2''" "utc 7" dispatch_init d 1]
  show ?thesis
    by (intro exI [of _ "dispatch_sources_of nf w"] exI [of _ st] exI [of _ q] exI [of _ d])
      (use p w(2,3) in \<open>simp add: dispatch_init_def\<close>)
qed

end
