(* ===== verification/ClaimDecision.thy ===== *)
theory ClaimDecision
  imports DispatchService
begin

text \<open>
  Work claims: \<open>canonical.py\<close>, \<open>domain.py\<close>, \<open>evidence.py\<close>, \<open>policy.py\<close> and
  \<open>serialization.py\<close> of \<open>app/runtime/work_claim\<close>.  A lineage of claims is a state
  machine: generations are opened, a claim is accepted with a fence or rejected, and an
  accepted claim expires or is released.  The policy decides the next event of a lineage,
  and the event is written as canonical content.
\<close>

section \<open>Exceptions and canonical form\<close>

definition claim_invalid :: exc where
  "claim_invalid = ClaimError WorkClaimInvalid"

definition claim_mismatch :: exc where
  "claim_mismatch = ClaimError WorkClaimDigestMismatch"

definition claim_unsupported :: exc where
  "claim_unsupported = ClaimError WorkClaimVersionUnsupported"

definition claim_illegal :: exc where
  "claim_illegal = ClaimError WorkClaimIllegalTransition"

definition claim_cfg :: freeze_cfg where
  "claim_cfg = \<lparr>fz_err = claim_invalid, fz_enum_raw = True, fz_time = Some isoformat_z, fz_float = True\<rparr>"

definition claim_content :: "normalizer \<Rightarrow> (string \<times> pyval) list \<Rightarrow> string res" where
  "claim_content nfc document = canonical_bytes claim_cfg nfc (pdict document)"

definition claim_text :: "normalizer \<Rightarrow> string \<Rightarrow> string res" where
  "claim_text = required_text claim_invalid"

definition claim_optional_text :: "normalizer \<Rightarrow> string option \<Rightarrow> string option res" where
  "claim_optional_text = optional_text claim_invalid"

definition claim_hex :: "normalizer \<Rightarrow> string \<Rightarrow> string res" where
  "claim_hex = sha256_field claim_invalid"

definition claim_time :: "pytime \<Rightarrow> instant res" where
  "claim_time = utc_or_raise claim_invalid"

definition claim_reference :: "normalizer \<Rightarrow> string \<Rightarrow> string \<Rightarrow> evidence_ref res" where
  "claim_reference = make_reference claim_invalid"

section \<open>Requests and events\<close>

definition supported_claim_schema :: string where
  "supported_claim_schema = ''work-claim.v1''"

definition supported_claim_component :: string where
  "supported_claim_component = ''work-claim.service.v1''"

datatype claim_operation = CreateGeneration | Claim | Expire | Release

primrec claim_operation_value :: "claim_operation \<Rightarrow> string" where
  "claim_operation_value CreateGeneration = ''CreateGeneration''"
| "claim_operation_value Claim = ''Claim''"
| "claim_operation_value Expire = ''Expire''"
| "claim_operation_value Release = ''Release''"

datatype claim_event_type =
  GenerationCreated | ClaimAccepted | ClaimRejected | ClaimExpired | ClaimReleased

primrec claim_event_type_value :: "claim_event_type \<Rightarrow> string" where
  "claim_event_type_value GenerationCreated = ''GenerationCreated''"
| "claim_event_type_value ClaimAccepted = ''ClaimAccepted''"
| "claim_event_type_value ClaimRejected = ''ClaimRejected''"
| "claim_event_type_value ClaimExpired = ''ClaimExpired''"
| "claim_event_type_value ClaimReleased = ''ClaimReleased''"

datatype claim_outcome =
  OutcomeGenerationCreated | OutcomeAccepted | OutcomeRejected | OutcomeExpired | OutcomeReleased

primrec claim_outcome_value :: "claim_outcome \<Rightarrow> string" where
  "claim_outcome_value OutcomeGenerationCreated = ''GenerationCreated''"
| "claim_outcome_value OutcomeAccepted = ''Accepted''"
| "claim_outcome_value OutcomeRejected = ''Rejected''"
| "claim_outcome_value OutcomeExpired = ''Expired''"
| "claim_outcome_value OutcomeReleased = ''Released''"

record claim_request =
  cq_operation :: claim_operation
  cq_organization :: string
  cq_workload :: string
  cq_plan :: string
  cq_item :: string
  cq_dispatch :: string
  cq_dispatch_digest :: string
  cq_claimant :: string
  cq_claimant_digest :: string
  cq_candidate :: string
  cq_policy :: string
  cq_policy_version :: string
  cq_policy_digest :: string
  cq_boundary :: string
  cq_at :: instant
  cq_clock :: string
  cq_clock_version :: string
  cq_configuration :: string
  cq_expected :: int
  cq_key :: string
  cq_reason :: "string option"
  cq_schema :: string
  cq_component :: string
  cq_serialization :: string

text \<open>\<open>WorkClaimRequest.__post_init__\<close>, with the time beside the record.\<close>

definition claim_request_init :: "normalizer \<Rightarrow> claim_request \<Rightarrow> pytime \<Rightarrow> claim_request res" where
  "claim_request_init nfc q semantic_at =
     bindr (claim_text nfc (cq_organization q)) (\<lambda>organization.
     bindr (claim_text nfc (cq_workload q)) (\<lambda>workload.
     bindr (claim_text nfc (cq_plan q)) (\<lambda>plan.
     bindr (claim_text nfc (cq_item q)) (\<lambda>item.
     bindr (claim_text nfc (cq_dispatch q)) (\<lambda>dispatch.
     bindr (claim_text nfc (cq_claimant q)) (\<lambda>claimant.
     bindr (claim_text nfc (cq_candidate q)) (\<lambda>candidate.
     bindr (claim_text nfc (cq_policy q)) (\<lambda>policy.
     bindr (claim_text nfc (cq_policy_version q)) (\<lambda>policy_version.
     bindr (claim_text nfc (cq_boundary q)) (\<lambda>boundary.
     bindr (claim_text nfc (cq_clock q)) (\<lambda>clk.
     bindr (claim_text nfc (cq_clock_version q)) (\<lambda>clk_version.
     bindr (claim_text nfc (cq_configuration q)) (\<lambda>configuration.
     bindr (claim_text nfc (cq_key q)) (\<lambda>key.
     bindr (claim_hex nfc (cq_dispatch_digest q)) (\<lambda>dispatch_digest.
     bindr (claim_hex nfc (cq_claimant_digest q)) (\<lambda>claimant_digest.
     bindr (claim_hex nfc (cq_policy_digest q)) (\<lambda>policy_digest.
     bindr (claim_time semantic_at) (\<lambda>at.
     bindr (claim_optional_text nfc (cq_reason q)) (\<lambda>reason.
     bindr (raise_if (cq_expected q < 0) claim_invalid) (\<lambda>_.
     bindr (raise_if (cq_operation q = Release \<and> reason = None) claim_invalid) (\<lambda>_.
     bindr (raise_if (cq_operation q \<noteq> Release \<and> reason \<noteq> None) claim_invalid) (\<lambda>_.
     bindr (raise_if (cq_schema q \<noteq> supported_claim_schema) claim_unsupported) (\<lambda>_.
     bindr (raise_if (cq_component q \<noteq> supported_claim_component) claim_unsupported) (\<lambda>_.
     bindr (raise_if (cq_serialization q \<noteq> supported_serialization) claim_unsupported) (\<lambda>_.
       Inr (q\<lparr>cq_organization := organization, cq_workload := workload, cq_plan := plan, cq_item := item,
              cq_dispatch := dispatch, cq_claimant := claimant, cq_candidate := candidate, cq_policy := policy,
              cq_policy_version := policy_version, cq_boundary := boundary, cq_clock := clk,
              cq_clock_version := clk_version, cq_configuration := configuration, cq_key := key,
              cq_dispatch_digest := dispatch_digest, cq_claimant_digest := claimant_digest,
              cq_policy_digest := policy_digest, cq_at := at, cq_reason := reason\<rparr>))))))))))))))))))))))))))"

type_synonym lineage_key = "string \<times> string \<times> string \<times> string"

definition claim_lineage_key :: "claim_request \<Rightarrow> lineage_key" where
  "claim_lineage_key q = (cq_organization q, cq_workload q, cq_plan q, cq_item q)"

record claim_metadata =
  cm_boundary :: string
  cm_at :: instant
  cm_clock :: string
  cm_clock_version :: string
  cm_configuration :: string
  cm_component :: string
  cm_serialization :: string

record claim_event =
  ce_id :: string
  ce_lineage :: string
  ce_organization :: string
  ce_workload :: string
  ce_plan :: string
  ce_item :: string
  ce_type :: claim_event_type
  ce_outcome :: claim_outcome
  ce_reasons :: "string list"
  ce_dispatch :: evidence_ref
  ce_claimant_ref :: evidence_ref
  ce_claimant :: string
  ce_candidate :: string
  ce_policy :: evidence_ref
  ce_policy_version :: string
  ce_version :: int
  ce_generation :: int
  ce_fence :: "int option"
  ce_at :: instant
  ce_expires :: "instant option"
  ce_release_reason :: "string option"
  ce_causal :: "string option"
  ce_input_digest :: string
  ce_digest :: string
  ce_idempotency :: string
  ce_metadata :: claim_metadata
  ce_recorded :: instant
  ce_schema :: string

text \<open>\<open>WorkClaimEvent.__post_init__\<close>; the times of the event are instants already.\<close>

definition claim_event_init :: "normalizer \<Rightarrow> claim_event \<Rightarrow> pytime \<Rightarrow> claim_event res" where
  "claim_event_init nfc e recorded_at =
     bindr (claim_hex nfc (ce_id e)) (\<lambda>i.
     bindr (claim_hex nfc (ce_lineage e)) (\<lambda>lineage.
     bindr (claim_hex nfc (ce_input_digest e)) (\<lambda>input.
     bindr (claim_hex nfc (ce_digest e)) (\<lambda>digest.
     bindr (claim_hex nfc (ce_idempotency e)) (\<lambda>idem.
     bindr (claim_text nfc (ce_organization e)) (\<lambda>organization.
     bindr (claim_text nfc (ce_workload e)) (\<lambda>workload.
     bindr (claim_text nfc (ce_plan e)) (\<lambda>plan.
     bindr (claim_text nfc (ce_item e)) (\<lambda>item.
     bindr (claim_text nfc (ce_claimant e)) (\<lambda>claimant.
     bindr (claim_text nfc (ce_candidate e)) (\<lambda>candidate.
     bindr (claim_text nfc (ce_policy_version e)) (\<lambda>policy_version.
     bindr (raise_if (ce_version e < 1) claim_invalid) (\<lambda>_.
     bindr (raise_if (ce_generation e < 1) claim_invalid) (\<lambda>_.
     bindr (raise_if (case ce_fence e of None \<Rightarrow> False | Some f \<Rightarrow> f < 1) claim_invalid) (\<lambda>_.
     bindr (raise_if (ce_type e = ClaimAccepted \<and> ce_fence e = None) claim_invalid) (\<lambda>_.
     bindr (raise_if (ce_type e \<noteq> ClaimAccepted \<and> ce_fence e \<noteq> None) claim_invalid) (\<lambda>_.
     bindr (mapr (claim_text nfc) (ce_reasons e)) (\<lambda>texts.
     let reasons = sort texts in
     bindr (raise_if (reasons = [] \<or> \<not> distinct reasons) claim_invalid) (\<lambda>_.
     bindr (claim_optional_text nfc (ce_release_reason e)) (\<lambda>release_reason.
     bindr (claim_optional_text nfc (ce_causal e)) (\<lambda>causal.
     bindr (claim_time recorded_at) (\<lambda>recorded.
     bindr (raise_if (ce_schema e \<noteq> supported_claim_schema) claim_unsupported) (\<lambda>_.
       Inr (e\<lparr>ce_id := i, ce_lineage := lineage, ce_input_digest := input, ce_digest := digest,
              ce_idempotency := idem, ce_organization := organization, ce_workload := workload,
              ce_plan := plan, ce_item := item, ce_claimant := claimant, ce_candidate := candidate,
              ce_policy_version := policy_version, ce_reasons := reasons,
              ce_release_reason := release_reason, ce_causal := causal,
              ce_recorded := recorded\<rparr>))))))))))))))))))))))))"

section \<open>Evidence\<close>

definition claimant_evidence_ns :: string where
  "claimant_evidence_ns = ''edgeiq.work-claim-claimant-evidence.v1''"

definition supported_claimant_schema :: string where
  "supported_claimant_schema = ''claimant-evidence.v1''"

definition supported_claimant_producer :: string where
  "supported_claimant_producer = ''claimant-evidence.producer.v1''"

record claimant_evidence =
  cl_evidence :: string
  cl_claimant :: string
  cl_candidate :: string
  cl_organization :: string
  cl_workload :: string
  cl_boundary :: string
  cl_effective :: instant
  cl_expires :: instant
  cl_schema :: string
  cl_producer :: string
  cl_digest :: string
  cl_content :: string

definition build_claimant_evidence ::
  "normalizer \<Rightarrow> string \<Rightarrow> string \<Rightarrow> string \<Rightarrow> string \<Rightarrow> string \<Rightarrow> string \<Rightarrow> pytime \<Rightarrow> pytime \<Rightarrow> string
    \<Rightarrow> string \<Rightarrow> claimant_evidence res"
where
  "build_claimant_evidence nfc evidence_id claimant candidate organization workload boundary
      effective_at expires_at schema producer =
     bindr (claim_time effective_at) (\<lambda>effective.
     bindr (claim_time expires_at) (\<lambda>expires.
     bindr (raise_if (expires < effective) claim_invalid) (\<lambda>_.
     bindr (claim_text nfc boundary) (\<lambda>bd.
     bindr (claim_text nfc claimant) (\<lambda>cl.
     bindr (claim_text nfc evidence_id) (\<lambda>ev.
     bindr (claim_text nfc organization) (\<lambda>org.
     bindr (claim_text nfc candidate) (\<lambda>cand.
     bindr (claim_text nfc workload) (\<lambda>wl.
     bindr (claim_content nfc [
         (''authentication_boundary'', PStr bd),
         (''claimant_id'', PStr cl),
         (''effective_at'', ptime effective),
         (''evidence_id'', PStr ev),
         (''expires_at'', ptime expires),
         (''organization_id'', PStr org),
         (''producer_version'', PStr producer),
         (''schema_version'', PStr schema),
         (''selected_candidate_id'', PStr cand),
         (''workload_context_id'', PStr wl)]) (\<lambda>content.
       Inr \<lparr>cl_evidence = ev, cl_claimant = cl, cl_candidate = cand, cl_organization = org,
            cl_workload = wl, cl_boundary = bd, cl_effective = effective, cl_expires = expires,
            cl_schema = schema, cl_producer = producer,
            cl_digest = namespaced_digest claimant_evidence_ns content, cl_content = content\<rparr>))))))))))"

definition validate_claimant :: "normalizer \<Rightarrow> claimant_evidence \<Rightarrow> unit res" where
  "validate_claimant nfc v =
     bindr (raise_if (cl_schema v \<noteq> supported_claimant_schema \<or> cl_producer v \<noteq> supported_claimant_producer)
             claim_unsupported) (\<lambda>_.
     bindr (build_claimant_evidence nfc (cl_evidence v) (cl_claimant v) (cl_candidate v) (cl_organization v)
             (cl_workload v) (cl_boundary v) (utc (cl_effective v)) (utc (cl_expires v)) (cl_schema v)
             (cl_producer v)) (\<lambda>rebuilt.
     raise_if (rebuilt \<noteq> v) claim_mismatch))"

text \<open>\<open>except DispatchDecisionError\<close>: every exception of the dispatch package.\<close>

definition is_dispatch_error :: "exc \<Rightarrow> bool" where
  "is_dispatch_error e = (case e of DispatchError _ \<Rightarrow> True | _ \<Rightarrow> False)"

definition validate_dispatch_record :: "dispatch_record \<Rightarrow> unit res" where
  "validate_dispatch_record r =
     bindr (catch (dispatch_verify_recorded (dr_decision r) (dr_input r) (dr_content r))
             is_dispatch_error claim_mismatch) (\<lambda>_.
     raise_if (dd_outcome (dr_decision r) \<noteq> Approved) claim_invalid)"

section \<open>The state of a lineage and the policy\<close>

record claim_state =
  cs_version :: int
  cs_generation :: int
  cs_generation_event :: "claim_event option"
  cs_accepted :: "claim_event option"
  cs_ended :: "claim_event option"
  cs_fence :: int
  cs_last :: "claim_event option"

definition claim_start :: claim_state where
  "claim_start = \<lparr>cs_version = 0, cs_generation = 0, cs_generation_event = None, cs_accepted = None,
     cs_ended = None, cs_fence = 0, cs_last = None\<rparr>"

record claim_decision =
  cd_type :: claim_event_type
  cd_outcome :: claim_outcome
  cd_reasons :: "string list"
  cd_generation :: int
  cd_fence :: "int option"
  cd_ttl :: "int option"
  cd_causal :: "string option"

record claim_policy =
  cp_id :: string
  cp_version :: string
  cp_ttl :: int
  cp_digest :: string

definition claimant_matches :: "claimant_evidence \<Rightarrow> dispatch_record \<Rightarrow> bool" where
  "claimant_matches claimant dispatch \<longleftrightarrow> cl_candidate claimant = dd_candidate (dr_decision dispatch)"

text \<open>A decision that carries neither a fence nor an expiry.\<close>

definition plain_decision ::
  "claim_event_type \<Rightarrow> claim_outcome \<Rightarrow> string \<Rightarrow> int \<Rightarrow> string option \<Rightarrow> claim_decision"
where
  "plain_decision ty out reason generation causal =
     \<lparr>cd_type = ty, cd_outcome = out, cd_reasons = [reason], cd_generation = generation, cd_fence = None,
      cd_ttl = None, cd_causal = causal\<rparr>"

definition claim_decide ::
  "claim_policy \<Rightarrow> claim_request \<Rightarrow> dispatch_record \<Rightarrow> claimant_evidence \<Rightarrow> claim_state \<Rightarrow> claim_decision res"
where
  "claim_decide p q dispatch claimant s =
     bindr (raise_if (case cs_last s of None \<Rightarrow> False | Some e \<Rightarrow> cq_at q < ce_at e) claim_illegal) (\<lambda>_.
     if cq_operation q = CreateGeneration then
       (if cs_version s = 0
        then Inr (plain_decision GenerationCreated OutcomeGenerationCreated ''GENERATION_CREATED'' 1 None)
        else
          (case (cs_generation_event s, cs_ended s) of
             (Some _, Some ended) \<Rightarrow>
               Inr (plain_decision GenerationCreated OutcomeGenerationCreated ''GENERATION_CREATED''
                 (cs_generation s + 1) (Some (ce_id ended)))
           | _ \<Rightarrow> Inl claim_illegal))
     else
       (case (cs_generation_event s, cs_ended s) of
          (Some generation_event, None) \<Rightarrow>
            (if cq_operation q = Claim then
               (case cs_accepted s of
                  Some accepted \<Rightarrow>
                    Inr (plain_decision ClaimRejected OutcomeRejected ''ACTIVE_CLAIM_EXISTS''
                      (cs_generation s) (Some (ce_id accepted)))
                | None \<Rightarrow>
                    if \<not> claimant_matches claimant dispatch
                    then Inr (plain_decision ClaimRejected OutcomeRejected ''CLAIMANT_NOT_SELECTED_CANDIDATE''
                      (cs_generation s) (Some (ce_id generation_event)))
                    else Inr \<lparr>cd_type = ClaimAccepted, cd_outcome = OutcomeAccepted,
                      cd_reasons = [''CLAIM_ACCEPTED''], cd_generation = cs_generation s,
                      cd_fence = Some (cs_fence s + 1), cd_ttl = Some (cp_ttl p),
                      cd_causal = Some (ce_id generation_event)\<rparr>)
             else
               (case cs_accepted s of
                  None \<Rightarrow> Inl claim_illegal
                | Some accepted \<Rightarrow>
                    if cq_dispatch q \<noteq> artifact_id (ce_dispatch accepted) then Inl claim_illegal
                    else if cq_operation q = Expire then
                      (if (case ce_expires accepted of None \<Rightarrow> True | Some t \<Rightarrow> cq_at q < t)
                       then Inl claim_illegal
                       else Inr (plain_decision ClaimExpired OutcomeExpired ''CLAIM_EXPIRED''
                         (cs_generation s) (Some (ce_id accepted))))
                    else
                      (if cl_claimant claimant \<noteq> ce_claimant accepted then Inl claim_illegal
                       else if \<not> claimant_matches claimant dispatch
                         \<or> cl_candidate claimant \<noteq> ce_candidate accepted then Inl claim_illegal
                       else Inr (plain_decision ClaimReleased OutcomeReleased ''CLAIM_RELEASED''
                         (cs_generation s) (Some (ce_id accepted))))))
        | _ \<Rightarrow> Inl claim_illegal))"

definition claim_policy_ns :: string where
  "claim_policy_ns = ''edgeiq.work-claim-policy.v1''"

definition make_claim_policy :: "normalizer \<Rightarrow> string \<Rightarrow> string \<Rightarrow> int \<Rightarrow> claim_policy res" where
  "make_claim_policy nfc policy_id policy_version ttl =
     bindr (claim_content nfc [
         (''claim_ttl_seconds'', PInt ttl),
         (''policy_id'', PStr policy_id),
         (''policy_version'', PStr policy_version),
         (''rules'', ptuple [''one_lineage'', ''owner_assigned_generation'', ''one_acceptance_per_generation'',
            ''acceptance_only_fence'', ''claimant_candidate_equivalence'', ''retained_semantic_expiry'',
            ''current_claimant_release''])]) (\<lambda>content.
       Inr \<lparr>cp_id = policy_id, cp_version = policy_version, cp_ttl = ttl,
            cp_digest = namespaced_digest claim_policy_ns content\<rparr>)"

definition claim_policy_v1 :: "normalizer \<Rightarrow> claim_policy res" where
  "claim_policy_v1 nfc = make_claim_policy nfc ''work-claim-policy'' ''work-claim-policy.v1'' 300"

definition claim_policy_for :: "normalizer \<Rightarrow> string \<Rightarrow> string \<Rightarrow> string \<Rightarrow> claim_policy res" where
  "claim_policy_for nfc policy_id policy_version digest =
     bindr (claim_policy_v1 nfc) (\<lambda>v1.
       case filter (\<lambda>p. cp_id p = policy_id \<and> cp_version p = policy_version) [v1] of
         [p] \<Rightarrow> if cp_digest p \<noteq> digest then Inl claim_mismatch else Inr p
       | _ \<Rightarrow> Inl claim_unsupported)"

section \<open>Serialization\<close>

definition claim_lineage_ns :: string where
  "claim_lineage_ns = ''edgeiq.work-claim-lineage-id.v1''"

definition claim_input_ns :: string where
  "claim_input_ns = ''edgeiq.work-claim-input.v1''"

definition claim_event_ns :: string where
  "claim_event_ns = ''edgeiq.work-claim-event.v1''"

definition claim_event_id_ns :: string where
  "claim_event_id_ns = ''edgeiq.work-claim-event-id.v1''"

definition claim_idempotency_ns :: string where
  "claim_idempotency_ns = ''edgeiq.work-claim-idempotency.v1''"

definition claim_lineage_identity :: "normalizer \<Rightarrow> lineage_key \<Rightarrow> string res" where
  "claim_lineage_identity nfc key =
     (case key of (org, wl, plan, item) \<Rightarrow>
       bindr (claim_content nfc [(''lineage_key'', ptuple [org, wl, plan, item])]) (\<lambda>content.
         Inr (namespaced_digest claim_lineage_ns content)))"

definition claim_idempotency_identity :: "normalizer \<Rightarrow> claim_request \<Rightarrow> string res" where
  "claim_idempotency_identity nfc q =
     bindr (claim_content nfc [
         (''operation'', PEnum (claim_operation_value (cq_operation q))),
         (''organization_id'', PStr (cq_organization q)),
         (''plan_id'', PStr (cq_plan q)),
         (''submitted_key'', PStr (cq_key q)),
         (''work_item_id'', PStr (cq_item q)),
         (''workload_context_id'', PStr (cq_workload q))]) (\<lambda>content.
       Inr (namespaced_digest claim_idempotency_ns content))"

definition claim_input_document ::
  "claim_request \<Rightarrow> dispatch_record \<Rightarrow> claimant_evidence \<Rightarrow> claim_policy \<Rightarrow> (string \<times> pyval) list"
where
  "claim_input_document q dispatch claimant p =
     (let d = dr_decision dispatch in
      [(''claim_policy'', pdict [
          (''canonical_digest'', PStr (cp_digest p)),
          (''claim_ttl_seconds'', PInt (cp_ttl p)),
          (''policy_id'', PStr (cp_id p)),
          (''policy_version'', PStr (cp_version p))]),
       (''claimant_evidence'', pdict [
          (''authentication_boundary'', PStr (cl_boundary claimant)),
          (''canonical_digest'', PStr (cl_digest claimant)),
          (''claimant_id'', PStr (cl_claimant claimant)),
          (''effective_at'', ptime (cl_effective claimant)),
          (''evidence_id'', PStr (cl_evidence claimant)),
          (''expires_at'', ptime (cl_expires claimant)),
          (''producer_version'', PStr (cl_producer claimant)),
          (''schema_version'', PStr (cl_schema claimant)),
          (''selected_candidate_id'', PStr (cl_candidate claimant))]),
       (''clock_source_id'', PStr (cq_clock q)),
       (''clock_source_version'', PStr (cq_clock_version q)),
       (''component_version'', PStr (cq_component q)),
       (''configuration_version'', PStr (cq_configuration q)),
       (''dispatch_evidence'', pdict [
          (''canonical_decision_digest'', PStr (dd_digest d)),
          (''canonical_input_digest'', PStr (dd_input_digest d)),
          (''component_version'', PStr (dq_component (dr_request dispatch))),
          (''dispatch_decision_id'', PStr (dd_id d)),
          (''dispatch_policy_version'', PStr (dd_policy_version d)),
          (''history_boundary'', PStr (dm_boundary (dd_metadata d))),
          (''outcome'', PEnum (dispatch_outcome_value (dd_outcome d))),
          (''schema_version'', PStr (dd_schema d)),
          (''serialization_version'', PStr (dq_serialization (dr_request dispatch))),
          (''stream_version'', PInt (dd_version d))]),
       (''evidence_boundary'', PStr (cq_boundary q)),
       (''expected_lineage_version'', PInt (cq_expected q)),
       (''operation'', PEnum (claim_operation_value (cq_operation q))),
       (''organization_id'', PStr (cq_organization q)),
       (''plan_id'', PStr (cq_plan q)),
       (''release_reason'', popt (cq_reason q)),
       (''schema_version'', PStr (cq_schema q)),
       (''selected_candidate_id'', PStr (cq_candidate q)),
       (''semantic_at'', ptime (cq_at q)),
       (''serialization_version'', PStr (cq_serialization q)),
       (''work_item_id'', PStr (cq_item q)),
       (''workload_context_id'', PStr (cq_workload q))])"

definition claim_input_content ::
  "normalizer \<Rightarrow> claim_request \<Rightarrow> dispatch_record \<Rightarrow> claimant_evidence \<Rightarrow> claim_policy \<Rightarrow> string res"
where
  "claim_input_content nfc q dispatch claimant p = claim_content nfc (claim_input_document q dispatch claimant p)"

definition claim_expiry :: "claim_request \<Rightarrow> claim_decision \<Rightarrow> instant option" where
  "claim_expiry q d = map_option (add_seconds (cq_at q)) (cd_ttl d)"

definition claim_payload ::
  "claim_request \<Rightarrow> dispatch_record \<Rightarrow> claimant_evidence \<Rightarrow> claim_policy \<Rightarrow> claim_decision \<Rightarrow> string
    \<Rightarrow> string \<Rightarrow> int \<Rightarrow> string \<Rightarrow> (string \<times> pyval) list"
where
  "claim_payload q dispatch claimant p d input_digest lineage version idempotency =
      [(''canonical_input_digest'', PStr input_digest),
       (''causal_event_id'', popt (cd_causal d)),
       (''claim_policy_reference'', pdict [
          (''artifact_id'', PStr (cp_id p)),
          (''canonical_digest'', PStr (cp_digest p)),
          (''policy_version'', PStr (cp_version p))]),
       (''claimant_id'', PStr (cl_claimant claimant)),
       (''claimant_reference'', ref_doc (cl_evidence claimant) (cl_digest claimant)),
       (''dispatch_reference'', ref_doc (dd_id (dr_decision dispatch)) (dd_digest (dr_decision dispatch))),
       (''event_type'', PEnum (claim_event_type_value (cd_type d))),
       (''expires_at'', popt_time (claim_expiry q d)),
       (''fence'', popt_int (cd_fence d)),
       (''generation'', PInt (cd_generation d)),
       (''idempotency_identity'', PStr idempotency),
       (''lineage_id'', PStr lineage),
       (''lineage_version'', PInt version),
       (''organization_id'', PStr (cq_organization q)),
       (''outcome'', PEnum (claim_outcome_value (cd_outcome d))),
       (''plan_id'', PStr (cq_plan q)),
       (''reason_codes'', ptuple (cd_reasons d)),
       (''reconstruction_metadata'', pdict [
          (''clock_source_id'', PStr (cq_clock q)),
          (''clock_source_version'', PStr (cq_clock_version q)),
          (''component_version'', PStr (cq_component q)),
          (''configuration_version'', PStr (cq_configuration q)),
          (''evidence_boundary'', PStr (cq_boundary q)),
          (''semantic_at'', ptime (cq_at q)),
          (''serialization_version'', PStr (cq_serialization q))]),
       (''release_reason'', popt (cq_reason q)),
       (''schema_version'', PStr (cq_schema q)),
       (''selected_candidate_id'', PStr (cq_candidate q)),
       (''semantic_at'', ptime (cq_at q)),
       (''work_item_id'', PStr (cq_item q)),
       (''workload_context_id'', PStr (cq_workload q))]"

text \<open>\<open>build_work_claim_event\<close> up to the construction of the event.\<close>

definition assemble_claim_event ::
  "normalizer \<Rightarrow> claim_request \<Rightarrow> dispatch_record \<Rightarrow> claimant_evidence \<Rightarrow> claim_policy \<Rightarrow> claim_decision
    \<Rightarrow> int \<Rightarrow> string \<Rightarrow> (claim_event \<times> string \<times> string) res"
where
  "assemble_claim_event nfc q dispatch claimant p d version idempotency =
     bindr (claim_input_content nfc q dispatch claimant p) (\<lambda>input_content.
     let input_digest = namespaced_digest claim_input_ns input_content in
     bindr (claim_lineage_identity nfc (claim_lineage_key q)) (\<lambda>lineage.
     bindr (claim_content nfc (claim_payload q dispatch claimant p d input_digest lineage version idempotency))
       (\<lambda>event_content.
     let event_digest = namespaced_digest claim_event_ns event_content in
     bindr (claim_content nfc [
         (''canonical_event_digest'', PStr event_digest),
         (''lineage_id'', PStr lineage),
         (''lineage_version'', PInt version)]) (\<lambda>id_content.
     bindr (claim_reference nfc (dd_id (dr_decision dispatch)) (dd_digest (dr_decision dispatch))) (\<lambda>dispatch_ref.
     bindr (claim_reference nfc (cl_evidence claimant) (cl_digest claimant)) (\<lambda>claimant_ref.
     bindr (claim_reference nfc (cp_id p) (cp_digest p)) (\<lambda>policy_ref.
       Inr (\<lparr>ce_id = namespaced_digest claim_event_id_ns id_content, ce_lineage = lineage,
          ce_organization = cq_organization q, ce_workload = cq_workload q, ce_plan = cq_plan q,
          ce_item = cq_item q, ce_type = cd_type d, ce_outcome = cd_outcome d, ce_reasons = cd_reasons d,
          ce_dispatch = dispatch_ref, ce_claimant_ref = claimant_ref, ce_claimant = cl_claimant claimant,
          ce_candidate = cq_candidate q, ce_policy = policy_ref, ce_policy_version = cp_version p,
          ce_version = version, ce_generation = cd_generation d, ce_fence = cd_fence d, ce_at = cq_at q,
          ce_expires = claim_expiry q d, ce_release_reason = cq_reason q, ce_causal = cd_causal d,
          ce_input_digest = input_digest, ce_digest = event_digest, ce_idempotency = idempotency,
          ce_metadata = \<lparr>cm_boundary = cq_boundary q, cm_at = cq_at q, cm_clock = cq_clock q,
             cm_clock_version = cq_clock_version q, cm_configuration = cq_configuration q,
             cm_component = supported_claim_component, cm_serialization = supported_serialization\<rparr>,
          ce_recorded = 0, ce_schema = supported_claim_schema\<rparr>,
          input_content, event_content))))))))"

definition build_claim_event ::
  "normalizer \<Rightarrow> claim_request \<Rightarrow> dispatch_record \<Rightarrow> claimant_evidence \<Rightarrow> claim_policy \<Rightarrow> claim_decision
    \<Rightarrow> int \<Rightarrow> string \<Rightarrow> pytime \<Rightarrow> (claim_event \<times> string \<times> string) res"
where
  "build_claim_event nfc q dispatch claimant p d version idempotency recorded_at =
     bindr (assemble_claim_event nfc q dispatch claimant p d version idempotency)
       (\<lambda>(fields, input_content, event_content).
     bindr (claim_event_init nfc fields recorded_at) (\<lambda>event.
       Inr (event, input_content, event_content)))"

definition claim_verify_recorded :: "claim_event \<Rightarrow> string \<Rightarrow> string \<Rightarrow> unit res" where
  "claim_verify_recorded e input_content event_content =
     bindr (raise_if (namespaced_digest claim_input_ns input_content \<noteq> ce_input_digest e) claim_mismatch) (\<lambda>_.
     raise_if (namespaced_digest claim_event_ns event_content \<noteq> ce_digest e) claim_mismatch)"

end
