(* ===== verification/ClaimService.thy ===== *)
theory ClaimService
  imports ClaimDecision
begin

text \<open>
  The repository, the replay and the service of \<open>app/runtime/work_claim/service.py\<close> with
  the record of \<open>ports.py\<close>.
\<close>

section \<open>The repository\<close>

record claim_record =
  cr_request :: claim_request
  cr_event :: claim_event
  cr_idempotency :: string
  cr_input :: string
  cr_content :: string

record claim_repo =
  cp_streams :: "lineage_key \<Rightarrow> claim_record list"
  cp_by_id :: "string \<rightharpoonup> claim_record"
  cp_idempotency :: "string \<times> lineage_key \<times> string \<rightharpoonup> claim_record"
  cp_current :: "lineage_key \<rightharpoonup> claim_event"

definition claim_repo_init :: claim_repo where
  "claim_repo_init = \<lparr>cp_streams = (\<lambda>_. []), cp_by_id = Map.empty, cp_idempotency = Map.empty,
     cp_current = Map.empty\<rparr>"

definition claim_record_key :: "claim_record \<Rightarrow> lineage_key" where
  "claim_record_key r = claim_lineage_key (cr_request r)"

definition claim_record_ikey :: "claim_record \<Rightarrow> string \<times> lineage_key \<times> string" where
  "claim_record_ikey r = (cq_organization (cr_request r), claim_record_key r, cr_idempotency r)"

definition claim_conflict :: exc where
  "claim_conflict = ClaimError WorkClaimIdempotencyConflict"

definition claim_version_conflict :: exc where
  "claim_version_conflict = ClaimError WorkClaimVersionConflict"

definition claim_idempotent ::
  "claim_repo \<Rightarrow> string \<Rightarrow> lineage_key \<Rightarrow> string \<Rightarrow> string \<Rightarrow> claim_event option res"
where
  "claim_idempotent st org key identity input_content =
     (case cp_idempotency st (org, key, identity) of
        None \<Rightarrow> Inr None
      | Some prior \<Rightarrow> if cr_input prior \<noteq> input_content then Inl claim_conflict else Inr (Some (cr_event prior)))"

definition claim_append :: "claim_repo \<Rightarrow> claim_record \<Rightarrow> int \<Rightarrow> (claim_repo \<times> claim_event \<times> bool) res" where
  "claim_append st r expected_version =
     (let key = claim_record_key r; e = cr_event r in
      case cp_idempotency st (claim_record_ikey r) of
        Some prior \<Rightarrow>
          if cr_input prior \<noteq> cr_input r then Inl claim_conflict else Inr (st, cr_event prior, False)
      | None \<Rightarrow>
          (let history = cp_streams st key in
           if expected_version \<noteq> int (length history) then Inl claim_version_conflict
           else if cq_expected (cr_request r) \<noteq> expected_version then Inl claim_version_conflict
           else if ce_version e \<noteq> expected_version + 1 then Inl claim_version_conflict
           else if cp_by_id st (ce_id e) \<noteq> None then Inl claim_conflict
           else Inr (\<lparr>cp_streams = (cp_streams st)(key := history @ [r]),
                      cp_by_id = (cp_by_id st)(ce_id e \<mapsto> r),
                      cp_idempotency = (cp_idempotency st)(claim_record_ikey r \<mapsto> r),
                      cp_current = (cp_current st)(key \<mapsto> e)\<rparr>, e, True)))"

definition claim_store_inv :: "claim_repo \<Rightarrow> bool" where
  "claim_store_inv st \<longleftrightarrow>
     store_inv (cp_streams st) (cp_by_id st) (cp_idempotency st) claim_record_key claim_record_ikey
       (\<lambda>r. ce_id (cr_event r)) (\<lambda>r. ce_version (cr_event r))"

interpretation claims: stream_store claim_append cp_streams cp_by_id cp_idempotency
  claim_record_key claim_record_ikey cr_input cr_event
  "\<lambda>r. ce_id (cr_event r)" "\<lambda>r. ce_version (cr_event r)"
  by unfold_locales
    (auto simp: claim_append_def Let_def split: option.splits if_splits)

section \<open>The derived state\<close>

definition claim_failed :: exc where
  "claim_failed = ClaimError WorkClaimReconstructionFailed"

definition claim_advance :: "claim_state \<Rightarrow> claim_event \<Rightarrow> claim_state res" where
  "claim_advance s e =
     (if ce_version e \<noteq> cs_version s + 1 then Inl claim_failed
      else if ce_type e = GenerationCreated then
        (if ce_generation e \<noteq> (if cs_generation s = 0 then 1 else cs_generation s + 1) then Inl claim_failed
         else if cs_generation s \<noteq> 0 \<and> cs_ended s = None then Inl claim_failed
         else Inr \<lparr>cs_version = ce_version e, cs_generation = ce_generation e, cs_generation_event = Some e,
                   cs_accepted = None, cs_ended = None, cs_fence = cs_fence s, cs_last = Some e\<rparr>)
      else if cs_generation_event s = None \<or> ce_generation e \<noteq> cs_generation s then Inl claim_failed
      else if cs_ended s \<noteq> None then Inl claim_failed
      else if ce_type e = ClaimAccepted then
        (if cs_accepted s \<noteq> None then Inl claim_failed
         else if ce_fence e \<noteq> Some (cs_fence s + 1) then Inl claim_failed
         else Inr (s\<lparr>cs_version := ce_version e, cs_accepted := Some e, cs_ended := None,
                     cs_fence := cs_fence s + 1, cs_last := Some e\<rparr>))
      else if ce_fence e \<noteq> None then Inl claim_failed
      else if ce_type e = ClaimRejected then
        Inr (s\<lparr>cs_version := ce_version e, cs_ended := None, cs_last := Some e\<rparr>)
      else
        (case cs_accepted s of
           None \<Rightarrow> Inl claim_failed
         | Some accepted \<Rightarrow>
             if ce_causal e \<noteq> Some (ce_id accepted) then Inl claim_failed
             else Inr (s\<lparr>cs_version := ce_version e, cs_ended := Some e, cs_last := Some e\<rparr>)))"

section \<open>The service\<close>

record claim_sources =
  src_dispatches :: "dispatch_record lookup"
  src_claimants :: "claimant_evidence lookup"

definition claim_missing :: exc where
  "claim_missing = ClaimError WorkClaimEvidenceUnavailable"

text \<open>\<open>InMemoryScopedEvidenceSource\<close> and \<open>require_evidence\<close> of the package.\<close>

definition claim_retain :: "('a \<Rightarrow> unit res) \<Rightarrow> ('a \<Rightarrow> string) \<Rightarrow> 'a items \<Rightarrow> 'a \<Rightarrow> 'a items res" where
  [simp]: "claim_retain = source_retain claim_invalid"

definition claim_get_scoped ::
  "('a \<Rightarrow> unit res) \<Rightarrow> ('a \<Rightarrow> string) \<Rightarrow> ('a \<Rightarrow> string) \<Rightarrow> 'a items \<Rightarrow> 'a lookup"
where
  [simp]: "claim_get_scoped = source_get"

definition claim_require :: "'a lookup \<Rightarrow> string \<Rightarrow> string \<Rightarrow> string \<Rightarrow> 'a res" where
  [simp]: "claim_require = require_evidence claim_missing"

definition claim_resolve ::
  "normalizer \<Rightarrow> claim_sources \<Rightarrow> claim_request \<Rightarrow> (dispatch_record \<times> claimant_evidence \<times> claim_policy) res"
where
  "claim_resolve nfc src q =
     (let org = cq_organization q; wl = cq_workload q in
     bindr (claim_require (src_dispatches src) (cq_dispatch q) org wl) (\<lambda>dispatch.
     bindr (claim_require (src_claimants src) (cq_claimant q) org wl) (\<lambda>claimant.
     let d = dr_decision dispatch in
     bindr (raise_if (dd_digest d \<noteq> cq_dispatch_digest q) claim_mismatch) (\<lambda>_.
     bindr (raise_if (cl_digest claimant \<noteq> cq_claimant_digest q) claim_mismatch) (\<lambda>_.
     bindr (raise_if (dd_outcome d \<noteq> Approved) claim_invalid) (\<lambda>_.
     bindr (raise_if (artifact_id (dd_plan d) \<noteq> cq_plan q \<or> dd_item d \<noteq> cq_item q) claim_invalid) (\<lambda>_.
     bindr (raise_if (dd_candidate d \<noteq> cq_candidate q) claim_invalid) (\<lambda>_.
     bindr (raise_if (dm_boundary (dd_metadata d) \<noteq> cq_boundary q) claim_invalid) (\<lambda>_.
     bindr (raise_if (cq_at q < cl_effective claimant \<or> cl_expires claimant < cq_at q) claim_invalid) (\<lambda>_.
     bindr (claim_policy_for nfc (cq_policy q) (cq_policy_version q) (cq_policy_digest q)) (\<lambda>policy.
       Inr (dispatch, claimant, policy))))))))))))"

text \<open>One turn of the loop of \<open>_replay\<close>: the record is checked against the state and the
  evidence, the event is built again, and the state advances.\<close>

definition claim_replay_step ::
  "normalizer \<Rightarrow> claim_sources \<Rightarrow> lineage_key \<Rightarrow> claim_state \<times> (string \<rightharpoonup> claim_event) \<Rightarrow> claim_record
    \<Rightarrow> (claim_state \<times> (string \<rightharpoonup> claim_event)) res"
where
  "claim_replay_step nfc src first_key acc r =
     (case acc of (state, rebuilt_by_id) \<Rightarrow>
     bindr (raise_if (claim_record_key r \<noteq> first_key) claim_failed) (\<lambda>_.
     bindr (claim_lineage_identity nfc (claim_record_key r)) (\<lambda>lineage.
     bindr (raise_if (ce_lineage (cr_event r) \<noteq> lineage) claim_failed) (\<lambda>_.
     bindr (raise_if (cq_expected (cr_request r) \<noteq> cs_version state) claim_failed) (\<lambda>_.
     bindr (claim_verify_recorded (cr_event r) (cr_input r) (cr_content r)) (\<lambda>_.
     bindr (claim_resolve nfc src (cr_request r)) (\<lambda>(dispatch, claimant, policy).
     bindr (claim_input_content nfc (cr_request r) dispatch claimant policy) (\<lambda>expected_input.
     bindr (raise_if (expected_input \<noteq> cr_input r) claim_mismatch) (\<lambda>_.
     bindr (claim_decide policy (cr_request r) dispatch claimant state) (\<lambda>decision.
     bindr (build_claim_event nfc (cr_request r) dispatch claimant policy decision (cs_version state + 1)
         (cr_idempotency r) (utc (ce_recorded (cr_event r))))
       (\<lambda>(rebuilt, rebuilt_input, rebuilt_content).
     bindr (raise_if (rebuilt_input \<noteq> cr_input r \<or> rebuilt_content \<noteq> cr_content r \<or> rebuilt \<noteq> cr_event r)
         (ClaimError WorkClaimReplayDiverged)) (\<lambda>_.
     bindr (claim_advance state rebuilt) (\<lambda>state'.
       Inr (state', rebuilt_by_id(ce_id rebuilt \<mapsto> rebuilt)))))))))))))))"

definition claim_replay_from ::
  "normalizer \<Rightarrow> claim_sources \<Rightarrow> lineage_key \<Rightarrow> claim_state \<times> (string \<rightharpoonup> claim_event) \<Rightarrow> claim_record list
    \<Rightarrow> (claim_state \<times> (string \<rightharpoonup> claim_event)) res"
where
  "claim_replay_from nfc src first_key = fold_res (claim_replay_step nfc src first_key)"

definition claim_replay ::
  "normalizer \<Rightarrow> claim_sources \<Rightarrow> claim_record list \<Rightarrow> (claim_state \<times> (string \<rightharpoonup> claim_event)) res"
where
  "claim_replay nfc src history =
     (case history of
        [] \<Rightarrow> Inr (claim_start, Map.empty)
      | r # _ \<Rightarrow> claim_replay_from nfc src (claim_record_key r) (claim_start, Map.empty) history)"

definition claim_evaluate ::
  "normalizer \<Rightarrow> claim_sources \<Rightarrow> claim_repo \<Rightarrow> claim_request \<Rightarrow> pytime
    \<Rightarrow> (claim_repo \<times> evaluation_outcome \<times> claim_event \<times> int) res"
where
  "claim_evaluate nfc src st q now =
     bindr (claim_resolve nfc src q) (\<lambda>(dispatch, claimant, policy).
     bindr (claim_idempotency_identity nfc q) (\<lambda>identity.
     bindr (claim_input_content nfc q dispatch claimant policy) (\<lambda>input_content.
     bindr (claim_idempotent st (cq_organization q) (claim_lineage_key q) identity input_content) (\<lambda>prior.
     case prior of
       Some e \<Rightarrow> Inr (st, EvaluationExistingEquivalent, e, ce_version e)
     | None \<Rightarrow>
         (let history = cp_streams st (claim_lineage_key q) in
         bindr (raise_if (cq_expected q \<noteq> int (length history)) claim_version_conflict) (\<lambda>_.
         bindr (claim_replay nfc src history) (\<lambda>(state, _).
         bindr (claim_decide policy q dispatch claimant state) (\<lambda>decision.
         bindr (build_claim_event nfc q dispatch claimant policy decision (cq_expected q + 1) identity now)
           (\<lambda>(event, input_content, event_content).
         bindr (claim_append st \<lparr>cr_request = q, cr_event = event, cr_idempotency = identity,
                  cr_input = input_content, cr_content = event_content\<rparr> (cq_expected q))
           (\<lambda>(st', accepted, created).
           Inr (st', evaluation_outcome_of created, accepted, ce_version accepted))))))))))) "

definition claim_not_found :: exc where
  "claim_not_found = ClaimError WorkClaimNotFound"

definition claim_get :: "claim_repo \<Rightarrow> string \<Rightarrow> string \<Rightarrow> string \<Rightarrow> claim_event res" where
  "claim_get st i org wl =
     (case cp_by_id st i of
        None \<Rightarrow> Inl claim_not_found
      | Some r \<Rightarrow>
          if ce_organization (cr_event r) \<noteq> org \<or> ce_workload (cr_event r) \<noteq> wl then Inl claim_not_found
          else Inr (cr_event r))"

definition claim_history :: "claim_repo \<Rightarrow> lineage_key \<Rightarrow> string \<Rightarrow> string \<Rightarrow> claim_event list res" where
  "claim_history st key org wl =
     (if fst key \<noteq> org \<or> fst (snd key) \<noteq> wl then Inl claim_not_found
      else Inr (map cr_event (cp_streams st key)))"

definition claim_current :: "claim_repo \<Rightarrow> lineage_key \<Rightarrow> string \<Rightarrow> string \<Rightarrow> claim_event option res" where
  "claim_current st key org wl =
     (if fst key \<noteq> org \<or> fst (snd key) \<noteq> wl then Inl claim_not_found else Inr (cp_current st key))"

definition claim_reconstruct ::
  "normalizer \<Rightarrow> claim_sources \<Rightarrow> claim_repo \<Rightarrow> string \<Rightarrow> string \<Rightarrow> string \<Rightarrow> claim_event res"
where
  "claim_reconstruct nfc src st i org wl =
     (case cp_by_id st i of
        None \<Rightarrow> Inl claim_not_found
      | Some r \<Rightarrow>
          if ce_organization (cr_event r) \<noteq> org \<or> ce_workload (cr_event r) \<noteq> wl then Inl claim_not_found
          else
            bindr (claim_replay nfc src (cp_streams st (claim_record_key r))) (\<lambda>(_, rebuilt).
              case rebuilt i of None \<Rightarrow> Inl claim_failed | Some e \<Rightarrow> Inr e))"

end
