(* ===== verification/ClaimProperties.thy ===== *)
theory ClaimProperties
  imports ClaimService
begin

text \<open>
  What a lineage of claims promises: its history replays in every later state, its fences
  count the accepted claims, and it follows the abstract machine of a lease that one holder
  has at a time.
\<close>

section \<open>Worlds\<close>

record claim_world =
  cw_dispatches :: "dispatch_record items"
  cw_claimants :: "claimant_evidence items"
  cw_repository :: claim_repo

definition claim_world_init :: claim_world where
  "claim_world_init = \<lparr>cw_dispatches = Map.empty, cw_claimants = Map.empty, cw_repository = claim_repo_init\<rparr>"

definition claim_dispatch_id :: "dispatch_record \<Rightarrow> string" where
  "claim_dispatch_id r = dd_id (dr_decision r)"

definition dispatch_source :: "dispatch_record items \<Rightarrow> dispatch_record lookup" where
  [simp]: "dispatch_source = claim_get_scoped validate_dispatch_record (\<lambda>r. dd_organization (dr_decision r))
     (\<lambda>r. dd_workload (dr_decision r))"

definition claimant_source :: "normalizer \<Rightarrow> claimant_evidence items \<Rightarrow> claimant_evidence lookup" where
  [simp]: "claimant_source nfc = claim_get_scoped (validate_claimant nfc) cl_organization cl_workload"

definition claim_sources_of :: "normalizer \<Rightarrow> claim_world \<Rightarrow> claim_sources" where
  "claim_sources_of nfc w =
     \<lparr>src_dispatches = dispatch_source (cw_dispatches w), src_claimants = claimant_source nfc (cw_claimants w)\<rparr>"

inductive claim_step :: "normalizer \<Rightarrow> claim_world \<Rightarrow> claim_world \<Rightarrow> bool" for nfc where
  dispatch: "claim_retain validate_dispatch_record claim_dispatch_id (cw_dispatches w) v = Inr items \<Longrightarrow>
    claim_step nfc w (w\<lparr>cw_dispatches := items\<rparr>)"
| claimant: "claim_retain (validate_claimant nfc) cl_evidence (cw_claimants w) v = Inr items \<Longrightarrow>
    claim_step nfc w (w\<lparr>cw_claimants := items\<rparr>)"
| evaluate: "claim_evaluate nfc (claim_sources_of nfc w) (cw_repository w) q now = Inr (st, out, e, m) \<Longrightarrow>
    claim_step nfc w (w\<lparr>cw_repository := st\<rparr>)"

inductive claim_steps :: "normalizer \<Rightarrow> claim_world \<Rightarrow> claim_world \<Rightarrow> bool" for nfc where
  none: "claim_steps nfc w w"
| step: "claim_steps nfc w w1 \<Longrightarrow> claim_step nfc w1 w2 \<Longrightarrow> claim_steps nfc w w2"

section \<open>Evidence stays\<close>

definition claim_sources_le :: "claim_sources \<Rightarrow> claim_sources \<Rightarrow> bool" where
  "claim_sources_le a b \<longleftrightarrow>
     (\<forall>i org wl v. src_dispatches a i org wl = Inr (Some v) \<longrightarrow> src_dispatches b i org wl = Inr (Some v))
     \<and> (\<forall>i org wl v. src_claimants a i org wl = Inr (Some v) \<longrightarrow> src_claimants b i org wl = Inr (Some v))"

lemma claim_sources_le_refl [simp]: "claim_sources_le a a"
  by (simp add: claim_sources_le_def)

lemma claim_sources_le_trans: "claim_sources_le a b \<Longrightarrow> claim_sources_le b c \<Longrightarrow> claim_sources_le a c"
  by (simp add: claim_sources_le_def)

lemma claim_step_sources:
  assumes "claim_step nfc w w'"
  shows "claim_sources_le (claim_sources_of nfc w) (claim_sources_of nfc w')"
  using assms
  by cases (auto simp: claim_sources_le_def claim_sources_of_def dest: source.retain_keeps)

lemma claim_steps_sources:
  "claim_steps nfc w w' \<Longrightarrow> claim_sources_le (claim_sources_of nfc w) (claim_sources_of nfc w')"
  by (induction rule: claim_steps.induct) (auto intro: claim_sources_le_trans claim_step_sources)

lemma claim_resolve_Inr:
  "claim_resolve nfc src q = Inr (r, c, p) \<longleftrightarrow>
     (let org = cq_organization q; wl = cq_workload q; d = dr_decision r in
      src_dispatches src (cq_dispatch q) org wl = Inr (Some r)
      \<and> src_claimants src (cq_claimant q) org wl = Inr (Some c)
      \<and> dd_digest d = cq_dispatch_digest q \<and> cl_digest c = cq_claimant_digest q
      \<and> dd_outcome d = Approved \<and> artifact_id (dd_plan d) = cq_plan q \<and> dd_item d = cq_item q
      \<and> dd_candidate d = cq_candidate q \<and> dm_boundary (dd_metadata d) = cq_boundary q
      \<and> cl_effective c \<le> cq_at q \<and> cq_at q \<le> cl_expires c
      \<and> claim_policy_for nfc (cq_policy q) (cq_policy_version q) (cq_policy_digest q) = Inr p)"
  by (auto simp: claim_resolve_def Let_def res_simps not_less)

lemma claim_resolve_mono:
  assumes "claim_sources_le a b" and "claim_resolve nfc a q = Inr x"
  shows "claim_resolve nfc b q = Inr x"
  using assms by (cases x) (auto simp: claim_resolve_Inr Let_def claim_sources_le_def)

lemma claim_replay_step_mono:
  assumes "claim_sources_le a b" and "claim_replay_step nfc a key acc r = Inr acc'"
  shows "claim_replay_step nfc b key acc r = Inr acc'"
  using assms(2) claim_resolve_mono [OF assms(1)]
  unfolding claim_replay_step_def by (cases acc) (auto simp: bindr_Inr_conv)

lemma claim_replay_from_mono:
  assumes "claim_sources_le a b"
  shows "claim_replay_from nfc a key acc rs = Inr acc' \<Longrightarrow> claim_replay_from nfc b key acc rs = Inr acc'"
  unfolding claim_replay_from_def by (rule fold_res_mono) (rule claim_replay_step_mono [OF assms])

lemma claim_replay_from_simps [simp]:
  "claim_replay_from nfc src key acc [] = Inr acc"
  "claim_replay_from nfc src key acc (rs @ [r]) =
     bindr (claim_replay_from nfc src key acc rs) (\<lambda>acc'. claim_replay_step nfc src key acc' r)"
  by (simp_all add: claim_replay_from_def fold_res_append bindr_def split: sum.splits)

section \<open>Events are rebuilt\<close>

text \<open>What the construction of an event keeps of the fields it is given.\<close>

lemma claim_event_init_fields:
  assumes "claim_event_init nfc raw t = Inr e"
  shows "claim_event_init nfc raw (utc (instant_of t)) = Inr e \<and> is_sha256_hex (nfc (ce_id raw))
    \<and> e = raw\<lparr>ce_id := nfc (ce_id raw), ce_lineage := nfc (ce_lineage raw),
        ce_input_digest := nfc (ce_input_digest raw), ce_digest := nfc (ce_digest raw),
        ce_idempotency := nfc (ce_idempotency raw), ce_organization := nfc (ce_organization raw),
        ce_workload := nfc (ce_workload raw), ce_plan := nfc (ce_plan raw), ce_item := nfc (ce_item raw),
        ce_claimant := nfc (ce_claimant raw), ce_candidate := nfc (ce_candidate raw),
        ce_policy_version := nfc (ce_policy_version raw), ce_reasons := ce_reasons e,
        ce_release_reason := map_option nfc (ce_release_reason raw),
        ce_causal := map_option nfc (ce_causal raw), ce_recorded := instant_of t\<rparr>"
  using assms
  unfolding claim_event_init_def Let_def claim_hex_def claim_time_def claim_text_def claim_optional_text_def
  by (clarsimp simp only: bindr_Inr_conv raise_if_Inr_conv required_text_Inr sha256_field_Inr optional_text_Inr
      utc_or_raise_Inr) (simp add: utc_def instant_of_def)

lemma assemble_claim_Inr:
  assumes "assemble_claim_event nfc q r c p d n i = Inr (raw, ic, ec)"
  shows "claim_input_content nfc q r c p = Inr ic \<and> ce_input_digest raw = namespaced_digest claim_input_ns ic
    \<and> ce_digest raw = namespaced_digest claim_event_ns ec \<and> ce_version raw = n
    \<and> ce_generation raw = cd_generation d \<and> ce_fence raw = cd_fence d \<and> ce_type raw = cd_type d
    \<and> ce_outcome raw = cd_outcome d \<and> ce_at raw = cq_at q \<and> ce_expires raw = claim_expiry q d
    \<and> ce_claimant raw = cl_claimant c \<and> ce_candidate raw = cq_candidate q \<and> ce_causal raw = cd_causal d
    \<and> ce_organization raw = cq_organization q \<and> ce_workload raw = cq_workload q
    \<and> claim_lineage_identity nfc (claim_lineage_key q) = Inr (ce_lineage raw)
    \<and> make_reference claim_invalid nfc (dd_id (dr_decision r)) (dd_digest (dr_decision r)) = Inr (ce_dispatch raw)
    \<and> is_sha256_hex (ce_id raw) \<and> is_sha256_hex (ce_lineage raw)"
proof -
  have lineage: "is_sha256_hex l" if "claim_lineage_identity nfc k = Inr l" for l k
    using that by (auto simp: claim_lineage_identity_def bindr_Inr_conv split: prod.splits)
  show ?thesis
    using assms unfolding assemble_claim_event_def Let_def claim_reference_def
    by (simp only: bindr_Inr_conv sum.inject prod.inject, elim exE conjE, hypsubst)
      (simp add: lineage)
qed

lemma build_claim_Inr:
  assumes "nfc_laws nfc" and "build_claim_event nfc q r c p d n i t = Inr (e, ic, ec)"
  shows "build_claim_event nfc q r c p d n i (utc (ce_recorded e)) = Inr (e, ic, ec)"
    and "claim_input_content nfc q r c p = Inr ic" and "claim_verify_recorded e ic ec = Inr ()"
    and "ce_version e = n" "ce_generation e = cd_generation d" "ce_fence e = cd_fence d" "ce_type e = cd_type d"
    and "ce_outcome e = cd_outcome d" "ce_at e = cq_at q" "ce_expires e = claim_expiry q d"
    and "ce_claimant e = nfc (cl_claimant c)" "ce_candidate e = nfc (cq_candidate q)"
    and "ce_causal e = map_option nfc (cd_causal d)"
    and "ce_organization e = nfc (cq_organization q)" "ce_workload e = nfc (cq_workload q)"
    and "claim_lineage_identity nfc (claim_lineage_key q) = Inr (ce_lineage e)"
    and "make_reference claim_invalid nfc (dd_id (dr_decision r)) (dd_digest (dr_decision r)) = Inr (ce_dispatch e)"
    and "is_sha256_hex (ce_id e)"
proof -
  from assms(2) obtain raw where raw: "assemble_claim_event nfc q r c p d n i = Inr (raw, ic, ec)"
    "claim_event_init nfc raw t = Inr e"
    by (auto simp: build_claim_event_def bindr_Inr_conv)
  note a = assemble_claim_Inr [OF raw(1)] and b = claim_event_init_fields [OF raw(2)]
  have f: "ce_version e = ce_version raw" "ce_generation e = ce_generation raw" "ce_fence e = ce_fence raw"
    "ce_type e = ce_type raw" "ce_outcome e = ce_outcome raw" "ce_at e = ce_at raw" "ce_expires e = ce_expires raw"
    "ce_claimant e = nfc (ce_claimant raw)" "ce_candidate e = nfc (ce_candidate raw)"
    "ce_causal e = map_option nfc (ce_causal raw)" "ce_organization e = nfc (ce_organization raw)"
    "ce_workload e = nfc (ce_workload raw)" "ce_lineage e = nfc (ce_lineage raw)" "ce_dispatch e = ce_dispatch raw"
    "ce_id e = nfc (ce_id raw)" "ce_digest e = nfc (ce_digest raw)" "ce_input_digest e = nfc (ce_input_digest raw)"
    "ce_recorded e = instant_of t"
    by (subst conjunct2 [OF conjunct2 [OF b]], simp)+
  from b raw(1) f(18) show "build_claim_event nfc q r c p d n i (utc (ce_recorded e)) = Inr (e, ic, ec)"
    by (simp add: build_claim_event_def)
  from a show "claim_input_content nfc q r c p = Inr ic" by blast
  from a f(16,17) show "claim_verify_recorded e ic ec = Inr ()"
    by (simp add: claim_verify_recorded_def nfc_hex [OF assms(1)])
  show "ce_version e = n" "ce_generation e = cd_generation d" "ce_fence e = cd_fence d" "ce_type e = cd_type d"
    "ce_outcome e = cd_outcome d" "ce_at e = cq_at q" "ce_expires e = claim_expiry q d"
    "ce_claimant e = nfc (cl_claimant c)" "ce_candidate e = nfc (cq_candidate q)"
    "ce_causal e = map_option nfc (cd_causal d)"
    "ce_organization e = nfc (cq_organization q)" "ce_workload e = nfc (cq_workload q)"
    "claim_lineage_identity nfc (claim_lineage_key q) = Inr (ce_lineage e)"
    "make_reference claim_invalid nfc (dd_id (dr_decision r)) (dd_digest (dr_decision r)) = Inr (ce_dispatch e)"
    "is_sha256_hex (ce_id e)"
    using a f by (simp_all add: nfc_hex [OF assms(1)])
qed

section \<open>What a state remembers\<close>

text \<open>A state that a history can reach.\<close>

definition claim_state_ok :: "claim_state \<Rightarrow> bool" where
  "claim_state_ok s \<longleftrightarrow>
     0 \<le> cs_version s \<and> 0 \<le> cs_fence s
     \<and> (if cs_version s = 0 then s = claim_start
        else 1 \<le> cs_generation s \<and> cs_generation_event s \<noteq> None \<and> cs_last s \<noteq> None)
     \<and> (cs_ended s \<noteq> None \<longrightarrow> cs_accepted s \<noteq> None)
     \<and> (\<forall>e. Some e \<in> {cs_generation_event s, cs_accepted s, cs_ended s} \<longrightarrow> is_sha256_hex (ce_id e))"

lemma claim_start_ok [simp]: "claim_state_ok claim_start"
  by (simp add: claim_state_ok_def claim_start_def)

text \<open>The event that a decision stands for.\<close>

definition event_of_decision :: "normalizer \<Rightarrow> claim_decision \<Rightarrow> int \<Rightarrow> claim_event \<Rightarrow> bool" where
  "event_of_decision nfc d n e \<longleftrightarrow>
     ce_version e = n \<and> ce_generation e = cd_generation d \<and> ce_fence e = cd_fence d \<and> ce_type e = cd_type d
     \<and> ce_outcome e = cd_outcome d \<and> ce_causal e = map_option nfc (cd_causal d) \<and> is_sha256_hex (ce_id e)"

lemma build_event_of_decision:
  "nfc_laws nfc \<Longrightarrow> build_claim_event nfc q r c p d n i t = Inr (e, ic, ec) \<Longrightarrow> event_of_decision nfc d n e"
  by (simp add: event_of_decision_def build_claim_Inr)

text \<open>The decisions of the policy, one case per event.\<close>

definition decision_in_order :: "claim_request \<Rightarrow> claim_state \<Rightarrow> bool" where
  "decision_in_order q s \<longleftrightarrow> (case cs_last s of None \<Rightarrow> True | Some e \<Rightarrow> ce_at e \<le> cq_at q)"

lemma claim_decideE:
  assumes "claim_decide p q r c s = Inr d"
  obtains
    (first) "cq_operation q = CreateGeneration" "cs_version s = 0" "decision_in_order q s"
      "d = plain_decision GenerationCreated OutcomeGenerationCreated ''GENERATION_CREATED'' 1 None"
  | (later) g ended where "cq_operation q = CreateGeneration" "cs_version s \<noteq> 0" "decision_in_order q s"
      "cs_generation_event s = Some g" "cs_ended s = Some ended"
      "d = plain_decision GenerationCreated OutcomeGenerationCreated ''GENERATION_CREATED''
        (cs_generation s + 1) (Some (ce_id ended))"
  | (active) g a where "cq_operation q = Claim" "decision_in_order q s"
      "cs_generation_event s = Some g" "cs_ended s = None" "cs_accepted s = Some a"
      "d = plain_decision ClaimRejected OutcomeRejected ''ACTIVE_CLAIM_EXISTS'' (cs_generation s) (Some (ce_id a))"
  | (stranger) g where "cq_operation q = Claim" "decision_in_order q s"
      "cs_generation_event s = Some g" "cs_ended s = None" "cs_accepted s = None" "\<not> claimant_matches c r"
      "d = plain_decision ClaimRejected OutcomeRejected ''CLAIMANT_NOT_SELECTED_CANDIDATE''
        (cs_generation s) (Some (ce_id g))"
  | (accept) g where "cq_operation q = Claim" "decision_in_order q s"
      "cs_generation_event s = Some g" "cs_ended s = None" "cs_accepted s = None" "claimant_matches c r"
      "d = \<lparr>cd_type = ClaimAccepted, cd_outcome = OutcomeAccepted, cd_reasons = [''CLAIM_ACCEPTED''],
         cd_generation = cs_generation s, cd_fence = Some (cs_fence s + 1), cd_ttl = Some (cp_ttl p),
         cd_causal = Some (ce_id g)\<rparr>"
  | (expire) g a t where "cq_operation q = Expire" "decision_in_order q s"
      "cs_generation_event s = Some g" "cs_ended s = None" "cs_accepted s = Some a"
      "cq_dispatch q = artifact_id (ce_dispatch a)" "ce_expires a = Some t" "t \<le> cq_at q"
      "d = plain_decision ClaimExpired OutcomeExpired ''CLAIM_EXPIRED'' (cs_generation s) (Some (ce_id a))"
  | (release) g a where "cq_operation q = Release" "decision_in_order q s"
      "cs_generation_event s = Some g" "cs_ended s = None" "cs_accepted s = Some a"
      "cq_dispatch q = artifact_id (ce_dispatch a)" "cl_claimant c = ce_claimant a"
      "cl_candidate c = ce_candidate a" "claimant_matches c r"
      "d = plain_decision ClaimReleased OutcomeReleased ''CLAIM_RELEASED'' (cs_generation s) (Some (ce_id a))"
proof -
  have o: "decision_in_order q s"
    using assms by (auto simp: claim_decide_def decision_in_order_def bindr_Inr_conv raise_if_Inr_conv split: option.splits)
  have d: "(if cq_operation q = CreateGeneration then
       (if cs_version s = 0
        then Inr (plain_decision GenerationCreated OutcomeGenerationCreated ''GENERATION_CREATED'' 1 None)
        else (case (cs_generation_event s, cs_ended s) of
             (Some _, Some ended) \<Rightarrow>
               Inr (plain_decision GenerationCreated OutcomeGenerationCreated ''GENERATION_CREATED''
                 (cs_generation s + 1) (Some (ce_id ended)))
           | _ \<Rightarrow> Inl claim_illegal))
     else undefined) = Inr d" if "cq_operation q = CreateGeneration"
    using assms that by (simp add: claim_decide_def bindr_Inr_conv)
  show thesis
  proof (cases "cq_operation q = CreateGeneration")
    case True
    with d o first later show thesis by (auto split: if_split_asm option.split_asm)
  next
    case False
    with assms obtain g where g: "cs_generation_event s = Some g" "cs_ended s = None"
      by (auto simp: claim_decide_def bindr_Inr_conv split: option.split_asm)
    show thesis
    proof (cases "cs_accepted s")
      case None
      with False g assms o stranger accept show thesis
        by (cases "cq_operation q") (auto simp: claim_decide_def bindr_Inr_conv split: if_split_asm)
    next
      case (Some a)
      with False g assms o active expire release show thesis
        by (cases "cq_operation q") (auto simp: claim_decide_def bindr_Inr_conv not_less split: if_split_asm option.split_asm)
    qed
  qed
qed

text \<open>The policy decides only events that the state can advance by.\<close>

lemma decide_advance:
  assumes nfc: "nfc_laws nfc" and ok: "claim_state_ok s" and d: "claim_decide p q r c s = Inr d"
    and e: "event_of_decision nfc d (cs_version s + 1) e"
  shows "\<exists>s'. claim_advance s e = Inr s' \<and> claim_state_ok s' \<and> cs_version s' = cs_version s + 1
    \<and> cs_last s' = Some e"
  using d
proof (cases rule: claim_decideE)
  case first
  with ok e show ?thesis
    by (simp add: claim_advance_def event_of_decision_def plain_decision_def claim_state_ok_def claim_start_def)
next
  case (expire g a t)
  with ok e show ?thesis
    by (auto simp: claim_advance_def event_of_decision_def plain_decision_def claim_state_ok_def nfc_hex [OF nfc]
        claim_start_def split: if_splits)
next
  case (release g a)
  with ok e show ?thesis
    by (auto simp: claim_advance_def event_of_decision_def plain_decision_def claim_state_ok_def nfc_hex [OF nfc]
        claim_start_def split: if_splits)
qed (use ok e in \<open>auto simp: claim_advance_def event_of_decision_def plain_decision_def claim_state_ok_def
      claim_start_def split: if_splits\<close>)

section \<open>Lineages\<close>

text \<open>The histories that the service writes: each record is the decision of the policy, on
  retained evidence, in the state of the records before it.\<close>

inductive claim_lineage :: "normalizer \<Rightarrow> claim_sources \<Rightarrow> claim_record list \<Rightarrow> claim_state \<Rightarrow> bool" for nfc src where
  empty: "claim_lineage nfc src [] claim_start"
| extend: "claim_lineage nfc src rs s \<Longrightarrow> claim_resolve nfc src (cr_request r) = Inr (dispatch, claimant, policy) \<Longrightarrow>
    claim_decide policy (cr_request r) dispatch claimant s = Inr d \<Longrightarrow>
    build_claim_event nfc (cr_request r) dispatch claimant policy d (cs_version s + 1) (cr_idempotency r) t
      = Inr (cr_event r, cr_input r, cr_content r) \<Longrightarrow>
    claim_advance s (cr_event r) = Inr s' \<Longrightarrow> claim_lineage nfc src (rs @ [r]) s'"

lemma claim_replay_step_Inr:
  assumes "claim_replay_step nfc src key (s, m) r = Inr (s', m')"
  obtains dispatch claimant policy d where
    "claim_resolve nfc src (cr_request r) = Inr (dispatch, claimant, policy)"
    "claim_decide policy (cr_request r) dispatch claimant s = Inr d"
    "build_claim_event nfc (cr_request r) dispatch claimant policy d (cs_version s + 1) (cr_idempotency r)
       (utc (ce_recorded (cr_event r))) = Inr (cr_event r, cr_input r, cr_content r)"
    "claim_advance s (cr_event r) = Inr s'" "m' = m(ce_id (cr_event r) \<mapsto> cr_event r)"
  using assms by (auto simp: claim_replay_step_def bindr_Inr_conv raise_if_Inr_conv)

lemma claim_replay_lineage:
  "claim_replay_from nfc src key (claim_start, m) rs = Inr (s, m') \<Longrightarrow> claim_lineage nfc src rs s"
proof (induction rs arbitrary: s m' rule: rev_induct)
  case Nil
  then show ?case by (auto intro: claim_lineage.empty)
next
  case (snoc r rs)
  then obtain s1 m1 where s1: "claim_replay_from nfc src key (claim_start, m) rs = Inr (s1, m1)"
    "claim_replay_step nfc src key (s1, m1) r = Inr (s, m')"
    by (auto simp: bindr_Inr_conv)
  from s1(2) show ?case
    by (rule claim_replay_step_Inr) (rule claim_lineage.extend [OF snoc.IH [OF s1(1)]])
qed

lemma claim_replay_start:
  "(\<And>r. r \<in> set rs \<Longrightarrow> claim_record_key r = key) \<Longrightarrow>
     claim_replay nfc src rs = claim_replay_from nfc src key (claim_start, Map.empty) rs"
  by (cases rs) (simp_all add: claim_replay_def)

section \<open>The invariant\<close>

definition claim_replayed :: "normalizer \<Rightarrow> claim_sources \<Rightarrow> lineage_key \<Rightarrow> claim_record list \<Rightarrow> bool" where
  "claim_replayed nfc src key rs \<longleftrightarrow>
     (\<exists>s m. claim_replay_from nfc src key (claim_start, Map.empty) rs = Inr (s, m)
       \<and> claim_state_ok s \<and> cs_version s = int (length rs)
       \<and> (\<forall>r\<in>set rs. m (ce_id (cr_event r)) = Some (cr_event r)))"

definition claim_inv :: "normalizer \<Rightarrow> claim_world \<Rightarrow> bool" where
  "claim_inv nfc w \<longleftrightarrow>
     claim_store_inv (cw_repository w)
     \<and> (\<forall>k. claim_replayed nfc (claim_sources_of nfc w) k (cp_streams (cw_repository w) k))
     \<and> (\<forall>k. cp_current (cw_repository w) k =
          (let rs = cp_streams (cw_repository w) k in if rs = [] then None else Some (cr_event (last rs))))
     \<and> source_ok claim_dispatch_id (cw_dispatches w) \<and> source_ok cl_evidence (cw_claimants w)"

lemma claim_replayed_mono: "claim_sources_le a b \<Longrightarrow> claim_replayed nfc a k rs \<Longrightarrow> claim_replayed nfc b k rs"
  unfolding claim_replayed_def using claim_replay_from_mono by blast

lemma claim_inv_replay:
  assumes "claim_inv nfc w"
  shows "claim_replayed nfc (claim_sources_of nfc w) k (cp_streams (cw_repository w) k)"
    and "claim_replay nfc (claim_sources_of nfc w) (cp_streams (cw_repository w) k)
      = claim_replay_from nfc (claim_sources_of nfc w) k (claim_start, Map.empty) (cp_streams (cw_repository w) k)"
proof -
  show "claim_replayed nfc (claim_sources_of nfc w) k (cp_streams (cw_repository w) k)"
    using assms unfolding claim_inv_def by blast
  have s: "claim_store_inv (cw_repository w)" using assms by (simp add: claim_inv_def)
  show "claim_replay nfc (claim_sources_of nfc w) (cp_streams (cw_repository w) k)
      = claim_replay_from nfc (claim_sources_of nfc w) k (claim_start, Map.empty) (cp_streams (cw_repository w) k)"
    by (rule claim_replay_start) (rule store_inv_stream(2) [OF s [unfolded claim_store_inv_def]])
qed

text \<open>An accepted evaluation either returns a retained event or extends its lineage.\<close>

lemma claim_evaluate_cases:
  assumes "claim_evaluate nfc src st q now = Inr (st', out, e, n)"
  obtains (again) dispatch claimant policy identity ic r where
      "claim_resolve nfc src q = Inr (dispatch, claimant, policy)"
      "claim_idempotency_identity nfc q = Inr identity"
      "claim_input_content nfc q dispatch claimant policy = Inr ic"
      "cp_idempotency st (cq_organization q, claim_lineage_key q, identity) = Some r" "cr_input r = ic"
      "st' = st" "out = EvaluationExistingEquivalent" "e = cr_event r" "n = ce_version e"
  | (fresh) dispatch claimant policy identity s m d ic ec where
      "claim_resolve nfc src q = Inr (dispatch, claimant, policy)"
      "claim_idempotency_identity nfc q = Inr identity"
      "claim_input_content nfc q dispatch claimant policy = Inr ic"
      "cp_idempotency st (cq_organization q, claim_lineage_key q, identity) = None"
      "cq_expected q = int (length (cp_streams st (claim_lineage_key q)))"
      "claim_replay nfc src (cp_streams st (claim_lineage_key q)) = Inr (s, m)"
      "claim_decide policy q dispatch claimant s = Inr d"
      "build_claim_event nfc q dispatch claimant policy d (cq_expected q + 1) identity now = Inr (e, ic, ec)"
      "claim_append st \<lparr>cr_request = q, cr_event = e, cr_idempotency = identity, cr_input = ic, cr_content = ec\<rparr>
         (cq_expected q) = Inr (st', e, True)"
      "out = EvaluationCreated" "n = ce_version e"
proof -
  from assms obtain dispatch claimant policy identity ic prior where a:
    "claim_resolve nfc src q = Inr (dispatch, claimant, policy)"
    "claim_idempotency_identity nfc q = Inr identity"
    "claim_input_content nfc q dispatch claimant policy = Inr ic"
    "claim_idempotent st (cq_organization q) (claim_lineage_key q) identity ic = Inr prior"
    by (auto simp: claim_evaluate_def bindr_Inr_conv)
  show thesis
  proof (cases "cp_idempotency st (cq_organization q, claim_lineage_key q, identity)")
    case (Some r)
    with a have "prior = Some (cr_event r)" "cr_input r = ic"
      by (auto simp: claim_idempotent_def split: if_splits)
    with assms a Some show thesis
      by (intro again) (auto simp: claim_evaluate_def)
  next
    case None
    with a have "prior = None" by (simp add: claim_idempotent_def)
    with assms a obtain s m d e0 ic' ec created where f:
      "cq_expected q = int (length (cp_streams st (claim_lineage_key q)))"
      "claim_replay nfc src (cp_streams st (claim_lineage_key q)) = Inr (s, m)"
      "claim_decide policy q dispatch claimant s = Inr d"
      "build_claim_event nfc q dispatch claimant policy d (cq_expected q + 1) identity now = Inr (e0, ic', ec)"
      "claim_append st \<lparr>cr_request = q, cr_event = e0, cr_idempotency = identity, cr_input = ic', cr_content = ec\<rparr>
         (cq_expected q) = Inr (st', e, created)"
      "out = evaluation_outcome_of created" "n = ce_version e"
      by (auto simp: claim_evaluate_def Let_def bindr_Inr_conv raise_if_Inr_conv)
    moreover have "ic' = ic"
      using f(4) a(3) by (auto simp: build_claim_event_def assemble_claim_event_def bindr_Inr_conv Let_def)
    moreover have "created" "e = e0"
      using claims.append_Inr [OF f(5)] None by (auto simp: claim_record_ikey_def claim_record_key_def)
    ultimately show thesis using a None
      by (intro fresh) (simp_all add: evaluation_outcome_of_def)
  qed
qed

lemma claim_append_created:
  assumes "claim_append st r n = Inr (st', e, True)"
  shows "cp_streams st' = (cp_streams st)(claim_record_key r := cp_streams st (claim_record_key r) @ [r])"
    and "cp_current st' = (cp_current st)(claim_record_key r \<mapsto> cr_event r)"
    and "cp_by_id st (ce_id (cr_event r)) = None"
  using assms by (auto simp: claim_append_def Let_def split: option.splits if_splits)

text \<open>The new record replays after the history it extends.\<close>

lemma claim_replay_extended:
  assumes nfc: "nfc_laws nfc"
    and history: "claim_replay_from nfc src (claim_lineage_key q) (claim_start, Map.empty) rs = Inr (s, m)"
      "claim_state_ok s" "cs_version s = int (length rs)"
    and q: "cq_expected q = int (length rs)" "claim_resolve nfc src q = Inr (dispatch, claimant, policy)"
      "claim_decide policy q dispatch claimant s = Inr d"
    and b: "build_claim_event nfc q dispatch claimant policy d (cq_expected q + 1) identity t = Inr (e, ic, ec)"
    and r: "r = \<lparr>cr_request = q, cr_event = e, cr_idempotency = identity, cr_input = ic, cr_content = ec\<rparr>"
  obtains s' where "claim_replay_from nfc src (claim_lineage_key q) (claim_start, Map.empty) (rs @ [r])
      = Inr (s', m(ce_id e \<mapsto> e))" "claim_state_ok s'" "cs_version s' = int (length (rs @ [r]))"
proof -
  note built = build_claim_Inr [OF nfc b]
  have "event_of_decision nfc d (cs_version s + 1) e"
    using build_event_of_decision [OF nfc b] history(3) q(1) by simp
  from decide_advance [OF nfc history(2) q(3) this] obtain s' where s':
    "claim_advance s e = Inr s'" "claim_state_ok s'" "cs_version s' = cs_version s + 1" by blast
  have "claim_replay_step nfc src (claim_lineage_key q) (s, m) r = Inr (s', m(ce_id e \<mapsto> e))"
    using q history(3) built(1-3,16) s'(1)
    by (simp add: claim_replay_step_def r claim_record_key_def)
  then show thesis using that s'(2,3) history(1,3) by simp
qed

lemma claim_step_inv:
  assumes nfc: "nfc_laws nfc" and step: "claim_step nfc w w'" and inv: "claim_inv nfc w"
  shows "claim_inv nfc w'"
proof -
  have p: "claim_replayed nfc (claim_sources_of nfc w') k (cp_streams (cw_repository w) k)" for k
    using claim_inv_replay(1) [OF inv] claim_replayed_mono [OF claim_step_sources [OF step]] by blast
  from step show ?thesis
  proof cases
    case (evaluate q now st out e n)
    note src = claim_sources_of_def
    from evaluate(2) show ?thesis
    proof (cases rule: claim_evaluate_cases)
      case again
      with inv evaluate(1) show ?thesis by (simp add: claim_inv_def src)
    next
      case (fresh dispatch claimant policy identity s m d ic ec)
      let ?st = "cw_repository w" and ?k = "claim_lineage_key q"
      let ?r = "\<lparr>cr_request = q, cr_event = e, cr_idempotency = identity, cr_input = ic, cr_content = ec\<rparr>"
      let ?rs = "cp_streams ?st ?k"
      have k: "claim_record_key ?r = ?k" by (simp add: claim_record_key_def)
      have cur: "cp_current ?st k = (let rs = cp_streams ?st k in if rs = [] then None else Some (cr_event (last rs)))"
        for k using inv unfolding claim_inv_def by blast
      have store: "claim_store_inv ?st" using inv by (simp add: claim_inv_def)
      from fresh(6) have h: "claim_replay_from nfc (claim_sources_of nfc w) ?k (claim_start, Map.empty) ?rs = Inr (s, m)"
        by (simp add: claim_inv_replay(2) [OF inv])
      with claim_inv_replay(1) [OF inv, of ?k] have ok: "claim_state_ok s" "cs_version s = int (length ?rs)"
        and m: "\<forall>r\<in>set ?rs. m (ce_id (cr_event r)) = Some (cr_event r)"
        unfolding claim_replayed_def by auto
      obtain s' where s': "claim_replay_from nfc (claim_sources_of nfc w) ?k (claim_start, Map.empty) (?rs @ [?r])
        = Inr (s', m(ce_id e \<mapsto> e))" "claim_state_ok s'" "cs_version s' = int (length (?rs @ [?r]))"
        by (rule claim_replay_extended [OF nfc h ok fresh(5,1,7,8) refl])
      note app = claim_append_created [OF fresh(9), unfolded k]
      have "(m(ce_id e \<mapsto> e)) (ce_id (cr_event r)) = Some (cr_event r)" if "r \<in> set ?rs" for r
        using that m app(3) store_inv_stream(1) [OF store [unfolded claim_store_inv_def] that] by auto
      then have "claim_replayed nfc (claim_sources_of nfc w) ?k (?rs @ [?r])"
        unfolding claim_replayed_def using s' by auto
      with claim_inv_replay(1) [OF inv]
      have "claim_replayed nfc (claim_sources_of nfc w) k (cp_streams st k)" for k
        by (simp add: app(1))
      moreover have "claim_store_inv st"
        using claims.append_inv [OF store [unfolded claim_store_inv_def] fresh(9)] by (simp add: claim_store_inv_def)
      moreover have "cp_current st k = (let rs = cp_streams st k in if rs = [] then None else Some (cr_event (last rs)))" for k
        using cur by (simp add: app(1,2) Let_def)
      moreover have "claim_sources_of nfc w' = claim_sources_of nfc w"
        by (simp add: evaluate(1) src)
      ultimately show ?thesis
        using inv evaluate(1) unfolding claim_inv_def by simp
    qed
  qed (use inv p in \<open>auto simp: claim_inv_def dest: source.retain_ok\<close>)
qed

lemma claim_init_inv: "claim_inv nfc claim_world_init"
  by (simp add: claim_inv_def claim_world_init_def claim_repo_init_def claim_store_inv_def store_inv_empty
      claim_replayed_def) (simp add: claim_start_def)

lemma claim_steps_inv:
  assumes "nfc_laws nfc"
  shows "claim_steps nfc w w' \<Longrightarrow> claim_inv nfc w \<Longrightarrow> claim_inv nfc w'"
  by (induction rule: claim_steps.induct) (auto intro: claim_step_inv [OF assms])

lemma claim_reachable_inv:
  "nfc_laws nfc \<Longrightarrow> claim_steps nfc claim_world_init w \<Longrightarrow> claim_inv nfc w"
  using claim_steps_inv claim_init_inv by blast

lemma claim_reachable_lineage:
  assumes "claim_inv nfc w"
  obtains s m where "claim_replay nfc (claim_sources_of nfc w) (cp_streams (cw_repository w) k) = Inr (s, m)"
    "claim_lineage nfc (claim_sources_of nfc w) (cp_streams (cw_repository w) k) s" "claim_state_ok s"
    "cs_version s = int (length (cp_streams (cw_repository w) k))"
    "\<And>r. r \<in> set (cp_streams (cw_repository w) k) \<Longrightarrow> m (ce_id (cr_event r)) = Some (cr_event r)"
  using claim_inv_replay [OF assms, of k] claim_replay_lineage that unfolding claim_replayed_def by metis

section \<open>The repository only grows\<close>

lemma claim_evaluate_append:
  assumes "claim_evaluate nfc src st q now = Inr (st', out, e, n)"
  shows "st' = st \<or> (\<exists>r. claim_append st r (cq_expected q) = Inr (st', e, True) \<and> claim_record_key r = claim_lineage_key q
      \<and> cr_event r = e)"
  using assms by (cases rule: claim_evaluate_cases) (auto simp: claim_record_key_def)

lemma claim_step_keeps:
  assumes "claim_step nfc w w'"
  shows "cp_by_id (cw_repository w) i = Some r \<Longrightarrow> cp_by_id (cw_repository w') i = Some r"
    and "cp_idempotency (cw_repository w) j = Some r \<Longrightarrow> cp_idempotency (cw_repository w') j = Some r"
    and "\<exists>new. cp_streams (cw_repository w') k = cp_streams (cw_repository w) k @ new"
  using assms
  by (cases, auto dest!: claim_evaluate_append dest: claims.append_keeps_id claims.append_keeps_idem
      claims.append_prefix)+

lemma claim_steps_keep:
  assumes "claim_steps nfc w w'"
  shows "cp_by_id (cw_repository w) i = Some r \<Longrightarrow> cp_by_id (cw_repository w') i = Some r"
    and "cp_idempotency (cw_repository w) j = Some r \<Longrightarrow> cp_idempotency (cw_repository w') j = Some r"
    and "\<exists>new. cp_streams (cw_repository w') k = cp_streams (cw_repository w) k @ new"
  using assms
proof (induction rule: claim_steps.induct)
  case (step w w1 w2)
  note keeps = claim_step_keeps [OF step.hyps(2)]
  {
    case 1
    with step.IH(1) keeps(1) show ?case by blast
  next
    case 2
    with step.IH(2) keeps(2) show ?case by blast
  next
    case 3
    with step.IH(3) keeps(3) [of k] show ?case by (metis append_assoc)
  }
qed simp_all
end
