(* ===== verification/ClaimLineage.thy ===== *)
theory ClaimLineage
  imports ClaimProperties
begin

text \<open>
  The abstract machine that a lineage of claims implements: a register that one holder has
  at a time, with a generation and a fence that only grow.  The derived state of a replay
  is mapped to it by \<open>register_of\<close>, and each decision of the policy is a step of it.
\<close>

section \<open>The abstract machine\<close>

datatype holding = Unopened | Free | Held string string | Over

record register =
  sp_generation :: int
  sp_fence :: int
  sp_holding :: holding

definition register_start :: register where
  "register_start = \<lparr>sp_generation = 0, sp_fence = 0, sp_holding = Unopened\<rparr>"

inductive register_move :: "register \<Rightarrow> claim_event \<Rightarrow> register \<Rightarrow> bool" where
  opened: "sp_holding l \<in> {Unopened, Over} \<Longrightarrow> ce_type e = GenerationCreated \<Longrightarrow>
    ce_generation e = sp_generation l + 1 \<Longrightarrow>
    register_move l e (l\<lparr>sp_generation := sp_generation l + 1, sp_holding := Free\<rparr>)"
| accepted: "sp_holding l = Free \<Longrightarrow> ce_type e = ClaimAccepted \<Longrightarrow> ce_generation e = sp_generation l \<Longrightarrow>
    ce_fence e = Some (sp_fence l + 1) \<Longrightarrow>
    register_move l e (l\<lparr>sp_fence := sp_fence l + 1, sp_holding := Held (ce_claimant e) (ce_candidate e)\<rparr>)"
| rejected: "sp_holding l \<notin> {Unopened, Over} \<Longrightarrow> ce_type e = ClaimRejected \<Longrightarrow>
    ce_generation e = sp_generation l \<Longrightarrow> register_move l e l"
| expired: "sp_holding l = Held c k \<Longrightarrow> ce_type e = ClaimExpired \<Longrightarrow> ce_generation e = sp_generation l \<Longrightarrow>
    register_move l e (l\<lparr>sp_holding := Over\<rparr>)"
| released: "sp_holding l = Held (ce_claimant e) (ce_candidate e) \<Longrightarrow> ce_type e = ClaimReleased \<Longrightarrow>
    ce_generation e = sp_generation l \<Longrightarrow> register_move l e (l\<lparr>sp_holding := Over\<rparr>)"

inductive_cases register_moveE: "register_move l e l'"

inductive register_run :: "register \<Rightarrow> claim_event list \<Rightarrow> register \<Rightarrow> bool" where
  stop: "register_run l [] l"
| move: "register_run l es l1 \<Longrightarrow> register_move l1 e l2 \<Longrightarrow> register_run l (es @ [e]) l2"

text \<open>What every run of the machine satisfies: the generations and the fences count, and a
  generation is accepted at most once.\<close>

definition accepted_events :: "claim_event list \<Rightarrow> claim_event list" where
  "accepted_events es = filter (\<lambda>e. ce_type e = ClaimAccepted) es"

definition opened_events :: "claim_event list \<Rightarrow> claim_event list" where
  "opened_events es = filter (\<lambda>e. ce_type e = GenerationCreated) es"

definition counted :: "claim_event list \<Rightarrow> register \<Rightarrow> bool" where
  "counted es l \<longleftrightarrow>
     map ce_fence (accepted_events es) = map (\<lambda>n. Some (int n + 1)) [0..<length (accepted_events es)]
     \<and> sp_fence l = int (length (accepted_events es))
     \<and> map ce_generation (opened_events es) = map (\<lambda>n. int n + 1) [0..<length (opened_events es)]
     \<and> sp_generation l = int (length (opened_events es))
     \<and> sorted (map ce_generation es) \<and> (\<forall>e\<in>set es. ce_generation e \<le> sp_generation l)
     \<and> distinct (map ce_generation (accepted_events es))
     \<and> (sp_holding l \<in> {Unopened, Free} \<longrightarrow> (\<forall>e\<in>set (accepted_events es). ce_generation e < sp_generation l))"

lemma accepted_events_snoc:
  "accepted_events (es @ [e]) = accepted_events es @ (if ce_type e = ClaimAccepted then [e] else [])"
  by (simp add: accepted_events_def)

lemma opened_events_snoc:
  "opened_events (es @ [e]) = opened_events es @ (if ce_type e = GenerationCreated then [e] else [])"
  by (simp add: opened_events_def)

lemma accepted_events_subset: "e \<in> set (accepted_events es) \<Longrightarrow> e \<in> set es"
  by (simp add: accepted_events_def)

lemma register_move_counted:
  assumes "register_move l e l'" and "counted es l"
  shows "counted (es @ [e]) l'"
  using assms
  by (cases rule: register_move.cases)
    (force simp: counted_def accepted_events_snoc opened_events_snoc sorted_append dest: accepted_events_subset)+

lemma register_run_counted: "register_run l es l' \<Longrightarrow> l = register_start \<Longrightarrow> counted es l'"
  by (induction rule: register_run.induct)
    (auto simp: register_move_counted, simp add: counted_def register_start_def accepted_events_def opened_events_def)

section \<open>The derived state implements it\<close>

definition register_of :: "claim_state \<Rightarrow> register" where
  "register_of s =
     \<lparr>sp_generation = cs_generation s, sp_fence = cs_fence s,
      sp_holding =
        (case cs_generation_event s of
           None \<Rightarrow> Unopened
         | Some _ \<Rightarrow>
             (case (cs_ended s, cs_accepted s) of
                (Some _, _) \<Rightarrow> Over
              | (None, Some a) \<Rightarrow> Held (ce_claimant a) (ce_candidate a)
              | (None, None) \<Rightarrow> Free))\<rparr>"

lemma register_of_start [simp]: "register_of claim_start = register_start"
  by (simp add: register_of_def claim_start_def register_start_def)

text \<open>The facts about the events of a lineage that its state does not hold.\<close>

definition lineage_facts :: "normalizer \<Rightarrow> claim_record list \<Rightarrow> claim_state \<Rightarrow> bool" where
  "lineage_facts nfc rs s \<longleftrightarrow>
     claim_state_ok s
     \<and> cs_last s = (if rs = [] then None else Some (cr_event (last rs)))
     \<and> sorted (map (\<lambda>r. ce_at (cr_event r)) rs)
     \<and> (\<forall>r\<in>set rs. nfc (ce_claimant (cr_event r)) = ce_claimant (cr_event r)
          \<and> nfc (ce_candidate (cr_event r)) = ce_candidate (cr_event r))
     \<and> (\<forall>a. cs_accepted s = Some a \<longrightarrow> a \<in> cr_event ` set rs \<and> ce_type a = ClaimAccepted
          \<and> ce_generation a = cs_generation s)"

lemma lineage_facts_extend:
  assumes nfc: "nfc_laws nfc" and facts: "lineage_facts nfc rs s"
    and d: "claim_decide p (cr_request r) dispatch claimant s = Inr d"
    and b: "build_claim_event nfc (cr_request r) dispatch claimant p d (cs_version s + 1) (cr_idempotency r) t
      = Inr (cr_event r, cr_input r, cr_content r)"
    and adv: "claim_advance s (cr_event r) = Inr s'"
  shows "lineage_facts nfc (rs @ [r]) s'"
proof -
  note built = build_claim_Inr [OF nfc b]
  have ok: "claim_state_ok s" using facts by (simp add: lineage_facts_def)
  from decide_advance [OF nfc ok d build_event_of_decision [OF nfc b]] adv
  have s': "claim_state_ok s'" "cs_last s' = Some (cr_event r)" by auto
  have "decision_in_order (cr_request r) s"
    using d by (cases rule: claim_decideE)
  then have "ce_at x \<le> ce_at (cr_event r)" if "cs_last s = Some x" for x
    using that by (simp add: decision_in_order_def built(9))
  moreover have "ce_at (cr_event y) \<le> ce_at (cr_event (last rs))" if "y \<in> set rs" for y
    using sorted_map_last [OF _ that, of "\<lambda>r. ce_at (cr_event r)"] facts by (simp add: lineage_facts_def)
  ultimately have "sorted (map (\<lambda>r. ce_at (cr_event r)) (rs @ [r]))"
    using facts by (fastforce simp: lineage_facts_def sorted_append split: if_splits)
  moreover have "\<forall>a. cs_accepted s' = Some a \<longrightarrow> a \<in> cr_event ` set (rs @ [r]) \<and> ce_type a = ClaimAccepted
      \<and> ce_generation a = cs_generation s'"
    using adv facts by (auto simp: claim_advance_def lineage_facts_def split: if_splits option.splits)
  ultimately show ?thesis
    using facts s' by (simp add: lineage_facts_def built(11,12) nfc_lawsD [OF nfc])
qed

lemma claim_lineage_facts:
  assumes "nfc_laws nfc"
  shows "claim_lineage nfc src rs s \<Longrightarrow> lineage_facts nfc rs s"
proof (induction rule: claim_lineage.induct)
  case empty
  show ?case by (simp add: lineage_facts_def) (simp add: claim_start_def)
next
  case (extend rs s r dispatch claimant policy d t s')
  show ?case by (rule lineage_facts_extend [OF assms extend.IH extend.hyps(3-5)])
qed

lemma claim_lineage_move:
  assumes nfc: "nfc_laws nfc" and facts: "lineage_facts nfc rs s"
    and res: "claim_resolve nfc src (cr_request r) = Inr (dispatch, claimant, p)"
    and d: "claim_decide p (cr_request r) dispatch claimant s = Inr d"
    and b: "build_claim_event nfc (cr_request r) dispatch claimant p d (cs_version s + 1) (cr_idempotency r) t
      = Inr (cr_event r, cr_input r, cr_content r)"
    and adv: "claim_advance s (cr_event r) = Inr s'"
  shows "register_move (register_of s) (cr_event r) (register_of s')"
proof -
  note built = build_claim_Inr [OF nfc b]
  have ok: "claim_state_ok s" using facts by (simp add: lineage_facts_def)
  have g0: "cs_generation s = 0" if "cs_version s = 0"
    using ok that by (simp add: claim_state_ok_def claim_start_def)
  from d show ?thesis
  proof (cases rule: claim_decideE)
    case first
    then have s: "s = claim_start" using ok by (simp add: claim_state_ok_def)
    have e: "ce_type (cr_event r) = GenerationCreated" "ce_generation (cr_event r) = 1"
      using first by (simp_all add: built(5,7) plain_decision_def)
    have "register_of s' = register_start\<lparr>sp_generation := sp_generation register_start + 1, sp_holding := Free\<rparr>"
      using adv e by (auto simp: s claim_advance_def claim_start_def register_of_def register_start_def split: if_splits)
    with register_move.opened [of register_start "cr_event r"] e show ?thesis
      by (simp add: s) (simp add: register_start_def)
  next
    case (later g ended)
    with adv built(5-7) show ?thesis
      using register_move.opened [of "register_of s" "cr_event r"]
      by (auto simp: claim_advance_def plain_decision_def register_of_def split: if_splits)
  next
    case (active g a)
    with adv built(5-7) show ?thesis
      using register_move.rejected [of "register_of s" "cr_event r"]
      by (auto simp: claim_advance_def plain_decision_def register_of_def split: if_splits)
  next
    case (stranger g)
    with adv built(5-7) show ?thesis
      using register_move.rejected [of "register_of s" "cr_event r"]
      by (auto simp: claim_advance_def plain_decision_def register_of_def split: if_splits)
  next
    case (accept g)
    with adv built(5-7) show ?thesis
      using register_move.accepted [of "register_of s" "cr_event r"]
      by (auto simp: claim_advance_def plain_decision_def register_of_def split: if_splits)
  next
    case (expire g a t)
    with adv built(5-7) show ?thesis
      using register_move.expired [of "register_of s" "ce_claimant a" "ce_candidate a" "cr_event r"]
      by (auto simp: claim_advance_def plain_decision_def register_of_def split: if_splits)
  next
    case (release g a)
    have "nfc (ce_claimant a) = ce_claimant a" "nfc (ce_candidate a) = ce_candidate a"
      using facts release(5) by (auto simp: lineage_facts_def)
    then have "ce_claimant (cr_event r) = ce_claimant a" "ce_candidate (cr_event r) = ce_candidate a"
      using release res by (simp_all add: built(11,12) claim_resolve_Inr Let_def claimant_matches_def)
    with release adv built(5-7) show ?thesis
      using register_move.released [of "register_of s" "cr_event r"]
      by (auto simp: claim_advance_def plain_decision_def register_of_def split: if_splits)
  qed
qed

lemma claim_lineage_run:
  assumes "nfc_laws nfc"
  shows "claim_lineage nfc src rs s \<Longrightarrow> register_run register_start (map cr_event rs) (register_of s)"
proof (induction rule: claim_lineage.induct)
  case empty
  show ?case by (simp add: register_run.stop)
next
  case (extend rs s r dispatch claimant policy d t s')
  have "register_move (register_of s) (cr_event r) (register_of s')"
    by (rule claim_lineage_move [OF assms claim_lineage_facts [OF assms extend.hyps(1)] extend.hyps(2-5)])
  with extend.IH show ?case by (simp add: register_run.move)
qed

text \<open>Every record of a lineage was written in the state of the records before it.\<close>

lemma claim_lineage_nth:
  assumes "claim_lineage nfc src rs s" and "n < length rs"
  obtains s1 dispatch claimant policy d t s2 where
    "claim_lineage nfc src (take n rs) s1"
    "claim_resolve nfc src (cr_request (rs ! n)) = Inr (dispatch, claimant, policy)"
    "claim_decide policy (cr_request (rs ! n)) dispatch claimant s1 = Inr d"
    "build_claim_event nfc (cr_request (rs ! n)) dispatch claimant policy d (cs_version s1 + 1)
       (cr_idempotency (rs ! n)) t = Inr (cr_event (rs ! n), cr_input (rs ! n), cr_content (rs ! n))"
    "claim_advance s1 (cr_event (rs ! n)) = Inr s2"
  using assms
proof (induction arbitrary: thesis rule: claim_lineage.induct)
  case (extend rs s r dispatch claimant policy d t s')
  show ?case
  proof (cases "n < length rs")
    case True
    then have "(rs @ [r]) ! n = rs ! n" "take n (rs @ [r]) = take n rs"
      by (simp_all add: nth_append)
    with extend.IH [of thesis] extend.prems(1) True show ?thesis by simp
  next
    case False
    with extend.prems(2) have n: "n = length rs" by simp
    show ?thesis
      by (rule extend.prems(1) [of s dispatch claimant policy d t s'])
        (use extend.hyps n in \<open>simp_all add: nth_append\<close>)
  qed
qed simp

section \<open>How a claim ends\<close>

text \<open>An end names the acceptance it ends; an expiry is not early, and a release is by the
  holder.\<close>

definition ends_claim :: "claim_event \<Rightarrow> claim_event \<Rightarrow> bool" where
  "ends_claim e a \<longleftrightarrow>
     ce_type a = ClaimAccepted \<and> ce_generation a = ce_generation e \<and> ce_causal e = Some (ce_id a)
     \<and> (if ce_type e = ClaimExpired then (case ce_expires a of None \<Rightarrow> False | Some t \<Rightarrow> t \<le> ce_at e)
        else ce_claimant e = ce_claimant a \<and> ce_candidate e = ce_candidate a)"

definition is_end :: "claim_event \<Rightarrow> bool" where
  "is_end e \<longleftrightarrow> ce_type e \<in> {ClaimExpired, ClaimReleased}"

lemma claim_lineage_ends:
  assumes nfc: "nfc_laws nfc" and l: "claim_lineage nfc src rs s" and n: "n < length rs"
    and e: "is_end (cr_event (rs ! n))"
  shows "\<exists>a \<in> cr_event ` set (take n rs). ends_claim (cr_event (rs ! n)) a"
proof -
  let ?e = "cr_event (rs ! n)"
  obtain s1 dispatch claimant p d t s2 where h: "claim_lineage nfc src (take n rs) s1"
    "claim_resolve nfc src (cr_request (rs ! n)) = Inr (dispatch, claimant, p)"
    "claim_decide p (cr_request (rs ! n)) dispatch claimant s1 = Inr d"
    "build_claim_event nfc (cr_request (rs ! n)) dispatch claimant p d (cs_version s1 + 1)
       (cr_idempotency (rs ! n)) t = Inr (?e, cr_input (rs ! n), cr_content (rs ! n))"
    "claim_advance s1 ?e = Inr s2"
    by (rule claim_lineage_nth [OF l n])
  note built = build_claim_Inr [OF nfc h(4)]
  have facts: "lineage_facts nfc (take n rs) s1" by (rule claim_lineage_facts [OF nfc h(1)])
  have acc: "a \<in> cr_event ` set (take n rs) \<and> ce_type a = ClaimAccepted \<and> ce_generation a = cs_generation s1
      \<and> is_sha256_hex (ce_id a) \<and> nfc (ce_claimant a) = ce_claimant a \<and> nfc (ce_candidate a) = ce_candidate a"
    if "cs_accepted s1 = Some a" for a
    using facts that by (auto simp: lineage_facts_def claim_state_ok_def)
  from h(3) show ?thesis
  proof (cases rule: claim_decideE)
    case (expire g a x)
    with acc [of a] have "ends_claim ?e a"
      by (simp add: ends_claim_def built(5,7,9,13) plain_decision_def nfc_hex [OF nfc])
    with acc [of a] expire show ?thesis by blast
  next
    case (release g a)
    with acc [of a] h(2) have "ends_claim ?e a"
      by (simp add: ends_claim_def built(5,7,11-13) plain_decision_def nfc_hex [OF nfc] claim_resolve_Inr Let_def
          claimant_matches_def)
    with acc [of a] release show ?thesis by blast
  qed (use e in \<open>simp_all add: is_end_def built(7) plain_decision_def\<close>)
qed

section \<open>What an event promises\<close>

text \<open>The outcome that each type of event carries.\<close>

primrec outcome_of_event :: "claim_event_type \<Rightarrow> claim_outcome" where
  "outcome_of_event GenerationCreated = OutcomeGenerationCreated"
| "outcome_of_event ClaimAccepted = OutcomeAccepted"
| "outcome_of_event ClaimRejected = OutcomeRejected"
| "outcome_of_event ClaimExpired = OutcomeExpired"
| "outcome_of_event ClaimReleased = OutcomeReleased"

definition claim_event_typed :: "claim_event \<Rightarrow> bool" where
  "claim_event_typed e \<longleftrightarrow>
     list_all is_sha256_hex [ce_id e, ce_lineage e, ce_input_digest e, ce_digest e, ce_idempotency e]
     \<and> list_all (\<lambda>t. t \<noteq> []) [ce_organization e, ce_workload e, ce_plan e, ce_item e, ce_claimant e, ce_candidate e]
     \<and> 1 \<le> ce_version e \<and> 1 \<le> ce_generation e
     \<and> (case ce_fence e of None \<Rightarrow> ce_type e \<noteq> ClaimAccepted | Some f \<Rightarrow> ce_type e = ClaimAccepted \<and> 1 \<le> f)
     \<and> ce_outcome e = outcome_of_event (ce_type e)
     \<and> ce_reasons e \<noteq> [] \<and> sorted (ce_reasons e) \<and> distinct (ce_reasons e)
     \<and> ce_schema e = supported_claim_schema"

lemma claim_event_init_typed:
  assumes "nfc_laws nfc" and "claim_event_init nfc raw t = Inr e" and "ce_outcome raw = outcome_of_event (ce_type raw)"
  shows "claim_event_typed e"
proof -
  have n: "nfc x \<noteq> []" if "x \<noteq> []" for x using assms(1) that by (simp add: nfc_laws_def)
  from assms(2) have "list_all is_sha256_hex (map nfc [ce_id raw, ce_lineage raw, ce_input_digest raw, ce_digest raw,
      ce_idempotency raw])"
    and "list_all (\<lambda>t. t \<noteq> []) [ce_organization raw, ce_workload raw, ce_plan raw, ce_item raw, ce_claimant raw,
      ce_candidate raw]"
    and "1 \<le> ce_version raw" "1 \<le> ce_generation raw" "ce_schema raw = supported_claim_schema"
    and "case ce_fence raw of None \<Rightarrow> ce_type raw \<noteq> ClaimAccepted | Some f \<Rightarrow> ce_type raw = ClaimAccepted \<and> 1 \<le> f"
    and "ce_reasons e \<noteq> []" "sorted (ce_reasons e)" "distinct (ce_reasons e)"
    unfolding claim_event_init_def Let_def claim_hex_def claim_time_def claim_text_def claim_optional_text_def
    by (clarsimp simp only: bindr_Inr_conv raise_if_Inr_conv required_text_Inr sha256_field_Inr optional_text_Inr
        utc_or_raise_Inr; auto split: option.splits)+
  moreover note b = conjunct2 [OF conjunct2 [OF claim_event_init_fields [OF assms(2)]]]
  have "ce_id e = nfc (ce_id raw)" "ce_lineage e = nfc (ce_lineage raw)" "ce_digest e = nfc (ce_digest raw)"
    "ce_input_digest e = nfc (ce_input_digest raw)" "ce_idempotency e = nfc (ce_idempotency raw)"
    "ce_organization e = nfc (ce_organization raw)" "ce_workload e = nfc (ce_workload raw)"
    "ce_plan e = nfc (ce_plan raw)" "ce_item e = nfc (ce_item raw)" "ce_claimant e = nfc (ce_claimant raw)"
    "ce_candidate e = nfc (ce_candidate raw)" "ce_version e = ce_version raw"
    "ce_generation e = ce_generation raw" "ce_fence e = ce_fence raw" "ce_type e = ce_type raw"
    "ce_outcome e = ce_outcome raw" "ce_schema e = ce_schema raw"
    by (subst b, simp)+
  ultimately show ?thesis using assms(3) n by (simp add: claim_event_typed_def split: option.splits)
qed

lemma build_claim_typed:
  assumes nfc: "nfc_laws nfc" and d: "claim_decide p q r c s = Inr d"
    and b: "build_claim_event nfc q r c p d n i t = Inr (e, ic, ec)"
  shows "claim_event_typed e"
proof -
  from b obtain raw where raw: "assemble_claim_event nfc q r c p d n i = Inr (raw, ic, ec)"
    "claim_event_init nfc raw t = Inr e"
    by (auto simp: build_claim_event_def bindr_Inr_conv)
  have "cd_outcome d = outcome_of_event (cd_type d)"
    using d by (cases rule: claim_decideE) (simp_all add: plain_decision_def)
  with assemble_claim_Inr [OF raw(1)] show ?thesis
    by (intro claim_event_init_typed [OF nfc raw(2)]) simp
qed

text \<open>What an event rests on: retained evidence of an approved dispatch of the same work item
  and candidate, and of the claimant, in effect at the time of the event; an accepted claim
  is by that candidate and lasts for the time to live of the registered policy.\<close>

definition claim_ttl_v1 :: int where
  "claim_ttl_v1 = 300"

definition claim_backed :: "claim_world \<Rightarrow> claim_record \<Rightarrow> bool" where
  "claim_backed w r \<longleftrightarrow>
     (let q = cr_request r; e = cr_event r in
      case (cw_dispatches w (cq_dispatch q), cw_claimants w (cq_claimant q)) of
        (Some dispatch, Some claimant) \<Rightarrow>
          dd_outcome (dr_decision dispatch) = Approved \<and> dd_digest (dr_decision dispatch) = cq_dispatch_digest q
          \<and> artifact_id (dd_plan (dr_decision dispatch)) = cq_plan q \<and> dd_item (dr_decision dispatch) = cq_item q
          \<and> dd_organization (dr_decision dispatch) = cq_organization q
          \<and> cl_digest claimant = cq_claimant_digest q \<and> cl_organization claimant = cq_organization q
          \<and> cl_effective claimant \<le> ce_at e \<and> ce_at e \<le> cl_expires claimant
          \<and> (if ce_type e = ClaimAccepted
             then cl_candidate claimant = dd_candidate (dr_decision dispatch)
               \<and> ce_expires e = Some (add_seconds (ce_at e) claim_ttl_v1)
             else ce_expires e = None)
      | _ \<Rightarrow> False)"

lemma claim_policy_ttl: "claim_policy_for nfc i v d = Inr p \<Longrightarrow> cp_ttl p = claim_ttl_v1"
  by (auto simp: claim_policy_for_def claim_policy_v1_def make_claim_policy_def bindr_Inr_conv claim_ttl_v1_def
      split: if_splits)

lemma claim_lineage_backed:
  assumes nfc: "nfc_laws nfc" and l: "claim_lineage nfc (claim_sources_of nfc w) rs s" and r: "r \<in> set rs"
  shows "claim_backed w r" and "claim_event_typed (cr_event r)"
proof -
  from r obtain n where n: "n < length rs" "r = rs ! n" by (auto simp: in_set_conv_nth)
  obtain s1 dispatch claimant p d t s2 where h: "claim_lineage nfc (claim_sources_of nfc w) (take n rs) s1"
    "claim_resolve nfc (claim_sources_of nfc w) (cr_request r) = Inr (dispatch, claimant, p)"
    "claim_decide p (cr_request r) dispatch claimant s1 = Inr d"
    "build_claim_event nfc (cr_request r) dispatch claimant p d (cs_version s1 + 1)
       (cr_idempotency r) t = Inr (cr_event r, cr_input r, cr_content r)"
    "claim_advance s1 (cr_event r) = Inr s2"
    by (rule claim_lineage_nth [OF l n(1), folded n(2)])
  note built = build_claim_Inr [OF nfc h(4)]
  show "claim_event_typed (cr_event r)" by (rule build_claim_typed [OF nfc h(3,4)])
  have ttl: "cp_ttl p = claim_ttl_v1" using h(2) claim_policy_ttl unfolding claim_resolve_Inr Let_def by blast
  from h(3) have "if cd_type d = ClaimAccepted then claimant_matches claimant dispatch \<and> cd_ttl d = Some claim_ttl_v1
      else cd_ttl d = None"
    by (cases rule: claim_decideE) (simp_all add: plain_decision_def ttl)
  with h(2) show "claim_backed w r"
    unfolding claim_backed_def claim_resolve_Inr Let_def claim_sources_of_def claim_sources.select_convs
      dispatch_source_def claimant_source_def claim_get_scoped_def source_get_Inr
    by (auto simp: built(7,9,10) claim_expiry_def claimant_matches_def)
qed

end
