(* ===== verification/ClaimSample.thy ===== *)
theory ClaimSample
  imports ClaimLineage DispatchSample
begin

text \<open>
  A concrete world for the claim properties: a retained approved dispatch, evidence of its
  claimant, and a lineage whose first generation has been created.
\<close>

lemma time_claim_cfg [simp]: "time_cfg claim_cfg"
  by (simp add: time_cfg_def claim_cfg_def)

lemma claim_content_plain:
  "nfc_laws nfc \<Longrightarrow> plain_pv (pdict doc) \<Longrightarrow> \<exists>b. claim_content nfc doc = Inr b"
  unfolding claim_content_def by (rule canonical_bytes_plain) simp_all

lemma plain_claim_values [simp]:
  "plain_pv (popt_time t)" "plain_pv (popt_int n)"
  by (simp_all add: popt_time_def popt_int_def split: option.splits)

lemma ascii_claim_operation [simp]: "ascii (claim_operation_value op)"
  by (cases op) simp_all

lemma ascii_claim_event_type [simp]: "ascii (claim_event_type_value ty)"
  by (cases ty) simp_all

lemma ascii_claim_outcome [simp]: "ascii (claim_outcome_value out)"
  by (cases out) simp_all

definition sample_claim_ref :: evidence_ref where
  "sample_claim_ref = EvidenceReference ''plan-1'' (namespaced_digest ''a'' ''b'')"

definition sample_dispatch :: dispatch_record where
  "sample_dispatch =
     \<lparr>dr_request = sample_request (namespaced_digest ''a'' ''b'') (namespaced_digest ''a'' ''b'')
        (namespaced_digest ''a'' ''b'') (namespaced_digest ''a'' ''b'') 0,
      dr_decision =
        \<lparr>dd_id = namespaced_digest ''i'' ''d'', dd_organization = ''org-1'', dd_workload = ''wl-1'',
         dd_plan = sample_claim_ref, dd_item = ''item-1'', dd_selection = sample_claim_ref,
         dd_candidate = ''worker-1'', dd_readiness = [], dd_lease = sample_claim_ref,
         dd_authorization = sample_claim_ref, dd_policy = sample_claim_ref,
         dd_policy_version = ''dispatch-policy.v1'', dd_outcome = Approved, dd_reasons = [''OFFER_APPROVED''],
         dd_input_digest = namespaced_digest dispatch_input_ns ''in'',
         dd_digest = namespaced_digest dispatch_digest_ns ''out'', dd_version = 1,
         dd_idempotency = namespaced_digest ''k'' ''1'',
         dd_metadata = \<lparr>dm_boundary = ''boundary-1'', dm_effective = 0, dm_clock = ''clock-1'',
            dm_clock_version = ''v1'', dm_configuration = ''v1'', dm_component = supported_dispatch_component,
            dm_serialization = supported_serialization\<rparr>,
         dd_recorded = 0, dd_schema = supported_dispatch_schema\<rparr>,
      dr_idempotency = namespaced_digest ''k'' ''1'', dr_input = ''in'', dr_content = ''out''\<rparr>"

lemma sample_dispatch_valid: "validate_dispatch_record sample_dispatch = Inr ()"
  by (simp add: validate_dispatch_record_def sample_dispatch_def dispatch_verify_recorded_def)

lemma sample_claimant:
  obtains v where "validate_claimant nf v = Inr ()" "cl_evidence v = ''claimant-1''" "cl_claimant v = ''worker-1''"
    "cl_candidate v = ''worker-1''" "cl_organization v = ''org-1''" "cl_workload v = ''wl-1''"
    "cl_boundary v = ''boundary-1''" "cl_effective v = 0" "cl_expires v = sample_hour"
    "cl_schema v = supported_claimant_schema" "cl_producer v = supported_claimant_producer"
    "is_sha256_hex (cl_digest v)"
proof -
  have "\<exists>b. claim_content nf [
         (''authentication_boundary'', PStr ''boundary-1''), (''claimant_id'', PStr ''worker-1''),
         (''effective_at'', ptime 0), (''evidence_id'', PStr ''claimant-1''), (''expires_at'', ptime sample_hour),
         (''organization_id'', PStr ''org-1''), (''producer_version'', PStr supported_claimant_producer),
         (''schema_version'', PStr supported_claimant_schema), (''selected_candidate_id'', PStr ''worker-1''),
         (''workload_context_id'', PStr ''wl-1'')] = Inr b"
    by (rule claim_content_plain) (simp_all add: supported_claimant_producer_def supported_claimant_schema_def)
  then obtain b where b: "claim_content nf [
         (''authentication_boundary'', PStr ''boundary-1''), (''claimant_id'', PStr ''worker-1''),
         (''effective_at'', ptime 0), (''evidence_id'', PStr ''claimant-1''), (''expires_at'', ptime sample_hour),
         (''organization_id'', PStr ''org-1''), (''producer_version'', PStr supported_claimant_producer),
         (''schema_version'', PStr supported_claimant_schema), (''selected_candidate_id'', PStr ''worker-1''),
         (''workload_context_id'', PStr ''wl-1'')] = Inr b" ..
  let ?v = "\<lparr>cl_evidence = ''claimant-1'', cl_claimant = ''worker-1'', cl_candidate = ''worker-1'',
    cl_organization = ''org-1'', cl_workload = ''wl-1'', cl_boundary = ''boundary-1'', cl_effective = 0,
    cl_expires = sample_hour, cl_schema = supported_claimant_schema, cl_producer = supported_claimant_producer,
    cl_digest = namespaced_digest claimant_evidence_ns b, cl_content = b\<rparr>"
  have "validate_claimant nf ?v = Inr ()"
    by (simp add: validate_claimant_def build_claimant_evidence_def claim_time_def claim_text_def required_text_def b)
  then show ?thesis by (intro that [of ?v]) simp_all
qed

lemma sample_claim_policy:
  obtains p where "claim_policy_v1 nf = Inr p" "cp_id p = ''work-claim-policy''"
    "cp_version p = ''work-claim-policy.v1''" "is_sha256_hex (cp_digest p)" "cp_ttl p = 300"
proof -
  have "\<exists>b. claim_content nf [
         (''claim_ttl_seconds'', PInt 300), (''policy_id'', PStr ''work-claim-policy''),
         (''policy_version'', PStr ''work-claim-policy.v1''),
         (''rules'', ptuple [''one_lineage'', ''owner_assigned_generation'', ''one_acceptance_per_generation'',
            ''acceptance_only_fence'', ''claimant_candidate_equivalence'', ''retained_semantic_expiry'',
            ''current_claimant_release''])] = Inr b"
    by (rule claim_content_plain) simp_all
  then show ?thesis using that
    by (auto simp: claim_policy_v1_def make_claim_policy_def)
qed

section \<open>Events on plain evidence\<close>

definition plain_claim ::
  "claim_request \<Rightarrow> dispatch_record \<Rightarrow> claimant_evidence \<Rightarrow> claim_policy \<Rightarrow> claim_decision \<Rightarrow> bool"
where
  "plain_claim q r c p d \<longleftrightarrow>
     list_all ascii [cq_organization q, cq_workload q, cq_plan q, cq_item q, cq_candidate q, cq_boundary q,
        cq_clock q, cq_clock_version q, cq_configuration q, cq_schema q, cq_component q, cq_serialization q, cq_key q,
        cl_boundary c, cl_claimant c, cl_producer c, cl_schema c, cl_candidate c, cp_version p,
        dd_policy_version (dr_decision r), dm_boundary (dd_metadata (dr_decision r)), dd_schema (dr_decision r),
        dd_input_digest (dr_decision r), dq_component (dr_request r), dq_serialization (dr_request r)]
      \<and> list_all (\<lambda>t. t \<noteq> []) [cq_organization q, cq_workload q, cq_plan q, cq_item q, cq_candidate q, cl_claimant c,
        cp_version p]
      \<and> list_all (\<lambda>(i, d). ascii i \<and> i \<noteq> [] \<and> is_sha256_hex d)
          [(dd_id (dr_decision r), dd_digest (dr_decision r)), (cl_evidence c, cl_digest c), (cp_id p, cp_digest p)]
      \<and> list_all (\<lambda>v. case v of None \<Rightarrow> True | Some t \<Rightarrow> ascii t \<and> t \<noteq> []) [cq_reason q, cd_causal d]
      \<and> list_all (\<lambda>t. ascii t \<and> t \<noteq> []) (cd_reasons d) \<and> sorted (cd_reasons d) \<and> distinct (cd_reasons d)
      \<and> cd_reasons d \<noteq> [] \<and> 1 \<le> cd_generation d
      \<and> (case cd_fence d of None \<Rightarrow> cd_type d \<noteq> ClaimAccepted | Some f \<Rightarrow> cd_type d = ClaimAccepted \<and> 1 \<le> f)"

lemma claim_identity_plain:
  assumes "plain_claim q r c p d"
  shows "\<exists>i. claim_idempotency_identity nf q = Inr i \<and> is_sha256_hex i"
proof -
  have "\<exists>x. claim_content nf [
         (''operation'', PEnum (claim_operation_value (cq_operation q))),
         (''organization_id'', PStr (cq_organization q)),
         (''plan_id'', PStr (cq_plan q)),
         (''submitted_key'', PStr (cq_key q)),
         (''work_item_id'', PStr (cq_item q)),
         (''workload_context_id'', PStr (cq_workload q))] = Inr x"
    by (rule claim_content_plain) (use assms in \<open>simp_all add: plain_claim_def\<close>)
  then show ?thesis by (auto simp: claim_idempotency_identity_def)
qed

lemma claim_input_plain:
  assumes "plain_claim q r c p d"
  shows "\<exists>b. claim_input_content nf q r c p = Inr b"
  unfolding claim_input_content_def
  by (rule claim_content_plain)
    (use assms in \<open>auto simp: plain_claim_def claim_input_document_def Let_def is_sha256_hex_ascii popt_def
      split: option.splits\<close>)

lemma build_claim_plain:
  assumes e: "plain_claim q r c p d" and i: "is_sha256_hex i" and n: "1 \<le> n"
  shows "\<exists>e ic ec. build_claim_event nf q r c p d n i (utc t) = Inr (e, ic, ec)"
proof -
  note plain = e [unfolded plain_claim_def, simplified]
  have ref: "claim_reference nf i d = Inr (EvidenceReference i d)" if "i \<noteq> []" "is_sha256_hex d" for i d
    using that by (simp add: claim_reference_def text_ok_def)
  obtain ic where ic: "claim_input_content nf q r c p = Inr ic" using claim_input_plain [OF e] ..
  have "\<exists>b. claim_content nf [(''lineage_key'', ptuple [cq_organization q, cq_workload q, cq_plan q, cq_item q])] = Inr b"
    by (rule claim_content_plain) (use plain in simp_all)
  then obtain l where l: "claim_lineage_identity nf (claim_lineage_key q) = Inr l" "is_sha256_hex l"
    by (auto simp: claim_lineage_identity_def claim_lineage_key_def)
  have "\<exists>b. claim_content nf (claim_payload q r c p d (namespaced_digest claim_input_ns ic) l n i) = Inr b"
    by (rule claim_content_plain)
      (use plain i l in \<open>auto simp: claim_payload_def popt_def list_all_iff is_sha256_hex_ascii split: option.splits\<close>)
  then obtain ec where ec: "claim_content nf (claim_payload q r c p d (namespaced_digest claim_input_ns ic) l n i) = Inr ec" ..
  have "\<exists>b. claim_content nf [(''canonical_event_digest'', PStr (namespaced_digest claim_event_ns ec)),
         (''lineage_id'', PStr l), (''lineage_version'', PInt n)] = Inr b"
    by (rule claim_content_plain) (use is_sha256_hex_ascii [OF l(2)] in simp_all)
  then obtain b where b: "claim_content nf [(''canonical_event_digest'', PStr (namespaced_digest claim_event_ns ec)),
         (''lineage_id'', PStr l), (''lineage_version'', PInt n)] = Inr b" ..
  obtain raw where raw: "assemble_claim_event nf q r c p d n i = Inr (raw, ic, ec)"
    "ce_idempotency raw = i" "ce_reasons raw = cd_reasons d" "ce_plan raw = cq_plan q" "ce_item raw = cq_item q"
    "ce_policy_version raw = cp_version p" "ce_release_reason raw = cq_reason q" "ce_schema raw = supported_claim_schema"
    using plain by (simp add: assemble_claim_event_def ic Let_def l(1) ec b ref)
  note a = assemble_claim_Inr [OF raw(1)]
  have texts: "mapr (claim_text nf) (cd_reasons d) = Inr (cd_reasons d)"
    using plain mapr_ident [of "cd_reasons d" "claim_text nf" "\<lambda>s. s"]
    by (simp add: claim_text_def required_text_def list_all_iff)
  have opt: "claim_optional_text nf v = Inr v" if "v \<noteq> Some []" for v
    using that by (simp add: claim_optional_text_def optional_text_def required_text_def split: option.split)
  have "\<exists>e. claim_event_init nf raw (utc t) = Inr e"
    using plain a raw(2-) i n texts
    by (simp add: claim_event_init_def claim_hex_def claim_text_def claim_time_def required_text_def Let_def
        sort_key_id opt split: option.split_asm)
  then show ?thesis by (auto simp: build_claim_event_def raw(1))
qed

section \<open>A lineage\<close>

definition sample_claim :: "string \<Rightarrow> string \<Rightarrow> instant \<Rightarrow> claim_request" where
  "sample_claim claimant_digest policy_digest t =
     \<lparr>cq_operation = CreateGeneration, cq_organization = ''org-1'', cq_workload = ''wl-1'', cq_plan = ''plan-1'',
      cq_item = ''item-1'', cq_dispatch = namespaced_digest ''i'' ''d'',
      cq_dispatch_digest = namespaced_digest dispatch_digest_ns ''out'', cq_claimant = ''claimant-1'',
      cq_claimant_digest = claimant_digest, cq_candidate = ''worker-1'', cq_policy = ''work-claim-policy'',
      cq_policy_version = ''work-claim-policy.v1'', cq_policy_digest = policy_digest, cq_boundary = ''boundary-1'',
      cq_at = t, cq_clock = ''clock-1'', cq_clock_version = ''v1'', cq_configuration = ''v1'', cq_expected = 0,
      cq_key = ''key-1'', cq_reason = None, cq_schema = supported_claim_schema,
      cq_component = supported_claim_component, cq_serialization = supported_serialization\<rparr>"

lemma sample_claim_world:
  assumes "0 \<le> t" "t \<le> sample_hour"
  obtains w q st e where "claim_steps nf claim_world_init w" "cw_repository w = claim_repo_init" "cq_at q = t"
    "claim_evaluate nf (claim_sources_of nf w) claim_repo_init q (utc t) = Inr (st, EvaluationCreated, e, 1)"
    "claim_lineage_key q = (''org-1'', ''wl-1'', ''plan-1'', ''item-1'')"
    "ce_organization e = ''org-1''" "ce_workload e = ''wl-1''" "ce_type e = GenerationCreated"
proof -
  obtain c where c: "validate_claimant nf c = Inr ()" "cl_evidence c = ''claimant-1''" "cl_claimant c = ''worker-1''"
    "cl_candidate c = ''worker-1''" "cl_organization c = ''org-1''" "cl_workload c = ''wl-1''"
    "cl_boundary c = ''boundary-1''" "cl_effective c = 0" "cl_expires c = sample_hour"
    "cl_schema c = supported_claimant_schema" "cl_producer c = supported_claimant_producer"
    "is_sha256_hex (cl_digest c)" by (rule sample_claimant)
  obtain p where p: "claim_policy_v1 nf = Inr p" "cp_id p = ''work-claim-policy''"
    "cp_version p = ''work-claim-policy.v1''" "is_sha256_hex (cp_digest p)" "cp_ttl p = 300"
    by (rule sample_claim_policy)
  let ?r = sample_dispatch
  have r: "claim_dispatch_id ?r = namespaced_digest ''i'' ''d''"
    by (simp add: claim_dispatch_id_def sample_dispatch_def)
  define w where "w = claim_world_init\<lparr>cw_dispatches := [namespaced_digest ''i'' ''d'' \<mapsto> ?r]\<rparr>
    \<lparr>cw_claimants := [''claimant-1'' \<mapsto> c]\<rparr>"
  define q where "q = sample_claim (cl_digest c) (cp_digest p) t"
  have steps: "claim_steps nf claim_world_init w"
    unfolding w_def
    by (intro claim_steps.step [OF claim_steps.step [OF claim_steps.none claim_step.dispatch [where v = ?r]]
          claim_step.claimant [where v = c]])
      (simp_all add: source_retain_Inr c r sample_dispatch_valid claim_world_init_def)
  have res: "claim_resolve nf (claim_sources_of nf w) q = Inr (?r, c, p)"
    using assms unfolding claim_resolve_Inr Let_def
    by (simp add: q_def sample_claim_def claim_sources_of_def w_def source_get_Inr c p sample_dispatch_valid)
      (simp add: sample_dispatch_def sample_claim_ref_def claim_policy_for_def p)
  let ?d = "plain_decision GenerationCreated OutcomeGenerationCreated ''GENERATION_CREATED'' 1 None"
  have plain: "plain_claim q ?r c p ?d"
    by (simp add: plain_claim_def q_def sample_claim_def c p plain_decision_def sample_dispatch_def sample_request_def
        supported_claim_schema_def supported_claim_component_def supported_serialization_def
        supported_claimant_schema_def supported_claimant_producer_def supported_dispatch_schema_def
        supported_dispatch_component_def)
  obtain i where i: "claim_idempotency_identity nf q = Inr i" "is_sha256_hex i"
    using claim_identity_plain [OF plain] by blast
  obtain e ic ec where b: "build_claim_event nf q ?r c p ?d 1 i (utc t) = Inr (e, ic, ec)"
    using build_claim_plain [OF plain i(2), of 1 t] by auto
  note built = build_claim_Inr [OF nf_simps(2) b]
  have decide: "claim_decide p q ?r c claim_start = Inr ?d"
    by (simp add: claim_decide_def claim_start_def q_def sample_claim_def)
  have q0: "cq_expected q = 0" by (simp add: q_def sample_claim_def)
  have "\<exists>st. claim_evaluate nf (claim_sources_of nf w) claim_repo_init q (utc t) = Inr (st, EvaluationCreated, e, 1)"
    using b by (simp add: claim_evaluate_def res i(1) built(2,4) q0 claim_idempotent_def claim_repo_init_def
        claim_replay_def decide claim_append_def Let_def evaluation_outcome_of_def claim_record_ikey_def)
  then obtain st where st: "claim_evaluate nf (claim_sources_of nf w) claim_repo_init q (utc t)
      = Inr (st, EvaluationCreated, e, 1)" ..
  show ?thesis
    by (rule that [OF steps _ _ st])
      (simp_all add: w_def claim_world_init_def q_def sample_claim_def claim_lineage_key_def
        built(7) built(14,15) [unfolded q_def sample_claim_def] plain_decision_def)
qed

end
