(* ===== verification/ClaimTheorems.thy ===== *)
theory ClaimTheorems
  imports ClaimSample
begin

text \<open>The properties of work claims, each with an instance.\<close>

section \<open>The world of the instances\<close>

lemma claim_inv_by_id:
  assumes "claim_inv nfc w" and "r \<in> set (cp_streams (cw_repository w) k)"
  shows "cp_by_id (cw_repository w) (ce_id (cr_event r)) = Some r"
proof -
  have s: "claim_store_inv (cw_repository w)" using assms(1) by (simp add: claim_inv_def)
  show ?thesis by (rule store_inv_stream(1) [OF s [unfolded claim_store_inv_def] assms(2)])
qed

lemma sample_claim_after:
  obtains w e where "claim_steps nf claim_world_init w"
    "map cr_event (cp_streams (cw_repository w) (''org-1'', ''wl-1'', ''plan-1'', ''item-1'')) = [e]"
    "ce_type e = GenerationCreated"
proof -
  obtain w q st e where w: "claim_steps nf claim_world_init w" "cw_repository w = claim_repo_init" "cq_at q = 0"
    "claim_evaluate nf (claim_sources_of nf w) claim_repo_init q (utc 0) = Inr (st, EvaluationCreated, e, 1)"
    "claim_lineage_key q = (''org-1'', ''wl-1'', ''plan-1'', ''item-1'')"
    "ce_organization e = ''org-1''" "ce_workload e = ''wl-1''" "ce_type e = GenerationCreated"
    by (rule sample_claim_world [of 0]) simp_all
  let ?w = "w\<lparr>cw_repository := st\<rparr>"
  have "claim_step nf w ?w" by (rule claim_step.evaluate) (use w(2,4) in simp)
  then have steps: "claim_steps nf claim_world_init ?w" by (rule claim_steps.step [OF w(1)])
  from w(4) obtain r where r: "claim_append claim_repo_init r (cq_expected q) = Inr (st, e, True)"
    "claim_record_key r = claim_lineage_key q" "cr_event r = e"
    by (cases rule: claim_evaluate_cases) (auto simp: claim_record_key_def)
  show ?thesis
    by (rule that [OF steps _ w(8)])
      (simp add: claim_append_created(1) [OF r(1)] r w(5) claim_repo_init_def)
qed

text \<open>C10: a lineage of claims refines the abstract register.  In every state the service
  reaches, the events of a lineage are a run of the abstract machine, from its start to the
  abstraction of the state that the replay derives: generations open only when none is open,
  one holder at a time, an end only of the held claim, a release only by its holder.\<close>

theorem claim_refines_register:
  assumes "nfc_laws nfc" and "claim_steps nfc claim_world_init w"
  shows "\<exists>s m. claim_replay nfc (claim_sources_of nfc w) (cp_streams (cw_repository w) k) = Inr (s, m)
    \<and> register_run register_start (map cr_event (cp_streams (cw_repository w) k)) (register_of s)"
proof -
  obtain s m where "claim_replay nfc (claim_sources_of nfc w) (cp_streams (cw_repository w) k) = Inr (s, m)"
    "claim_lineage nfc (claim_sources_of nfc w) (cp_streams (cw_repository w) k) s"
    by (rule claim_reachable_lineage [OF claim_reachable_inv [OF assms]])
  then show ?thesis using claim_lineage_run [OF assms(1)] by blast
qed

lemma claim_refines_register_witness:
  "\<exists>w e s. ce_type e = GenerationCreated \<and> register_run register_start [e] (register_of s)
     \<and> claim_steps nf claim_world_init w"
proof -
  obtain w e where w: "claim_steps nf claim_world_init w"
    "map cr_event (cp_streams (cw_repository w) (''org-1'', ''wl-1'', ''plan-1'', ''item-1'')) = [e]"
    "ce_type e = GenerationCreated"
    by (rule sample_claim_after)
  from claim_refines_register [OF nf_simps(2) w(1), of "(''org-1'', ''wl-1'', ''plan-1'', ''item-1'')"] w
  show ?thesis by auto
qed

text \<open>C11: fences and generations.  In every reachable lineage the accepted claims carry the
  fences 1, 2, 3 and so on in the order of the events, no other event carries a fence, the
  generations are opened in the order 1, 2, 3, and no generation is accepted twice.\<close>

theorem claim_fences_increase:
  assumes "nfc_laws nfc" and "claim_steps nfc claim_world_init w"
    and "es = map cr_event (cp_streams (cw_repository w) k)"
  shows "map ce_fence (accepted_events es) = map (\<lambda>n. Some (int n + 1)) [0..<length (accepted_events es)]
    \<and> map ce_generation (opened_events es) = map (\<lambda>n. int n + 1) [0..<length (opened_events es)]
    \<and> distinct (map ce_generation (accepted_events es)) \<and> sorted (map ce_generation es)"
proof -
  obtain s m where l: "claim_lineage nfc (claim_sources_of nfc w) (cp_streams (cw_repository w) k) s"
    by (rule claim_reachable_lineage [OF claim_reachable_inv [OF assms(1,2)]])
  from register_run_counted [OF claim_lineage_run [OF assms(1) l] refl] show ?thesis
    by (simp add: counted_def assms(3))
qed

lemma claim_fences_increase_witness:
  "\<exists>w e. claim_steps nf claim_world_init w \<and> map ce_generation (opened_events [e]) = [1 :: int]"
proof -
  obtain w e where w: "claim_steps nf claim_world_init w"
    "map cr_event (cp_streams (cw_repository w) (''org-1'', ''wl-1'', ''plan-1'', ''item-1'')) = [e]"
    "ce_type e = GenerationCreated"
    by (rule sample_claim_after)
  note p = claim_fences_increase [OF nf_simps(2) w(1) w(2) [symmetric]]
  show ?thesis
    by (intro exI [of _ w] exI [of _ e]) (use p w(1,3) in \<open>simp add: opened_events_def\<close>)
qed



text \<open>C13: what a claim rests on.  In every reachable state each event of a lineage is backed
  by a retained approved dispatch of the same plan, item and organization and by claimant
  evidence in effect at the time of the event; an accepted claim is by the candidate that
  the dispatch approved and expires 300 seconds after its time.\<close>

theorem claim_events_backed:
  assumes "nfc_laws nfc" and "claim_steps nfc claim_world_init w"
  shows "list_all (claim_backed w) (cp_streams (cw_repository w) k)"
proof -
  obtain s m where l: "claim_lineage nfc (claim_sources_of nfc w) (cp_streams (cw_repository w) k) s"
    by (rule claim_reachable_lineage [OF claim_reachable_inv [OF assms]])
  from claim_lineage_backed(1) [OF assms(1) l] show ?thesis by (simp add: list_all_iff)
qed

lemma claim_events_backed_witness:
  "\<exists>w rs. length rs = 1 \<and> list_all (claim_backed w) rs"
proof -
  obtain w e where w: "claim_steps nf claim_world_init w"
    "map cr_event (cp_streams (cw_repository w) (''org-1'', ''wl-1'', ''plan-1'', ''item-1'')) = [e]"
    by (rule sample_claim_after)
  from claim_events_backed [OF nf_simps(2) w(1), of "(''org-1'', ''wl-1'', ''plan-1'', ''item-1'')"]
    arg_cong [OF w(2), of length]
  show ?thesis
    by (intro exI [of _ w] exI [of _ "cp_streams (cw_repository w) (''org-1'', ''wl-1'', ''plan-1'', ''item-1'')"])
      simp
qed

text \<open>C14: events are well formed.  In every reachable state a retained event has SHA-256
  identifiers and digests, non-empty texts, a positive version and generation, a positive
  fence exactly when it accepts a claim, the outcome of its type, and sorted, distinct and
  present reason codes.\<close>

theorem claim_events_typed:
  assumes "nfc_laws nfc" and "claim_steps nfc claim_world_init w"
    and "cp_by_id (cw_repository w) i = Some r"
  shows "claim_event_typed (cr_event r) \<and> ce_id (cr_event r) = i"
proof -
  have inv: "claim_inv nfc w" by (rule claim_reachable_inv [OF assms(1,2)])
  then have "claim_store_inv (cw_repository w)" by (simp add: claim_inv_def)
  with assms(3) have r: "ce_id (cr_event r) = i" "r \<in> set (cp_streams (cw_repository w) (claim_record_key r))"
    unfolding claim_store_inv_def store_inv_def by blast+
  obtain s m where l: "claim_lineage nfc (claim_sources_of nfc w) (cp_streams (cw_repository w) (claim_record_key r)) s"
    by (rule claim_reachable_lineage [OF inv])
  from claim_lineage_backed(2) [OF assms(1) l r(2)] r(1) show ?thesis by simp
qed

lemma claim_events_typed_witness:
  "\<exists>(w :: claim_world) r. claim_event_typed (cr_event r) \<and> cp_by_id (cw_repository w) (ce_id (cr_event r)) = Some r"
proof -
  obtain w e where w: "claim_steps nf claim_world_init w"
    "map cr_event (cp_streams (cw_repository w) (''org-1'', ''wl-1'', ''plan-1'', ''item-1'')) = [e]"
    by (rule sample_claim_after)
  then obtain r where r: "r \<in> set (cp_streams (cw_repository w) (''org-1'', ''wl-1'', ''plan-1'', ''item-1''))"
    by (auto simp: map_eq_Cons_conv)
  note i = claim_inv_by_id [OF claim_reachable_inv [OF nf_simps(2) w(1)] r]
  from claim_events_typed [OF nf_simps(2) w(1) i] i show ?thesis by blast
qed

text \<open>Events replay.  An event that was once returned is reconstructed exactly, from the
  retained evidence, in every later state: by its organization and workload it is returned
  as it was, and to any other scope it does not exist.\<close>

theorem claim_replay_exact:
  assumes "nfc_laws nfc" and "claim_steps nfc claim_world_init w"
    and "claim_evaluate nfc (claim_sources_of nfc w) (cw_repository w) q now = Inr (st, outcome, e, n)"
    and "claim_steps nfc (w\<lparr>cw_repository := st\<rparr>) w'"
  shows "claim_reconstruct nfc (claim_sources_of nfc w') (cw_repository w') (ce_id e) org wl
    = (if ce_organization e = org \<and> ce_workload e = wl then Inr e else Inl claim_not_found)"
proof -
  have "claim_steps nfc claim_world_init (w\<lparr>cw_repository := st\<rparr>)"
    by (rule claim_steps.step [OF assms(2) claim_step.evaluate [OF assms(3)]])
  then have inv1: "claim_inv nfc (w\<lparr>cw_repository := st\<rparr>)" by (rule claim_reachable_inv [OF assms(1)])
  have inv: "claim_inv nfc w'" by (rule claim_steps_inv [OF assms(1,4) inv1])
  have store: "claim_store_inv (cw_repository w)"
    using claim_reachable_inv [OF assms(1,2)] by (simp add: claim_inv_def)
  have "\<exists>r. cp_by_id st (ce_id e) = Some r \<and> cr_event r = e"
    using assms(3)
  proof (cases rule: claim_evaluate_cases)
    case (again dispatch claimant policy identity ic r)
    have "r \<in> set (cp_streams (cw_repository w) (claim_record_key r))"
      using store again(4) unfolding claim_store_inv_def store_inv_def by blast
    with store_inv_stream(1) [OF store [unfolded claim_store_inv_def]] again(6,8) show ?thesis by blast
  next
    case fresh
    then show ?thesis using claims.append_created(5) [OF fresh(9)] by auto
  qed
  then obtain r where r: "cp_by_id (cw_repository w') (ce_id e) = Some r" "cr_event r = e"
    using claim_steps_keep(1) [OF assms(4)] by fastforce
  then have "r \<in> set (cp_streams (cw_repository w') (claim_record_key r))"
    using inv unfolding claim_inv_def claim_store_inv_def store_inv_def by blast
  moreover obtain s m where "claim_replay nfc (claim_sources_of nfc w') (cp_streams (cw_repository w') (claim_record_key r)) = Inr (s, m)"
    "\<And>r'. r' \<in> set (cp_streams (cw_repository w') (claim_record_key r)) \<Longrightarrow> m (ce_id (cr_event r')) = Some (cr_event r')"
    by (rule claim_reachable_lineage [OF inv, of "claim_record_key r"]) blast
  ultimately show ?thesis using r by (auto simp: claim_reconstruct_def)
qed

lemma claim_replay_exact_witness:
  "\<exists>w e. claim_reconstruct nf (claim_sources_of nf w) (cw_repository w) (ce_id e) ''org-1'' ''wl-1'' = Inr e
     \<and> claim_reconstruct nf (claim_sources_of nf w) (cw_repository w) (ce_id e) ''org-2'' ''wl-1'' = Inl claim_not_found"
proof -
  obtain w q st e where w: "claim_steps nf claim_world_init w" "cw_repository w = claim_repo_init"
    "claim_evaluate nf (claim_sources_of nf w) claim_repo_init q (utc 0) = Inr (st, EvaluationCreated, e, 1)"
    "ce_organization e = ''org-1''" "ce_workload e = ''wl-1''"
    by (rule sample_claim_world [of 0]) simp_all
  note p = claim_replay_exact [OF nf_simps(2) w(1) _ claim_steps.none, of q "utc 0" st EvaluationCreated e 1]
  show ?thesis
    by (intro exI [of _ "w\<lparr>cw_repository := st\<rparr>"] exI [of _ e]) (use p w(2-) in simp)
qed

text \<open>Evaluating a claim is idempotent.  The same request, at any later time and in any
  later state, returns the event it was given first, reports \<open>ExistingEquivalent\<close> and
  changes nothing, however far the lineage has moved on.\<close>

theorem claim_retry:
  assumes "claim_evaluate nfc (claim_sources_of nfc w) (cw_repository w) q now = Inr (st, outcome, e, n)"
    and "claim_steps nfc (w\<lparr>cw_repository := st\<rparr>) w'"
  shows "claim_evaluate nfc (claim_sources_of nfc w') (cw_repository w') q now'
    = Inr (cw_repository w', EvaluationExistingEquivalent, e, n)"
proof -
  have le: "claim_sources_le (claim_sources_of nfc w) (claim_sources_of nfc w')"
    using claim_steps_sources [OF assms(2)] by (simp add: claim_sources_of_def)
  from assms(1) obtain dispatch claimant policy identity ic r where h:
    "claim_resolve nfc (claim_sources_of nfc w) q = Inr (dispatch, claimant, policy)"
    "claim_idempotency_identity nfc q = Inr identity" "claim_input_content nfc q dispatch claimant policy = Inr ic"
    "cp_idempotency st (cq_organization q, claim_lineage_key q, identity) = Some r" "cr_input r = ic" "e = cr_event r"
    "n = ce_version e"
  proof (cases rule: claim_evaluate_cases)
    case (fresh dispatch claimant policy identity s m d ic ec)
    then show ?thesis
      using claims.append_Inr [OF fresh(9)]
      by (intro that [of dispatch claimant policy identity ic]) (auto simp: claim_record_ikey_def claim_record_key_def)
  qed (rule that, simp_all)
  have "cp_idempotency (cw_repository w') (cq_organization q, claim_lineage_key q, identity) = Some r"
    using claim_steps_keep(2) [OF assms(2)] h(4) by simp
  with h claim_resolve_mono [OF le h(1)] show ?thesis
    by (simp add: claim_evaluate_def claim_idempotent_def)
qed

lemma claim_retry_witness:
  "\<exists>src st q e. claim_evaluate nf src st q (utc 77) = Inr (st, EvaluationExistingEquivalent, e, 1)"
proof -
  obtain w q st e where w: "claim_steps nf claim_world_init w" "cw_repository w = claim_repo_init"
    "claim_evaluate nf (claim_sources_of nf w) claim_repo_init q (utc 0) = Inr (st, EvaluationCreated, e, 1)"
    by (rule sample_claim_world [of 0]) simp_all
  let ?w = "w\<lparr>cw_repository := st\<rparr>"
  have "claim_evaluate nf (claim_sources_of nf ?w) (cw_repository ?w) q (utc 77)
      = Inr (cw_repository ?w, EvaluationExistingEquivalent, e, 1)"
    by (rule claim_retry [OF _ claim_steps.none]) (use w(2,3) in simp)
  then show ?thesis by blast
qed

text \<open>C15: a claim event is settled.  Once the service has returned an event, in every later
  state it is reconstructed exactly from the retained evidence, by its organization and
  workload and by no other scope; and the same request, at any later time, is given the same
  event again, reports \<open>ExistingEquivalent\<close> and changes nothing.\<close>

theorem claim_event_settled:
  assumes "nfc_laws nfc" and "claim_steps nfc claim_world_init w"
    and "claim_evaluate nfc (claim_sources_of nfc w) (cw_repository w) q now = Inr (st, outcome, e, n)"
    and "claim_steps nfc (w\<lparr>cw_repository := st\<rparr>) w'"
  shows "claim_reconstruct nfc (claim_sources_of nfc w') (cw_repository w') (ce_id e) org wl
      = (if ce_organization e = org \<and> ce_workload e = wl then Inr e else Inl claim_not_found)
    \<and> claim_evaluate nfc (claim_sources_of nfc w') (cw_repository w') q now'
      = Inr (cw_repository w', EvaluationExistingEquivalent, e, n)"
  by (rule conjI [OF claim_replay_exact [OF assms] claim_retry [OF assms(3,4)]])

lemma claim_event_settled_witness:
  "\<exists>w q e. claim_reconstruct nf (claim_sources_of nf w) (cw_repository w) (ce_id e) ''org-1'' ''wl-1'' = Inr e
     \<and> claim_reconstruct nf (claim_sources_of nf w) (cw_repository w) (ce_id e) ''org-2'' ''wl-1'' = Inl claim_not_found
     \<and> claim_evaluate nf (claim_sources_of nf w) (cw_repository w) q (utc 77)
       = Inr (cw_repository w, EvaluationExistingEquivalent, e, 1)"
proof -
  obtain w q st e where w: "claim_steps nf claim_world_init w" "cw_repository w = claim_repo_init"
    "claim_evaluate nf (claim_sources_of nf w) claim_repo_init q (utc 0) = Inr (st, EvaluationCreated, e, 1)"
    "ce_organization e = ''org-1''" "ce_workload e = ''wl-1''"
    by (rule sample_claim_world [of 0]) simp_all
  note p = claim_event_settled [OF nf_simps(2) w(1) _ claim_steps.none, of q "utc 0" st EvaluationCreated e 1]
  show ?thesis
    by (intro exI [of _ "w\<lparr>cw_repository := st\<rparr>"] exI [of _ q] exI [of _ e]) (use p w(2-) in simp)
qed

text \<open>C16: a lineage is written by compare-and-set and in the order of time.  In every
  reachable state the versions of a lineage are 1, 2, 3 and so on, its semantic times never
  decrease, and the index of current events holds the last; an accepted event extends the
  lineage at its end, and a second request with the same expected version creates nothing.\<close>

theorem claim_lineage_compare_and_set:
  assumes "nfc_laws nfc" and "claim_steps nfc claim_world_init w"
    and "claim_evaluate nfc (claim_sources_of nfc w) (cw_repository w) q now = Inr (st, EvaluationCreated, e, n)"
    and "claim_lineage_key q' = claim_lineage_key q" and "cq_expected q' = cq_expected q"
  shows "map (ce_version \<circ> cr_event) (cp_streams st k) = map (\<lambda>n. int n + 1) [0..<length (cp_streams st k)]
    \<and> sorted (map (ce_at \<circ> cr_event) (cp_streams st k))
    \<and> map cr_event (cp_streams st (claim_lineage_key q))
        = map cr_event (cp_streams (cw_repository w) (claim_lineage_key q)) @ [e]
    \<and> cp_current st (claim_lineage_key q) = Some e
    \<and> claim_evaluate nfc src st q' now' \<noteq> Inr (st', EvaluationCreated, e', n')"
proof (intro conjI)
  have "claim_steps nfc claim_world_init (w\<lparr>cw_repository := st\<rparr>)"
    by (rule claim_steps.step [OF assms(2) claim_step.evaluate [OF assms(3)]])
  then have inv: "claim_inv nfc (w\<lparr>cw_repository := st\<rparr>)" by (rule claim_reachable_inv [OF assms(1)])
  then have "claim_store_inv st" by (simp add: claim_inv_def)
  from store_inv_versions [OF this [unfolded claim_store_inv_def], of k]
  show "map (ce_version \<circ> cr_event) (cp_streams st k) = map (\<lambda>n. int n + 1) [0..<length (cp_streams st k)]"
    by (simp add: comp_def)
  obtain s where "claim_lineage nfc (claim_sources_of nfc (w\<lparr>cw_repository := st\<rparr>)) (cp_streams st k) s"
    by (rule claim_reachable_lineage [OF inv, of k]) simp
  from claim_lineage_facts [OF assms(1) this]
  show "sorted (map (ce_at \<circ> cr_event) (cp_streams st k))" by (simp add: lineage_facts_def comp_def)
  from assms(3) obtain r where r: "claim_append (cw_repository w) r (cq_expected q) = Inr (st, e, True)"
    "claim_record_key r = claim_lineage_key q" "cr_event r = e"
    by (cases rule: claim_evaluate_cases) (auto simp: claim_record_key_def)
  from claim_append_created [OF r(1)] r(2,3)
  show "map cr_event (cp_streams st (claim_lineage_key q))
      = map cr_event (cp_streams (cw_repository w) (claim_lineage_key q)) @ [e]"
    and "cp_current st (claim_lineage_key q) = Some e" by simp_all
  show "claim_evaluate nfc src st q' now' \<noteq> Inr (st', EvaluationCreated, e', n')"
  proof
    assume "claim_evaluate nfc src st q' now' = Inr (st', EvaluationCreated, e', n')"
    then obtain r' where "claim_append st r' (cq_expected q) = Inr (st', e', True)"
      "claim_record_key r' = claim_record_key r"
      using assms(4,5) r(2) by (cases rule: claim_evaluate_cases) (auto simp: claim_record_key_def)
    then show False using claims.append_race [OF r(1), of r' st' e'] by simp
  qed
qed

lemma claim_lineage_compare_and_set_witness:
  "\<exists>(st :: claim_repo) e k. map cr_event (cp_streams st k) = [e] \<and> cp_current st k = Some e"
proof -
  obtain w q st e where w: "claim_steps nf claim_world_init w" "cw_repository w = claim_repo_init"
    "claim_evaluate nf (claim_sources_of nf w) claim_repo_init q (utc 0) = Inr (st, EvaluationCreated, e, 1)"
    by (rule sample_claim_world [of 0]) simp_all
  note p = claim_lineage_compare_and_set [OF nf_simps(2) w(1) _ refl refl, of q "utc 0" st e 1]
  show ?thesis
    by (intro exI [of _ st] exI [of _ e] exI [of _ "claim_lineage_key q"])
      (use p w(2,3) in \<open>simp add: claim_repo_init_def\<close>)
qed

text \<open>The operations that the abstract register allows in a state.\<close>

definition operation_allowed :: "claim_request \<Rightarrow> dispatch_record \<Rightarrow> claimant_evidence \<Rightarrow> claim_state \<Rightarrow> bool" where
  "operation_allowed q dispatch claimant s \<longleftrightarrow>
     (case cq_operation q of
        CreateGeneration \<Rightarrow> sp_holding (register_of s) \<in> {Unopened, Over}
      | Claim \<Rightarrow> sp_holding (register_of s) \<notin> {Unopened, Over}
      | Expire \<Rightarrow>
          (case (sp_holding (register_of s), cs_accepted s) of
             (Held _ _, Some a) \<Rightarrow> cq_dispatch q = artifact_id (ce_dispatch a)
               \<and> (case ce_expires a of None \<Rightarrow> False | Some t \<Rightarrow> t \<le> cq_at q)
           | _ \<Rightarrow> False)
      | Release \<Rightarrow>
          (case (sp_holding (register_of s), cs_accepted s) of
             (Held holder candidate, Some a) \<Rightarrow> cq_dispatch q = artifact_id (ce_dispatch a)
               \<and> cl_claimant claimant = holder \<and> cl_candidate claimant = candidate
               \<and> claimant_matches claimant dispatch
           | _ \<Rightarrow> False))"

text \<open>C17: what is an illegal transition.  In a reachable lineage the policy either decides or
  raises \<open>WorkClaimIllegalTransition\<close>, and it decides exactly when the time of the request is
  not before the last event and the abstract register allows the operation: a generation
  when none is open, a claim while one is open, an expiry of the held claim of the same
  dispatch once it is due, and its release by the holder for the approved candidate.\<close>

theorem claim_illegal_transitions:
  assumes "nfc_laws nfc" and "claim_steps nfc claim_world_init w"
    and "claim_replay nfc (claim_sources_of nfc w) (cp_streams (cw_repository w) k) = Inr (s, m)"
  shows "is_ok (claim_decide p q dispatch claimant s) = (decision_in_order q s \<and> operation_allowed q dispatch claimant s)
    \<and> (is_ok (claim_decide p q dispatch claimant s) = (claim_decide p q dispatch claimant s \<noteq> Inl claim_illegal))"
proof -
  have ok: "claim_state_ok s"
    by (rule claim_reachable_lineage [OF claim_reachable_inv [OF assms(1,2)], of k]) (use assms(3) in simp)
  then have g: "cs_generation_event s = None \<longleftrightarrow> cs_version s = 0"
    by (auto simp: claim_state_ok_def claim_start_def split: if_splits)
  have e: "cs_ended s = None" if "cs_version s = 0" using ok that by (simp add: claim_state_ok_def claim_start_def)
  note defs = claim_decide_def operation_allowed_def decision_in_order_def register_of_def is_ok_def raise_if_def bindr_def
  show ?thesis
    using g e
    by (cases "cq_operation q"; cases "cs_generation_event s"; cases "cs_ended s"; cases "cs_accepted s")
      (auto simp: defs not_less split: option.splits)
qed

lemma claim_illegal_transitions_witness:
  "\<exists>p q dispatch claimant. is_ok (claim_decide p q dispatch claimant claim_start)
     \<and> claim_decide p (q\<lparr>cq_operation := Claim\<rparr>) dispatch claimant claim_start = Inl claim_illegal"
proof -
  obtain c :: claimant_evidence where "cl_claimant c = ''worker-1''" by (rule sample_claimant)
  obtain p :: claim_policy where "cp_ttl p = 300" by (rule sample_claim_policy)
  have r: "claim_replay nf (claim_sources_of nf claim_world_init)
      (cp_streams (cw_repository claim_world_init) (''o'', ''w'', ''p'', ''i'')) = Inr (claim_start, Map.empty)"
    by (simp add: claim_replay_def claim_world_init_def claim_repo_init_def)
  note law = claim_illegal_transitions [OF nf_simps(2) claim_steps.none r, of p _ sample_dispatch c]
  let ?q = "sample_claim [] [] 0"
  have "cs_last claim_start = None" "sp_holding register_start = Unopened"
    by (simp_all add: claim_start_def register_start_def)
  then have "operation_allowed ?q sample_dispatch c claim_start" "decision_in_order ?q claim_start"
    "\<not> operation_allowed (?q\<lparr>cq_operation := Claim\<rparr>) sample_dispatch c claim_start"
    by (simp_all add: operation_allowed_def decision_in_order_def sample_claim_def)
  with law [of ?q] law [of "?q\<lparr>cq_operation := Claim\<rparr>"]
  have "is_ok (claim_decide p ?q sample_dispatch c claim_start)"
    "claim_decide p (?q\<lparr>cq_operation := Claim\<rparr>) sample_dispatch c claim_start = Inl claim_illegal"
    by blast+
  then show ?thesis by blast
qed

end
