(* ===== verification/LeaseDecision.thy ===== *)
theory LeaseDecision
  imports Retained
begin

text \<open>
  Execution leases: \<open>canonical.py\<close>, \<open>domain.py\<close>, \<open>evidence.py\<close>, \<open>policy.py\<close> and
  \<open>serialization.py\<close> of \<open>app/runtime/execution_lease\<close>.  A lease grants bounded
  permissions on a work item, on the strength of retained authorization evidence; it is
  renewed within its generation and superseded by the next.  Revocation is part of the
  vocabulary, and the service refuses it.
\<close>

section \<open>Exceptions and canonical form\<close>

definition lease_invalid :: exc where
  "lease_invalid = LeaseError ExecutionLeaseInvalid"

definition lease_mismatch :: exc where
  "lease_mismatch = LeaseError ExecutionLeaseDigestMismatch"

definition lease_unsupported :: exc where
  "lease_unsupported = LeaseError ExecutionLeaseVersionUnsupported"

definition lease_illegal :: exc where
  "lease_illegal = LeaseError ExecutionLeaseIllegalTransition"

definition lease_cfg :: freeze_cfg where
  "lease_cfg = \<lparr>fz_err = lease_invalid, fz_enum_raw = True, fz_time = Some isoformat_z, fz_float = True\<rparr>"

definition lease_content :: "normalizer \<Rightarrow> (string \<times> pyval) list \<Rightarrow> string res" where
  "lease_content nfc document = canonical_bytes lease_cfg nfc (pdict document)"

definition lease_text :: "normalizer \<Rightarrow> string \<Rightarrow> string res" where
  "lease_text = required_text lease_invalid"

definition lease_optional_text :: "normalizer \<Rightarrow> string option \<Rightarrow> string option res" where
  "lease_optional_text = optional_text lease_invalid"

definition lease_hex :: "normalizer \<Rightarrow> string \<Rightarrow> string res" where
  "lease_hex = sha256_field lease_invalid"

text \<open>\<open>None if value is None else f(value)\<close>.\<close>

definition opt_field :: "('a \<Rightarrow> 'b res) \<Rightarrow> 'a option \<Rightarrow> 'b option res" where
  "opt_field f v = (case v of None \<Rightarrow> Inr None | Some x \<Rightarrow> bindr (f x) (\<lambda>y. Inr (Some y)))"

definition lease_time :: "pytime \<Rightarrow> instant res" where
  "lease_time = utc_or_raise lease_invalid"

definition lease_reference :: "normalizer \<Rightarrow> string \<Rightarrow> string \<Rightarrow> evidence_ref res" where
  "lease_reference = make_reference lease_invalid"

section \<open>Requests and events\<close>

definition supported_execution_lease_schema :: string where
  "supported_execution_lease_schema = ''execution-lease.v1''"

definition supported_execution_lease_component :: string where
  "supported_execution_lease_component = ''execution-lease.service.v1''"

definition supported_permission_family :: string where
  "supported_permission_family = ''work-item-execution.v1''"

datatype lease_operation = Grant | Renew | Revoke | Supersede

primrec lease_operation_value :: "lease_operation \<Rightarrow> string" where
  "lease_operation_value Grant = ''Grant''"
| "lease_operation_value Renew = ''Renew''"
| "lease_operation_value Revoke = ''Revoke''"
| "lease_operation_value Supersede = ''Supersede''"

datatype lease_event_type = LeaseGranted | LeaseRenewed | LeaseRevoked | LeaseSuperseded

primrec lease_event_type_value :: "lease_event_type \<Rightarrow> string" where
  "lease_event_type_value LeaseGranted = ''LeaseGranted''"
| "lease_event_type_value LeaseRenewed = ''LeaseRenewed''"
| "lease_event_type_value LeaseRevoked = ''LeaseRevoked''"
| "lease_event_type_value LeaseSuperseded = ''LeaseSuperseded''"

datatype lease_permission = OfferWorkItem | InitiateWorkItemExecution

primrec lease_permission_value :: "lease_permission \<Rightarrow> string" where
  "lease_permission_value OfferWorkItem = ''OFFER_WORK_ITEM''"
| "lease_permission_value InitiateWorkItemExecution = ''INITIATE_WORK_ITEM_EXECUTION''"

text \<open>Permissions are ordered by their value, as \<open>sorted(..., key=lambda item: item.value)\<close>
  orders them.\<close>

instantiation lease_permission :: linorder
begin

definition less_eq_lease_permission :: "lease_permission \<Rightarrow> lease_permission \<Rightarrow> bool" where
  "less_eq_lease_permission a b \<longleftrightarrow> lease_permission_value a \<le> lease_permission_value b"

definition less_lease_permission :: "lease_permission \<Rightarrow> lease_permission \<Rightarrow> bool" where
  "less_lease_permission a b \<longleftrightarrow> lease_permission_value a < lease_permission_value b"

instance
proof
  fix a b c :: lease_permission
  show "a < b \<longleftrightarrow> a \<le> b \<and> \<not> b \<le> a"
    unfolding less_eq_lease_permission_def less_lease_permission_def by (rule less_le_not_le)
  show "a \<le> a" unfolding less_eq_lease_permission_def by (rule order_refl)
  show "a \<le> c" if "a \<le> b" "b \<le> c"
    using that unfolding less_eq_lease_permission_def by (rule order_trans)
  show "a = b" if "a \<le> b" "b \<le> a"
    using antisym [OF that [unfolded less_eq_lease_permission_def]] by (cases a; cases b) simp_all
  show "a \<le> b \<or> b \<le> a" unfolding less_eq_lease_permission_def by (rule linear)
qed

end

definition permissions_doc :: "lease_permission list \<Rightarrow> pyval" where
  "permissions_doc ps = PSeq (map (\<lambda>p. PEnum (lease_permission_value p)) ps)"

record lease_request =
  xq_operation :: lease_operation
  xq_organization :: string
  xq_workload :: string
  xq_plan :: string
  xq_item :: string
  xq_family :: string
  xq_permissions :: "lease_permission list"
  xq_authorization :: "string option"
  xq_authorization_digest :: "string option"
  xq_boundary :: "string option"
  xq_prior :: "string option"
  xq_revocation :: "string option"
  xq_revocation_digest :: "string option"
  xq_effective :: instant
  xq_expires :: "instant option"
  xq_evaluation :: instant
  xq_clock :: string
  xq_clock_version :: string
  xq_policy :: string
  xq_policy_version :: string
  xq_policy_digest :: string
  xq_configuration :: string
  xq_expected :: int
  xq_key :: string
  xq_schema :: string
  xq_component :: string
  xq_serialization :: string

text \<open>The truth value of an optional string.\<close>

definition truthy :: "string option \<Rightarrow> bool" where
  "truthy v = (case v of None \<Rightarrow> False | Some s \<Rightarrow> s \<noteq> [])"

text \<open>The rules between the fields of a request, which depend on its operation.\<close>

definition check_lease_request :: "lease_request \<Rightarrow> unit res" where
  "check_lease_request q =
     (let authority = [xq_authorization q, xq_authorization_digest q, xq_boundary q] in
      if xq_operation q = Revoke then
        bindr (raise_if (list_ex truthy authority \<or> xq_permissions q \<noteq> [] \<or> xq_expires q \<noteq> None)
                lease_invalid) (\<lambda>_.
        raise_if (\<not> truthy (xq_prior q) \<or> \<not> truthy (xq_revocation q) \<or> \<not> truthy (xq_revocation_digest q))
          lease_invalid)
      else
        bindr (raise_if (\<not> list_all truthy authority \<or> xq_permissions q = [] \<or> xq_expires q = None)
                lease_invalid) (\<lambda>_.
        bindr (raise_if (xq_revocation q \<noteq> None \<or> xq_revocation_digest q \<noteq> None) lease_invalid) (\<lambda>_.
        bindr (raise_if (case xq_expires q of None \<Rightarrow> False | Some t \<Rightarrow> t \<le> xq_effective q) lease_invalid) (\<lambda>_.
        bindr (raise_if (xq_operation q = Grant \<and> xq_prior q \<noteq> None) lease_invalid) (\<lambda>_.
        raise_if (xq_operation q \<noteq> Grant \<and> xq_prior q = None) lease_invalid)))))"

text \<open>\<open>ExecutionLeaseRequest.__post_init__\<close>, with the times beside the record.\<close>

definition lease_request_init ::
  "normalizer \<Rightarrow> lease_request \<Rightarrow> pytime \<Rightarrow> pytime option \<Rightarrow> pytime \<Rightarrow> lease_request res"
where
  "lease_request_init nfc q effective_at expires_at evaluation_at =
     bindr (lease_text nfc (xq_organization q)) (\<lambda>organization.
     bindr (lease_text nfc (xq_workload q)) (\<lambda>workload.
     bindr (lease_text nfc (xq_plan q)) (\<lambda>plan.
     bindr (lease_text nfc (xq_item q)) (\<lambda>item.
     bindr (lease_text nfc (xq_family q)) (\<lambda>family.
     bindr (lease_text nfc (xq_clock q)) (\<lambda>clk.
     bindr (lease_text nfc (xq_clock_version q)) (\<lambda>clk_version.
     bindr (lease_text nfc (xq_policy q)) (\<lambda>policy.
     bindr (lease_text nfc (xq_policy_version q)) (\<lambda>policy_version.
     bindr (lease_text nfc (xq_configuration q)) (\<lambda>configuration.
     bindr (lease_text nfc (xq_key q)) (\<lambda>key.
     bindr (raise_if (family \<noteq> supported_permission_family) lease_unsupported) (\<lambda>_.
     let permissions = sort (xq_permissions q) in
     bindr (raise_if (\<not> distinct permissions) lease_invalid) (\<lambda>_.
     bindr (lease_optional_text nfc (xq_authorization q)) (\<lambda>authorization.
     bindr (lease_optional_text nfc (xq_boundary q)) (\<lambda>boundary.
     bindr (lease_optional_text nfc (xq_prior q)) (\<lambda>prior.
     bindr (lease_optional_text nfc (xq_revocation q)) (\<lambda>revocation.
     bindr (opt_field (lease_hex nfc) (xq_authorization_digest q)) (\<lambda>authorization_digest.
     bindr (opt_field (lease_hex nfc) (xq_revocation_digest q)) (\<lambda>revocation_digest.
     bindr (lease_hex nfc (xq_policy_digest q)) (\<lambda>policy_digest.
     bindr (lease_time effective_at) (\<lambda>effective.
     bindr (lease_time evaluation_at) (\<lambda>evaluation.
     bindr (opt_field lease_time expires_at) (\<lambda>expires.
     bindr (raise_if (xq_expected q < 0) lease_invalid) (\<lambda>_.
     let r = q\<lparr>xq_organization := organization, xq_workload := workload, xq_plan := plan, xq_item := item,
           xq_family := family, xq_clock := clk, xq_clock_version := clk_version, xq_policy := policy,
           xq_policy_version := policy_version, xq_configuration := configuration, xq_key := key,
           xq_permissions := permissions, xq_authorization := authorization, xq_boundary := boundary,
           xq_prior := prior, xq_revocation := revocation, xq_authorization_digest := authorization_digest,
           xq_revocation_digest := revocation_digest, xq_policy_digest := policy_digest,
           xq_effective := effective, xq_evaluation := evaluation, xq_expires := expires\<rparr> in
     bindr (check_lease_request r) (\<lambda>_.
     bindr (raise_if (xq_schema q \<noteq> supported_execution_lease_schema) lease_unsupported) (\<lambda>_.
     bindr (raise_if (xq_component q \<noteq> supported_execution_lease_component) lease_unsupported) (\<lambda>_.
     bindr (raise_if (xq_serialization q \<noteq> supported_serialization) lease_unsupported) (\<lambda>_.
       Inr r))))))))))))))))))))))))))))"

type_synonym lease_key = "string \<times> string \<times> string \<times> string \<times> string"

definition lease_lineage_key :: "lease_request \<Rightarrow> lease_key" where
  "lease_lineage_key q = (xq_organization q, xq_workload q, xq_plan q, xq_item q, xq_family q)"

record lease_metadata =
  xm_boundary :: "string option"
  xm_evaluation :: instant
  xm_clock :: string
  xm_clock_version :: string
  xm_configuration :: string
  xm_component :: string
  xm_serialization :: string

text \<open>\<open>LeaseReconstructionMetadata.__post_init__\<close>.\<close>

definition lease_metadata_init :: "normalizer \<Rightarrow> lease_metadata \<Rightarrow> pytime \<Rightarrow> lease_metadata res" where
  "lease_metadata_init nfc m evaluation_at =
     bindr (lease_optional_text nfc (xm_boundary m)) (\<lambda>boundary.
     bindr (lease_time evaluation_at) (\<lambda>evaluation.
     bindr (lease_text nfc (xm_clock m)) (\<lambda>clk.
     bindr (lease_text nfc (xm_clock_version m)) (\<lambda>clk_version.
     bindr (lease_text nfc (xm_configuration m)) (\<lambda>configuration.
     bindr (raise_if (xm_component m \<noteq> supported_execution_lease_component
             \<or> xm_serialization m \<noteq> supported_serialization) lease_unsupported) (\<lambda>_.
       Inr (m\<lparr>xm_boundary := boundary, xm_evaluation := evaluation, xm_clock := clk,
              xm_clock_version := clk_version, xm_configuration := configuration\<rparr>)))))))"

record lease_event =
  xe_id :: string
  xe_lease :: string
  xe_lineage :: string
  xe_organization :: string
  xe_workload :: string
  xe_plan :: string
  xe_item :: string
  xe_family :: string
  xe_type :: lease_event_type
  xe_permissions :: "lease_permission list"
  xe_authorization :: "evidence_ref option"
  xe_revocation :: "evidence_ref option"
  xe_policy :: evidence_ref
  xe_policy_version :: string
  xe_generation :: int
  xe_version :: int
  xe_prior :: "string option"
  xe_superseded :: "string option"
  xe_effective :: instant
  xe_expires :: "instant option"
  xe_input_digest :: string
  xe_digest :: string
  xe_idempotency :: string
  xe_metadata :: lease_metadata
  xe_recorded :: instant
  xe_schema :: string

text \<open>The rules between the fields of an event, which depend on its type.\<close>

definition check_lease_event :: "lease_event \<Rightarrow> unit res" where
  "check_lease_event e =
     bindr (if xe_type e = LeaseRevoked
        then raise_if (xe_permissions e \<noteq> [] \<or> xe_authorization e \<noteq> None \<or> xe_revocation e = None
               \<or> xe_expires e \<noteq> None) lease_invalid
        else raise_if (xe_permissions e = [] \<or> xe_authorization e = None \<or> xe_revocation e \<noteq> None
               \<or> (case xe_expires e of None \<Rightarrow> True | Some t \<Rightarrow> t \<le> xe_effective e)) lease_invalid) (\<lambda>_.
     bindr (raise_if (xe_type e = LeaseGranted \<and> xe_prior e \<noteq> None) lease_invalid) (\<lambda>_.
     bindr (raise_if (xe_type e \<noteq> LeaseGranted \<and> xe_prior e = None) lease_invalid) (\<lambda>_.
     bindr (raise_if (xe_type e = LeaseSuperseded \<and> xe_superseded e = None) lease_invalid) (\<lambda>_.
     raise_if (xe_type e \<noteq> LeaseSuperseded \<and> xe_superseded e \<noteq> None) lease_invalid))))"

text \<open>\<open>ExecutionLeaseEvent.__post_init__\<close>; the other times of the event are instants already.\<close>

definition lease_event_init :: "normalizer \<Rightarrow> lease_event \<Rightarrow> pytime \<Rightarrow> lease_event res" where
  "lease_event_init nfc e recorded_at =
     bindr (lease_hex nfc (xe_id e)) (\<lambda>i.
     bindr (lease_hex nfc (xe_lease e)) (\<lambda>lease.
     bindr (lease_hex nfc (xe_lineage e)) (\<lambda>lineage.
     bindr (lease_hex nfc (xe_input_digest e)) (\<lambda>input.
     bindr (lease_hex nfc (xe_digest e)) (\<lambda>digest.
     bindr (lease_hex nfc (xe_idempotency e)) (\<lambda>idem.
     bindr (lease_text nfc (xe_organization e)) (\<lambda>organization.
     bindr (lease_text nfc (xe_workload e)) (\<lambda>workload.
     bindr (lease_text nfc (xe_plan e)) (\<lambda>plan.
     bindr (lease_text nfc (xe_item e)) (\<lambda>item.
     bindr (lease_text nfc (xe_family e)) (\<lambda>family.
     bindr (lease_text nfc (xe_policy_version e)) (\<lambda>policy_version.
     bindr (raise_if (family \<noteq> supported_permission_family) lease_unsupported) (\<lambda>_.
     let permissions = sort (xe_permissions e) in
     bindr (raise_if (\<not> distinct permissions) lease_invalid) (\<lambda>_.
     bindr (raise_if (xe_generation e < 1) lease_invalid) (\<lambda>_.
     bindr (raise_if (xe_version e < 1) lease_invalid) (\<lambda>_.
     bindr (lease_optional_text nfc (xe_prior e)) (\<lambda>prior.
     bindr (lease_optional_text nfc (xe_superseded e)) (\<lambda>superseded.
     bindr (lease_time recorded_at) (\<lambda>recorded.
     let r = e\<lparr>xe_id := i, xe_lease := lease, xe_lineage := lineage, xe_input_digest := input,
           xe_digest := digest, xe_idempotency := idem, xe_organization := organization,
           xe_workload := workload, xe_plan := plan, xe_item := item, xe_family := family,
           xe_policy_version := policy_version, xe_permissions := permissions, xe_prior := prior,
           xe_superseded := superseded, xe_recorded := recorded\<rparr> in
     bindr (check_lease_event r) (\<lambda>_.
     bindr (raise_if (xe_schema e \<noteq> supported_execution_lease_schema) lease_unsupported) (\<lambda>_.
       Inr r)))))))))))))))))))))"

text \<open>\<open>applicable_at\<close>: half-open, and only for events that carry authority.\<close>

definition lease_applicable_at :: "lease_event \<Rightarrow> pytime \<Rightarrow> bool res" where
  "lease_applicable_at e evaluation_at =
     bindr (lease_time evaluation_at) (\<lambda>evaluated.
       Inr (xe_type e \<in> {LeaseGranted, LeaseRenewed, LeaseSuperseded}
         \<and> (case xe_expires e of None \<Rightarrow> False | Some t \<Rightarrow> xe_effective e \<le> evaluated \<and> evaluated < t)))"

end
