(* ===== verification/LeaseEvidence.thy ===== *)
theory LeaseEvidence
  imports LeaseDecision
begin

text \<open>
  The evidence, the registered policy and the canonical content of execution leases:
  \<open>evidence.py\<close>, \<open>policy.py\<close> and \<open>serialization.py\<close> of \<open>app/runtime/execution_lease\<close>.
\<close>

section \<open>Authorization evidence\<close>

definition authorization_ns :: string where
  "authorization_ns = ''edgeiq.authorization-checkpoint-evidence.v1''"

definition revocation_ns :: string where
  "revocation_ns = ''edgeiq.opaque-retained-revocation-evidence.v1''"

definition supported_authorization_schema :: string where
  "supported_authorization_schema = ''authorization-checkpoint-evidence.v1''"

definition supported_authorization_component :: string where
  "supported_authorization_component = ''authorization-checkpoint.service.v1''"

definition supported_revocation_schema :: string where
  "supported_revocation_schema = ''opaque-retained-revocation-evidence.v1''"

definition supported_revocation_component :: string where
  "supported_revocation_component = ''retained-evidence-port.v1''"

record authorization_evidence =
  az_id :: string
  az_organization :: string
  az_workload :: string
  az_principal :: string
  az_plan :: string
  az_item :: string
  az_ceiling :: "lease_permission list"
  az_approved :: bool
  az_evaluated :: instant
  az_effective :: instant
  az_expires :: instant
  az_boundary :: string
  az_policy :: string
  az_policy_version :: string
  az_policy_digest :: string
  az_version :: int
  az_clock :: string
  az_clock_version :: string
  az_correlation :: string
  az_causation :: string
  az_schema :: string
  az_component :: string
  az_serialization :: string
  az_configuration :: string
  az_digest :: string
  az_content :: string

text \<open>What \<open>build_authorization_evidence\<close> and \<open>canonical_input_document\<close> write of an
  authorization.\<close>

definition authorization_document :: "authorization_evidence \<Rightarrow> (string \<times> pyval) list" where
  "authorization_document a =
     [(''approved'', PBool (az_approved a)),
      (''authorization_id'', PStr (az_id a)),
      (''component_version'', PStr (az_component a)),
      (''configuration_version'', PStr (az_configuration a)),
      (''causation_id'', PStr (az_causation a)),
      (''clock_source_id'', PStr (az_clock a)),
      (''clock_source_version'', PStr (az_clock_version a)),
      (''correlation_id'', PStr (az_correlation a)),
      (''decision_version'', PInt (az_version a)),
      (''effective_at'', ptime (az_effective a)),
      (''evaluated_at'', ptime (az_evaluated a)),
      (''expires_at'', ptime (az_expires a)),
      (''history_boundary'', PStr (az_boundary a)),
      (''organization_id'', PStr (az_organization a)),
      (''permission_ceiling'', permissions_doc (az_ceiling a)),
      (''plan_id'', PStr (az_plan a)),
      (''policy_digest'', PStr (az_policy_digest a)),
      (''policy_id'', PStr (az_policy a)),
      (''policy_version'', PStr (az_policy_version a)),
      (''principal_id'', PStr (az_principal a)),
      (''schema_version'', PStr (az_schema a)),
      (''serialization_version'', PStr (az_serialization a)),
      (''work_item_id'', PStr (az_item a)),
      (''workload_context_id'', PStr (az_workload a))]"

text \<open>\<open>build_authorization_evidence\<close>: the arguments are the fields of \<open>a\<close> with the times
  beside it; the digest and the content of \<open>a\<close> are not read.\<close>

definition build_authorization ::
  "normalizer \<Rightarrow> authorization_evidence \<Rightarrow> pytime \<Rightarrow> pytime \<Rightarrow> pytime \<Rightarrow> authorization_evidence res"
where
  "build_authorization nfc a evaluated_at effective_at expires_at =
     (let permissions = sort (az_ceiling a) in
     bindr (raise_if (permissions = [] \<or> \<not> distinct permissions) lease_invalid) (\<lambda>_.
     bindr (lease_time effective_at) (\<lambda>effective.
     bindr (lease_time expires_at) (\<lambda>expires.
     bindr (lease_time evaluated_at) (\<lambda>evaluated.
     bindr (raise_if (expires \<le> effective) lease_invalid) (\<lambda>_.
     bindr (raise_if (az_version a < 1) lease_invalid) (\<lambda>_.
     bindr (lease_text nfc (az_id a)) (\<lambda>i.
     bindr (lease_text nfc (az_configuration a)) (\<lambda>configuration.
     bindr (lease_text nfc (az_causation a)) (\<lambda>causation.
     bindr (lease_text nfc (az_clock a)) (\<lambda>clk.
     bindr (lease_text nfc (az_clock_version a)) (\<lambda>clk_version.
     bindr (lease_text nfc (az_correlation a)) (\<lambda>correlation.
     bindr (lease_text nfc (az_boundary a)) (\<lambda>boundary.
     bindr (lease_text nfc (az_organization a)) (\<lambda>organization.
     bindr (lease_text nfc (az_plan a)) (\<lambda>plan.
     bindr (lease_hex nfc (az_policy_digest a)) (\<lambda>policy_digest.
     bindr (lease_text nfc (az_policy a)) (\<lambda>policy.
     bindr (lease_text nfc (az_policy_version a)) (\<lambda>policy_version.
     bindr (lease_text nfc (az_principal a)) (\<lambda>principal.
     bindr (lease_text nfc (az_item a)) (\<lambda>item.
     bindr (lease_text nfc (az_workload a)) (\<lambda>workload.
     let fields = a\<lparr>az_ceiling := permissions, az_effective := effective, az_expires := expires,
           az_evaluated := evaluated, az_id := i, az_configuration := configuration,
           az_causation := causation, az_clock := clk, az_clock_version := clk_version,
           az_correlation := correlation, az_boundary := boundary, az_organization := organization,
           az_plan := plan, az_policy_digest := policy_digest, az_policy := policy,
           az_policy_version := policy_version, az_principal := principal, az_item := item,
           az_workload := workload\<rparr> in
     bindr (lease_content nfc (authorization_document fields)) (\<lambda>content.
       Inr (fields\<lparr>az_digest := namespaced_digest authorization_ns content, az_content := content\<rparr>))))))))))))))))))))))))"

definition validate_authorization :: "normalizer \<Rightarrow> authorization_evidence \<Rightarrow> unit res" where
  "validate_authorization nfc v =
     bindr (raise_if (az_schema v \<noteq> supported_authorization_schema
             \<or> az_component v \<noteq> supported_authorization_component
             \<or> az_serialization v \<noteq> supported_serialization) lease_unsupported) (\<lambda>_.
     bindr (build_authorization nfc v (utc (az_evaluated v)) (utc (az_effective v)) (utc (az_expires v))) (\<lambda>rebuilt.
     raise_if (rebuilt \<noteq> v) lease_mismatch))"

section \<open>Revocation evidence\<close>

record revocation_evidence =
  rv_id :: string
  rv_organization :: string
  rv_workload :: string
  rv_plan :: string
  rv_item :: string
  rv_family :: string
  rv_lease :: string
  rv_event :: string
  rv_effective :: instant
  rv_schema :: string
  rv_component :: string
  rv_serialization :: string
  rv_digest :: string
  rv_content :: string

definition build_revocation :: "normalizer \<Rightarrow> revocation_evidence \<Rightarrow> pytime \<Rightarrow> revocation_evidence res" where
  "build_revocation nfc v effective_at =
     bindr (lease_text nfc (rv_id v)) (\<lambda>i.
     bindr (lease_time effective_at) (\<lambda>effective.
     bindr (lease_text nfc (rv_organization v)) (\<lambda>organization.
     bindr (lease_text nfc (rv_family v)) (\<lambda>family.
     bindr (lease_text nfc (rv_plan v)) (\<lambda>plan.
     bindr (lease_text nfc (rv_event v)) (\<lambda>event.
     bindr (lease_text nfc (rv_lease v)) (\<lambda>lease.
     bindr (lease_text nfc (rv_item v)) (\<lambda>item.
     bindr (lease_text nfc (rv_workload v)) (\<lambda>workload.
     bindr (lease_content nfc [
         (''component_version'', PStr (rv_component v)),
         (''evidence_id'', PStr i),
         (''effective_at'', ptime effective),
         (''organization_id'', PStr organization),
         (''permission_family'', PStr family),
         (''plan_id'', PStr plan),
         (''schema_version'', PStr (rv_schema v)),
         (''serialization_version'', PStr (rv_serialization v)),
         (''target_event_id'', PStr event),
         (''target_lease_id'', PStr lease),
         (''work_item_id'', PStr item),
         (''workload_context_id'', PStr workload)]) (\<lambda>content.
       Inr (v\<lparr>rv_id := i, rv_effective := effective, rv_organization := organization, rv_family := family,
              rv_plan := plan, rv_event := event, rv_lease := lease, rv_item := item, rv_workload := workload,
              rv_digest := namespaced_digest revocation_ns content, rv_content := content\<rparr>)))))))))))"

definition validate_revocation :: "normalizer \<Rightarrow> revocation_evidence \<Rightarrow> unit res" where
  "validate_revocation nfc v =
     bindr (raise_if (rv_schema v \<noteq> supported_revocation_schema
             \<or> rv_component v \<noteq> supported_revocation_component
             \<or> rv_serialization v \<noteq> supported_serialization) lease_unsupported) (\<lambda>_.
     bindr (build_revocation nfc v (utc (rv_effective v))) (\<lambda>rebuilt.
     raise_if (rebuilt \<noteq> v) lease_mismatch))"

section \<open>The policy\<close>

record lease_policy =
  lp_id :: string
  lp_version :: string
  lp_digest :: string

definition lease_policy_ns :: string where
  "lease_policy_ns = ''edgeiq.execution-lease-policy.v1''"

definition make_lease_policy :: "normalizer \<Rightarrow> string \<Rightarrow> string \<Rightarrow> lease_policy res" where
  "make_lease_policy nfc policy_id policy_version =
     bindr (lease_content nfc [
         (''policy_id'', PStr policy_id),
         (''policy_version'', PStr policy_version),
         (''rules'', ptuple [''one_authoritative_lineage'', ''owner_assigned_generation'',
            ''same_generation_renewal'', ''active_generation_supersession'',
            ''revocation_authority_deferred_fail_closed'', ''half_open_applicability'',
            ''no_post_revocation_generation''])]) (\<lambda>content.
       Inr \<lparr>lp_id = policy_id, lp_version = policy_version, lp_digest = namespaced_digest lease_policy_ns content\<rparr>)"

definition lease_policy_v1 :: "normalizer \<Rightarrow> lease_policy res" where
  "lease_policy_v1 nfc = make_lease_policy nfc ''execution-lease-policy'' ''execution-lease-policy.v1''"

definition lease_policy_for :: "normalizer \<Rightarrow> string \<Rightarrow> string \<Rightarrow> string \<Rightarrow> lease_policy res" where
  "lease_policy_for nfc policy_id policy_version digest =
     bindr (lease_policy_v1 nfc) (\<lambda>v1.
       case filter (\<lambda>p. lp_id p = policy_id \<and> lp_version p = policy_version) [v1] of
         [p] \<Rightarrow> if lp_digest p \<noteq> digest then Inl lease_mismatch else Inr p
       | _ \<Rightarrow> Inl lease_unsupported)"

section \<open>Serialization\<close>

definition lease_lineage_ns :: string where
  "lease_lineage_ns = ''edgeiq.execution-lease-lineage-id.v1''"

definition lease_id_ns :: string where
  "lease_id_ns = ''edgeiq.execution-lease-id.v1''"

definition lease_input_ns :: string where
  "lease_input_ns = ''edgeiq.execution-lease-input.v1''"

definition lease_event_ns :: string where
  "lease_event_ns = ''edgeiq.execution-lease-event.v1''"

definition lease_event_id_ns :: string where
  "lease_event_id_ns = ''edgeiq.execution-lease-event-id.v1''"

definition lease_idempotency_ns :: string where
  "lease_idempotency_ns = ''edgeiq.execution-lease-idempotency.v1''"

definition lease_key_doc :: "lease_key \<Rightarrow> pyval" where
  "lease_key_doc key = (case key of (org, wl, plan, item, family) \<Rightarrow> ptuple [org, wl, plan, item, family])"

definition lease_lineage_identity :: "normalizer \<Rightarrow> lease_key \<Rightarrow> string res" where
  "lease_lineage_identity nfc key =
     bindr (lease_content nfc [(''lineage_key'', lease_key_doc key)]) (\<lambda>content.
       Inr (namespaced_digest lease_lineage_ns content))"

definition lease_identity :: "normalizer \<Rightarrow> string \<Rightarrow> int \<Rightarrow> string res" where
  "lease_identity nfc lineage generation =
     bindr (lease_content nfc [(''generation'', PInt generation), (''lineage_id'', PStr lineage)]) (\<lambda>content.
       Inr (namespaced_digest lease_id_ns content))"

definition lease_idempotency_identity :: "normalizer \<Rightarrow> lease_request \<Rightarrow> string res" where
  "lease_idempotency_identity nfc q =
     bindr (lease_content nfc [
         (''idempotency_key'', PStr (xq_key q)),
         (''lineage_key'', lease_key_doc (lease_lineage_key q)),
         (''operation'', PEnum (lease_operation_value (xq_operation q))),
         (''organization_id'', PStr (xq_organization q))]) (\<lambda>content.
       Inr (namespaced_digest lease_idempotency_ns content))"

definition opt_doc :: "('a \<Rightarrow> pyval) \<Rightarrow> 'a option \<Rightarrow> pyval" where
  "opt_doc f v = (case v of None \<Rightarrow> PNone | Some x \<Rightarrow> f x)"

definition authorization_input :: "authorization_evidence \<Rightarrow> pyval" where
  "authorization_input a = pdict ((''canonical_digest'', PStr (az_digest a)) # authorization_document a)"

definition revocation_input :: "revocation_evidence \<Rightarrow> pyval" where
  "revocation_input v = pdict [
      (''canonical_digest'', PStr (rv_digest v)),
      (''component_version'', PStr (rv_component v)),
      (''evidence_id'', PStr (rv_id v)),
      (''effective_at'', ptime (rv_effective v)),
      (''schema_version'', PStr (rv_schema v)),
      (''serialization_version'', PStr (rv_serialization v)),
      (''target_event_id'', PStr (rv_event v)),
      (''target_lease_id'', PStr (rv_lease v))]"

definition lease_input_document ::
  "lease_request \<Rightarrow> authorization_evidence option \<Rightarrow> revocation_evidence option \<Rightarrow> lease_policy \<Rightarrow> int
    \<Rightarrow> (string \<times> pyval) list"
where
  "lease_input_document q authorization revocation p generation =
     [(''authorization_evidence'', opt_doc authorization_input authorization),
      (''clock_source_id'', PStr (xq_clock q)),
      (''clock_source_version'', PStr (xq_clock_version q)),
      (''component_version'', PStr (xq_component q)),
      (''configuration_version'', PStr (xq_configuration q)),
      (''effective_at'', ptime (xq_effective q)),
      (''evaluation_at'', ptime (xq_evaluation q)),
      (''expected_lineage_version'', PInt (xq_expected q)),
      (''expires_at'', popt_time (xq_expires q)),
      (''idempotency_key'', PStr (xq_key q)),
      (''lease_policy'', pdict [
         (''canonical_digest'', PStr (lp_digest p)),
         (''policy_id'', PStr (lp_id p)),
         (''policy_version'', PStr (lp_version p))]),
      (''operation'', PEnum (lease_operation_value (xq_operation q))),
      (''organization_id'', PStr (xq_organization q)),
      (''owner_resolved_generation'', PInt generation),
      (''permission_family'', PStr (xq_family q)),
      (''plan_id'', PStr (xq_plan q)),
      (''prior_event_id'', popt (xq_prior q)),
      (''requested_permissions'', permissions_doc (xq_permissions q)),
      (''revocation_evidence'', opt_doc revocation_input revocation),
      (''schema_version'', PStr (xq_schema q)),
      (''serialization_version'', PStr (xq_serialization q)),
      (''work_item_id'', PStr (xq_item q)),
      (''workload_context_id'', PStr (xq_workload q))]"

definition lease_input_content ::
  "normalizer \<Rightarrow> lease_request \<Rightarrow> authorization_evidence option \<Rightarrow> revocation_evidence option \<Rightarrow> lease_policy
    \<Rightarrow> int \<Rightarrow> string res"
where
  "lease_input_content nfc q authorization revocation p generation =
     lease_content nfc (lease_input_document q authorization revocation p generation)"

text \<open>What an event takes from the request and the evidence.\<close>

definition granted_permissions :: "lease_request \<Rightarrow> authorization_evidence option \<Rightarrow> lease_permission list" where
  "granted_permissions q authorization = (if authorization \<noteq> None then xq_permissions q else [])"

definition granted_effective :: "lease_request \<Rightarrow> revocation_evidence option \<Rightarrow> instant" where
  "granted_effective q revocation = (case revocation of Some v \<Rightarrow> rv_effective v | None \<Rightarrow> xq_effective q)"

definition granted_expires :: "lease_request \<Rightarrow> authorization_evidence option \<Rightarrow> instant option" where
  "granted_expires q authorization = (if authorization \<noteq> None then xq_expires q else None)"

text \<open>What the service decides of an event: its type, its generation and the lease it
  supersedes.\<close>

type_synonym lease_ruling = "lease_event_type \<times> int \<times> string option"

definition lease_payload ::
  "lease_request \<Rightarrow> authorization_evidence option \<Rightarrow> revocation_evidence option \<Rightarrow> lease_policy \<Rightarrow> lease_ruling
    \<Rightarrow> int \<Rightarrow> string \<Rightarrow> string \<Rightarrow> string \<Rightarrow> string \<Rightarrow> (string \<times> pyval) list"
where
  "lease_payload q authorization revocation p ruling version input_digest lineage lease idempotency =
     (case ruling of (event_type, generation, superseded) \<Rightarrow>
     [(''authorization_reference'', opt_doc (\<lambda>a. ref_doc (az_id a) (az_digest a)) authorization),
      (''canonical_input_digest'', PStr input_digest),
      (''effective_at'', ptime (granted_effective q revocation)),
      (''event_type'', PEnum (lease_event_type_value event_type)),
      (''expires_at'', popt_time (granted_expires q authorization)),
      (''generation'', PInt generation),
      (''idempotency_identity'', PStr idempotency),
      (''lease_id'', PStr lease),
      (''lineage_id'', PStr lineage),
      (''lineage_version'', PInt version),
      (''organization_id'', PStr (xq_organization q)),
      (''permission_family'', PStr (xq_family q)),
      (''permissions'', permissions_doc (granted_permissions q authorization)),
      (''plan_id'', PStr (xq_plan q)),
      (''policy_reference'', ref_doc (lp_id p) (lp_digest p)),
      (''policy_version'', PStr (lp_version p)),
      (''prior_event_id'', popt (xq_prior q)),
      (''reconstruction_metadata'', pdict [
         (''authorization_history_boundary'', popt (xq_boundary q)),
         (''clock_source_id'', PStr (xq_clock q)),
         (''clock_source_version'', PStr (xq_clock_version q)),
         (''component_version'', PStr (xq_component q)),
         (''configuration_version'', PStr (xq_configuration q)),
         (''evaluation_at'', ptime (xq_evaluation q)),
         (''serialization_version'', PStr (xq_serialization q))]),
      (''revocation_reference'', opt_doc (\<lambda>v. ref_doc (rv_id v) (rv_digest v)) revocation),
      (''schema_version'', PStr (xq_schema q)),
      (''superseded_lease_id'', popt superseded),
      (''work_item_id'', PStr (xq_item q)),
      (''workload_context_id'', PStr (xq_workload q))])"

text \<open>\<open>build_execution_lease_event\<close> up to the construction of the event.\<close>

definition assemble_lease_event ::
  "normalizer \<Rightarrow> lease_request \<Rightarrow> authorization_evidence option \<Rightarrow> revocation_evidence option \<Rightarrow> lease_policy
    \<Rightarrow> lease_ruling \<Rightarrow> int \<Rightarrow> string \<Rightarrow> (lease_event \<times> string \<times> string) res"
where
  "assemble_lease_event nfc q authorization revocation p ruling version idempotency =
     (case ruling of (event_type, generation, superseded) \<Rightarrow>
     bindr (lease_input_content nfc q authorization revocation p generation) (\<lambda>input_content.
     let input_digest = namespaced_digest lease_input_ns input_content in
     bindr (lease_lineage_identity nfc (lease_lineage_key q)) (\<lambda>lineage.
     bindr (lease_identity nfc lineage generation) (\<lambda>lease.
     bindr (lease_content nfc
         (lease_payload q authorization revocation p ruling version input_digest lineage lease idempotency))
       (\<lambda>event_content.
     let event_digest = namespaced_digest lease_event_ns event_content in
     bindr (lease_content nfc [
         (''canonical_event_digest'', PStr event_digest),
         (''lineage_id'', PStr lineage),
         (''lineage_version'', PInt version)]) (\<lambda>id_content.
     bindr (opt_field (\<lambda>a. lease_reference nfc (az_id a) (az_digest a)) authorization) (\<lambda>authorization_ref.
     bindr (opt_field (\<lambda>v. lease_reference nfc (rv_id v) (rv_digest v)) revocation) (\<lambda>revocation_ref.
     bindr (lease_reference nfc (lp_id p) (lp_digest p)) (\<lambda>policy_ref.
     bindr (lease_metadata_init nfc
         \<lparr>xm_boundary = xq_boundary q, xm_evaluation = 0, xm_clock = xq_clock q,
          xm_clock_version = xq_clock_version q, xm_configuration = xq_configuration q,
          xm_component = supported_execution_lease_component, xm_serialization = supported_serialization\<rparr>
         (utc (xq_evaluation q))) (\<lambda>metadata.
       Inr (\<lparr>xe_id = namespaced_digest lease_event_id_ns id_content, xe_lease = lease, xe_lineage = lineage,
          xe_organization = xq_organization q, xe_workload = xq_workload q, xe_plan = xq_plan q,
          xe_item = xq_item q, xe_family = xq_family q, xe_type = event_type,
          xe_permissions = granted_permissions q authorization, xe_authorization = authorization_ref,
          xe_revocation = revocation_ref, xe_policy = policy_ref, xe_policy_version = lp_version p,
          xe_generation = generation, xe_version = version, xe_prior = xq_prior q, xe_superseded = superseded,
          xe_effective = granted_effective q revocation, xe_expires = granted_expires q authorization,
          xe_input_digest = input_digest, xe_digest = event_digest, xe_idempotency = idempotency,
          xe_metadata = metadata, xe_recorded = 0, xe_schema = supported_execution_lease_schema\<rparr>,
          input_content, event_content)))))))))))"

definition build_lease_event ::
  "normalizer \<Rightarrow> lease_request \<Rightarrow> authorization_evidence option \<Rightarrow> revocation_evidence option \<Rightarrow> lease_policy
    \<Rightarrow> lease_ruling \<Rightarrow> int \<Rightarrow> string \<Rightarrow> pytime \<Rightarrow> (lease_event \<times> string \<times> string) res"
where
  "build_lease_event nfc q authorization revocation p ruling version idempotency recorded_at =
     bindr (assemble_lease_event nfc q authorization revocation p ruling version idempotency)
       (\<lambda>(fields, input_content, event_content).
     bindr (lease_event_init nfc fields recorded_at) (\<lambda>event.
       Inr (event, input_content, event_content)))"

definition lease_verify_recorded :: "lease_event \<Rightarrow> string \<Rightarrow> string \<Rightarrow> unit res" where
  "lease_verify_recorded e input_content event_content =
     bindr (raise_if (namespaced_digest lease_input_ns input_content \<noteq> xe_input_digest e) lease_mismatch) (\<lambda>_.
     raise_if (namespaced_digest lease_event_ns event_content \<noteq> xe_digest e) lease_mismatch)"

end
