(* ===== verification/LeaseService.thy ===== *)
theory LeaseService
  imports LeaseEvidence StreamStore
begin

text \<open>
  The repository, the replay and the service of \<open>app/runtime/execution_lease/service.py\<close>
  with the record of \<open>ports.py\<close>.
\<close>

section \<open>The repository\<close>

record lease_record =
  xr_request :: lease_request
  xr_event :: lease_event
  xr_idempotency :: string
  xr_input :: string
  xr_content :: string

record lease_repo =
  xp_streams :: "lease_key \<Rightarrow> lease_record list"
  xp_by_id :: "string \<rightharpoonup> lease_record"
  xp_idempotency :: "string \<times> lease_key \<times> string \<rightharpoonup> lease_record"
  xp_current :: "lease_key \<rightharpoonup> lease_event"

definition lease_repo_init :: lease_repo where
  "lease_repo_init = \<lparr>xp_streams = (\<lambda>_. []), xp_by_id = Map.empty, xp_idempotency = Map.empty,
     xp_current = Map.empty\<rparr>"

definition lease_record_key :: "lease_record \<Rightarrow> lease_key" where
  "lease_record_key r = lease_lineage_key (xr_request r)"

definition lease_record_ikey :: "lease_record \<Rightarrow> string \<times> lease_key \<times> string" where
  "lease_record_ikey r = (xq_organization (xr_request r), lease_record_key r, xr_idempotency r)"

definition lease_conflict :: exc where
  "lease_conflict = LeaseError ExecutionLeaseIdempotencyConflict"

definition lease_version_conflict :: exc where
  "lease_version_conflict = LeaseError ExecutionLeaseVersionConflict"

definition lease_idempotent ::
  "lease_repo \<Rightarrow> string \<Rightarrow> lease_key \<Rightarrow> string \<Rightarrow> string \<Rightarrow> lease_event option res"
where
  "lease_idempotent st org key identity input_content =
     (case xp_idempotency st (org, key, identity) of
        None \<Rightarrow> Inr None
      | Some prior \<Rightarrow> if xr_input prior \<noteq> input_content then Inl lease_conflict else Inr (Some (xr_event prior)))"

definition lease_append :: "lease_repo \<Rightarrow> lease_record \<Rightarrow> int \<Rightarrow> (lease_repo \<times> lease_event \<times> bool) res" where
  "lease_append st r expected_version =
     (let key = lease_record_key r; e = xr_event r in
      case xp_idempotency st (lease_record_ikey r) of
        Some prior \<Rightarrow>
          if xr_input prior \<noteq> xr_input r then Inl lease_conflict else Inr (st, xr_event prior, False)
      | None \<Rightarrow>
          (let history = xp_streams st key in
           if expected_version \<noteq> int (length history) \<or> xq_expected (xr_request r) \<noteq> expected_version
              \<or> xe_version e \<noteq> expected_version + 1
           then Inl lease_version_conflict
           else if xp_by_id st (xe_id e) \<noteq> None then Inl lease_conflict
           else Inr (\<lparr>xp_streams = (xp_streams st)(key := history @ [r]),
                      xp_by_id = (xp_by_id st)(xe_id e \<mapsto> r),
                      xp_idempotency = (xp_idempotency st)(lease_record_ikey r \<mapsto> r),
                      xp_current = (xp_current st)(key \<mapsto> e)\<rparr>, e, True)))"

definition lease_store_inv :: "lease_repo \<Rightarrow> bool" where
  "lease_store_inv st \<longleftrightarrow>
     store_inv (xp_streams st) (xp_by_id st) (xp_idempotency st) lease_record_key lease_record_ikey
       (\<lambda>r. xe_id (xr_event r)) (\<lambda>r. xe_version (xr_event r))"

interpretation leases: stream_store lease_append xp_streams xp_by_id xp_idempotency
  lease_record_key lease_record_ikey xr_input xr_event
  "\<lambda>r. xe_id (xr_event r)" "\<lambda>r. xe_version (xr_event r)"
  by unfold_locales
    (auto simp: lease_append_def Let_def split: option.splits if_splits)

section \<open>The derived state\<close>

record lease_state =
  xs_version :: int
  xs_generation :: int
  xs_current :: "lease_event option"
  xs_terminal :: "lease_event option"
  xs_last :: "lease_event option"

definition lease_start :: lease_state where
  "lease_start = \<lparr>xs_version = 0, xs_generation = 0, xs_current = None, xs_terminal = None, xs_last = None\<rparr>"

definition lease_failed :: exc where
  "lease_failed = LeaseError ExecutionLeaseReconstructionFailed"

definition lease_advance :: "lease_state \<Rightarrow> lease_event \<Rightarrow> lease_state res" where
  "lease_advance s e =
     (if xe_version e \<noteq> xs_version s + 1 then Inl lease_failed
      else if xe_type e = LeaseGranted then
        (if xs_version s \<noteq> 0 \<or> xe_generation e \<noteq> 1 \<or> xe_prior e \<noteq> None then Inl lease_failed
         else Inr \<lparr>xs_version = xe_version e, xs_generation = 1, xs_current = Some e, xs_terminal = None,
                   xs_last = Some e\<rparr>)
      else
        (case (xs_current s, xs_last s) of
           (None, _) \<Rightarrow> Inl lease_failed
         | (Some _, None) \<Rightarrow> Inl AttributeError
         | (Some current, Some last_event) \<Rightarrow>
             if xe_prior e \<noteq> Some (xe_id last_event) then Inl lease_failed
             else if xs_terminal s \<noteq> None then Inl lease_failed
             else if xe_type e = LeaseRenewed then
               (if xe_generation e \<noteq> xs_generation s \<or> xe_lease e \<noteq> xe_lease current then Inl lease_failed
                else Inr \<lparr>xs_version = xe_version e, xs_generation = xs_generation s, xs_current = Some e,
                          xs_terminal = None, xs_last = Some e\<rparr>)
             else if xe_type e = LeaseRevoked then
               (if xe_generation e \<noteq> xs_generation s \<or> xe_lease e \<noteq> xe_lease current then Inl lease_failed
                else Inr \<lparr>xs_version = xe_version e, xs_generation = xs_generation s, xs_current = Some current,
                          xs_terminal = Some e, xs_last = Some e\<rparr>)
             else
               (if xe_generation e \<noteq> xs_generation s + 1 \<or> xe_superseded e \<noteq> Some (xe_lease current)
                then Inl lease_failed
                else Inr \<lparr>xs_version = xe_version e, xs_generation = xe_generation e, xs_current = Some e,
                          xs_terminal = None, xs_last = Some e\<rparr>)))"

section \<open>The service\<close>

definition lease_missing :: exc where
  "lease_missing = LeaseError ExecutionLeaseEvidenceUnavailable"

text \<open>\<open>InMemoryScopedEvidenceSource\<close> and \<open>require_evidence\<close> of the package.\<close>

definition lease_retain :: "('a \<Rightarrow> unit res) \<Rightarrow> ('a \<Rightarrow> string) \<Rightarrow> 'a items \<Rightarrow> 'a \<Rightarrow> 'a items res" where
  [simp]: "lease_retain = source_retain lease_invalid"

definition lease_get_scoped ::
  "('a \<Rightarrow> unit res) \<Rightarrow> ('a \<Rightarrow> string) \<Rightarrow> ('a \<Rightarrow> string) \<Rightarrow> 'a items
    \<Rightarrow> string \<Rightarrow> string \<Rightarrow> string \<Rightarrow> 'a option res"
where
  [simp]: "lease_get_scoped = source_get"

definition lease_require ::
  "(string \<Rightarrow> string \<Rightarrow> string \<Rightarrow> 'a option res) \<Rightarrow> string \<Rightarrow> string \<Rightarrow> string \<Rightarrow> 'a res"
where
  [simp]: "lease_require = require_evidence lease_missing"

definition authorization_source ::
  "normalizer \<Rightarrow> authorization_evidence items \<Rightarrow> string \<Rightarrow> string \<Rightarrow> string \<Rightarrow> authorization_evidence option res"
where
  [simp]: "authorization_source nfc = lease_get_scoped (validate_authorization nfc) az_organization az_workload"

definition revocation_source ::
  "normalizer \<Rightarrow> revocation_evidence items \<Rightarrow> string \<Rightarrow> string \<Rightarrow> string \<Rightarrow> revocation_evidence option res"
where
  [simp]: "revocation_source nfc = lease_get_scoped (validate_revocation nfc) rv_organization rv_workload"

record lease_sources =
  src_authorizations :: "string \<Rightarrow> string \<Rightarrow> string \<Rightarrow> authorization_evidence option res"
  src_revocations :: "string \<Rightarrow> string \<Rightarrow> string \<Rightarrow> revocation_evidence option res"

text \<open>The two halves of \<open>_resolve\<close>: the authorization and the revocation a request names.
  The revocation half ends in an exception on every path.\<close>

definition resolve_authorization :: "lease_sources \<Rightarrow> lease_request \<Rightarrow> string \<Rightarrow> authorization_evidence res" where
  "resolve_authorization src q i =
     bindr (lease_require (src_authorizations src) i (xq_organization q) (xq_workload q)) (\<lambda>a.
     bindr (raise_if (Some (az_digest a) \<noteq> xq_authorization_digest q) lease_mismatch) (\<lambda>_.
     bindr (raise_if (\<not> az_approved a) lease_invalid) (\<lambda>_.
     bindr (raise_if (az_plan a \<noteq> xq_plan q \<or> az_item a \<noteq> xq_item q) lease_invalid) (\<lambda>_.
     bindr (raise_if (Some (az_boundary a) \<noteq> xq_boundary q) lease_invalid) (\<lambda>_.
     bindr (raise_if (\<not> set (xq_permissions q) \<subseteq> set (az_ceiling a)) lease_invalid) (\<lambda>_.
     bindr (raise_if (\<not> (az_effective a \<le> xq_evaluation q \<and> xq_evaluation q < az_expires a)) lease_invalid) (\<lambda>_.
     bindr (raise_if (xq_effective q < az_effective a
             \<or> (case xq_expires q of None \<Rightarrow> True | Some t \<Rightarrow> az_expires a < t)) lease_invalid) (\<lambda>_.
       Inr a))))))))"

definition resolve_revocation ::
  "lease_sources \<Rightarrow> (string \<rightharpoonup> lease_record) \<Rightarrow> lease_request \<Rightarrow> string \<Rightarrow> revocation_evidence res"
where
  "resolve_revocation src by_id q i =
     bindr (lease_require (src_revocations src) i (xq_organization q) (xq_workload q)) (\<lambda>v.
     bindr (raise_if (Some (rv_digest v) \<noteq> xq_revocation_digest q) lease_mismatch) (\<lambda>_.
     bindr (raise_if ((rv_plan v, rv_item v, rv_family v) \<noteq> (xq_plan q, xq_item q, xq_family q)) lease_invalid) (\<lambda>_.
     bindr (raise_if (rv_effective v \<noteq> xq_effective q) lease_invalid) (\<lambda>_.
     bindr (raise_if (xq_prior q \<noteq> Some (rv_event v)) lease_invalid) (\<lambda>_.
     bindr (raise_if (case by_id (rv_event v) of None \<Rightarrow> True | Some r \<Rightarrow> xe_lease (xr_event r) \<noteq> rv_lease v)
             lease_invalid) (\<lambda>_.
       Inl lease_illegal))))))"

definition lease_resolve ::
  "normalizer \<Rightarrow> lease_sources \<Rightarrow> (string \<rightharpoonup> lease_record) \<Rightarrow> lease_request
    \<Rightarrow> (authorization_evidence option \<times> revocation_evidence option \<times> lease_policy) res"
where
  "lease_resolve nfc src by_id q =
     bindr (opt_field (resolve_authorization src q) (xq_authorization q)) (\<lambda>authorization.
     bindr (opt_field (resolve_revocation src by_id q) (xq_revocation q)) (\<lambda>revocation.
     bindr (lease_policy_for nfc (xq_policy q) (xq_policy_version q) (xq_policy_digest q)) (\<lambda>policy.
       Inr (authorization, revocation, policy))))"

text \<open>The evidence of the current authority is not the one the request brings.\<close>

definition fresh_authorization :: "lease_request \<Rightarrow> lease_event \<Rightarrow> bool" where
  "fresh_authorization q current =
     (case xe_authorization current of
        None \<Rightarrow> False
      | Some reference \<Rightarrow> xq_authorization q \<noteq> Some (artifact_id reference))"

definition lease_decision :: "lease_request \<Rightarrow> lease_state \<Rightarrow> lease_ruling res" where
  "lease_decision q s =
     bindr (raise_if (case xs_last s of None \<Rightarrow> False
         | Some e \<Rightarrow> xq_evaluation q < xm_evaluation (xe_metadata e)) lease_illegal) (\<lambda>_.
     if xq_operation q = Grant then
       (if xs_version s \<noteq> 0 then Inl lease_illegal else Inr (LeaseGranted, 1, None))
     else
       (case (xs_current s, xs_last s) of
          (Some current, Some last_event) \<Rightarrow>
            if xq_prior q \<noteq> Some (xe_id last_event) then Inl lease_illegal
            else if xs_terminal s \<noteq> None then Inl lease_illegal
            else if xq_operation q = Renew then
              (if \<not> fresh_authorization q current then Inl lease_invalid
               else if \<not> set (xq_permissions q) \<subseteq> set (xe_permissions current) then Inl lease_invalid
               else if xq_effective q < xe_effective current then Inl lease_invalid
               else Inr (LeaseRenewed, xs_generation s, None))
            else if xq_operation q = Revoke then
              (if xq_effective q < xe_effective current then Inl lease_invalid
               else Inr (LeaseRevoked, xs_generation s, None))
            else
              (if \<not> fresh_authorization q current then Inl lease_invalid
               else if xq_effective q < xe_effective current then Inl lease_invalid
               else Inr (LeaseSuperseded, xs_generation s + 1, Some (xe_lease current)))
        | _ \<Rightarrow> Inl lease_illegal))"

text \<open>One turn of the loop of \<open>_replay\<close>.\<close>

definition lease_replay_step ::
  "normalizer \<Rightarrow> lease_sources \<Rightarrow> (string \<rightharpoonup> lease_record) \<Rightarrow> lease_key
    \<Rightarrow> lease_state \<times> (string \<rightharpoonup> lease_event) \<Rightarrow> lease_record \<Rightarrow> (lease_state \<times> (string \<rightharpoonup> lease_event)) res"
where
  "lease_replay_step nfc src by_id first_key acc r =
     (case acc of (state, rebuilt_by_id) \<Rightarrow>
     bindr (raise_if (lease_record_key r \<noteq> first_key) lease_failed) (\<lambda>_.
     bindr (lease_lineage_identity nfc (lease_record_key r)) (\<lambda>lineage.
     bindr (raise_if (xe_lineage (xr_event r) \<noteq> lineage) lease_failed) (\<lambda>_.
     bindr (raise_if (xq_expected (xr_request r) \<noteq> xs_version state) lease_failed) (\<lambda>_.
     bindr (lease_verify_recorded (xr_event r) (xr_input r) (xr_content r)) (\<lambda>_.
     bindr (lease_resolve nfc src by_id (xr_request r)) (\<lambda>(authorization, revocation, policy).
     bindr (lease_decision (xr_request r) state) (\<lambda>ruling.
     bindr (lease_input_content nfc (xr_request r) authorization revocation policy (fst (snd ruling)))
       (\<lambda>expected_input.
     bindr (raise_if (expected_input \<noteq> xr_input r) lease_mismatch) (\<lambda>_.
     bindr (build_lease_event nfc (xr_request r) authorization revocation policy ruling (xs_version state + 1)
         (xr_idempotency r) (utc (xe_recorded (xr_event r))))
       (\<lambda>(rebuilt, rebuilt_input, rebuilt_content).
     bindr (raise_if (rebuilt_input \<noteq> xr_input r \<or> rebuilt_content \<noteq> xr_content r \<or> rebuilt \<noteq> xr_event r)
         (LeaseError ExecutionLeaseReplayDiverged)) (\<lambda>_.
     bindr (lease_advance state rebuilt) (\<lambda>state'.
       Inr (state', rebuilt_by_id(xe_id rebuilt \<mapsto> rebuilt)))))))))))))))"

definition lease_replay_from ::
  "normalizer \<Rightarrow> lease_sources \<Rightarrow> (string \<rightharpoonup> lease_record) \<Rightarrow> lease_key
    \<Rightarrow> lease_state \<times> (string \<rightharpoonup> lease_event) \<Rightarrow> lease_record list \<Rightarrow> (lease_state \<times> (string \<rightharpoonup> lease_event)) res"
where
  "lease_replay_from nfc src by_id first_key = fold_res (lease_replay_step nfc src by_id first_key)"

definition lease_replay ::
  "normalizer \<Rightarrow> lease_sources \<Rightarrow> (string \<rightharpoonup> lease_record) \<Rightarrow> lease_record list
    \<Rightarrow> (lease_state \<times> (string \<rightharpoonup> lease_event)) res"
where
  "lease_replay nfc src by_id history =
     (case history of
        [] \<Rightarrow> Inr (lease_start, Map.empty)
      | r # _ \<Rightarrow> lease_replay_from nfc src by_id (lease_record_key r) (lease_start, Map.empty) history)"

text \<open>\<open>evaluate\<close>.  A known idempotency identity is checked first against the request and,
  after the evidence is resolved, against the canonical input.\<close>

datatype lease_outcome = LeaseCreated | LeaseExistingEquivalent

definition lease_evaluate ::
  "normalizer \<Rightarrow> lease_sources \<Rightarrow> lease_repo \<Rightarrow> lease_request \<Rightarrow> pytime
    \<Rightarrow> (lease_repo \<times> lease_outcome \<times> lease_event \<times> int) res"
where
  "lease_evaluate nfc src st q now =
     bindr (lease_idempotency_identity nfc q) (\<lambda>identity.
     let known = xp_idempotency st (xq_organization q, lease_lineage_key q, identity) in
     bindr (raise_if (case known of None \<Rightarrow> False | Some prior \<Rightarrow> q \<noteq> xr_request prior) lease_conflict) (\<lambda>_.
     bindr (lease_resolve nfc src (xp_by_id st) q) (\<lambda>(authorization, revocation, policy).
     case known of
       Some prior \<Rightarrow>
         bindr (lease_input_content nfc q authorization revocation policy (xe_generation (xr_event prior)))
           (\<lambda>retry_input.
         bindr (raise_if (retry_input \<noteq> xr_input prior) lease_conflict) (\<lambda>_.
           Inr (st, LeaseExistingEquivalent, xr_event prior, xe_version (xr_event prior))))
     | None \<Rightarrow>
         (let history = xp_streams st (lease_lineage_key q) in
         bindr (raise_if (xq_expected q \<noteq> int (length history)) lease_version_conflict) (\<lambda>_.
         bindr (lease_replay nfc src (xp_by_id st) history) (\<lambda>(state, _).
         bindr (lease_decision q state) (\<lambda>ruling.
         bindr (lease_input_content nfc q authorization revocation policy (fst (snd ruling))) (\<lambda>input_content.
         bindr (lease_idempotent st (xq_organization q) (lease_lineage_key q) identity input_content) (\<lambda>prior.
         case prior of
           Some e \<Rightarrow> Inr (st, LeaseExistingEquivalent, e, xe_version e)
         | None \<Rightarrow>
             bindr (build_lease_event nfc q authorization revocation policy ruling (xq_expected q + 1) identity now)
               (\<lambda>(event, input_content, event_content).
             bindr (lease_append st \<lparr>xr_request = q, xr_event = event, xr_idempotency = identity,
                      xr_input = input_content, xr_content = event_content\<rparr> (xq_expected q))
               (\<lambda>(st', accepted, created).
               Inr (st', if created then LeaseCreated else LeaseExistingEquivalent, accepted,
                    xe_version accepted))))))))))))"

definition lease_not_found :: exc where
  "lease_not_found = LeaseError ExecutionLeaseNotFound"

definition lease_get :: "lease_repo \<Rightarrow> string \<Rightarrow> string \<Rightarrow> string \<Rightarrow> lease_event res" where
  "lease_get st i org wl =
     (case xp_by_id st i of
        None \<Rightarrow> Inl lease_not_found
      | Some r \<Rightarrow>
          if xe_organization (xr_event r) \<noteq> org \<or> xe_workload (xr_event r) \<noteq> wl then Inl lease_not_found
          else Inr (xr_event r))"

definition lease_history :: "lease_repo \<Rightarrow> lease_key \<Rightarrow> string \<Rightarrow> string \<Rightarrow> lease_event list res" where
  "lease_history st key org wl =
     (if fst key \<noteq> org \<or> fst (snd key) \<noteq> wl then Inl lease_not_found
      else Inr (map xr_event (xp_streams st key)))"

definition lease_current :: "lease_repo \<Rightarrow> lease_key \<Rightarrow> string \<Rightarrow> string \<Rightarrow> lease_event option res" where
  "lease_current st key org wl =
     (if fst key \<noteq> org \<or> fst (snd key) \<noteq> wl then Inl lease_not_found else Inr (xp_current st key))"

definition lease_reconstruct ::
  "normalizer \<Rightarrow> lease_sources \<Rightarrow> lease_repo \<Rightarrow> string \<Rightarrow> string \<Rightarrow> string \<Rightarrow> lease_event res"
where
  "lease_reconstruct nfc src st i org wl =
     (case xp_by_id st i of
        None \<Rightarrow> Inl lease_not_found
      | Some r \<Rightarrow>
          if xe_organization (xr_event r) \<noteq> org \<or> xe_workload (xr_event r) \<noteq> wl then Inl lease_not_found
          else
            bindr (lease_replay nfc src (xp_by_id st) (xp_streams st (lease_record_key r))) (\<lambda>(_, rebuilt).
              case rebuilt i of None \<Rightarrow> Inl lease_failed | Some e \<Rightarrow> Inr e))"

definition lease_applicable ::
  "normalizer \<Rightarrow> lease_sources \<Rightarrow> lease_repo \<Rightarrow> lease_key \<Rightarrow> string \<Rightarrow> string \<Rightarrow> pytime \<Rightarrow> int option \<Rightarrow> bool res"
where
  "lease_applicable nfc src st key org wl evaluation_at through_version =
     (if fst key \<noteq> org \<or> fst (snd key) \<noteq> wl then Inl lease_not_found
      else
        (let history = xp_streams st key in
        bindr (case through_version of
            None \<Rightarrow> Inr history
          | Some n \<Rightarrow> if n < 1 \<or> n > int (length history) then Inl lease_failed else Inr (take (nat n) history))
          (\<lambda>history.
        bindr (lease_replay nfc src (xp_by_id st) history) (\<lambda>(state, _).
          case (xs_terminal state, xs_current state) of
            (None, Some e) \<Rightarrow> lease_applicable_at e evaluation_at
          | _ \<Rightarrow> Inr False))))"

end
