(* ===== verification/LeaseProperties.thy ===== *)
theory LeaseProperties
  imports LeaseService
begin

text \<open>
  What a lineage of leases promises: its history replays in every later state, and the
  policy decides only events that the derived state can advance by.
\<close>

section \<open>Worlds\<close>

record lease_world =
  xw_authorizations :: "authorization_evidence items"
  xw_revocations :: "revocation_evidence items"
  xw_repository :: lease_repo

definition lease_world_init :: lease_world where
  "lease_world_init = \<lparr>xw_authorizations = Map.empty, xw_revocations = Map.empty, xw_repository = lease_repo_init\<rparr>"

definition lease_sources_of :: "normalizer \<Rightarrow> lease_world \<Rightarrow> lease_sources" where
  "lease_sources_of nfc w =
     \<lparr>src_authorizations = authorization_source nfc (xw_authorizations w),
      src_revocations = revocation_source nfc (xw_revocations w)\<rparr>"

inductive lease_step :: "normalizer \<Rightarrow> lease_world \<Rightarrow> lease_world \<Rightarrow> bool" for nfc where
  authorization: "lease_retain (validate_authorization nfc) az_id (xw_authorizations w) v = Inr items \<Longrightarrow>
    lease_step nfc w (w\<lparr>xw_authorizations := items\<rparr>)"
| revocation: "lease_retain (validate_revocation nfc) rv_id (xw_revocations w) v = Inr items \<Longrightarrow>
    lease_step nfc w (w\<lparr>xw_revocations := items\<rparr>)"
| evaluate: "lease_evaluate nfc (lease_sources_of nfc w) (xw_repository w) q now = Inr (st, out, e, m) \<Longrightarrow>
    lease_step nfc w (w\<lparr>xw_repository := st\<rparr>)"

inductive lease_steps :: "normalizer \<Rightarrow> lease_world \<Rightarrow> lease_world \<Rightarrow> bool" for nfc where
  none: "lease_steps nfc w w"
| step: "lease_steps nfc w w1 \<Longrightarrow> lease_step nfc w1 w2 \<Longrightarrow> lease_steps nfc w w2"

section \<open>Evidence stays\<close>

lemma opt_field_Inr [res_simps]:
  "opt_field f v = Inr w \<longleftrightarrow> (case v of None \<Rightarrow> w = None | Some x \<Rightarrow> (\<exists>y. f x = Inr y \<and> w = Some y))"
  by (auto simp: opt_field_def bindr_Inr_conv split: option.splits)

text \<open>The authorization that a request names, in force for it.\<close>

lemma resolve_authorization_Inr:
  "resolve_authorization src q i = Inr a \<longleftrightarrow>
     src_authorizations src i (xq_organization q) (xq_workload q) = Inr (Some a)
     \<and> xq_authorization_digest q = Some (az_digest a) \<and> az_approved a
     \<and> az_plan a = xq_plan q \<and> az_item a = xq_item q \<and> xq_boundary q = Some (az_boundary a)
     \<and> set (xq_permissions q) \<subseteq> set (az_ceiling a)
     \<and> az_effective a \<le> xq_evaluation q \<and> xq_evaluation q < az_expires a
     \<and> az_effective a \<le> xq_effective q \<and> (\<exists>t. xq_expires q = Some t \<and> t \<le> az_expires a)"
  by (auto simp: resolve_authorization_def res_simps not_less split: option.splits)

lemma resolve_revocation_fails: "resolve_revocation src by_id q i \<noteq> Inr v"
  by (auto simp: resolve_revocation_def res_simps)

lemma lease_resolve_Inr:
  "lease_resolve nfc src by_id q = Inr (a, v, p) \<longleftrightarrow>
     v = None \<and> xq_revocation q = None
     \<and> (case xq_authorization q of None \<Rightarrow> a = None
         | Some i \<Rightarrow> (\<exists>x. resolve_authorization src q i = Inr x \<and> a = Some x))
     \<and> lease_policy_for nfc (xq_policy q) (xq_policy_version q) (xq_policy_digest q) = Inr p"
  by (auto simp: lease_resolve_def res_simps resolve_revocation_fails split: option.splits)

definition lease_sources_le :: "lease_sources \<Rightarrow> lease_sources \<Rightarrow> bool" where
  "lease_sources_le a b \<longleftrightarrow>
     (\<forall>i org wl v. src_authorizations a i org wl = Inr (Some v) \<longrightarrow> src_authorizations b i org wl = Inr (Some v))"

lemma lease_sources_le_refl [simp]: "lease_sources_le a a"
  by (simp add: lease_sources_le_def)

lemma lease_sources_le_trans: "lease_sources_le a b \<Longrightarrow> lease_sources_le b c \<Longrightarrow> lease_sources_le a c"
  by (simp add: lease_sources_le_def)

lemma lease_step_sources:
  assumes "lease_step nfc w w'"
  shows "lease_sources_le (lease_sources_of nfc w) (lease_sources_of nfc w')"
  using assms
  by cases (auto simp: lease_sources_le_def lease_sources_of_def dest: source.retain_keeps)

lemma lease_steps_sources:
  "lease_steps nfc w w' \<Longrightarrow> lease_sources_le (lease_sources_of nfc w) (lease_sources_of nfc w')"
  by (induction rule: lease_steps.induct) (auto intro: lease_sources_le_trans lease_step_sources)

text \<open>Resolving depends on the authorizations only: it succeeds in every later state.\<close>

lemma lease_resolve_mono:
  assumes "lease_sources_le a b" and "lease_resolve nfc a by_id q = Inr x"
  shows "lease_resolve nfc b by_id' q = Inr x"
  using assms
  by (cases x) (auto simp: lease_resolve_Inr resolve_authorization_Inr lease_sources_le_def split: option.splits)

lemma lease_replay_step_mono:
  assumes "lease_sources_le a b" and "lease_replay_step nfc a by_id key acc r = Inr acc'"
  shows "lease_replay_step nfc b by_id' key acc r = Inr acc'"
  using assms(2) lease_resolve_mono [OF assms(1)]
  unfolding lease_replay_step_def by (cases acc) (auto simp: bindr_Inr_conv)

lemma lease_replay_from_mono:
  assumes "lease_sources_le a b"
  shows "lease_replay_from nfc a by_id key acc rs = Inr acc' \<Longrightarrow> lease_replay_from nfc b by_id' key acc rs = Inr acc'"
  unfolding lease_replay_from_def by (rule fold_res_mono) (rule lease_replay_step_mono [OF assms])

lemma lease_replay_from_simps [simp]:
  "lease_replay_from nfc src by_id key acc [] = Inr acc"
  "lease_replay_from nfc src by_id key acc (rs @ [r]) =
     bindr (lease_replay_from nfc src by_id key acc rs) (\<lambda>acc'. lease_replay_step nfc src by_id key acc' r)"
  by (simp_all add: lease_replay_from_def fold_res_append bindr_def split: sum.splits)

section \<open>Events are rebuilt\<close>

lemma check_lease_event_recorded [simp]: "check_lease_event (e\<lparr>xe_recorded := t\<rparr>) = check_lease_event e"
  by (cases "xe_expires e") (simp_all add: check_lease_event_def)

lemma lease_event_init_fields:
  assumes "lease_event_init nfc raw t = Inr e"
  shows "lease_event_init nfc raw (utc (instant_of t)) = Inr e \<and> is_sha256_hex (nfc (xe_id raw))
    \<and> is_sha256_hex (nfc (xe_lease raw)) \<and> check_lease_event e = Inr () \<and> distinct (xe_permissions raw)
    \<and> e = raw\<lparr>xe_id := nfc (xe_id raw), xe_lease := nfc (xe_lease raw), xe_lineage := nfc (xe_lineage raw),
        xe_input_digest := nfc (xe_input_digest raw), xe_digest := nfc (xe_digest raw),
        xe_idempotency := nfc (xe_idempotency raw), xe_organization := nfc (xe_organization raw),
        xe_workload := nfc (xe_workload raw), xe_plan := nfc (xe_plan raw), xe_item := nfc (xe_item raw),
        xe_family := nfc (xe_family raw), xe_policy_version := nfc (xe_policy_version raw),
        xe_permissions := sort (xe_permissions raw), xe_prior := map_option nfc (xe_prior raw),
        xe_superseded := map_option nfc (xe_superseded raw), xe_recorded := instant_of t\<rparr>"
  using assms
  unfolding lease_event_init_def Let_def lease_hex_def lease_time_def lease_text_def lease_optional_text_def
  by (clarsimp simp only: bindr_Inr_conv raise_if_Inr_conv required_text_Inr sha256_field_Inr optional_text_Inr
      utc_or_raise_Inr) (simp add: utc_def instant_of_def)

lemma lease_identities_hex:
  "lease_lineage_identity nfc k = Inr l \<Longrightarrow> is_sha256_hex l"
  "lease_identity nfc l' n = Inr i \<Longrightarrow> is_sha256_hex i"
  by (auto simp: lease_lineage_identity_def lease_identity_def bindr_Inr_conv)

lemma lease_metadata_init_Inr:
  "lease_metadata_init nfc m t = Inr m' \<Longrightarrow> xm_evaluation m' = instant_of t"
  by (auto simp: lease_metadata_init_def bindr_Inr_conv lease_time_def utc_or_raise_Inr)

lemma assemble_lease_Inr:
  assumes "assemble_lease_event nfc q a v p (ty, g, old) n i = Inr (raw, ic, ec)"
  shows "lease_input_content nfc q a v p g = Inr ic \<and> xe_input_digest raw = namespaced_digest lease_input_ns ic
    \<and> xe_digest raw = namespaced_digest lease_event_ns ec \<and> xe_version raw = n \<and> xe_generation raw = g
    \<and> xe_type raw = ty \<and> xe_prior raw = xq_prior q \<and> xe_superseded raw = old
    \<and> xe_permissions raw = granted_permissions q a \<and> xe_effective raw = granted_effective q v
    \<and> xe_expires raw = granted_expires q a \<and> xm_evaluation (xe_metadata raw) = xq_evaluation q
    \<and> xe_organization raw = xq_organization q \<and> xe_workload raw = xq_workload q
    \<and> lease_lineage_identity nfc (lease_lineage_key q) = Inr (xe_lineage raw)
    \<and> lease_identity nfc (xe_lineage raw) g = Inr (xe_lease raw)
    \<and> opt_field (\<lambda>a. lease_reference nfc (az_id a) (az_digest a)) a = Inr (xe_authorization raw)
    \<and> is_sha256_hex (xe_id raw) \<and> is_sha256_hex (xe_lineage raw) \<and> is_sha256_hex (xe_lease raw)"
  using assms unfolding assemble_lease_event_def Let_def prod.case
  by (simp only: bindr_Inr_conv sum.inject prod.inject, elim exE conjE, hypsubst)
    (simp add: lease_identities_hex lease_metadata_init_Inr instant_of_def utc_def)

lemma build_lease_Inr:
  assumes "nfc_laws nfc" and "build_lease_event nfc q a v p (ty, g, old) n i t = Inr (e, ic, ec)"
  shows "build_lease_event nfc q a v p (ty, g, old) n i (utc (xe_recorded e)) = Inr (e, ic, ec)"
    and "lease_input_content nfc q a v p g = Inr ic" and "lease_verify_recorded e ic ec = Inr ()"
    and "xe_version e = n" "xe_generation e = g" "xe_type e = ty" "xe_prior e = map_option nfc (xq_prior q)"
    and "xe_superseded e = map_option nfc old" "xe_permissions e = sort (granted_permissions q a)"
    and "xe_effective e = granted_effective q v" "xe_expires e = granted_expires q a"
    and "xm_evaluation (xe_metadata e) = xq_evaluation q"
    and "lease_lineage_identity nfc (lease_lineage_key q) = Inr (xe_lineage e)"
    and "lease_identity nfc (xe_lineage e) g = Inr (xe_lease e)"
    and "opt_field (\<lambda>a. lease_reference nfc (az_id a) (az_digest a)) a = Inr (xe_authorization e)"
    and "is_sha256_hex (xe_id e)" "is_sha256_hex (xe_lease e)" "check_lease_event e = Inr ()"
    and "xe_organization e = nfc (xq_organization q)" "xe_workload e = nfc (xq_workload q)"
proof -
  from assms(2) obtain raw where raw: "assemble_lease_event nfc q a v p (ty, g, old) n i = Inr (raw, ic, ec)"
    "lease_event_init nfc raw t = Inr e"
    by (auto simp: build_lease_event_def bindr_Inr_conv)
  note a = assemble_lease_Inr [OF raw(1)] and b = lease_event_init_fields [OF raw(2)]
  have f: "xe_version e = xe_version raw" "xe_generation e = xe_generation raw" "xe_type e = xe_type raw"
    "xe_prior e = map_option nfc (xe_prior raw)" "xe_superseded e = map_option nfc (xe_superseded raw)"
    "xe_permissions e = sort (xe_permissions raw)" "xe_effective e = xe_effective raw"
    "xe_expires e = xe_expires raw" "xe_metadata e = xe_metadata raw" "xe_lineage e = nfc (xe_lineage raw)"
    "xe_lease e = nfc (xe_lease raw)" "xe_authorization e = xe_authorization raw" "xe_id e = nfc (xe_id raw)"
    "xe_digest e = nfc (xe_digest raw)" "xe_input_digest e = nfc (xe_input_digest raw)"
    "xe_recorded e = instant_of t" "xe_organization e = nfc (xe_organization raw)"
    "xe_workload e = nfc (xe_workload raw)"
    by (subst conjunct2 [OF conjunct2 [OF conjunct2 [OF conjunct2 [OF conjunct2 [OF b]]]]], simp)+
  show "build_lease_event nfc q a v p (ty, g, old) n i (utc (xe_recorded e)) = Inr (e, ic, ec)"
    using b raw(1) f(16) by (simp add: build_lease_event_def)
  show "lease_input_content nfc q a v p g = Inr ic" using a by blast
  show "lease_verify_recorded e ic ec = Inr ()"
    using a f(14,15) by (simp add: lease_verify_recorded_def nfc_hex [OF assms(1)])
  show "check_lease_event e = Inr ()" using b by blast
  show "xe_version e = n" "xe_generation e = g" "xe_type e = ty" "xe_prior e = map_option nfc (xq_prior q)"
    "xe_superseded e = map_option nfc old" "xe_permissions e = sort (granted_permissions q a)"
    "xe_effective e = granted_effective q v" "xe_expires e = granted_expires q a"
    "xm_evaluation (xe_metadata e) = xq_evaluation q"
    "lease_lineage_identity nfc (lease_lineage_key q) = Inr (xe_lineage e)"
    "lease_identity nfc (xe_lineage e) g = Inr (xe_lease e)"
    "opt_field (\<lambda>a. lease_reference nfc (az_id a) (az_digest a)) a = Inr (xe_authorization e)"
    "is_sha256_hex (xe_id e)" "is_sha256_hex (xe_lease e)"
    "xe_organization e = nfc (xq_organization q)" "xe_workload e = nfc (xq_workload q)"
    using a f by (simp_all add: nfc_hex [OF assms(1)])
qed

lemma build_lease_unrevoked:
  assumes "build_lease_event nfc q a v p ruling n i t = Inr (e, ic, ec)" and "v = None"
  shows "xe_revocation e = None"
proof -
  obtain ty g old where r: "ruling = (ty, g, old)" by (cases ruling)
  from assms obtain raw where raw: "assemble_lease_event nfc q a v p ruling n i = Inr (raw, ic, ec)"
    "lease_event_init nfc raw t = Inr e"
    by (auto simp: build_lease_event_def bindr_Inr_conv)
  have "xe_revocation raw = None"
    using raw(1) assms(2) unfolding assemble_lease_event_def Let_def r prod.case
    by (simp only: bindr_Inr_conv sum.inject prod.inject, elim exE conjE, hypsubst) (simp add: opt_field_def)
  moreover have "xe_revocation e = xe_revocation raw"
    by (subst conjunct2 [OF conjunct2 [OF conjunct2 [OF conjunct2 [OF conjunct2 [OF
            lease_event_init_fields [OF raw(2)]]]]]], simp)
  ultimately show ?thesis by simp
qed

section \<open>What a state remembers\<close>

text \<open>A state that a history of the lineage \<open>key\<close> can reach: it is the start, or its current
  authority is the last event, nothing has ended it, and the identity of the lease is that
  of its generation.\<close>

definition lease_state_ok :: "normalizer \<Rightarrow> lease_key \<Rightarrow> lease_state \<Rightarrow> bool" where
  "lease_state_ok nfc key s \<longleftrightarrow>
     (if xs_version s = 0 then s = lease_start
      else 1 \<le> xs_version s \<and> 1 \<le> xs_generation s \<and> xs_terminal s = None \<and> xs_last s = xs_current s
        \<and> (case xs_current s of
             None \<Rightarrow> False
           | Some e \<Rightarrow> is_sha256_hex (xe_id e) \<and> is_sha256_hex (xe_lease e) \<and> xe_generation e = xs_generation s
               \<and> (case lease_lineage_identity nfc key of
                    Inl _ \<Rightarrow> False
                  | Inr l \<Rightarrow> lease_identity nfc l (xs_generation s) = Inr (xe_lease e))))"

lemma lease_start_ok [simp]: "lease_state_ok nfc key lease_start"
  by (simp add: lease_state_ok_def lease_start_def)

text \<open>The decisions of the service, one case per event.\<close>

definition lease_in_order :: "lease_request \<Rightarrow> lease_state \<Rightarrow> bool" where
  "lease_in_order q s \<longleftrightarrow>
     (case xs_last s of None \<Rightarrow> True | Some e \<Rightarrow> xm_evaluation (xe_metadata e) \<le> xq_evaluation q)"

lemma lease_decisionE:
  assumes "lease_decision q s = Inr ruling"
  obtains
    (grant) "xq_operation q = Grant" "xs_version s = 0" "lease_in_order q s" "ruling = (LeaseGranted, 1, None)"
  | (renew) current last_event where "xq_operation q = Renew" "lease_in_order q s" "xs_current s = Some current"
      "xs_last s = Some last_event" "xq_prior q = Some (xe_id last_event)" "xs_terminal s = None"
      "fresh_authorization q current" "set (xq_permissions q) \<subseteq> set (xe_permissions current)"
      "xe_effective current \<le> xq_effective q" "ruling = (LeaseRenewed, xs_generation s, None)"
  | (revoke) current last_event where "xq_operation q = Revoke" "lease_in_order q s" "xs_current s = Some current"
      "xs_last s = Some last_event" "xq_prior q = Some (xe_id last_event)" "xs_terminal s = None"
      "xe_effective current \<le> xq_effective q" "ruling = (LeaseRevoked, xs_generation s, None)"
  | (supersede) current last_event where "xq_operation q = Supersede" "lease_in_order q s"
      "xs_current s = Some current" "xs_last s = Some last_event" "xq_prior q = Some (xe_id last_event)"
      "xs_terminal s = None" "fresh_authorization q current" "xe_effective current \<le> xq_effective q"
      "ruling = (LeaseSuperseded, xs_generation s + 1, Some (xe_lease current))"
proof -
  have o: "lease_in_order q s"
    using assms by (auto simp: lease_decision_def lease_in_order_def res_simps split: option.splits)
  show thesis
  proof (cases "xq_operation q = Grant")
    case True
    with assms o grant show thesis by (auto simp: lease_decision_def res_simps split: if_split_asm)
  next
    case False
    with assms obtain current last_event where c: "xs_current s = Some current" "xs_last s = Some last_event"
      by (auto simp: lease_decision_def res_simps split: option.split_asm)
    with False assms o renew revoke supersede show thesis
      by (cases "xq_operation q") (auto simp: lease_decision_def res_simps not_less split: if_split_asm)
  qed
qed

text \<open>An event that could be built is no revocation, and the state advances by it.\<close>

lemma lease_decide_advance:
  assumes nfc: "nfc_laws nfc" and ok: "lease_state_ok nfc (lease_lineage_key q) s"
    and d: "lease_decision q s = Inr (ty, g, old)"
    and res: "lease_resolve nfc src by_id q = Inr (a, v, p)"
    and b: "build_lease_event nfc q a v p (ty, g, old) (xs_version s + 1) i t = Inr (e, ic, ec)"
  shows "\<exists>s'. lease_advance s e = Inr s' \<and> lease_state_ok nfc (lease_lineage_key q) s'
    \<and> xs_version s' = xs_version s + 1 \<and> xs_current s' = Some e \<and> ty \<noteq> LeaseRevoked"
proof -
  note built = build_lease_Inr [OF nfc b]
  have prior: "xe_prior e = (if ty = LeaseGranted then None else xe_prior e)"
    using built(6,18) by (auto simp: check_lease_event_def res_simps)
  have lease: "xe_lease e = xe_lease current"
    if "lease_state_ok nfc (lease_lineage_key q) s" "xs_current s = Some current" "xs_version s \<noteq> 0" "g = xs_generation s"
    for current
    using that built(13,14) by (auto simp: lease_state_ok_def split: sum.splits)
  have nonzero: "xs_version s \<noteq> 0" if "xs_current s \<noteq> None"
    using ok that by (auto simp: lease_state_ok_def lease_start_def)
  have id: "nfc (xe_id last_event) = xe_id last_event" "nfc (xe_lease last_event) = xe_lease last_event"
    if "xs_current s = Some last_event" for last_event
    using ok nonzero that by (auto simp: lease_state_ok_def nfc_hex [OF nfc])
  from d show ?thesis
  proof (cases rule: lease_decisionE)
    case grant
    with ok prior built show ?thesis by (auto simp: lease_advance_def lease_state_ok_def lease_start_def)
  next
    case (renew current last_event)
    with ok nonzero have "last_event = current" by (auto simp: lease_state_ok_def)
    with renew ok nonzero lease [OF ok renew(3)] id [OF renew(3)] built show ?thesis
      by (auto simp: lease_advance_def lease_state_ok_def)
  next
    case (revoke current last_event)
    have "v = None" using res by (simp add: lease_resolve_Inr)
    with build_lease_unrevoked [OF b] have "xe_revocation e = None" by simp
    with built(6,18) revoke show ?thesis by (simp add: check_lease_event_def res_simps)
  next
    case (supersede current last_event)
    with ok nonzero have "last_event = current" by (auto simp: lease_state_ok_def)
    with supersede ok nonzero id [OF supersede(3)] built show ?thesis
      by (auto simp: lease_advance_def lease_state_ok_def)
  qed
qed

section \<open>Lineages\<close>

text \<open>The histories that the service writes for one key.\<close>

inductive lease_lineage ::
  "normalizer \<Rightarrow> lease_sources \<Rightarrow> lease_key \<Rightarrow> lease_record list \<Rightarrow> lease_state \<Rightarrow> bool" for nfc src key
where
  empty: "lease_lineage nfc src key [] lease_start"
| extend: "lease_lineage nfc src key rs s \<Longrightarrow> lease_lineage_key (xr_request r) = key \<Longrightarrow>
    lease_resolve nfc src by_id (xr_request r) = Inr (a, v, p) \<Longrightarrow>
    lease_decision (xr_request r) s = Inr ruling \<Longrightarrow>
    build_lease_event nfc (xr_request r) a v p ruling (xs_version s + 1) (xr_idempotency r) t
      = Inr (xr_event r, xr_input r, xr_content r) \<Longrightarrow>
    lease_advance s (xr_event r) = Inr s' \<Longrightarrow> lease_lineage nfc src key (rs @ [r]) s'"

lemma lease_replay_step_Inr:
  assumes "lease_replay_step nfc src by_id key (s, m) r = Inr (s', m')"
  obtains a v p ruling where "lease_lineage_key (xr_request r) = key"
    "lease_resolve nfc src by_id (xr_request r) = Inr (a, v, p)" "lease_decision (xr_request r) s = Inr ruling"
    "build_lease_event nfc (xr_request r) a v p ruling (xs_version s + 1) (xr_idempotency r)
       (utc (xe_recorded (xr_event r))) = Inr (xr_event r, xr_input r, xr_content r)"
    "lease_advance s (xr_event r) = Inr s'" "m' = m(xe_id (xr_event r) \<mapsto> xr_event r)"
  using assms by (auto simp: lease_replay_step_def bindr_Inr_conv raise_if_Inr_conv lease_record_key_def)

lemma lease_replay_lineage:
  "lease_replay_from nfc src by_id key (lease_start, m) rs = Inr (s, m') \<Longrightarrow> lease_lineage nfc src key rs s"
proof (induction rs arbitrary: s m' rule: rev_induct)
  case Nil
  then show ?case by (auto intro: lease_lineage.empty)
next
  case (snoc r rs)
  then obtain s1 m1 where s1: "lease_replay_from nfc src by_id key (lease_start, m) rs = Inr (s1, m1)"
    "lease_replay_step nfc src by_id key (s1, m1) r = Inr (s, m')"
    by (auto simp: bindr_Inr_conv)
  from s1(2) show ?case
    by (rule lease_replay_step_Inr) (rule lease_lineage.extend [OF snoc.IH [OF s1(1)]])
qed

lemma lease_lineage_ok:
  assumes nfc: "nfc_laws nfc"
  shows "lease_lineage nfc src key rs s \<Longrightarrow> lease_state_ok nfc key s"
proof (induction rule: lease_lineage.induct)
  case (extend rs s r by_id a v p ruling t s')
  obtain ty g old where "ruling = (ty, g, old)" by (cases ruling)
  with extend lease_decide_advance [OF nfc, of "xr_request r" s ty g old src by_id a v p] show ?case by fastforce
qed simp

section \<open>The invariant\<close>

definition lease_replayed :: "normalizer \<Rightarrow> lease_sources \<Rightarrow> lease_key \<Rightarrow> lease_record list \<Rightarrow> bool" where
  "lease_replayed nfc src key rs \<longleftrightarrow>
     (\<exists>s m. lease_replay_from nfc src Map.empty key (lease_start, Map.empty) rs = Inr (s, m)
       \<and> xs_version s = int (length rs)
       \<and> (\<forall>r\<in>set rs. m (xe_id (xr_event r)) = Some (xr_event r)))"

definition lease_inv :: "normalizer \<Rightarrow> lease_world \<Rightarrow> bool" where
  "lease_inv nfc w \<longleftrightarrow>
     lease_store_inv (xw_repository w)
     \<and> (\<forall>k. lease_replayed nfc (lease_sources_of nfc w) k (xp_streams (xw_repository w) k))
     \<and> (\<forall>k. xp_current (xw_repository w) k =
          (let rs = xp_streams (xw_repository w) k in if rs = [] then None else Some (xr_event (last rs))))
     \<and> source_ok az_id (xw_authorizations w) \<and> source_ok rv_id (xw_revocations w)"

lemma lease_replayed_mono: "lease_sources_le a b \<Longrightarrow> lease_replayed nfc a k rs \<Longrightarrow> lease_replayed nfc b k rs"
  unfolding lease_replayed_def using lease_replay_from_mono by blast

lemma lease_replay_any:
  "lease_replay_from nfc src by_id key acc rs = Inr acc' \<Longrightarrow> lease_replay_from nfc src by_id' key acc rs = Inr acc'"
  by (rule lease_replay_from_mono [OF lease_sources_le_refl])

lemma lease_replay_start:
  "(\<And>r. r \<in> set rs \<Longrightarrow> lease_record_key r = key) \<Longrightarrow>
     lease_replay nfc src by_id rs = lease_replay_from nfc src by_id key (lease_start, Map.empty) rs"
  by (cases rs) (simp_all add: lease_replay_def lease_replay_from_def)

lemma lease_inv_replay:
  assumes "lease_inv nfc w"
  shows "lease_replayed nfc (lease_sources_of nfc w) k (xp_streams (xw_repository w) k)"
    and "lease_replay nfc (lease_sources_of nfc w) by_id (xp_streams (xw_repository w) k)
      = lease_replay_from nfc (lease_sources_of nfc w) by_id k (lease_start, Map.empty) (xp_streams (xw_repository w) k)"
proof -
  show "lease_replayed nfc (lease_sources_of nfc w) k (xp_streams (xw_repository w) k)"
    using assms unfolding lease_inv_def by blast
  have s: "lease_store_inv (xw_repository w)" using assms by (simp add: lease_inv_def)
  show "lease_replay nfc (lease_sources_of nfc w) by_id (xp_streams (xw_repository w) k)
      = lease_replay_from nfc (lease_sources_of nfc w) by_id k (lease_start, Map.empty) (xp_streams (xw_repository w) k)"
    by (rule lease_replay_start) (rule store_inv_stream(2) [OF s [unfolded lease_store_inv_def]])
qed

text \<open>A lineage in a state that satisfies the invariant.\<close>

lemma lease_reachable_lineage:
  assumes "lease_inv nfc w"
  obtains s m where
    "\<And>by_id. lease_replay nfc (lease_sources_of nfc w) by_id (xp_streams (xw_repository w) k) = Inr (s, m)"
    "lease_lineage nfc (lease_sources_of nfc w) k (xp_streams (xw_repository w) k) s"
    "xs_version s = int (length (xp_streams (xw_repository w) k))"
    "\<And>r. r \<in> set (xp_streams (xw_repository w) k) \<Longrightarrow> m (xe_id (xr_event r)) = Some (xr_event r)"
proof -
  from lease_inv_replay(1) [OF assms, of k] obtain s m where r:
    "lease_replay_from nfc (lease_sources_of nfc w) Map.empty k (lease_start, Map.empty) (xp_streams (xw_repository w) k)
      = Inr (s, m)"
    "xs_version s = int (length (xp_streams (xw_repository w) k))"
    "\<forall>r\<in>set (xp_streams (xw_repository w) k). m (xe_id (xr_event r)) = Some (xr_event r)"
    unfolding lease_replayed_def by blast
  show thesis
    by (rule that [of s m])
      (use r lease_replay_any [OF r(1)] lease_replay_lineage [OF r(1)] in \<open>simp_all add: lease_inv_replay(2) [OF assms]\<close>)
qed

text \<open>An accepted evaluation either returns a retained event or extends its lineage.\<close>

lemma lease_evaluate_cases:
  assumes "lease_evaluate nfc src st q now = Inr (st', out, e, n)"
  obtains (again) a v p identity r where
      "lease_resolve nfc src (xp_by_id st) q = Inr (a, v, p)" "lease_idempotency_identity nfc q = Inr identity"
      "xp_idempotency st (xq_organization q, lease_lineage_key q, identity) = Some r" "xr_request r = q"
      "lease_input_content nfc q a v p (xe_generation (xr_event r)) = Inr (xr_input r)"
      "st' = st" "out = LeaseExistingEquivalent" "e = xr_event r" "n = xe_version e"
  | (fresh) a v p identity s m ruling ic ec where
      "lease_resolve nfc src (xp_by_id st) q = Inr (a, v, p)" "lease_idempotency_identity nfc q = Inr identity"
      "xp_idempotency st (xq_organization q, lease_lineage_key q, identity) = None"
      "xq_expected q = int (length (xp_streams st (lease_lineage_key q)))"
      "lease_replay nfc src (xp_by_id st) (xp_streams st (lease_lineage_key q)) = Inr (s, m)"
      "lease_decision q s = Inr ruling"
      "build_lease_event nfc q a v p ruling (xq_expected q + 1) identity now = Inr (e, ic, ec)"
      "lease_append st \<lparr>xr_request = q, xr_event = e, xr_idempotency = identity, xr_input = ic, xr_content = ec\<rparr>
         (xq_expected q) = Inr (st', e, True)"
      "out = LeaseCreated" "n = xe_version e"
proof -
  from assms obtain a v p identity where a:
    "lease_idempotency_identity nfc q = Inr identity" "lease_resolve nfc src (xp_by_id st) q = Inr (a, v, p)"
    by (auto simp: lease_evaluate_def bindr_Inr_conv Let_def)
  show thesis
  proof (cases "xp_idempotency st (xq_organization q, lease_lineage_key q, identity)")
    case (Some r)
    with assms a show thesis
      by (intro again [of a v p identity r]) (auto simp: lease_evaluate_def Let_def res_simps)
  next
    case None
    with assms a obtain s m ruling e0 ic ec created where f:
      "xq_expected q = int (length (xp_streams st (lease_lineage_key q)))"
      "lease_replay nfc src (xp_by_id st) (xp_streams st (lease_lineage_key q)) = Inr (s, m)"
      "lease_decision q s = Inr ruling"
      "build_lease_event nfc q a v p ruling (xq_expected q + 1) identity now = Inr (e0, ic, ec)"
      "lease_append st \<lparr>xr_request = q, xr_event = e0, xr_idempotency = identity, xr_input = ic, xr_content = ec\<rparr>
         (xq_expected q) = Inr (st', e, created)"
      "out = (if created then LeaseCreated else LeaseExistingEquivalent)" "n = xe_version e"
      by (auto simp: lease_evaluate_def Let_def res_simps lease_idempotent_def)
    moreover have "created" "e = e0"
      using leases.append_Inr [OF f(5)] None by (auto simp: lease_record_ikey_def lease_record_key_def)
    ultimately show thesis using a None
      by (intro fresh) simp_all
  qed
qed

lemma lease_append_created:
  assumes "lease_append st r n = Inr (st', e, True)"
  shows "xp_streams st' = (xp_streams st)(lease_record_key r := xp_streams st (lease_record_key r) @ [r])"
    and "xp_current st' = (xp_current st)(lease_record_key r \<mapsto> xr_event r)"
    and "xp_by_id st (xe_id (xr_event r)) = None"
  using assms by (auto simp: lease_append_def Let_def split: option.splits if_splits)

text \<open>The new record replays after the history it extends.\<close>

lemma lease_replay_extended:
  assumes nfc: "nfc_laws nfc"
    and history: "lease_replay_from nfc src by_id (lease_lineage_key q) (lease_start, Map.empty) rs = Inr (s, m)"
      "xs_version s = int (length rs)"
    and q: "xq_expected q = int (length rs)" "lease_resolve nfc src by_id q = Inr (a, v, p)"
      "lease_decision q s = Inr ruling"
    and b: "build_lease_event nfc q a v p ruling (xq_expected q + 1) identity t = Inr (e, ic, ec)"
    and r: "r = \<lparr>xr_request = q, xr_event = e, xr_idempotency = identity, xr_input = ic, xr_content = ec\<rparr>"
  obtains s' where "lease_replay_from nfc src by_id (lease_lineage_key q) (lease_start, Map.empty) (rs @ [r])
      = Inr (s', m(xe_id e \<mapsto> e))" "xs_version s' = int (length (rs @ [r]))"
proof -
  obtain ty g old where ru: "ruling = (ty, g, old)" by (cases ruling)
  note built = build_lease_Inr [OF nfc b [unfolded ru]]
  have ok: "lease_state_ok nfc (lease_lineage_key q) s"
    by (rule lease_lineage_ok [OF nfc lease_replay_lineage [OF history(1)]])
  obtain s' where s': "lease_advance s e = Inr s'" "xs_version s' = xs_version s + 1"
    using lease_decide_advance [OF nfc ok q(3) [unfolded ru] q(2)] b ru q(1) history(2) by fastforce
  have "lease_replay_step nfc src by_id (lease_lineage_key q) (s, m) r = Inr (s', m(xe_id e \<mapsto> e))"
    using q history(2) built(1-3,13) s'(1)
    by (simp add: lease_replay_step_def r lease_record_key_def ru)
  then show thesis using that s'(2) history(1,2) by simp
qed

lemma lease_step_inv:
  assumes nfc: "nfc_laws nfc" and step: "lease_step nfc w w'" and inv: "lease_inv nfc w"
  shows "lease_inv nfc w'"
proof -
  have p: "lease_replayed nfc (lease_sources_of nfc w') k (xp_streams (xw_repository w) k)" for k
    using lease_inv_replay(1) [OF inv] lease_replayed_mono [OF lease_step_sources [OF step]] by blast
  from step show ?thesis
  proof cases
    case (evaluate q now st out e n)
    note src = lease_sources_of_def
    from evaluate(2) show ?thesis
    proof (cases rule: lease_evaluate_cases)
      case again
      with inv evaluate(1) show ?thesis by (simp add: lease_inv_def src)
    next
      case (fresh a v p identity s m ruling ic ec)
      let ?st = "xw_repository w" and ?k = "lease_lineage_key q"
      let ?r = "\<lparr>xr_request = q, xr_event = e, xr_idempotency = identity, xr_input = ic, xr_content = ec\<rparr>"
      let ?rs = "xp_streams ?st ?k"
      have k: "lease_record_key ?r = ?k" by (simp add: lease_record_key_def)
      have cur: "xp_current ?st k = (let rs = xp_streams ?st k in if rs = [] then None else Some (xr_event (last rs)))"
        for k using inv unfolding lease_inv_def by blast
      have store: "lease_store_inv ?st" using inv by (simp add: lease_inv_def)
      from fresh(5) have h: "lease_replay_from nfc (lease_sources_of nfc w) (xp_by_id ?st) ?k (lease_start, Map.empty) ?rs
          = Inr (s, m)"
        by (simp add: lease_inv_replay(2) [OF inv])
      with lease_inv_replay(1) [OF inv, of ?k] have ok: "xs_version s = int (length ?rs)"
        and m: "\<forall>r\<in>set ?rs. m (xe_id (xr_event r)) = Some (xr_event r)"
        unfolding lease_replayed_def using lease_replay_any [OF h, of Map.empty] by auto
      obtain s' where s': "lease_replay_from nfc (lease_sources_of nfc w) (xp_by_id ?st) ?k (lease_start, Map.empty)
          (?rs @ [?r]) = Inr (s', m(xe_id e \<mapsto> e))" "xs_version s' = int (length (?rs @ [?r]))"
        by (rule lease_replay_extended [OF nfc h ok fresh(4,1,6,7) refl])
      note app = lease_append_created [OF fresh(8), unfolded k]
      have "(m(xe_id e \<mapsto> e)) (xe_id (xr_event r)) = Some (xr_event r)" if "r \<in> set ?rs" for r
        using that m app(3) store_inv_stream(1) [OF store [unfolded lease_store_inv_def] that] by auto
      then have "lease_replayed nfc (lease_sources_of nfc w) ?k (?rs @ [?r])"
        unfolding lease_replayed_def using lease_replay_any [OF s'(1)] s'(2) by auto
      with lease_inv_replay(1) [OF inv]
      have "lease_replayed nfc (lease_sources_of nfc w) k (xp_streams st k)" for k
        by (simp add: app(1))
      moreover have "lease_store_inv st"
        using leases.append_inv [OF store [unfolded lease_store_inv_def] fresh(8)] by (simp add: lease_store_inv_def)
      moreover have "xp_current st k = (let rs = xp_streams st k in if rs = [] then None else Some (xr_event (last rs)))" for k
        using cur by (simp add: app(1,2) Let_def)
      moreover have "lease_sources_of nfc w' = lease_sources_of nfc w"
        by (simp add: evaluate(1) src)
      ultimately show ?thesis
        using inv evaluate(1) unfolding lease_inv_def by simp
    qed
  qed (use inv p in \<open>auto simp: lease_inv_def dest: source.retain_ok\<close>)
qed

lemma lease_init_inv: "lease_inv nfc lease_world_init"
  by (simp add: lease_inv_def lease_world_init_def lease_repo_init_def lease_store_inv_def store_inv_empty
      lease_replayed_def) (simp add: lease_start_def)

lemma lease_steps_inv:
  assumes "nfc_laws nfc"
  shows "lease_steps nfc w w' \<Longrightarrow> lease_inv nfc w \<Longrightarrow> lease_inv nfc w'"
  by (induction rule: lease_steps.induct) (auto intro: lease_step_inv [OF assms])

lemma lease_reachable_inv:
  "nfc_laws nfc \<Longrightarrow> lease_steps nfc lease_world_init w \<Longrightarrow> lease_inv nfc w"
  using lease_steps_inv lease_init_inv by blast

lemma lease_inv_by_id:
  assumes "lease_inv nfc w"
  shows "r \<in> set (xp_streams (xw_repository w) k) \<Longrightarrow> xp_by_id (xw_repository w) (xe_id (xr_event r)) = Some r"
    and "xp_by_id (xw_repository w) i = Some r \<Longrightarrow>
      xe_id (xr_event r) = i \<and> r \<in> set (xp_streams (xw_repository w) (lease_record_key r))"
    and "xp_idempotency (xw_repository w) j = Some r \<Longrightarrow>
      lease_record_ikey r = j \<and> r \<in> set (xp_streams (xw_repository w) (lease_record_key r))"
proof -
  have s: "lease_store_inv (xw_repository w)" using assms by (simp add: lease_inv_def)
  show "xp_by_id (xw_repository w) (xe_id (xr_event r)) = Some r" if "r \<in> set (xp_streams (xw_repository w) k)"
    by (rule store_inv_stream(1) [OF s [unfolded lease_store_inv_def] that])
  show "xe_id (xr_event r) = i \<and> r \<in> set (xp_streams (xw_repository w) (lease_record_key r))"
    if "xp_by_id (xw_repository w) i = Some r"
    using s that unfolding lease_store_inv_def store_inv_def by blast
  show "lease_record_ikey r = j \<and> r \<in> set (xp_streams (xw_repository w) (lease_record_key r))"
    if "xp_idempotency (xw_repository w) j = Some r"
    using s that unfolding lease_store_inv_def store_inv_def by blast
qed

section \<open>The repository only grows\<close>

lemma lease_evaluate_append:
  assumes "lease_evaluate nfc src st q now = Inr (st', out, e, n)"
  shows "st' = st \<or> (\<exists>r. lease_append st r (xq_expected q) = Inr (st', e, True) \<and> lease_record_key r = lease_lineage_key q
      \<and> xr_event r = e)"
  using assms by (cases rule: lease_evaluate_cases) (auto simp: lease_record_key_def)

lemma lease_step_keeps:
  assumes "lease_step nfc w w'"
  shows "xp_by_id (xw_repository w) i = Some r \<Longrightarrow> xp_by_id (xw_repository w') i = Some r"
    and "xp_idempotency (xw_repository w) j = Some r \<Longrightarrow> xp_idempotency (xw_repository w') j = Some r"
    and "\<exists>new. xp_streams (xw_repository w') k = xp_streams (xw_repository w) k @ new"
  using assms
  by (cases, auto dest!: lease_evaluate_append dest: leases.append_keeps_id leases.append_keeps_idem
      leases.append_prefix)+

lemma lease_steps_keep:
  assumes "lease_steps nfc w w'"
  shows "xp_by_id (xw_repository w) i = Some r \<Longrightarrow> xp_by_id (xw_repository w') i = Some r"
    and "xp_idempotency (xw_repository w) j = Some r \<Longrightarrow> xp_idempotency (xw_repository w') j = Some r"
    and "\<exists>new. xp_streams (xw_repository w') k = xp_streams (xw_repository w) k @ new"
  using assms
proof (induction rule: lease_steps.induct)
  case (step w w1 w2)
  note keeps = lease_step_keeps [OF step.hyps(2)]
  {
    case 1
    with step.IH(1) keeps(1) show ?case by blast
  next
    case 2
    with step.IH(2) keeps(2) show ?case by blast
  next
    case 3
    with step.IH(3) keeps(3) [of k] show ?case by (metis append_assoc)
  }
qed simp_all

text \<open>Every record of a lineage was written in the state of the records before it.\<close>

lemma lease_lineage_nth:
  assumes "lease_lineage nfc src key rs s" and "n < length rs"
  obtains s1 by_id a v p ruling t s2 where
    "lease_lineage nfc src key (take n rs) s1"
    "lease_lineage_key (xr_request (rs ! n)) = key"
    "lease_resolve nfc src by_id (xr_request (rs ! n)) = Inr (a, v, p)"
    "lease_decision (xr_request (rs ! n)) s1 = Inr ruling"
    "build_lease_event nfc (xr_request (rs ! n)) a v p ruling (xs_version s1 + 1)
       (xr_idempotency (rs ! n)) t = Inr (xr_event (rs ! n), xr_input (rs ! n), xr_content (rs ! n))"
    "lease_advance s1 (xr_event (rs ! n)) = Inr s2"
  using assms
proof (induction arbitrary: thesis rule: lease_lineage.induct)
  case (extend rs s r by_id a v p ruling t s')
  show ?case
  proof (cases "n < length rs")
    case True
    then have "(rs @ [r]) ! n = rs ! n" "take n (rs @ [r]) = take n rs"
      by (simp_all add: nth_append)
    with extend.IH [of thesis] extend.prems(1) True show ?thesis by simp
  next
    case False
    with extend.prems(2) have n: "n = length rs" by simp
    show ?thesis
      by (rule extend.prems(1) [of s by_id a v p ruling t s'])
        (use extend.hyps n in \<open>simp_all add: nth_append\<close>)
  qed
qed simp

end
