(* ===== verification/LeaseLineage.thy ===== *)
theory LeaseLineage
  imports LeaseProperties
begin

text \<open>
  The abstract authority that a lineage of leases implements: what is granted is renewed
  without being broadened or backdated, and superseded by the next generation; nothing
  revokes it.
\<close>

section \<open>The abstract authority\<close>

record authority =
  au_generation :: int
  au_lease :: string
  au_permissions :: "lease_permission set"
  au_effective :: instant

definition authority_of :: "lease_event \<Rightarrow> authority" where
  "authority_of e = \<lparr>au_generation = xe_generation e, au_lease = xe_lease e,
     au_permissions = set (xe_permissions e), au_effective = xe_effective e\<rparr>"

inductive authority_move :: "authority option \<Rightarrow> lease_event \<Rightarrow> authority option \<Rightarrow> bool" where
  granted: "xe_type e = LeaseGranted \<Longrightarrow> xe_generation e = 1 \<Longrightarrow> authority_move None e (Some (authority_of e))"
| renewed: "xe_type e = LeaseRenewed \<Longrightarrow> xe_generation e = au_generation u \<Longrightarrow> xe_lease e = au_lease u \<Longrightarrow>
    set (xe_permissions e) \<subseteq> au_permissions u \<Longrightarrow> au_effective u \<le> xe_effective e \<Longrightarrow>
    authority_move (Some u) e (Some (authority_of e))"
| superseded: "xe_type e = LeaseSuperseded \<Longrightarrow> xe_generation e = au_generation u + 1 \<Longrightarrow>
    xe_superseded e = Some (au_lease u) \<Longrightarrow> au_effective u \<le> xe_effective e \<Longrightarrow>
    authority_move (Some u) e (Some (authority_of e))"

inductive authority_run :: "lease_event list \<Rightarrow> authority option \<Rightarrow> bool" where
  stop: "authority_run [] None"
| move: "authority_run es u \<Longrightarrow> authority_move u e u' \<Longrightarrow> authority_run (es @ [e]) u'"

text \<open>What every run satisfies: authority is never backdated, and within a generation it is
  the same lease with ever fewer permissions.\<close>

definition narrows :: "lease_event \<Rightarrow> lease_event \<Rightarrow> bool" where
  "narrows d e \<longleftrightarrow>
     xe_generation d \<le> xe_generation e \<and> xe_effective d \<le> xe_effective e
     \<and> (if xe_generation d = xe_generation e
        then xe_lease e = xe_lease d \<and> set (xe_permissions e) \<subseteq> set (xe_permissions d) else True)"

lemma narrows_trans: "narrows c d \<Longrightarrow> narrows d e \<Longrightarrow> narrows c e"
  by (auto simp: narrows_def split: if_splits)

lemma authority_run_narrows:
  "authority_run es u \<Longrightarrow>
     sorted_wrt narrows es \<and> u = (if es = [] then None else Some (authority_of (last es)))
     \<and> list_all (\<lambda>e. xe_type e \<noteq> LeaseRevoked) es"
proof (induction rule: authority_run.induct)
  case (move es u e u')
  have step: "narrows (last es) e" if "es \<noteq> []"
    using move.hyps(2) move.IH that by cases (auto simp: narrows_def authority_of_def)
  have "narrows d e" if "d \<in> set es" for d
  proof (cases "d = last es")
    case True
    with that have "es \<noteq> []" by auto
    with True step show ?thesis by simp
  next
    case False
    with that move.IH have "narrows d (last es)"
      by (cases es rule: rev_cases) (auto simp: sorted_wrt_append)
    with step that show ?thesis using narrows_trans by (metis empty_iff list.set(1))
  qed
  moreover have "u' = Some (authority_of e)" "xe_type e \<noteq> LeaseRevoked"
    using move.hyps(2) by (cases, simp_all)+
  ultimately show ?case using move.IH by (simp add: sorted_wrt_append)
qed simp

section \<open>The lineage implements it\<close>

definition authority_of_state :: "lease_state \<Rightarrow> authority option" where
  "authority_of_state s = map_option authority_of (xs_current s)"

lemma lease_lineage_current:
  assumes nfc: "nfc_laws nfc"
  shows "lease_lineage nfc src key rs s \<Longrightarrow>
    xs_current s = (if rs = [] then None else Some (xr_event (last rs)))"
proof (induction rule: lease_lineage.induct)
  case empty
  show ?case by (simp add: lease_start_def)
next
  case (extend rs s r by_id a v p ruling t s')
  obtain ty g old where ru: "ruling = (ty, g, old)" by (cases ruling)
  have "lease_state_ok nfc (lease_lineage_key (xr_request r)) s"
    using lease_lineage_ok [OF nfc extend.hyps(1)] extend.hyps(2) by simp
  from lease_decide_advance [OF nfc this extend.hyps(4) [unfolded ru] extend.hyps(3) extend.hyps(5) [unfolded ru]]
    extend.hyps(6) show ?case by auto
qed

lemma lease_lineage_move:
  assumes nfc: "nfc_laws nfc" and l: "lease_lineage nfc src key rs s" and k: "lease_lineage_key q = key"
    and res: "lease_resolve nfc src by_id q = Inr (a, v, p)" and d: "lease_decision q s = Inr ruling"
    and b: "build_lease_event nfc q a v p ruling (xs_version s + 1) i t = Inr (e, ic, ec)"
    and adv: "lease_advance s e = Inr s'"
  shows "authority_move (authority_of_state s) e (authority_of_state s')"
proof -
  obtain ty g old where ru: "ruling = (ty, g, old)" by (cases ruling)
  note built = build_lease_Inr [OF nfc b [unfolded ru]]
  have ok: "lease_state_ok nfc (lease_lineage_key q) s" using lease_lineage_ok [OF nfc l] k by simp
  from lease_decide_advance [OF nfc ok d [unfolded ru] res b [unfolded ru]] adv
  have s': "xs_current s' = Some e" and ty: "ty \<noteq> LeaseRevoked" by auto
  have v: "v = None" using res by (simp add: lease_resolve_Inr)
  have current: "xs_version s \<noteq> 0 \<and> is_sha256_hex (xe_lease c) \<and> xe_generation c = xs_generation s
      \<and> (\<exists>l. lease_lineage_identity nfc key = Inr l \<and> lease_identity nfc l (xs_generation s) = Inr (xe_lease c))"
    if "xs_current s = Some c" for c
    using ok k that by (auto simp: lease_state_ok_def lease_start_def split: if_splits sum.splits)
  have perms: "set (xe_permissions e) \<subseteq> set (xq_permissions q)"
    by (auto simp: built(9) granted_permissions_def split: if_splits)
  from d [unfolded ru] show ?thesis
  proof (cases rule: lease_decisionE)
    case grant
    then have "xs_current s = None" using ok by (simp add: lease_state_ok_def lease_start_def)
    with grant s' built(5,6) show ?thesis by (simp add: authority_of_state_def authority_move.granted)
  next
    case (renew c x)
    with current [OF renew(3)] built(13,14) k have lease: "xe_lease e = xe_lease c" by auto
    have "authority_move (Some (authority_of c)) e (Some (authority_of e))"
      by (rule authority_move.renewed)
        (use renew lease built(5,6,10) current [OF renew(3)] perms v in
          \<open>auto simp: authority_of_def granted_effective_def\<close>)
    with renew(3) s' show ?thesis by (simp add: authority_of_state_def)
  next
    case (revoke c x)
    with ty show ?thesis by simp
  next
    case (supersede c x)
    have "authority_move (Some (authority_of c)) e (Some (authority_of e))"
      by (rule authority_move.superseded)
        (use supersede built(5,6,8,10) current [OF supersede(3)] v in
          \<open>auto simp: authority_of_def granted_effective_def nfc_hex [OF nfc]\<close>)
    with supersede(3) s' show ?thesis by (simp add: authority_of_state_def)
  qed
qed

lemma lease_lineage_run:
  assumes nfc: "nfc_laws nfc"
  shows "lease_lineage nfc src key rs s \<Longrightarrow> authority_run (map xr_event rs) (authority_of_state s)"
proof (induction rule: lease_lineage.induct)
  case empty
  show ?case by (simp add: authority_of_state_def lease_start_def authority_run.stop)
next
  case (extend rs s r by_id a v p ruling t s')
  have "authority_move (authority_of_state s) (xr_event r) (authority_of_state s')"
    by (rule lease_lineage_move [OF nfc extend.hyps])
  with extend.IH show ?case by (simp add: authority_run.move)
qed

section \<open>What an event rests on\<close>

text \<open>The retained, approved authorization whose scope, permissions and times contain the
  lease event \<open>e\<close> of the lineage \<open>key\<close>.\<close>

definition lease_authorized :: "lease_world \<Rightarrow> lease_key \<Rightarrow> lease_event \<Rightarrow> authorization_evidence \<Rightarrow> bool" where
  "lease_authorized w key e a \<longleftrightarrow>
     xw_authorizations w (az_id a) = Some a \<and> az_approved a
     \<and> (case key of (org, wl, plan, item, family) \<Rightarrow>
          az_organization a = org \<and> az_workload a = wl \<and> az_plan a = plan \<and> az_item a = item)
     \<and> set (xe_permissions e) \<subseteq> set (az_ceiling a) \<and> az_effective a \<le> xe_effective e
     \<and> az_effective a \<le> xm_evaluation (xe_metadata e) \<and> xm_evaluation (xe_metadata e) < az_expires a
     \<and> (case xe_expires e of None \<Rightarrow> False | Some t \<Rightarrow> xe_effective e < t \<and> t \<le> az_expires a)"

lemma lease_lineage_authorized:
  assumes nfc: "nfc_laws nfc" and inv: "lease_inv nfc w"
    and l: "lease_lineage nfc (lease_sources_of nfc w) key rs s" and r: "r \<in> set rs"
  shows "\<exists>a. lease_authorized w key (xr_event r) a"
    and "xe_type (xr_event r) \<noteq> LeaseRevoked" and "xq_operation (xr_request r) \<noteq> Revoke"
proof -
  from r obtain n where n: "n < length rs" "r = rs ! n" by (auto simp: in_set_conv_nth)
  obtain s1 by_id a v p ruling t s2 where h: "lease_lineage nfc (lease_sources_of nfc w) key (take n rs) s1"
    "lease_lineage_key (xr_request r) = key"
    "lease_resolve nfc (lease_sources_of nfc w) by_id (xr_request r) = Inr (a, v, p)"
    "lease_decision (xr_request r) s1 = Inr ruling"
    "build_lease_event nfc (xr_request r) a v p ruling (xs_version s1 + 1)
       (xr_idempotency r) t = Inr (xr_event r, xr_input r, xr_content r)"
    "lease_advance s1 (xr_event r) = Inr s2"
    by (rule lease_lineage_nth [OF l n(1), folded n(2)])
  obtain ty g old where ru: "ruling = (ty, g, old)" by (cases ruling)
  note built = build_lease_Inr [OF nfc h(5) [unfolded ru]]
  have ok: "lease_state_ok nfc (lease_lineage_key (xr_request r)) s1"
    using lease_lineage_ok [OF nfc h(1)] h(2) by simp
  have ty: "ty \<noteq> LeaseRevoked"
    using lease_decide_advance [OF nfc ok h(4) [unfolded ru] h(3) h(5) [unfolded ru]] by auto
  with built(6) show "xe_type (xr_event r) \<noteq> LeaseRevoked" by simp
  show "xq_operation (xr_request r) \<noteq> Revoke"
    using h(4) [unfolded ru] ty by (cases rule: lease_decisionE) auto
  have check: "xe_authorization (xr_event r) \<noteq> None"
    "case xe_expires (xr_event r) of None \<Rightarrow> False | Some t \<Rightarrow> xe_effective (xr_event r) < t"
    using built(6,18) ty by (auto simp: check_lease_event_def res_simps not_le split: option.splits)
  with built(15) obtain x where x: "a = Some x" by (cases a) (auto simp: opt_field_def)
  have v: "v = None" using h(3) by (simp add: lease_resolve_Inr)
  from h(3) x obtain i where i: "resolve_authorization (lease_sources_of nfc w) (xr_request r) i = Inr x"
    by (auto simp: lease_resolve_Inr split: option.splits)
  have src: "xw_authorizations w i = Some x" "az_organization x = xq_organization (xr_request r)"
    "az_workload x = xq_workload (xr_request r)"
    using i by (auto simp: resolve_authorization_Inr lease_sources_of_def source_get_Inr)
  then have "az_id x = i" using inv unfolding lease_inv_def source_ok_def by blast
  with src i check(2) h(2) v show "\<exists>a. lease_authorized w key (xr_event r) a"
    by (intro exI [of _ x])
      (auto simp: lease_authorized_def resolve_authorization_Inr built(9-12) x granted_permissions_def
        granted_effective_def granted_expires_def lease_lineage_key_def)
qed

end
