(* ===== verification/LeaseSample.thy ===== *)
theory LeaseSample
  imports LeaseLineage DispatchSample
begin

text \<open>
  A concrete world for the lease properties: a retained authorization and a lineage whose
  first lease has been granted.
\<close>

lemma time_lease_cfg [simp]: "time_cfg lease_cfg"
  by (simp add: time_cfg_def lease_cfg_def)

lemma lease_content_plain:
  "nfc_laws nfc \<Longrightarrow> plain_pv (pdict doc) \<Longrightarrow> \<exists>b. lease_content nfc doc = Inr b"
  unfolding lease_content_def by (rule canonical_bytes_plain) simp_all

lemma ascii_lease_permission [simp]: "ascii (lease_permission_value p)"
  by (cases p) simp_all

lemma ascii_lease_operation [simp]: "ascii (lease_operation_value op)"
  by (cases op) simp_all

lemma ascii_lease_event_type [simp]: "ascii (lease_event_type_value ty)"
  by (cases ty) simp_all

lemma plain_lease_values [simp]:
  "plain_pv (permissions_doc ps)" "plain_pv (popt_time t)"
  by (auto simp: permissions_doc_def popt_time_def split: option.splits)

section \<open>The authorization\<close>

definition sample_authorization_fields :: "string \<Rightarrow> authorization_evidence" where
  "sample_authorization_fields i =
     \<lparr>az_id = i, az_organization = ''org-1'', az_workload = ''wl-1'', az_principal = ''user-1'',
      az_plan = ''plan-1'', az_item = ''item-1'', az_ceiling = [OfferWorkItem], az_approved = True,
      az_evaluated = 0, az_effective = 0, az_expires = sample_hour, az_boundary = ''boundary-1'',
      az_policy = ''authorization-policy'', az_policy_version = ''authorization-policy.v1'',
      az_policy_digest = replicate 64 CHR ''a'', az_version = 1, az_clock = ''trusted-clock'',
      az_clock_version = ''clock.v1'', az_correlation = ''correlation:1'', az_causation = ''causation:1'',
      az_schema = supported_authorization_schema, az_component = supported_authorization_component,
      az_serialization = supported_serialization, az_configuration = ''authorization-config.v1'',
      az_digest = [], az_content = []\<rparr>"

lemma sample_hour_after [simp]: "\<not> sample_hour \<le> 0"
  by (simp add: sample_hour_def)

lemma replicate_a_hex: "is_sha256_hex (replicate 64 CHR ''a'')"
  by (simp add: is_sha256_hex_def list_all_iff hex_digits_def)

lemma sample_authorization:
  assumes "ascii i" "i \<noteq> []"
  obtains a d where "validate_authorization nf a = Inr ()" "is_sha256_hex d"
    "\<exists>c. a = sample_authorization_fields i\<lparr>az_digest := d, az_content := c\<rparr>"
proof -
  have "\<exists>b. lease_content nf (authorization_document (sample_authorization_fields i)) = Inr b"
    by (rule lease_content_plain)
      (use assms in \<open>simp_all add: authorization_document_def sample_authorization_fields_def supported_authorization_schema_def
        supported_authorization_component_def supported_serialization_def is_sha256_hex_ascii [OF replicate_a_hex]\<close>)
  then obtain b where b: "lease_content nf (authorization_document (sample_authorization_fields i)) = Inr b" ..
  let ?d = "namespaced_digest authorization_ns b"
  let ?a = "sample_authorization_fields i\<lparr>az_digest := ?d, az_content := b\<rparr>"
  have doc: "authorization_document ?a = authorization_document (sample_authorization_fields i)"
    by (simp add: authorization_document_def)
  have "build_authorization nf ?a (utc 0) (utc 0) (utc sample_hour) = Inr ?a"
    using b replicate_a_hex assms
    by (simp add: build_authorization_def sample_authorization_fields_def lease_time_def lease_text_def lease_hex_def
        required_text_def Let_def authorization_document_def)
  then have "validate_authorization nf ?a = Inr ()"
    by (simp add: validate_authorization_def sample_authorization_fields_def)
  then show ?thesis by (rule that) auto
qed

lemma sample_lease_policy:
  obtains p where "lease_policy_v1 nf = Inr p" "lp_id p = ''execution-lease-policy''"
    "lp_version p = ''execution-lease-policy.v1''" "is_sha256_hex (lp_digest p)"
proof -
  have "\<exists>b. lease_content nf [
         (''policy_id'', PStr ''execution-lease-policy''),
         (''policy_version'', PStr ''execution-lease-policy.v1''),
         (''rules'', ptuple [''one_authoritative_lineage'', ''owner_assigned_generation'',
            ''same_generation_renewal'', ''active_generation_supersession'',
            ''revocation_authority_deferred_fail_closed'', ''half_open_applicability'',
            ''no_post_revocation_generation''])] = Inr b"
    by (rule lease_content_plain) simp_all
  then show ?thesis using that
    by (auto simp: lease_policy_v1_def make_lease_policy_def)
qed

section \<open>The grant\<close>

definition sample_grant :: "string \<Rightarrow> string \<Rightarrow> lease_request" where
  "sample_grant authorization_digest policy_digest =
     \<lparr>xq_operation = Grant, xq_organization = ''org-1'', xq_workload = ''wl-1'', xq_plan = ''plan-1'',
      xq_item = ''item-1'', xq_family = supported_permission_family, xq_permissions = [OfferWorkItem],
      xq_authorization = Some ''auth-1'', xq_authorization_digest = Some authorization_digest,
      xq_boundary = Some ''boundary-1'', xq_prior = None, xq_revocation = None, xq_revocation_digest = None,
      xq_effective = 0, xq_expires = Some sample_hour, xq_evaluation = 0, xq_clock = ''clock-1'',
      xq_clock_version = ''v1'', xq_policy = ''execution-lease-policy'',
      xq_policy_version = ''execution-lease-policy.v1'', xq_policy_digest = policy_digest,
      xq_configuration = ''v1'', xq_expected = 0, xq_key = ''key-1'',
      xq_schema = supported_execution_lease_schema, xq_component = supported_execution_lease_component,
      xq_serialization = supported_serialization\<rparr>"

definition sample_lease_key :: lease_key where
  "sample_lease_key = (''org-1'', ''wl-1'', ''plan-1'', ''item-1'', supported_permission_family)"

lemma sample_grant_built:
  assumes a: "a = sample_authorization_fields ''auth-1''\<lparr>az_digest := d, az_content := c\<rparr>" and d: "is_sha256_hex d"
    and p: "lp_id p = ''execution-lease-policy''" "lp_version p = ''execution-lease-policy.v1''"
      "is_sha256_hex (lp_digest p)"
    and q: "q = sample_grant d (lp_digest p)" and i: "is_sha256_hex i"
  shows "\<exists>e ic ec. build_lease_event nf q (Some a) None p (LeaseGranted, 1, None) 1 i (utc t) = Inr (e, ic, ec)"
proof -
  note ascii = is_sha256_hex_ascii [OF d] is_sha256_hex_ascii [OF p(3)] is_sha256_hex_ascii [OF i]
    is_sha256_hex_ascii [OF replicate_a_hex]
  note supported = supported_authorization_schema_def supported_authorization_component_def
    supported_serialization_def supported_permission_family_def supported_execution_lease_schema_def
    supported_execution_lease_component_def
  have ref: "lease_reference nf i d = Inr (EvidenceReference i d)" if "i \<noteq> []" "is_sha256_hex d" for i d
    using that by (simp add: lease_reference_def text_ok_def)
  have "\<exists>b. lease_input_content nf q (Some a) None p 1 = Inr b"
    unfolding lease_input_content_def
    by (rule lease_content_plain)
      (use ascii in \<open>simp_all add: lease_input_document_def opt_doc_def authorization_input_def
        authorization_document_def a q p sample_grant_def sample_authorization_fields_def supported\<close>)
  then obtain ic where ic: "lease_input_content nf q (Some a) None p 1 = Inr ic" ..
  have key: "lease_lineage_key q = sample_lease_key" by (simp add: q sample_grant_def lease_lineage_key_def sample_lease_key_def)
  have "\<exists>b. lease_content nf [(''lineage_key'', lease_key_doc sample_lease_key)] = Inr b"
    by (rule lease_content_plain) (simp_all add: lease_key_doc_def sample_lease_key_def supported)
  then obtain l where l: "lease_lineage_identity nf (lease_lineage_key q) = Inr l" "is_sha256_hex l"
    by (auto simp: lease_lineage_identity_def key)
  have "\<exists>b. lease_content nf [(''generation'', PInt 1), (''lineage_id'', PStr l)] = Inr b"
    by (rule lease_content_plain) (simp_all add: is_sha256_hex_ascii [OF l(2)])
  then obtain le where le: "lease_identity nf l 1 = Inr le" "is_sha256_hex le"
    by (auto simp: lease_identity_def)
  have "\<exists>b. lease_content nf (lease_payload q (Some a) None p (LeaseGranted, 1, None) 1
      (namespaced_digest lease_input_ns ic) l le i) = Inr b"
    by (rule lease_content_plain)
      (use ascii is_sha256_hex_ascii [OF l(2)] is_sha256_hex_ascii [OF le(2)] in
        \<open>simp_all add: lease_payload_def opt_doc_def a q p sample_grant_def sample_authorization_fields_def supported\<close>)
  then obtain ec where ec: "lease_content nf (lease_payload q (Some a) None p (LeaseGranted, 1, None) 1
      (namespaced_digest lease_input_ns ic) l le i) = Inr ec" ..
  have "\<exists>b. lease_content nf [(''canonical_event_digest'', PStr (namespaced_digest lease_event_ns ec)),
         (''lineage_id'', PStr l), (''lineage_version'', PInt 1)] = Inr b"
    by (rule lease_content_plain) (use is_sha256_hex_ascii [OF l(2)] in simp_all)
  then obtain b where b: "lease_content nf [(''canonical_event_digest'', PStr (namespaced_digest lease_event_ns ec)),
         (''lineage_id'', PStr l), (''lineage_version'', PInt 1)] = Inr b" ..
  have az: "az_id a = ''auth-1''" "az_digest a = d" by (simp_all add: a sample_authorization_fields_def)
  have qf: "xq_boundary q = Some ''boundary-1''" "xq_clock q = ''clock-1''" "xq_clock_version q = ''v1''"
    "xq_configuration q = ''v1''" "xq_organization q = ''org-1''" "xq_workload q = ''wl-1''" "xq_plan q = ''plan-1''"
    "xq_item q = ''item-1''" "xq_family q = supported_permission_family" "xq_prior q = None"
    "xq_permissions q = [OfferWorkItem]" "xq_effective q = 0" "xq_expires q = Some sample_hour"
    by (simp_all add: q sample_grant_def)
  obtain raw where raw: "assemble_lease_event nf q (Some a) None p (LeaseGranted, 1, None) 1 i = Inr (raw, ic, ec)"
    "xe_authorization raw = Some (EvidenceReference ''auth-1'' d)" "xe_revocation raw = None" "xe_plan raw = xq_plan q"
    "xe_item raw = xq_item q" "xe_family raw = xq_family q" "xe_policy_version raw = lp_version p"
    "xe_idempotency raw = i" "xe_schema raw = supported_execution_lease_schema"
    using d p
    by (simp add: assemble_lease_event_def ic Let_def l(1) le(1) ec b ref az opt_field_def lease_metadata_init_def
        lease_optional_text_def optional_text_def lease_text_def required_text_def lease_time_def qf)
  note f = assemble_lease_Inr [OF raw(1)]
  have "check_lease_event (raw\<lparr>xe_recorded := t\<rparr>) = Inr ()"
    using f raw(2,3) by (simp add: check_lease_event_def granted_permissions_def granted_expires_def
        granted_effective_def qf)
  then have "\<exists>e. lease_event_init nf raw (utc t) = Inr e"
    using f raw(2-) i p by (simp add: lease_event_init_def lease_hex_def lease_text_def required_text_def lease_time_def
        supported_permission_family_def lease_optional_text_def optional_text_def Let_def granted_permissions_def qf
        check_lease_event_def granted_expires_def granted_effective_def)
  then show ?thesis by (auto simp: build_lease_event_def raw(1))
qed

lemma sample_lease_world:
  obtains w q st e where "lease_steps nf lease_world_init w" "xw_repository w = lease_repo_init"
    "lease_evaluate nf (lease_sources_of nf w) lease_repo_init q (utc 0) = Inr (st, LeaseCreated, e, 1)"
    "lease_lineage_key q = sample_lease_key" "xe_organization e = ''org-1''" "xe_workload e = ''wl-1''"
    "xe_type e = LeaseGranted" "xe_effective e = 0" "xe_expires e = Some sample_hour" "xq_operation q = Grant"
    "xw_authorizations w ''auth-2'' = None"
proof -
  obtain a d where a: "validate_authorization nf a = Inr ()" "is_sha256_hex d"
    "\<exists>c. a = sample_authorization_fields ''auth-1''\<lparr>az_digest := d, az_content := c\<rparr>" by (rule sample_authorization [of "''auth-1''"]) simp_all
  then obtain c where ac: "a = sample_authorization_fields ''auth-1''\<lparr>az_digest := d, az_content := c\<rparr>" by blast
  obtain p where p: "lease_policy_v1 nf = Inr p" "lp_id p = ''execution-lease-policy''"
    "lp_version p = ''execution-lease-policy.v1''" "is_sha256_hex (lp_digest p)" by (rule sample_lease_policy)
  define w where "w = lease_world_init\<lparr>xw_authorizations := [''auth-1'' \<mapsto> a]\<rparr>"
  define q where "q = sample_grant d (lp_digest p)"
  have steps: "lease_steps nf lease_world_init w"
    unfolding w_def
    by (intro lease_steps.step [OF lease_steps.none lease_step.authorization [where v = a]])
      (simp add: source_retain_Inr a(1) lease_world_init_def, simp add: ac sample_authorization_fields_def)
  have res: "lease_resolve nf (lease_sources_of nf w) by_id q = Inr (Some a, None, p)" for by_id
    unfolding lease_resolve_Inr
    by (simp add: resolve_authorization_Inr q_def sample_grant_def lease_sources_of_def w_def source_get_Inr a(1)
        lease_policy_for_def p)
      (simp add: ac sample_authorization_fields_def)
  have "\<exists>x. lease_content nf [
         (''idempotency_key'', PStr (xq_key q)),
         (''lineage_key'', lease_key_doc (lease_lineage_key q)),
         (''operation'', PEnum (lease_operation_value (xq_operation q))),
         (''organization_id'', PStr (xq_organization q))] = Inr x"
    by (rule lease_content_plain)
      (simp_all add: q_def sample_grant_def lease_key_doc_def lease_lineage_key_def supported_permission_family_def)
  then obtain i where i: "lease_idempotency_identity nf q = Inr i" "is_sha256_hex i"
    by (auto simp: lease_idempotency_identity_def)
  obtain e ic ec where b: "build_lease_event nf q (Some a) None p (LeaseGranted, 1, None) 1 i (utc 0) = Inr (e, ic, ec)"
    using sample_grant_built [OF ac a(2) p(2-4) q_def i(2), of 0] by blast
  note built = build_lease_Inr [OF nf_simps(2) b]
  have decide: "lease_decision q lease_start = Inr (LeaseGranted, 1, None)"
    by (simp add: lease_decision_def lease_start_def q_def sample_grant_def)
  have q0: "xq_expected q = 0" by (simp add: q_def sample_grant_def)
  have "\<exists>st. lease_evaluate nf (lease_sources_of nf w) lease_repo_init q (utc 0) = Inr (st, LeaseCreated, e, 1)"
    using b by (simp add: lease_evaluate_def res i(1) built(2,4) q0 lease_idempotent_def lease_repo_init_def
        lease_replay_def decide lease_append_def Let_def lease_record_ikey_def)
  then obtain st where st: "lease_evaluate nf (lease_sources_of nf w) lease_repo_init q (utc 0)
      = Inr (st, LeaseCreated, e, 1)" ..
  show ?thesis
    by (rule that [OF steps _ st])
      (simp_all add: w_def lease_world_init_def q_def sample_grant_def lease_lineage_key_def sample_lease_key_def
        built(6,10,11,19,20) [unfolded q_def sample_grant_def] granted_effective_def granted_expires_def)
qed

end
