(* ===== verification/LeaseTheorems.thy ===== *)
theory LeaseTheorems
  imports LeaseSample
begin

text \<open>The properties of execution leases, each with an instance.\<close>

section \<open>The world of the instances\<close>

lemma sample_lease_after:
  obtains w e where "lease_steps nf lease_world_init w"
    "map xr_event (xp_streams (xw_repository w) sample_lease_key) = [e]"
    "xp_current (xw_repository w) sample_lease_key = Some e"
    "xe_type e = LeaseGranted" "xe_effective e = 0" "xe_expires e = Some sample_hour"
    "xw_authorizations w ''auth-2'' = None"
proof -
  obtain w q st e where w: "lease_steps nf lease_world_init w" "xw_repository w = lease_repo_init"
    "lease_evaluate nf (lease_sources_of nf w) lease_repo_init q (utc 0) = Inr (st, LeaseCreated, e, 1)"
    "lease_lineage_key q = sample_lease_key" "xe_organization e = ''org-1''" "xe_workload e = ''wl-1''"
    "xe_type e = LeaseGranted" "xe_effective e = 0" "xe_expires e = Some sample_hour"
    "xw_authorizations w ''auth-2'' = None"
    by (rule sample_lease_world)
  let ?w = "w\<lparr>xw_repository := st\<rparr>"
  have "lease_step nf w ?w" by (rule lease_step.evaluate) (use w(2,3) in simp)
  then have steps: "lease_steps nf lease_world_init ?w" by (rule lease_steps.step [OF w(1)])
  from w(3) obtain r where r: "lease_append lease_repo_init r (xq_expected q) = Inr (st, e, True)"
    "lease_record_key r = lease_lineage_key q" "xr_event r = e"
    by (cases rule: lease_evaluate_cases) (auto simp: lease_record_key_def)
  show ?thesis
    by (rule that [OF steps _ _ w(7-9)])
      (simp_all add: lease_append_created(1,2) [OF r(1)] r w(4,10) lease_repo_init_def)
qed

text \<open>C18: a lineage of leases refines the abstract authority.  In every state the service
  reaches, the events of a lineage are a run of the abstract machine that ends in the
  authority of the state that the replay derives: granted once, renewed within the
  generation and the lease, superseded by the next generation.\<close>

theorem lease_refines_authority:
  assumes "nfc_laws nfc" and "lease_steps nfc lease_world_init w"
  shows "\<exists>s m. lease_replay nfc (lease_sources_of nfc w) (xp_by_id (xw_repository w))
      (xp_streams (xw_repository w) k) = Inr (s, m)
    \<and> authority_run (map xr_event (xp_streams (xw_repository w) k)) (authority_of_state s)"
proof -
  obtain s m where "\<And>by_id. lease_replay nfc (lease_sources_of nfc w) by_id (xp_streams (xw_repository w) k) = Inr (s, m)"
    "lease_lineage nfc (lease_sources_of nfc w) k (xp_streams (xw_repository w) k) s"
    by (rule lease_reachable_lineage [OF lease_reachable_inv [OF assms], of k]) blast
  then show ?thesis using lease_lineage_run [OF assms(1)] by blast
qed

lemma lease_refines_authority_witness:
  "\<exists>w e s. xe_type e = LeaseGranted \<and> authority_run [e] (authority_of_state s) \<and> lease_steps nf lease_world_init w"
proof -
  obtain w e where w: "lease_steps nf lease_world_init w"
    "map xr_event (xp_streams (xw_repository w) sample_lease_key) = [e]" "xe_type e = LeaseGranted"
    by (rule sample_lease_after)
  from lease_refines_authority [OF nf_simps(2) w(1), of sample_lease_key] w show ?thesis by auto
qed



text \<open>C20: revocation fails closed.  In no reachable state does the evaluation of a request to
  revoke return an event, whatever evidence it names, and no retained event is a
  revocation.\<close>

theorem lease_revocation_fails_closed:
  assumes "nfc_laws nfc" and "lease_steps nfc lease_world_init w" and "xq_operation q = Revoke"
  shows "\<not> is_ok (lease_evaluate nfc (lease_sources_of nfc w) (xw_repository w) q now)
    \<and> list_all (\<lambda>e. xe_type e \<noteq> LeaseRevoked) (map xr_event (xp_streams (xw_repository w) k))"
proof
  have inv: "lease_inv nfc w" by (rule lease_reachable_inv [OF assms(1,2)])
  have "lease_evaluate nfc (lease_sources_of nfc w) (xw_repository w) q now \<noteq> Inr (st, out, e, n)" for st out e n
  proof
    assume "lease_evaluate nfc (lease_sources_of nfc w) (xw_repository w) q now = Inr (st, out, e, n)"
    then show False
    proof (cases rule: lease_evaluate_cases)
      case (again a v p identity r)
      obtain s where "lease_lineage nfc (lease_sources_of nfc w) (lease_record_key r)
          (xp_streams (xw_repository w) (lease_record_key r)) s"
        by (rule lease_reachable_lineage [OF inv, of "lease_record_key r"])
      with lease_lineage_authorized(3) [OF assms(1) inv this] lease_inv_by_id(3) [OF inv again(3)] again(4) assms(3)
      show False by blast
    next
      case (fresh a v p identity s m ruling ic ec)
      obtain ty g old where ru: "ruling = (ty, g, old)" by (cases ruling)
      obtain s' m' where s': "\<And>by_id. lease_replay nfc (lease_sources_of nfc w) by_id
            (xp_streams (xw_repository w) (lease_lineage_key q)) = Inr (s', m')"
        "lease_lineage nfc (lease_sources_of nfc w) (lease_lineage_key q)
            (xp_streams (xw_repository w) (lease_lineage_key q)) s'"
        "xs_version s' = int (length (xp_streams (xw_repository w) (lease_lineage_key q)))"
        by (rule lease_reachable_lineage [OF inv, of "lease_lineage_key q"]) blast
      with fresh(5) have s: "s' = s" by simp
      have "ty \<noteq> LeaseRevoked"
        using lease_decide_advance [OF assms(1) lease_lineage_ok [OF assms(1) s'(2)], of ty g old] fresh s'(3)
        by (auto simp: s ru)
      with fresh(6) assms(3) show False by (auto simp: ru elim: lease_decisionE)
    qed
  qed
  then show "\<not> is_ok (lease_evaluate nfc (lease_sources_of nfc w) (xw_repository w) q now)"
    by (cases "lease_evaluate nfc (lease_sources_of nfc w) (xw_repository w) q now") auto
  obtain s where l: "lease_lineage nfc (lease_sources_of nfc w) k (xp_streams (xw_repository w) k) s"
    by (rule lease_reachable_lineage [OF inv, of k])
  from authority_run_narrows [OF lease_lineage_run [OF assms(1) l]]
  show "list_all (\<lambda>e. xe_type e \<noteq> LeaseRevoked) (map xr_event (xp_streams (xw_repository w) k))" by blast
qed

lemma lease_revocation_fails_closed_witness:
  "\<exists>w q. lease_steps nf lease_world_init w \<and> xq_operation q = Revoke
     \<and> \<not> is_ok (lease_evaluate nf (lease_sources_of nf w) (xw_repository w) q (utc 0))"
proof -
  obtain w e where w: "lease_steps nf lease_world_init w"
    "map xr_event (xp_streams (xw_repository w) sample_lease_key) = [e]" "xe_type e = LeaseGranted"
    by (rule sample_lease_after)
  let ?q = "sample_grant [] []\<lparr>xq_operation := Revoke\<rparr>"
  have "xq_operation ?q = Revoke" by (simp add: sample_grant_def)
  with lease_revocation_fails_closed [OF nf_simps(2) w(1) this, of "utc 0" sample_lease_key] w(1)
  show ?thesis by blast
qed

text \<open>C21: what is applicable is authorized.  In every reachable state a lineage answers its own
  scope, and only it, and it is applicable at an instant exactly when its last event takes
  effect at or before that instant and expires after it; that event then rests on a
  retained, approved authorization of the same scope whose permissions contain those of the
  lease and whose period contains its period.\<close>

theorem lease_applicable_authorized:
  assumes "nfc_laws nfc" and "lease_steps nfc lease_world_init w"
    and "xp_streams (xw_repository w) (org, wl, rest) \<noteq> []" and "utcoffset t \<noteq> None"
  shows "\<exists>e a start until. xp_current (xw_repository w) (org, wl, rest) = Some e
    \<and> lease_authorized w (org, wl, rest) e a \<and> xe_effective e = start \<and> xe_expires e = Some until
    \<and> lease_applicable nfc (lease_sources_of nfc w) (xw_repository w) (org, wl, rest) org' wl' t None
      = (if org = org' \<and> wl = wl' then Inr (start \<le> instant_of t \<and> instant_of t < until)
         else Inl lease_not_found)"
proof -
  let ?k = "(org, wl, rest)" and ?rs = "xp_streams (xw_repository w) (org, wl, rest)"
  have inv: "lease_inv nfc w" by (rule lease_reachable_inv [OF assms(1,2)])
  obtain s m where s: "\<And>by_id. lease_replay nfc (lease_sources_of nfc w) by_id ?rs = Inr (s, m)"
    "lease_lineage nfc (lease_sources_of nfc w) ?k ?rs s"
    by (rule lease_reachable_lineage [OF inv, of ?k]) blast
  let ?e = "xr_event (last ?rs)"
  have cur: "xs_current s = Some ?e" using lease_lineage_current [OF assms(1) s(2)] assms(3) by simp
  then have live: "xs_terminal s = None"
    using lease_lineage_ok [OF assms(1) s(2)] by (auto simp: lease_state_ok_def lease_start_def split: if_splits)
  have last: "last ?rs \<in> set ?rs" using assms(3) by simp
  obtain a where a: "lease_authorized w ?k ?e a" using lease_lineage_authorized(1) [OF assms(1) inv s(2) last] ..
  then obtain until where until: "xe_expires ?e = Some until"
    by (auto simp: lease_authorized_def split: option.splits)
  have ty: "xe_type ?e \<in> {LeaseGranted, LeaseRenewed, LeaseSuperseded}"
    using lease_lineage_authorized(2) [OF assms(1) inv s(2) last] by (cases "xe_type ?e") auto
  have "xp_current (xw_repository w) ?k = (let rs = ?rs in if rs = [] then None else Some (xr_event (last rs)))"
    using inv unfolding lease_inv_def by blast
  then have c: "xp_current (xw_repository w) ?k = Some ?e" using assms(3) by (simp add: Let_def)
  have "lease_time t = Inr (instant_of t)" using assms(4) by (simp add: lease_time_def utc_or_raise_Inr)
  then have "lease_applicable nfc (lease_sources_of nfc w) (xw_repository w) ?k org wl t None
      = Inr (xe_effective ?e \<le> instant_of t \<and> instant_of t < until)"
    using cur live ty until by (simp add: lease_applicable_def s(1) lease_applicable_at_def)
  moreover have "lease_applicable nfc (lease_sources_of nfc w) (xw_repository w) ?k org' wl' t None = Inl lease_not_found"
    if "\<not> (org = org' \<and> wl = wl')"
    using that by (simp add: lease_applicable_def)
  ultimately have "lease_applicable nfc (lease_sources_of nfc w) (xw_repository w) ?k org' wl' t None
      = (if org = org' \<and> wl = wl' then Inr (xe_effective ?e \<le> instant_of t \<and> instant_of t < until)
         else Inl lease_not_found)" by auto
  with c a until show ?thesis by blast
qed

lemma lease_applicable_authorized_witness:
  "\<exists>w a. lease_applicable nf (lease_sources_of nf w) (xw_repository w) sample_lease_key ''org-1'' ''wl-1'' (utc 7) None = Inr True
     \<and> lease_applicable nf (lease_sources_of nf w) (xw_repository w) sample_lease_key ''org-2'' ''wl-1'' (utc 7) None
       = Inl lease_not_found
     \<and> xw_authorizations w (az_id a) = Some a \<and> az_approved a"
proof -
  obtain w e where w: "lease_steps nf lease_world_init w"
    "map xr_event (xp_streams (xw_repository w) sample_lease_key) = [e]"
    "xp_current (xw_repository w) sample_lease_key = Some e" "xe_effective e = 0" "xe_expires e = Some sample_hour"
    by (rule sample_lease_after)
  have "xp_streams (xw_repository w) sample_lease_key \<noteq> []" using w(2) by auto
  note law = lease_applicable_authorized [OF nf_simps(2) w(1) this [unfolded sample_lease_key_def], of "utc 7",
      folded sample_lease_key_def]
  from law [of "''org-1''" "''wl-1''"] law [of "''org-2''" "''wl-1''"] w(3-5)
  show ?thesis by (auto simp: lease_authorized_def utc_def instant_of_def sample_hour_def)
qed

text \<open>Lease events replay.  An event that was once returned is reconstructed exactly, from
  the retained evidence, in every later state: by its organization and workload it is
  returned as it was, and to any other scope it does not exist.\<close>

theorem lease_replay_exact:
  assumes "nfc_laws nfc" and "lease_steps nfc lease_world_init w"
    and "lease_evaluate nfc (lease_sources_of nfc w) (xw_repository w) q now = Inr (st, outcome, e, n)"
    and "lease_steps nfc (w\<lparr>xw_repository := st\<rparr>) w'"
  shows "lease_reconstruct nfc (lease_sources_of nfc w') (xw_repository w') (xe_id e) org wl
    = (if xe_organization e = org \<and> xe_workload e = wl then Inr e else Inl lease_not_found)"
proof -
  have inv0: "lease_inv nfc w" by (rule lease_reachable_inv [OF assms(1,2)])
  have inv: "lease_inv nfc w'"
    by (rule lease_steps_inv [OF assms(1,4) lease_step_inv [OF assms(1) lease_step.evaluate [OF assms(3)] inv0]])
  have "\<exists>r. xp_by_id st (xe_id e) = Some r \<and> xr_event r = e"
    using assms(3)
  proof (cases rule: lease_evaluate_cases)
    case (again a v p identity r)
    have "r \<in> set (xp_streams (xw_repository w) (lease_record_key r))" using lease_inv_by_id(3) [OF inv0 again(3)] ..
    from lease_inv_by_id(1) [OF inv0 this] again(6,8) show ?thesis by blast
  next
    case fresh
    then show ?thesis using leases.append_created(5) [OF fresh(8)] by auto
  qed
  then obtain r where r: "xp_by_id (xw_repository w') (xe_id e) = Some r" "xr_event r = e"
    using lease_steps_keep(1) [OF assms(4)] by fastforce
  have "r \<in> set (xp_streams (xw_repository w') (lease_record_key r))" using lease_inv_by_id(2) [OF inv r(1)] ..
  moreover obtain s m where
    "\<And>by_id. lease_replay nfc (lease_sources_of nfc w') by_id (xp_streams (xw_repository w') (lease_record_key r)) = Inr (s, m)"
    "\<And>r'. r' \<in> set (xp_streams (xw_repository w') (lease_record_key r)) \<Longrightarrow> m (xe_id (xr_event r')) = Some (xr_event r')"
    by (rule lease_reachable_lineage [OF inv, of "lease_record_key r"]) blast
  ultimately show ?thesis using r by (auto simp: lease_reconstruct_def)
qed

lemma lease_replay_exact_witness:
  "\<exists>w e. lease_reconstruct nf (lease_sources_of nf w) (xw_repository w) (xe_id e) ''org-1'' ''wl-1'' = Inr e
     \<and> lease_reconstruct nf (lease_sources_of nf w) (xw_repository w) (xe_id e) ''org-2'' ''wl-1'' = Inl lease_not_found"
proof -
  obtain w q st e where w: "lease_steps nf lease_world_init w" "xw_repository w = lease_repo_init"
    "lease_evaluate nf (lease_sources_of nf w) lease_repo_init q (utc 0) = Inr (st, LeaseCreated, e, 1)"
    "xe_organization e = ''org-1''" "xe_workload e = ''wl-1''"
    by (rule sample_lease_world)
  note p = lease_replay_exact [OF nf_simps(2) w(1) _ lease_steps.none, of q "utc 0" st LeaseCreated e 1]
  show ?thesis
    by (intro exI [of _ "w\<lparr>xw_repository := st\<rparr>"] exI [of _ e]) (use p w(2-) in simp)
qed

text \<open>Evaluating a lease is idempotent.  The same request, at any later time and in any
  later state, returns the event it was given first, reports \<open>ExistingEquivalent\<close> and
  changes nothing; a different request under the same identity in the same lineage is an
  idempotency conflict.\<close>

theorem lease_retry:
  assumes "nfc_laws nfc"
    and "lease_evaluate nfc (lease_sources_of nfc w) (xw_repository w) q now = Inr (st, outcome, e, n)"
    and "lease_steps nfc (w\<lparr>xw_repository := st\<rparr>) w'"
    and "lease_idempotency_identity nfc q' = lease_idempotency_identity nfc q"
    and "lease_lineage_key q' = lease_lineage_key q"
  shows "lease_evaluate nfc (lease_sources_of nfc w') (xw_repository w') q' now'
    = (if q' = q then Inr (xw_repository w', LeaseExistingEquivalent, e, n) else Inl lease_conflict)"
proof -
  have le: "lease_sources_le (lease_sources_of nfc w) (lease_sources_of nfc w')"
    using lease_steps_sources [OF assms(3)] by (simp add: lease_sources_of_def)
  from assms(2) obtain a v p identity r where h:
    "lease_resolve nfc (lease_sources_of nfc w) (xp_by_id (xw_repository w)) q = Inr (a, v, p)"
    "lease_idempotency_identity nfc q = Inr identity"
    "lease_input_content nfc q a v p (xe_generation (xr_event r)) = Inr (xr_input r)" "xr_request r = q"
    "xp_idempotency st (xq_organization q, lease_lineage_key q, identity) = Some r" "e = xr_event r"
    "n = xe_version e"
  proof (cases rule: lease_evaluate_cases)
    case (fresh a v p identity s m ruling ic ec)
    obtain ty g old where ru: "ruling = (ty, g, old)" by (cases ruling)
    note built = build_lease_Inr(2,5) [OF assms(1) fresh(7) [unfolded ru]]
    let ?r = "\<lparr>xr_request = q, xr_event = e, xr_idempotency = identity, xr_input = ic, xr_content = ec\<rparr>"
    show ?thesis
      by (rule that [of a v p identity ?r])
        (use fresh leases.append_Inr [OF fresh(8)] built in \<open>auto simp: lease_record_ikey_def lease_record_key_def\<close>)
  qed (rule that, simp_all)
  have k: "xq_organization q' = xq_organization q" using assms(5) by (simp add: lease_lineage_key_def)
  have "xp_idempotency (xw_repository w') (xq_organization q, lease_lineage_key q, identity) = Some r"
    using lease_steps_keep(2) [OF assms(3)] h(5) by simp
  with h lease_resolve_mono [OF le h(1)] assms(4,5) k show ?thesis
    by (simp add: lease_evaluate_def Let_def)
qed

lemma lease_retry_witness:
  "\<exists>src st q q' e. lease_evaluate nf src st q (utc 77) = Inr (st, LeaseExistingEquivalent, e, 1)
     \<and> lease_evaluate nf src st q' (utc 77) = Inl lease_conflict"
proof -
  obtain w q st e where w: "lease_steps nf lease_world_init w" "xw_repository w = lease_repo_init"
    "lease_evaluate nf (lease_sources_of nf w) lease_repo_init q (utc 0) = Inr (st, LeaseCreated, e, 1)"
    by (rule sample_lease_world)
  let ?w = "w\<lparr>xw_repository := st\<rparr>" and ?q = "q\<lparr>xq_evaluation := xq_evaluation q + 1\<rparr>"
  have same: "lease_idempotency_identity nf ?q = lease_idempotency_identity nf q" "lease_lineage_key ?q = lease_lineage_key q"
    by (simp_all add: lease_idempotency_identity_def lease_lineage_key_def)
  have "xq_evaluation ?q \<noteq> xq_evaluation q" by simp
  then have "?q \<noteq> q" by metis
  note law = lease_retry [OF nf_simps(2) _ lease_steps.none, of w q "utc 0" st LeaseCreated e 1]
  have "lease_evaluate nf (lease_sources_of nf ?w) (xw_repository ?w) q (utc 77) = Inr (xw_repository ?w, LeaseExistingEquivalent, e, 1)"
    using law [of q "utc 77"] w(2,3) by simp
  moreover have "lease_evaluate nf (lease_sources_of nf ?w) (xw_repository ?w) ?q (utc 77) = Inl lease_conflict"
    using law [of ?q "utc 77"] w(2,3) same \<open>?q \<noteq> q\<close> by simp
  ultimately show ?thesis by blast
qed

text \<open>The past of a lineage is settled.  Whether a lease was applicable as of a version
  of its lineage that exists has one answer: every later state, with more events and more
  evidence, gives the answer that was given then.\<close>

theorem lease_boundary_settled:
  assumes "nfc_laws nfc" and "lease_steps nfc lease_world_init w" and "lease_steps nfc w w'"
    and "1 \<le> n" and "n \<le> int (length (xp_streams (xw_repository w) key))"
  shows "lease_applicable nfc (lease_sources_of nfc w') (xw_repository w') key org wl t (Some n)
    = lease_applicable nfc (lease_sources_of nfc w) (xw_repository w) key org wl t (Some n)"
proof -
  let ?rs = "xp_streams (xw_repository w) key"
  have inv: "lease_inv nfc w" by (rule lease_reachable_inv [OF assms(1,2)])
  have store: "lease_store_inv (xw_repository w)" using inv by (simp add: lease_inv_def)
  obtain new where new: "xp_streams (xw_repository w') key = ?rs @ new"
    using lease_steps_keep(3) [OF assms(3)] by blast
  have keys: "lease_record_key r = key" if "r \<in> set (take (nat n) ?rs)" for r
    using store_inv_stream(2) [OF store [unfolded lease_store_inv_def] in_set_takeD [OF that]] .
  note start = lease_replay_start [OF keys]
  obtain x where "lease_replay_from nfc (lease_sources_of nfc w) Map.empty key (lease_start, Map.empty) ?rs = Inr x"
    using lease_inv_replay(1) [OF inv, of key] unfolding lease_replayed_def by blast
  then have "lease_replay_from nfc (lease_sources_of nfc w) Map.empty key (lease_start, Map.empty)
      (take (nat n) ?rs @ drop (nat n) ?rs) = Inr x"
    by simp
  then obtain y where y: "lease_replay_from nfc (lease_sources_of nfc w) Map.empty key (lease_start, Map.empty)
      (take (nat n) ?rs) = Inr y"
    unfolding lease_replay_from_def fold_res_append bindr_Inr_conv by blast
  have "lease_replay nfc (lease_sources_of nfc w') (xp_by_id (xw_repository w')) (take (nat n) ?rs) = Inr y"
    using lease_replay_from_mono [OF lease_steps_sources [OF assms(3)] y] by (simp add: start)
  moreover have "lease_replay nfc (lease_sources_of nfc w) (xp_by_id (xw_repository w)) (take (nat n) ?rs) = Inr y"
    using lease_replay_any [OF y] by (simp add: start)
  moreover have "take (nat n) (?rs @ new) = take (nat n) ?rs" using assms(5) by simp
  ultimately show ?thesis
    using assms(4,5) by (simp add: lease_applicable_def new)
qed

lemma lease_boundary_settled_witness:
  "\<exists>w w'. lease_step nf w w' \<and> w' \<noteq> w
     \<and> lease_applicable nf (lease_sources_of nf w') (xw_repository w') sample_lease_key ''org-1'' ''wl-1'' (utc 7) (Some 1)
       = lease_applicable nf (lease_sources_of nf w) (xw_repository w) sample_lease_key ''org-1'' ''wl-1'' (utc 7) (Some 1)"
proof -
  obtain w e where w: "lease_steps nf lease_world_init w"
    "map xr_event (xp_streams (xw_repository w) sample_lease_key) = [e]" "xw_authorizations w ''auth-2'' = None"
    by (rule sample_lease_after)
  obtain a d where a: "validate_authorization nf a = Inr ()"
    "\<exists>c. a = sample_authorization_fields ''auth-2''\<lparr>az_digest := d, az_content := c\<rparr>"
    by (rule sample_authorization [of "''auth-2''"]) simp_all
  then have i: "az_id a = ''auth-2''" by (auto simp: sample_authorization_fields_def)
  let ?w = "w\<lparr>xw_authorizations := (xw_authorizations w)(''auth-2'' \<mapsto> a)\<rparr>"
  have step: "lease_step nf w ?w"
    by (rule lease_step.authorization [where v = a]) (simp add: source_retain_Inr a(1) i w(3))
  have "xw_authorizations ?w ''auth-2'' \<noteq> xw_authorizations w ''auth-2''" by (simp add: w(3))
  then have "?w \<noteq> w" by metis
  moreover have "length (xp_streams (xw_repository w) sample_lease_key) = 1" using arg_cong [OF w(2), of length] by simp
  ultimately show ?thesis
    using lease_boundary_settled [OF nf_simps(2) w(1) lease_steps.step [OF lease_steps.none step], of 1 sample_lease_key
        "''org-1''" "''wl-1''" "utc 7"] step
    by (intro exI [of _ w] exI [of _ ?w]) simp
qed

text \<open>C22: a lease event is settled.  Once the service has returned an event, in every later
  state it is reconstructed exactly from the retained evidence, by its scope only; the same
  request, at any later time, is given the same event again and changes nothing, and a
  different request under the same identity in the same lineage is an idempotency conflict;
  and whether a lease was applicable as of an existing version of any lineage keeps its
  answer.\<close>

theorem lease_event_settled:
  assumes "nfc_laws nfc" and "lease_steps nfc lease_world_init w"
    and "lease_evaluate nfc (lease_sources_of nfc w) (xw_repository w) q now = Inr (st, outcome, e, n)"
    and "lease_steps nfc (w\<lparr>xw_repository := st\<rparr>) w'"
  shows "lease_reconstruct nfc (lease_sources_of nfc w') (xw_repository w') (xe_id e) org wl
      = (if xe_organization e = org \<and> xe_workload e = wl then Inr e else Inl lease_not_found)
    \<and> (\<forall>q'. lease_idempotency_identity nfc q' = lease_idempotency_identity nfc q
          \<and> lease_lineage_key q' = lease_lineage_key q \<longrightarrow>
        lease_evaluate nfc (lease_sources_of nfc w') (xw_repository w') q' now'
          = (if q' = q then Inr (xw_repository w', LeaseExistingEquivalent, e, n) else Inl lease_conflict))
    \<and> (\<forall>v. 1 \<le> v \<and> v \<le> int (length (xp_streams st key)) \<longrightarrow>
        lease_applicable nfc (lease_sources_of nfc w') (xw_repository w') key org wl t (Some v)
          = lease_applicable nfc (lease_sources_of nfc w) st key org wl t (Some v))"
proof (intro conjI allI impI)
  show "lease_reconstruct nfc (lease_sources_of nfc w') (xw_repository w') (xe_id e) org wl
      = (if xe_organization e = org \<and> xe_workload e = wl then Inr e else Inl lease_not_found)"
    by (rule lease_replay_exact [OF assms])
  show "lease_evaluate nfc (lease_sources_of nfc w') (xw_repository w') q' now'
      = (if q' = q then Inr (xw_repository w', LeaseExistingEquivalent, e, n) else Inl lease_conflict)"
    if "lease_idempotency_identity nfc q' = lease_idempotency_identity nfc q \<and> lease_lineage_key q' = lease_lineage_key q" for q'
    using that by (intro lease_retry [OF assms(1,3,4)]) blast+
  have w: "lease_steps nfc lease_world_init (w\<lparr>xw_repository := st\<rparr>)"
    by (rule lease_steps.step [OF assms(2) lease_step.evaluate [OF assms(3)]])
  show "lease_applicable nfc (lease_sources_of nfc w') (xw_repository w') key org wl t (Some v)
      = lease_applicable nfc (lease_sources_of nfc w) st key org wl t (Some v)"
    if "1 \<le> v \<and> v \<le> int (length (xp_streams st key))" for v
    using lease_boundary_settled [OF assms(1) w assms(4), of v key org wl t] that
    by (simp add: lease_sources_of_def)
qed

lemma lease_event_settled_witness:
  "\<exists>w q e. lease_reconstruct nf (lease_sources_of nf w) (xw_repository w) (xe_id e) ''org-1'' ''wl-1'' = Inr e
     \<and> lease_reconstruct nf (lease_sources_of nf w) (xw_repository w) (xe_id e) ''org-2'' ''wl-1'' = Inl lease_not_found
     \<and> lease_evaluate nf (lease_sources_of nf w) (xw_repository w) q (utc 77)
       = Inr (xw_repository w, LeaseExistingEquivalent, e, 1)"
proof -
  obtain w q st e where w: "lease_steps nf lease_world_init w" "xw_repository w = lease_repo_init"
    "lease_evaluate nf (lease_sources_of nf w) lease_repo_init q (utc 0) = Inr (st, LeaseCreated, e, 1)"
    "xe_organization e = ''org-1''" "xe_workload e = ''wl-1''"
    by (rule sample_lease_world)
  have e: "lease_evaluate nf (lease_sources_of nf w) (xw_repository w) q (utc 0) = Inr (st, LeaseCreated, e, 1)"
    using w(2,3) by simp
  note p = lease_event_settled [OF nf_simps(2) w(1) e lease_steps.none, where t = "utc 0" and key = sample_lease_key]
  let ?w = "w\<lparr>xw_repository := st\<rparr>"
  have "lease_evaluate nf (lease_sources_of nf ?w) (xw_repository ?w) q (utc 77)
      = Inr (xw_repository ?w, LeaseExistingEquivalent, e, 1)"
    using conjunct1 [OF conjunct2 [OF p], rule_format, of q "utc 77"] by simp
  moreover have "lease_reconstruct nf (lease_sources_of nf ?w) (xw_repository ?w) (xe_id e) ''org-1'' ''wl-1'' = Inr e"
    "lease_reconstruct nf (lease_sources_of nf ?w) (xw_repository ?w) (xe_id e) ''org-2'' ''wl-1'' = Inl lease_not_found"
    using conjunct1 [OF p, of "''org-1''" "''wl-1''"] conjunct1 [OF p, of "''org-2''" "''wl-1''"] w(4,5) by simp_all
  ultimately show ?thesis by (intro exI conjI)
qed

end
