(* ===== verification/Decimals.thy ===== *)
theory Decimals
  imports Documents Complex_Main
begin

text \<open>
  The decimal arithmetic of \<open>app/runtime/worker_selection/policy.py\<close>: \<open>Decimal(text)\<close> of the
  standard library, comparison with 0 and 1, and \<open>quantize\<close> to six places with
  \<open>ROUND_HALF_EVEN\<close>.  A number is a sign, a coefficient and an exponent of ten, as it is in
  the library, so that the sign of a zero is kept.

  The library turns the decimal digits and white space of other scripts into ASCII from the
  Unicode tables, which are not part of the program: it is the argument \<open>uni\<close>, which is
  asked only for text that is not ASCII.
\<close>

section \<open>Reading a number\<close>

datatype pydecimal = DecFinite bool nat int | DecInfinity bool | DecNaN

definition is_space :: "char \<Rightarrow> bool" where
  "is_space c \<longleftrightarrow> (let n = of_char c :: nat in 9 \<le> n \<and> n \<le> 13 \<or> 28 \<le> n \<and> n \<le> 32)"

definition strip_ws :: "string \<Rightarrow> string" where
  "strip_ws s = rev (dropWhile is_space (rev (dropWhile is_space s)))"

definition decimal_text :: "normalizer \<Rightarrow> string \<Rightarrow> string" where
  "decimal_text uni s = filter (\<lambda>c. c \<noteq> CHR ''_'') (strip_ws (if ascii s then s else uni s))"

fun split_sign :: "string \<Rightarrow> bool \<times> string" where
  "split_sign [] = (False, [])"
| "split_sign (c # s) = (if c = CHR ''-'' then (True, s) else if c = CHR ''+'' then (False, s) else (False, c # s))"

definition lower_char :: "char \<Rightarrow> char" where
  "lower_char c = (let n = of_char c :: nat in if 65 \<le> n \<and> n \<le> 90 then char_of (n + 32) else c)"

text \<open>Digits with at most one point among them, and an exponent; what does not follow this
  grammar is no number.\<close>

definition read_exponent :: "string \<Rightarrow> int option" where
  "read_exponent s =
     (case s of
        [] \<Rightarrow> Some 0
      | c # r \<Rightarrow>
          if lower_char c \<noteq> CHR ''e'' then None
          else (case split_sign r of (neg, ds) \<Rightarrow>
            if ds = [] \<or> \<not> list_all is_digit ds then None
            else Some (if neg then - parse_nat ds else parse_nat ds)))"

definition read_finite :: "bool \<Rightarrow> string \<Rightarrow> pydecimal option" where
  "read_finite neg s =
     (let whole = takeWhile is_digit s; r = dropWhile is_digit s;
          (fraction, r) =
            (case r of
               c # r' \<Rightarrow> if c = CHR ''.'' then (takeWhile is_digit r', dropWhile is_digit r') else ([], r)
             | [] \<Rightarrow> ([], []))
      in if whole @ fraction = [] then None
         else map_option (\<lambda>e. DecFinite neg (nat (parse_nat (whole @ fraction))) (e - int (length fraction)))
           (read_exponent r))"

text \<open>The range of exponents on a 64-bit machine.\<close>

definition max_emax :: int where "max_emax = 999999999999999999"
definition min_etiny :: int where "min_etiny = -1999999999999999997"

definition in_range :: "nat \<Rightarrow> int \<Rightarrow> bool" where
  "in_range c e \<longleftrightarrow>
     min_etiny \<le> e \<and> (if c = 0 then e else e + int (length (show_nat c)) - 1) \<le> max_emax"

text \<open>\<open>Decimal(value)\<close>; \<open>None\<close> is \<open>InvalidOperation\<close>.\<close>

definition parse_decimal :: "normalizer \<Rightarrow> string \<Rightarrow> pydecimal option" where
  "parse_decimal uni value =
     (case split_sign (decimal_text uni value) of (neg, s) \<Rightarrow>
        let low = map lower_char s in
        if low = ''inf'' \<or> low = ''infinity'' then Some (DecInfinity neg)
        else if take 3 low = ''nan'' \<and> list_all is_digit (drop 3 low) then Some DecNaN
        else if take 4 low = ''snan'' \<and> list_all is_digit (drop 4 low) then Some DecNaN
        else (case read_finite neg s of
                Some (DecFinite n c e) \<Rightarrow> if in_range c e then Some (DecFinite n c e) else None
              | _ \<Rightarrow> None))"

section \<open>Comparison, rounding and printing\<close>

definition above_one :: "nat \<Rightarrow> int \<Rightarrow> bool" where
  "above_one c e \<longleftrightarrow> (if e < 0 then 10 ^ nat (- e) < c else c \<noteq> 0 \<and> 1 < c * 10 ^ nat e)"

text \<open>The coefficient of \<open>quantize(Decimal("0.000001"), rounding=ROUND_HALF_EVEN)\<close>.\<close>

definition half_even :: "nat \<Rightarrow> nat \<Rightarrow> nat" where
  "half_even c k =
     (let q = c div k; r = c mod k in if k < 2 * r \<or> (k = 2 * r \<and> odd q) then q + 1 else q)"

definition quantize6 :: "nat \<Rightarrow> int \<Rightarrow> nat" where
  "quantize6 c e = (if -6 \<le> e then c * 10 ^ nat (e + 6) else half_even c (10 ^ nat (- 6 - e)))"

datatype fixed6 = Fixed6 (fx_neg: bool) (fx_micros: nat)

text \<open>\<open>format(value, ".6f")\<close>.\<close>

definition fixed6_text :: "fixed6 \<Rightarrow> string" where
  "fixed6_text x =
     (if fx_neg x then ''-'' else []) @ show_nat (fx_micros x div 1000000) @ ''.''
       @ zpad 6 (int (fx_micros x mod 1000000))"

text \<open>The value of a number of at most six places, in millionths.\<close>

definition decimal_micros :: "pydecimal option \<Rightarrow> int" where
  "decimal_micros d =
     (case d of
        Some (DecFinite neg c e) \<Rightarrow> (if neg then -1 else 1) * (int c * 10 ^ nat (e + 6))
      | _ \<Rightarrow> 0)"

section \<open>Bounds and rounding\<close>

definition dec_real :: "nat \<Rightarrow> int \<Rightarrow> real" where
  "dec_real c e = (if e < 0 then real c / 10 ^ nat (- e) else real c * 10 ^ nat e)"

lemma half_even_le:
  assumes "c \<le> b * k"
  shows "half_even c k \<le> b"
proof -
  have "k * (c div k) \<le> k * b" using assms by (metis mult.commute order_trans times_div_less_eq_dividend)
  show ?thesis
  proof (cases "k = 0")
    case True
    with assms show ?thesis by (simp add: half_even_def)
  next
    case False
    then have q: "c div k \<le> b" using \<open>k * (c div k) \<le> k * b\<close> by simp
    show ?thesis
    proof (cases "c div k = b")
      case True
      then have "c mod k = 0" using assms div_mult_mod_eq [of c k] by simp
      with True False show ?thesis by (simp add: half_even_def Let_def)
    next
      case False
      with q show ?thesis by (simp add: half_even_def Let_def)
    qed
  qed
qed

lemma quantize6_le:
  assumes "\<not> above_one c e"
  shows "quantize6 c e \<le> 1000000"
proof -
  consider "0 \<le> e" | "-6 \<le> e" "e < 0" | "e < -6" by linarith
  then show ?thesis
  proof cases
    case 1
    with assms have "c = 0 \<or> c * 10 ^ nat e \<le> 1" by (auto simp: above_one_def)
    moreover from 1 have "nat (e + 6) = nat e + 6" by simp
    ultimately show ?thesis using 1 by (auto simp: quantize6_def power_add)
  next
    case 2
    have "nat (e + 6) + nat (- e) = 6" using 2 by simp
    then have "(10::nat) ^ nat (e + 6) * 10 ^ nat (- e) = 1000000" by (simp flip: power_add)
    moreover have "c \<le> 10 ^ nat (- e)" using assms 2 by (simp add: above_one_def)
    ultimately show ?thesis using 2
      by (metis mult.commute mult_le_mono1 quantize6_def)
  next
    case 3
    have "nat (- e) = 6 + nat (- 6 - e)" using 3 by simp
    then have "(10::nat) ^ nat (- e) = 1000000 * 10 ^ nat (- 6 - e)" by (simp add: power_add)
    moreover have "c \<le> 10 ^ nat (- e)" using assms 3 by (simp add: above_one_def)
    ultimately show ?thesis using 3 half_even_le by (simp add: quantize6_def)
  qed
qed

text \<open>Rounding moves a number by at most half a millionth.\<close>

lemma half_even_error:
  assumes "0 < k"
  shows "\<bar>real (half_even c k) - real c / real k\<bar> \<le> 1 / 2"
proof -
  have "real c / real k = real (c div k) + real (c mod k) / real k"
    by (metis add_divide_distrib assms nonzero_mult_div_cancel_right of_nat_0_less_iff of_nat_add
        of_nat_mult div_mult_mod_eq less_irrefl)
  moreover have "real (c mod k) / real k < 1" using assms by simp
  moreover have "1 / 2 \<le> real (c mod k) / real k \<longleftrightarrow> k \<le> 2 * (c mod k)"
    using assms by (auto simp: field_simps simp flip: of_nat_le_iff [where 'a = real])
  moreover have "real (c mod k) / real k \<le> 1 / 2 \<longleftrightarrow> 2 * (c mod k) \<le> k"
    using assms by (auto simp: field_simps simp flip: of_nat_le_iff [where 'a = real])
  moreover have "0 \<le> real (c mod k) / real k" by simp
  ultimately show ?thesis unfolding half_even_def Let_def
    by (cases "k < 2 * (c mod k)"; cases "k = 2 * (c mod k)"; simp; linarith)
qed

lemma quantize6_error: "\<bar>real (quantize6 c e) - 1000000 * dec_real c e\<bar> \<le> 1 / 2"
proof -
  consider "0 \<le> e" | "-6 \<le> e" "e < 0" | "e < -6" by linarith
  then show ?thesis
  proof cases
    case 1
    then have "nat (e + 6) = nat e + 6" by simp
    with 1 show ?thesis by (simp add: quantize6_def dec_real_def power_add)
  next
    case 2
    then have "(10::real) ^ nat (e + 6) * 10 ^ nat (- e) = 1000000" by (simp flip: power_add nat_add_distrib)
    with 2 show ?thesis by (simp add: quantize6_def dec_real_def field_simps)
  next
    case 3
    then have "nat (- e) = 6 + nat (- 6 - e)" by simp
    then have "(10::real) ^ nat (- e) = 1000000 * 10 ^ nat (- 6 - e)" by (simp add: power_add)
    with 3 half_even_error [of "10 ^ nat (- 6 - e)" c] show ?thesis
      by (simp add: quantize6_def dec_real_def)
  qed
qed

section \<open>What is printed is read back\<close>

lemma zpad_digits: "list_all is_digit (zpad w n)"
  by (induction w arbitrary: n) (simp_all add: digit_char_props)

lemma zpad_length [simp]: "length (zpad w n) = w"
  by (induction w arbitrary: n) simp_all

lemma parse_nat_zpad:
  "0 \<le> n \<Longrightarrow> parse_nat (s @ zpad w n) = parse_nat s * 10 ^ w + n mod 10 ^ w"
proof (induction w arbitrary: n)
  case (Suc w)
  have "parse_nat (s @ zpad (Suc w) n) = 10 * parse_nat (s @ zpad w (n div 10)) + n mod 10"
    using parse_nat_snoc [of "s @ zpad w (n div 10)"] by (simp add: digit_char_props)
  moreover have "n mod 10 ^ Suc w = 10 * (n div 10 mod 10 ^ w) + n mod 10"
    using mod_mult2_eq' [of n 10 "10 ^ w"] by simp
  ultimately show ?case using Suc by simp
qed simp

lemma show_nat_length: "n < 10 ^ w \<Longrightarrow> 0 < w \<Longrightarrow> length (show_nat n) \<le> w"
proof (induction n arbitrary: w rule: show_nat.induct)
  case (1 n)
  show ?case
  proof (cases "n < 10")
    case True
    with 1 show ?thesis by (subst show_nat.simps) simp
  next
    case False
    with 1 obtain v where w: "w = Suc v" "0 < v" by (cases w; cases "w - 1") auto
    then have "length (show_nat (n div 10)) \<le> v" using 1 False by simp
    with w False show ?thesis by (subst show_nat.simps) simp
  qed
qed

lemma digit_not: "is_digit c \<Longrightarrow> c \<noteq> CHR ''_'' \<and> \<not> is_space c \<and> c \<noteq> CHR ''-'' \<and> c \<noteq> CHR ''+'' \<and> lower_char c = c
    \<and> c \<noteq> CHR ''i'' \<and> c \<noteq> CHR ''n'' \<and> c \<noteq> CHR ''s'' \<and> of_char c < (128 :: nat) \<and> c \<noteq> CHR ''.''"
  by (auto simp: is_digit_def is_space_def lower_char_def)

lemma strip_ws_id: "s \<noteq> [] \<Longrightarrow> \<not> is_space (hd s) \<Longrightarrow> \<not> is_space (last s) \<Longrightarrow> strip_ws s = s"
  by (simp add: strip_ws_def dropWhile_eq_self_iff [THEN iffD2] hd_rev)

lemma decimal_text_id:
  assumes "ascii s" "s \<noteq> []" "\<not> is_space (hd s)" "\<not> is_space (last s)" "list_all (\<lambda>c. c \<noteq> CHR ''_'') s"
  shows "decimal_text uni s = s"
  using assms by (simp add: decimal_text_def strip_ws_id list_all_iff)

lemma take_while_digits:
  assumes "list_all is_digit w" and "\<not> is_digit c"
  shows "takeWhile is_digit (w @ c # r) = w" "dropWhile is_digit (w @ c # r) = c # r"
  using assms by (simp_all add: takeWhile_append dropWhile_append list_all_iff)

lemma read_fixed6:
  "read_finite neg (show_nat (m div 1000000) @ CHR ''.'' # zpad 6 (int (m mod 1000000))) = Some (DecFinite neg m (- 6))"
proof -
  let ?w = "show_nat (m div 1000000)" and ?f = "zpad 6 (int (m mod 1000000))"
  have w: "takeWhile is_digit (?w @ CHR ''.'' # ?f) = ?w" "dropWhile is_digit (?w @ CHR ''.'' # ?f) = CHR ''.'' # ?f"
    by (rule take_while_digits; simp add: show_nat_digits is_digit_def)+
  have f: "takeWhile is_digit ?f = ?f" "dropWhile is_digit ?f = []"
    using zpad_digits [of 6 "int (m mod 1000000)"] by (simp_all add: takeWhile_eq_all_conv list_all_iff)
  have ne: "?w \<noteq> []" using show_nat_Cons [of "m div 1000000"] by fastforce
  have "parse_nat (?w @ ?f) = int (m div 1000000) * 10 ^ 6 + int (m mod 1000000) mod 10 ^ 6"
    by (subst parse_nat_zpad) (simp_all add: parse_show_nat)
  also have "\<dots> = int m" by (simp add: zdiv_int zmod_int)
  finally have "nat (parse_nat (?w @ ?f)) = m" by simp
  then show ?thesis unfolding read_finite_def Let_def w
    by (simp add: read_exponent_def f ne del: zpad.simps takeWhile_eq_all_conv dropWhile_eq_Nil_conv)
qed

lemma parse_decimal_finite:
  assumes "split_sign (decimal_text uni v) = (neg, c # r)" "is_digit c"
    and "read_finite neg (c # r) = Some (DecFinite neg m e)" "in_range m e"
  shows "parse_decimal uni v = Some (DecFinite neg m e)"
  using assms digit_not [OF assms(2)] by (simp add: parse_decimal_def Let_def)

lemma parse_fixed6:
  assumes "m < 10 ^ 15"
  shows "parse_decimal uni (fixed6_text (Fixed6 neg m)) = Some (DecFinite neg m (- 6))"
proof -
  let ?t = "show_nat (m div 1000000) @ CHR ''.'' # zpad 6 (int (m mod 1000000))"
  let ?s = "(if neg then ''-'' else []) @ ?t"
  obtain c cs where c: "show_nat (m div 1000000) = c # cs" "is_digit c" by (rule show_nat_Cons)
  obtain d ds where d: "zpad 6 (int (m mod 1000000)) = ds @ [d]" "is_digit d"
    using zpad_digits [of 6 "int (m mod 1000000)"] zpad_length [of 6 "int (m mod 1000000)"]
    by (cases "zpad 6 (int (m mod 1000000))" rule: rev_cases) (auto simp del: zpad.simps zpad_length)
  have "list_all (\<lambda>c. c \<noteq> CHR ''_'') ?s"
    using show_nat_digits [of "m div 1000000"] zpad_digits [of 6 "int (m mod 1000000)"] digit_not
    unfolding list_all_iff by auto
  moreover have "ascii ?s" by (simp add: ascii_show_nat del: zpad.simps)
  moreover have "\<not> is_space (hd ?s)" using c digit_not by (simp add: is_space_def)
  moreover have "\<not> is_space (last ?s)" using d digit_not by (simp del: zpad.simps)
  ultimately have "decimal_text uni ?s = ?s" by (intro decimal_text_id) simp_all
  moreover have "split_sign ?s = (neg, ?t)" using c digit_not [OF c(2)] by simp
  moreover have "in_range m (- 6)"
    using show_nat_length [OF assms] by (simp add: in_range_def min_etiny_def max_emax_def)
  ultimately show ?thesis
    using c read_fixed6 [of neg m] by (intro parse_decimal_finite) (simp_all add: fixed6_text_def)
qed

lemma micros_fixed6:
  "m < 10 ^ 15 \<Longrightarrow> decimal_micros (parse_decimal uni (fixed6_text (Fixed6 neg m))) = (if neg then - int m else int m)"
  by (simp add: parse_fixed6 decimal_micros_def)

end
