(* ===== verification/SelectionDomain.thy ===== *)
theory SelectionDomain
  imports Decimals
begin

text \<open>
  Worker selection: \<open>app/runtime/worker_selection/domain.py\<close>, \<open>serialization.py\<close> and
  \<open>policy.py\<close>.  The values of a request are typed at the interface (\<open>str\<close>, \<open>bool\<close>,
  \<open>datetime\<close>), so they have these types here; a dictionary of scores is the list of its
  items.  The package does not normalise text: its canonical form is the common traversal
  with the identity as the normalisation.
\<close>

section \<open>Domain\<close>

datatype selection_outcome = CandidateFound | NoEligibleWorkers | PolicyFiltered | EvidenceUnavailable | Indeterminate

fun selection_outcome_value :: "selection_outcome \<Rightarrow> string" where
  "selection_outcome_value CandidateFound = ''CandidateFound''"
| "selection_outcome_value NoEligibleWorkers = ''NoEligibleWorkers''"
| "selection_outcome_value PolicyFiltered = ''PolicyFiltered''"
| "selection_outcome_value EvidenceUnavailable = ''EvidenceUnavailable''"
| "selection_outcome_value Indeterminate = ''Indeterminate''"

definition selection_invalid :: exc where
  "selection_invalid = SelectionError SelectionRequestInvalid"

text \<open>\<open>str(UUID(value)) == value\<close>: 32 lowercase hexadecimal digits in groups of 8, 4, 4, 4 and
  12.  Text that \<open>UUID\<close> refuses raises the same exception as text it would write
  differently.\<close>

definition uuid_shape :: "string \<Rightarrow> bool" where
  "uuid_shape s \<longleftrightarrow> length s = 36
     \<and> (\<forall>i < 36. if i \<in> {8, 13, 18, 23} then s ! i = CHR ''-'' else s ! i \<in> set hex_digits)"

definition canonical_uuid :: "string \<Rightarrow> string res" where
  "canonical_uuid value = (if uuid_shape value then Inr value else Inl selection_invalid)"

definition as_utc :: "pytime \<Rightarrow> instant res" where
  "as_utc = utc_or_raise selection_invalid"

record worker_readiness =
  wr_worker :: string
  wr_reference :: string
  wr_hash :: string
  wr_organization :: string
  wr_workload :: string
  wr_evaluated :: instant
  wr_expires :: instant
  wr_ready :: bool
  wr_capabilities :: "string list"
  wr_policy_pass :: "bool option"
  wr_consistent :: bool
  wr_scores :: "(string \<times> string) list"
  wr_evidence :: "string list"
  wr_schema :: string

text \<open>\<open>WorkerReadinessEvidence.__post_init__\<close>, on the other fields and the two times as they
  were given.\<close>

definition worker_readiness_init :: "worker_readiness \<Rightarrow> pytime \<Rightarrow> pytime \<Rightarrow> worker_readiness res" where
  "worker_readiness_init r evaluated_at expires_at =
     bindr (canonical_uuid (wr_worker r)) (\<lambda>worker.
     bindr (as_utc evaluated_at) (\<lambda>evaluated.
     bindr (as_utc expires_at) (\<lambda>expires.
       Inr (r\<lparr>wr_worker := worker, wr_evaluated := evaluated, wr_expires := expires,
              wr_capabilities := sort (wr_capabilities r), wr_evidence := sort (wr_evidence r),
              wr_scores := sort (wr_scores r)\<rparr>))))"

record selection_request =
  sq_organization :: string
  sq_workload :: string
  sq_plan :: string
  sq_requirements :: string
  sq_constraints :: string
  sq_capabilities :: "string list"
  sq_readiness :: "worker_readiness list"
  sq_boundary :: instant
  sq_history :: string
  sq_preferences :: "string list"
  sq_policy :: string
  sq_evaluator :: string
  sq_schema :: string

definition selection_request_init :: "selection_request \<Rightarrow> pytime \<Rightarrow> selection_request res" where
  "selection_request_init q boundary =
     bindr (as_utc boundary) (\<lambda>b.
       Inr (q\<lparr>sq_boundary := b, sq_capabilities := sort (sq_capabilities q),
              sq_readiness := sort_key wr_worker (sq_readiness q),
              sq_preferences := sort (sq_preferences q)\<rparr>))"

record score_component =
  sc_code :: string
  sc_raw :: "string option"
  sc_normalized :: string
  sc_weight :: int
  sc_weighted :: string
  sc_reason :: string
  sc_evidence :: "string list"

record worker_candidate =
  cn_worker :: string
  cn_readiness :: string
  cn_score :: string
  cn_rank :: int
  cn_components :: "score_component list"
  cn_explanation :: string
  cn_reasons :: "string list"
  cn_evidence :: "string list"
  cn_evaluated :: instant
  cn_hash :: string
  cn_timestamp :: instant

record worker_exclusion =
  xw_worker :: string
  xw_readiness :: string
  xw_reasons :: "string list"
  xw_evidence :: "string list"
  xw_hash :: string

record selection_metadata =
  sm_history :: string
  sm_inputs :: "string list"
  sm_policy_hash :: string
  sm_evaluator :: string
  sm_configuration :: string
  sm_ordering :: string
  sm_serialization :: string
  sm_input_hash :: string
  sm_output_hash :: string

record worker_selection =
  ws_id :: string
  ws_organization :: string
  ws_workload :: string
  ws_version :: int
  ws_outcome :: selection_outcome
  ws_candidates :: "worker_candidate list"
  ws_excluded :: "worker_exclusion list"
  ws_inputs :: "string list"
  ws_policy :: string
  ws_evaluator :: string
  ws_schema :: string
  ws_metadata :: selection_metadata
  ws_hash :: string
  ws_evaluated :: instant
  ws_recorded :: "instant option"

section \<open>Serialization\<close>

text \<open>\<open>canonical_value\<close> raises \<open>TypeError\<close> on what it cannot write; a dataclass is the
  dictionary of its fields but \<open>recorded_at\<close>.\<close>

definition selection_cfg :: freeze_cfg where
  "selection_cfg = \<lparr>fz_err = TypeError, fz_enum_raw = True, fz_time = Some isoformat_us_z, fz_float = False\<rparr>"

definition selection_hash :: "string \<Rightarrow> pyval \<Rightarrow> string res" where
  "selection_hash ns value =
     bindr (canonical_bytes selection_cfg (\<lambda>s. s) value) (\<lambda>content. Inr (namespaced_digest ns content))"

definition pbool_opt :: "bool option \<Rightarrow> pyval" where
  "pbool_opt b = (case b of None \<Rightarrow> PNone | Some x \<Rightarrow> PBool x)"

definition readiness_doc :: "worker_readiness \<Rightarrow> pyval" where
  "readiness_doc r = pdict [
     (''worker_id'', PStr (wr_worker r)), (''reference'', PStr (wr_reference r)),
     (''canonical_hash'', PStr (wr_hash r)), (''organization_id'', PStr (wr_organization r)),
     (''workload_context_id'', PStr (wr_workload r)), (''evaluated_at'', PTime (utc (wr_evaluated r))),
     (''expires_at'', PTime (utc (wr_expires r))), (''ready'', PBool (wr_ready r)),
     (''capabilities'', ptuple (wr_capabilities r)), (''hard_policy_pass'', pbool_opt (wr_policy_pass r)),
     (''evidence_consistent'', PBool (wr_consistent r)),
     (''scores'', pdict (map (map_prod id PStr) (wr_scores r))),
     (''evidence_references'', ptuple (wr_evidence r)), (''schema_version'', PStr (wr_schema r))]"

definition selection_request_doc :: "selection_request \<Rightarrow> pyval" where
  "selection_request_doc q = pdict [
     (''organization_id'', PStr (sq_organization q)), (''workload_context_id'', PStr (sq_workload q)),
     (''execution_plan_reference'', PStr (sq_plan q)),
     (''workload_requirements_reference'', PStr (sq_requirements q)),
     (''policy_constraints_reference'', PStr (sq_constraints q)),
     (''required_capabilities'', ptuple (sq_capabilities q)),
     (''readiness'', PSeq (map readiness_doc (sq_readiness q))),
     (''evaluation_boundary'', PTime (utc (sq_boundary q))), (''history_boundary'', PStr (sq_history q)),
     (''preference_evidence_references'', ptuple (sq_preferences q)),
     (''scoring_policy_version'', PStr (sq_policy q)), (''evaluator_version'', PStr (sq_evaluator q)),
     (''schema_version'', PStr (sq_schema q))]"

definition component_doc :: "score_component \<Rightarrow> pyval" where
  "component_doc c = pdict [
     (''component_code'', PStr (sc_code c)), (''raw_value'', popt (sc_raw c)),
     (''normalized_value'', PStr (sc_normalized c)), (''weight'', PInt (sc_weight c)),
     (''weighted_score'', PStr (sc_weighted c)), (''reason_code'', PStr (sc_reason c)),
     (''evidence_references'', ptuple (sc_evidence c))]"

definition candidate_doc :: "worker_candidate \<Rightarrow> pyval" where
  "candidate_doc c = pdict [
     (''worker_id'', PStr (cn_worker c)), (''readiness_reference'', PStr (cn_readiness c)),
     (''score'', PStr (cn_score c)), (''rank'', PInt (cn_rank c)),
     (''score_components'', PSeq (map component_doc (cn_components c))),
     (''explanation'', PStr (cn_explanation c)), (''reason_codes'', ptuple (cn_reasons c)),
     (''evidence_references'', ptuple (cn_evidence c)),
     (''readiness_evaluated_at'', PTime (utc (cn_evaluated c))), (''canonical_hash'', PStr (cn_hash c)),
     (''evaluation_timestamp'', PTime (utc (cn_timestamp c)))]"

definition exclusion_doc :: "worker_exclusion \<Rightarrow> pyval" where
  "exclusion_doc x = pdict [
     (''worker_id'', PStr (xw_worker x)), (''readiness_reference'', PStr (xw_readiness x)),
     (''reason_codes'', ptuple (xw_reasons x)), (''evidence_references'', ptuple (xw_evidence x)),
     (''canonical_hash'', PStr (xw_hash x))]"

definition selection_metadata_doc :: "selection_metadata \<Rightarrow> pyval" where
  "selection_metadata_doc m = pdict [
     (''history_boundary'', PStr (sm_history m)), (''input_artifact_hashes'', ptuple (sm_inputs m)),
     (''scoring_policy_hash'', PStr (sm_policy_hash m)), (''evaluator_version'', PStr (sm_evaluator m)),
     (''canonical_configuration_hash'', PStr (sm_configuration m)),
     (''candidate_ordering_rule_version'', PStr (sm_ordering m)),
     (''serialization_version'', PStr (sm_serialization m)),
     (''replay_input_hash'', PStr (sm_input_hash m)), (''replay_output_hash'', PStr (sm_output_hash m))]"

definition selection_doc :: "worker_selection \<Rightarrow> pyval" where
  "selection_doc s = pdict [
     (''selection_id'', PStr (ws_id s)), (''organization_id'', PStr (ws_organization s)),
     (''workload_context_id'', PStr (ws_workload s)), (''version'', PInt (ws_version s)),
     (''outcome'', PEnum (selection_outcome_value (ws_outcome s))),
     (''candidates'', PSeq (map candidate_doc (ws_candidates s))),
     (''excluded_workers'', PSeq (map exclusion_doc (ws_excluded s))),
     (''input_evidence_references'', ptuple (ws_inputs s)),
     (''scoring_policy_version'', PStr (ws_policy s)), (''evaluator_version'', PStr (ws_evaluator s)),
     (''schema_version'', PStr (ws_schema s)), (''replay_metadata'', selection_metadata_doc (ws_metadata s)),
     (''canonical_hash'', PStr (ws_hash s)), (''evaluated_at'', PTime (utc (ws_evaluated s)))]"

section \<open>The scoring policy\<close>

record component_definition =
  cf_code :: string
  cf_weight :: int

record scoring_policy =
  sp_version :: string
  sp_components :: "component_definition list"

definition scoring_policy_v1 :: scoring_policy where
  "scoring_policy_v1 = \<lparr>sp_version = ''worker-selection.scoring.v1'', sp_components = [
     \<lparr>cf_code = ''CAPABILITY_FIT'', cf_weight = 40\<rparr>,
     \<lparr>cf_code = ''ORGANIZATION_POLICY_PREFERENCE'', cf_weight = 20\<rparr>,
     \<lparr>cf_code = ''LATENCY_OBJECTIVE'', cf_weight = 15\<rparr>,
     \<lparr>cf_code = ''COST_PREFERENCE'', cf_weight = 10\<rparr>,
     \<lparr>cf_code = ''AFFINITY_PREFERENCE'', cf_weight = 10\<rparr>,
     \<lparr>cf_code = ''LOAD_BALANCE'', cf_weight = 5\<rparr>]\<rparr>"

definition scoring_policy_doc :: "scoring_policy \<Rightarrow> pyval" where
  "scoring_policy_doc p = pdict [
     (''version'', PStr (sp_version p)),
     (''components'', PSeq (map (\<lambda>d. pdict [(''code'', PStr (cf_code d)), (''weight'', PInt (cf_weight d))])
        (sp_components p)))]"

definition scoring_policy_hash :: "scoring_policy \<Rightarrow> string res" where
  "scoring_policy_hash p = selection_hash ''worker-selection-policy'' (scoring_policy_doc p)"

definition policy_registry :: "scoring_policy list" where
  "policy_registry = [scoring_policy_v1]"

definition scoring_policy_for :: "string \<Rightarrow> scoring_policy res" where
  "scoring_policy_for version =
     (case filter (\<lambda>p. sp_version p = version) policy_registry of
        [p] \<Rightarrow> Inr p
      | _ \<Rightarrow> Inl (SelectionError SelectionArtifactVersionUnsupported))"

text \<open>\<open>_decimal\<close>: score evidence is a finite number within [0, 1], rounded to six places.\<close>

definition score_decimal :: "normalizer \<Rightarrow> string \<Rightarrow> fixed6 res" where
  "score_decimal uni value =
     (case parse_decimal uni value of
        Some (DecFinite neg c e) \<Rightarrow>
          if neg \<and> c \<noteq> 0 \<or> \<not> neg \<and> above_one c e then Inl selection_invalid
          else Inr (Fixed6 neg (quantize6 c e))
      | _ \<Rightarrow> Inl selection_invalid)"

text \<open>\<open>(normalized * weight).quantize(SCALE)\<close>: the product of the coefficients at six places,
  negative when exactly one factor is.\<close>

definition weighted_decimal :: "fixed6 \<Rightarrow> int \<Rightarrow> fixed6" where
  "weighted_decimal x weight =
     Fixed6 (fx_neg x \<noteq> (weight < 0)) (quantize6 (fx_micros x * nat \<bar>weight\<bar>) (- 6))"

definition score_component_of ::
  "normalizer \<Rightarrow> (string \<times> string) list \<Rightarrow> string list \<Rightarrow> component_definition \<Rightarrow> score_component res"
where
  "score_component_of uni scores evidence d =
     (let raw = map_of scores (cf_code d) in
     bindr (case raw of None \<Rightarrow> Inr (Fixed6 False 0) | Some v \<Rightarrow> score_decimal uni v) (\<lambda>normalized.
     let weighted = weighted_decimal normalized (cf_weight d) in
       Inr \<lparr>sc_code = cf_code d, sc_raw = raw, sc_normalized = fixed6_text normalized,
            sc_weight = cf_weight d, sc_weighted = fixed6_text weighted,
            sc_reason = cf_code d @ (if raw = None then ''_EVIDENCE_MISSING'' else ''_SCORED''),
            sc_evidence = (if raw = None then [] else evidence)\<rparr>))"

definition score_components ::
  "normalizer \<Rightarrow> (string \<times> string) list \<Rightarrow> string list \<Rightarrow> scoring_policy \<Rightarrow> score_component list res"
where
  "score_components uni scores evidence p = mapr (score_component_of uni scores evidence) (sp_components p)"

end
