(* ===== verification/SelectionEvaluator.thy ===== *)
theory SelectionEvaluator
  imports SelectionDomain Retained
begin

text \<open>
  The evaluator: \<open>app/runtime/worker_selection/evaluator.py\<close>.  Each worker is excluded with its
  reasons or scored; the scored workers are ordered by score, readiness time and
  identifier; and the selection is written with the hashes of what went in and came out.
\<close>

section \<open>Validation, exclusion and outcome\<close>

definition validate_selection_request :: "selection_request \<Rightarrow> unit res" where
  "validate_selection_request q =
     bindr (raise_if (\<exists>v \<in> set [sq_organization q, sq_workload q, sq_plan q, sq_requirements q,
         sq_constraints q, sq_history q]. v = []) selection_invalid) (\<lambda>_.
     raise_if (\<not> distinct (map wr_worker (sq_readiness q))) selection_invalid)"

definition exclusion_reasons :: "selection_request \<Rightarrow> worker_readiness \<Rightarrow> string list" where
  "exclusion_reasons q r = sort (
     (if wr_organization r \<noteq> sq_organization q \<or> wr_workload r \<noteq> sq_workload q
      then [''ORGANIZATION_OR_WORKLOAD_MISMATCH''] else [])
     @ (if wr_hash r = [] \<or> wr_reference r = [] then [''REQUIRED_EVIDENCE_INVALID''] else [])
     @ (if wr_schema r \<noteq> ''worker-readiness.v1'' then [''READINESS_VERSION_UNSUPPORTED''] else [])
     @ (if wr_expires r < sq_boundary q then [''READINESS_EXPIRED''] else [])
     @ (if \<not> wr_ready r then [''WORKER_NOT_READY''] else [])
     @ (if \<not> set (sq_capabilities q) \<subseteq> set (wr_capabilities r) then [''REQUIRED_CAPABILITY_MISSING''] else [])
     @ (case wr_policy_pass r of
          None \<Rightarrow> [''HARD_POLICY_EVIDENCE_UNAVAILABLE'']
        | Some pass \<Rightarrow> if \<not> pass then [''HARD_POLICY_FILTERED''] else [])
     @ (if \<not> wr_consistent r then [''CONTRADICTORY_EVIDENCE''] else []))"

definition unavailable_reasons :: "string list" where
  "unavailable_reasons = [''ORGANIZATION_OR_WORKLOAD_MISMATCH'', ''REQUIRED_EVIDENCE_INVALID'',
     ''READINESS_VERSION_UNSUPPORTED'', ''READINESS_EXPIRED'', ''REQUIRED_CAPABILITY_MISSING'']"

definition selection_outcome_of :: "worker_candidate list \<Rightarrow> string list \<Rightarrow> selection_outcome" where
  "selection_outcome_of candidates reasons =
     (if candidates \<noteq> [] then CandidateFound
      else if ''CONTRADICTORY_EVIDENCE'' \<in> set reasons then Indeterminate
      else if ''HARD_POLICY_EVIDENCE_UNAVAILABLE'' \<in> set reasons then EvidenceUnavailable
      else if reasons \<noteq> [] \<and> (\<forall>r \<in> set reasons. r = ''HARD_POLICY_FILTERED'') then PolicyFiltered
      else if \<exists>r \<in> set reasons. r \<in> set unavailable_reasons then EvidenceUnavailable
      else NoEligibleWorkers)"

section \<open>The loop over the workers\<close>

record assessment =
  as_provisional :: "(worker_readiness \<times> score_component list \<times> int) list"
  as_exclusions :: "worker_exclusion list"
  as_categories :: "string list"

text \<open>\<open>sum((Decimal(component.weighted_score) \<dots>), Decimal("0"))\<close>, in millionths: the weighted
  scores have six places, and their sum stays far below the precision of the context.\<close>

definition score_total :: "normalizer \<Rightarrow> score_component list \<Rightarrow> int" where
  "score_total uni components =
     sum_list (map (\<lambda>c. decimal_micros (parse_decimal uni (sc_weighted c))) components)"

definition total_text :: "int \<Rightarrow> string" where
  "total_text score = fixed6_text (Fixed6 (score < 0) (nat \<bar>score\<bar>))"

definition make_exclusion :: "worker_readiness \<Rightarrow> string list \<Rightarrow> worker_exclusion res" where
  "make_exclusion r reasons =
     (let x = \<lparr>xw_worker = wr_worker r, xw_readiness = wr_reference r, xw_reasons = reasons,
               xw_evidence = wr_evidence r, xw_hash = []\<rparr>
      in bindr (selection_hash ''worker-selection-exclusion'' (exclusion_doc x)) (\<lambda>h. Inr (x\<lparr>xw_hash := h\<rparr>)))"

definition assess_worker ::
  "normalizer \<Rightarrow> selection_request \<Rightarrow> scoring_policy \<Rightarrow> assessment \<Rightarrow> worker_readiness \<Rightarrow> assessment res"
where
  "assess_worker uni q p acc r =
     (let reasons = exclusion_reasons q r in
      if reasons \<noteq> [] then
        bindr (make_exclusion r reasons) (\<lambda>x.
          Inr (acc\<lparr>as_exclusions := as_exclusions acc @ [x], as_categories := as_categories acc @ reasons\<rparr>))
      else
        bindr (score_components uni (wr_scores r) (wr_evidence r) p) (\<lambda>components.
          Inr (acc\<lparr>as_provisional := as_provisional acc @ [(r, components, score_total uni components)]\<rparr>)))"

definition assess_workers ::
  "normalizer \<Rightarrow> selection_request \<Rightarrow> scoring_policy \<Rightarrow> assessment res"
where
  "assess_workers uni q p =
     fold_res (assess_worker uni q p) \<lparr>as_provisional = [], as_exclusions = [], as_categories = []\<rparr> (sq_readiness q)"

section \<open>Ranking\<close>

definition rank_key :: "worker_readiness \<times> score_component list \<times> int \<Rightarrow> int \<times> instant \<times> string" where
  "rank_key item = (case item of (r, components, score) \<Rightarrow> (- score, wr_evaluated r, wr_worker r))"

fun join_with :: "string \<Rightarrow> string list \<Rightarrow> string" where
  "join_with sep [] = []"
| "join_with sep [x] = x"
| "join_with sep (x # y # zs) = x @ sep @ join_with sep (y # zs)"

definition selection_explanation :: "int \<Rightarrow> score_component list \<Rightarrow> string" where
  "selection_explanation score components =
     ''Final score '' @ total_text score @ '': ''
       @ join_with '', '' (map (\<lambda>c. sc_code c @ ''='' @ sc_weighted c) components) @ ''.''"

definition make_candidate ::
  "selection_request \<Rightarrow> string \<Rightarrow> nat \<Rightarrow> worker_readiness \<times> score_component list \<times> int \<Rightarrow> worker_candidate res"
where
  "make_candidate q selection_id rank item =
     (case item of (r, components, score) \<Rightarrow>
       let c = \<lparr>cn_worker = wr_worker r, cn_readiness = wr_reference r, cn_score = total_text score,
                cn_rank = int rank, cn_components = components,
                cn_explanation = selection_explanation score components,
                cn_reasons = map sc_reason components, cn_evidence = wr_evidence r,
                cn_evaluated = wr_evaluated r, cn_hash = [], cn_timestamp = sq_boundary q\<rparr>
       in bindr (selection_hash ''worker-selection-candidate''
             (pdict [(''selectionId'', PStr selection_id), (''candidate'', candidate_doc c)])) (\<lambda>h.
          Inr (c\<lparr>cn_hash := h\<rparr>)))"

definition rank_candidates ::
  "selection_request \<Rightarrow> string \<Rightarrow> (worker_readiness \<times> score_component list \<times> int) list \<Rightarrow> worker_candidate list res"
where
  "rank_candidates q selection_id provisional =
     mapr (\<lambda>(rank, item). make_candidate q selection_id rank item) (enumerate 1 (sort_key rank_key provisional))"

section \<open>The selection\<close>

definition ordering_version :: string where
  "ordering_version = ''score-desc-readiness-asc-worker-uuid-asc.v1''"

definition selection_configuration :: string where
  "selection_configuration = ''worker-selection.config.v1''"

definition selection_identity :: "selection_request \<Rightarrow> string res" where
  "selection_identity q = selection_hash ''worker-selection-id'' (pdict [
     (''schemaVersion'', PStr (sq_schema q)), (''organizationId'', PStr (sq_organization q)),
     (''workloadContextId'', PStr (sq_workload q)), (''executionPlanReference'', PStr (sq_plan q)),
     (''readinessReferences'', ptuple (map wr_reference (sq_readiness q))),
     (''preferenceEvidenceReferences'', ptuple (sq_preferences q)),
     (''policyConstraintsReference'', PStr (sq_constraints q)),
     (''scoringPolicyVersion'', PStr (sq_policy q)), (''evaluatorVersion'', PStr (sq_evaluator q)),
     (''evaluationBoundary'', PTime (utc (sq_boundary q)))])"

definition selection_metadata_of ::
  "selection_request \<Rightarrow> scoring_policy \<Rightarrow> selection_outcome \<Rightarrow> worker_candidate list \<Rightarrow> worker_exclusion list
    \<Rightarrow> selection_metadata res"
where
  "selection_metadata_of q p outcome candidates exclusions =
     bindr (selection_hash ''worker-selection-replay-input'' (selection_request_doc q)) (\<lambda>input_hash.
     bindr (selection_hash ''worker-selection-replay-output'' (pdict [
         (''outcome'', PEnum (selection_outcome_value outcome)),
         (''candidates'', PSeq (map candidate_doc candidates)),
         (''excludedWorkers'', PSeq (map exclusion_doc exclusions))])) (\<lambda>output_hash.
     bindr (scoring_policy_hash p) (\<lambda>policy_hash.
     bindr (selection_hash ''worker-selection-configuration'' (PStr selection_configuration)) (\<lambda>configuration.
       Inr \<lparr>sm_history = sq_history q, sm_inputs = map wr_hash (sq_readiness q), sm_policy_hash = policy_hash,
            sm_evaluator = sq_evaluator q, sm_configuration = configuration, sm_ordering = ordering_version,
            sm_serialization = supported_serialization, sm_input_hash = input_hash,
            sm_output_hash = output_hash\<rparr>))))"

definition evaluate_selection ::
  "normalizer \<Rightarrow> selection_request \<Rightarrow> int \<Rightarrow> worker_selection res"
where
  "evaluate_selection uni q version =
     bindr (validate_selection_request q) (\<lambda>_.
     bindr (scoring_policy_for (sq_policy q)) (\<lambda>policy.
     bindr (selection_identity q) (\<lambda>selection_id.
     bindr (assess_workers uni q policy) (\<lambda>assessed.
     bindr (rank_candidates q selection_id (as_provisional assessed)) (\<lambda>candidates.
     let outcome = selection_outcome_of candidates (as_categories assessed) in
     bindr (selection_metadata_of q policy outcome candidates (as_exclusions assessed)) (\<lambda>metadata.
     let selection = \<lparr>ws_id = selection_id, ws_organization = sq_organization q,
           ws_workload = sq_workload q, ws_version = version, ws_outcome = outcome,
           ws_candidates = candidates, ws_excluded = as_exclusions assessed,
           ws_inputs = sort ([sq_plan q, sq_requirements q, sq_constraints q]
             @ map wr_reference (sq_readiness q) @ sq_preferences q),
           ws_policy = sq_policy q, ws_evaluator = sq_evaluator q, ws_schema = sq_schema q,
           ws_metadata = metadata, ws_hash = [], ws_evaluated = sq_boundary q, ws_recorded = None\<rparr>
     in bindr (selection_hash ''worker-selection'' (selection_doc selection)) (\<lambda>h.
          Inr (selection\<lparr>ws_hash := h\<rparr>))))))))"

end
