(* ===== verification/AliasStore.thy ===== *)
theory AliasStore
  imports Prelude
begin

text \<open>
  The append-only store of the packages that stamp the accepted record: the selection and the
  plan repositories.  A record whose identifier is already retained is not appended again;
  the retained record is bound to the new idempotency key instead.  The locale states what
  the two classes have in common.
\<close>

definition alias_inv ::
  "('k \<Rightarrow> 'r list) \<Rightarrow> (string \<Rightarrow> 'r option) \<Rightarrow> ('i \<Rightarrow> 'r option) \<Rightarrow> ('r \<Rightarrow> 'k) \<Rightarrow> ('r \<Rightarrow> string) \<Rightarrow> ('r \<Rightarrow> int) \<Rightarrow> bool"
where
  "alias_inv stream by_id idem key ident version \<longleftrightarrow>
     (\<forall>k n. n < length (stream k) \<longrightarrow>
        version (stream k ! n) = int n + 1 \<and> key (stream k ! n) = k
        \<and> by_id (ident (stream k ! n)) = Some (stream k ! n))
     \<and> (\<forall>i r. by_id i = Some r \<longrightarrow> ident r = i \<and> r \<in> set (stream (key r)))
     \<and> (\<forall>i r. idem i = Some r \<longrightarrow> by_id (ident r) = Some r)"

lemma alias_inv_empty: "alias_inv (\<lambda>_. []) (\<lambda>_. None) (\<lambda>_. None) key ident version"
  by (simp add: alias_inv_def)

lemma alias_inv_stream:
  assumes "alias_inv stream by_id idem key ident version" and "r \<in> set (stream k)"
  shows "by_id (ident r) = Some r" and "key r = k"
  using assms unfolding alias_inv_def by (metis in_set_conv_nth)+

lemma alias_inv_by_id:
  assumes "alias_inv stream by_id idem key ident version" and "by_id i = Some r"
  shows "ident r = i" and "r \<in> set (stream (key r))"
  using assms unfolding alias_inv_def by blast+

lemma alias_inv_idem:
  "alias_inv stream by_id idem key ident version \<Longrightarrow> idem i = Some r \<Longrightarrow> by_id (ident r) = Some r"
  unfolding alias_inv_def by blast

lemma alias_inv_versions:
  assumes "alias_inv stream by_id idem key ident version"
  shows "map version (stream k) = map (\<lambda>n. int n + 1) [0..<length (stream k)]"
  using assms by (intro nth_equalityI) (simp_all add: alias_inv_def)

lemma alias_inv_nth:
  assumes "alias_inv stream by_id idem key ident version" and "n < length (stream k)"
  shows "version (stream k ! n) = int n + 1" and "by_id (ident (stream k ! n)) = Some (stream k ! n)"
proof -
  from assms(1) have "\<forall>k n. n < length (stream k) \<longrightarrow> version (stream k ! n) = int n + 1 \<and> key (stream k ! n) = k
      \<and> by_id (ident (stream k ! n)) = Some (stream k ! n)"
    unfolding alias_inv_def by (rule conjunct1)
  then have "version (stream k ! n) = int n + 1 \<and> key (stream k ! n) = k
      \<and> by_id (ident (stream k ! n)) = Some (stream k ! n)"
    using assms(2) by (elim allE impE)
  then show "version (stream k ! n) = int n + 1" "by_id (ident (stream k ! n)) = Some (stream k ! n)"
    by blast+
qed

lemma alias_inv_distinct:
  assumes "alias_inv stream by_id idem key ident version"
  shows "distinct (map ident (stream k))"
proof -
  have "i = j" if "i < length (stream k)" "j < length (stream k)" "ident (stream k ! i) = ident (stream k ! j)" for i j
  proof -
    have "stream k ! i = stream k ! j"
      using alias_inv_nth(2) [OF assms that(1)] alias_inv_nth(2) [OF assms that(2)] that(3)
      by (metis option.inject)
    then have "int i + 1 = int j + 1" using alias_inv_nth(1) [OF assms that(1)] alias_inv_nth(1) [OF assms that(2)] by metis
    then show "i = j" by linarith
  qed
  then show ?thesis by (auto simp: distinct_conv_nth)
qed

lemma alias_inv_bind:
  "alias_inv stream by_id idem key ident version \<Longrightarrow> by_id i = Some r \<Longrightarrow>
     alias_inv stream by_id (idem(j \<mapsto> r)) key ident version"
  unfolding alias_inv_def by (simp split: if_split_asm)

lemma alias_inv_append:
  assumes inv: "alias_inv stream by_id idem key ident version"
    and new: "by_id (ident r) = None" and ver: "version r = int (length (stream (key r))) + 1"
  shows "alias_inv (stream(key r := stream (key r) @ [r])) (by_id(ident r \<mapsto> r)) (idem(j \<mapsto> r)) key ident version"
proof -
  have fresh: "ident (stream k ! n) \<noteq> ident r" if "n < length (stream k)" for k n
    using inv new that unfolding alias_inv_def by (metis option.distinct(1))
  have "version (s ! n) = int n + 1 \<and> key (s ! n) = k \<and> (by_id(ident r \<mapsto> r)) (ident (s ! n)) = Some (s ! n)"
    if "s = (stream(key r := stream (key r) @ [r])) k" "n < length s" for k n s
  proof (cases "k = key r \<and> n = length (stream k)")
    case True
    with that ver show ?thesis by simp
  next
    case False
    with that have "s ! n = stream k ! n" "n < length (stream k)"
      by (auto simp: nth_append split: if_splits)
    with fresh [of n k] inv show ?thesis unfolding alias_inv_def by simp
  qed
  moreover have "x \<in> set ((stream(key r := stream (key r) @ [r])) (key x))" if "x \<in> set (stream (key x))" for x
    using that by (cases "key x = key r") auto
  moreover have "ident x = i \<and> x \<in> set (stream (key x))" if "by_id i = Some x" for i x
    using inv that unfolding alias_inv_def by blast
  moreover have "by_id (ident x) = Some x" "ident x \<noteq> ident r" if "idem i = Some x" for i x
    using inv new that unfolding alias_inv_def by (metis option.distinct(1))+
  ultimately show ?thesis unfolding alias_inv_def by (simp split: if_split_asm)
qed

locale alias_store =
  fixes append :: "'s \<Rightarrow> 'r \<Rightarrow> int \<Rightarrow> ('s \<times> 'e) res"
    and stream :: "'s \<Rightarrow> 'k \<Rightarrow> 'r list"
    and by_id :: "'s \<Rightarrow> string \<Rightarrow> 'r option"
    and idem :: "'s \<Rightarrow> 'i \<Rightarrow> 'r option"
    and key :: "'r \<Rightarrow> 'k"
    and ikey :: "'r \<Rightarrow> 'i"
    and same :: "'r \<Rightarrow> 'r \<Rightarrow> bool"
    and value_of :: "'r \<Rightarrow> 'e"
    and ident :: "'r \<Rightarrow> string"
    and version :: "'r \<Rightarrow> int"
  assumes append_Inr: "append st r n = Inr (st', e) \<Longrightarrow>
      (\<exists>p. idem st (ikey r) = Some p \<and> same p r \<and> st' = st \<and> e = value_of p)
      \<or> (\<exists>p. idem st (ikey r) = None \<and> n = int (length (stream st (key r))) \<and> by_id st (ident r) = Some p
         \<and> same p r \<and> stream st' = stream st \<and> by_id st' = by_id st
         \<and> idem st' = (idem st)(ikey r \<mapsto> p) \<and> e = value_of p)
      \<or> (\<exists>a. idem st (ikey r) = None \<and> n = int (length (stream st (key r))) \<and> by_id st (ident r) = None
         \<and> key a = key r \<and> ident a = ident r \<and> version a = n + 1
         \<and> (\<forall>r'. same a r' \<longleftrightarrow> same r r') \<and> same r r
         \<and> stream st' = (stream st)(key a := stream st (key a) @ [a])
         \<and> by_id st' = (by_id st)(ident a \<mapsto> a) \<and> idem st' = (idem st)(ikey r \<mapsto> a) \<and> e = value_of a)"
    and append_known: "idem st (ikey r) = Some p \<Longrightarrow> same p r \<Longrightarrow> append st r n = Inr (st, value_of p)"
begin

abbreviation "store_ok st \<equiv> alias_inv (stream st) (by_id st) (idem st) key ident version"

lemma append_ok:
  assumes "store_ok st" and "append st r n = Inr (st', e)"
  shows "store_ok st'"
  using append_Inr [OF assms(2)]
proof (elim disjE exE conjE)
  fix p assume "by_id st (ident r) = Some p" "stream st' = stream st" "by_id st' = by_id st"
    "idem st' = (idem st)(ikey r \<mapsto> p)"
  then show ?thesis using alias_inv_bind [OF assms(1)] by simp
next
  fix a assume a: "n = int (length (stream st (key r)))" "by_id st (ident r) = None" "key a = key r"
    "ident a = ident r" "version a = n + 1" "stream st' = (stream st)(key a := stream st (key a) @ [a])"
    "by_id st' = (by_id st)(ident a \<mapsto> a)" "idem st' = (idem st)(ikey r \<mapsto> a)"
  from a(1-5) have new: "by_id st (ident a) = None" "version a = int (length (stream st (key a))) + 1" by simp_all
  show ?thesis unfolding a(6-8) by (rule alias_inv_append [OF assms(1) new])
qed (use assms(1) in simp)

lemma append_prefix: "append st r n = Inr (st', e) \<Longrightarrow> \<exists>new. stream st' k = stream st k @ new"
  using append_Inr [of st r n st' e] by auto

lemma append_keeps_id: "append st r n = Inr (st', e) \<Longrightarrow> by_id st i = Some x \<Longrightarrow> by_id st' i = Some x"
  using append_Inr [of st r n st' e] by auto

lemma append_keeps_idem: "append st r n = Inr (st', e) \<Longrightarrow> idem st i = Some x \<Longrightarrow> idem st' i = Some x"
  using append_Inr [of st r n st' e] by auto

text \<open>What an append returns is retained under the idempotency key of the record.\<close>

lemma append_bound:
  "append st r n = Inr (st', e) \<Longrightarrow> \<exists>x. idem st' (ikey r) = Some x \<and> same x r \<and> e = value_of x"
  using append_Inr [of st r n st' e] by auto

lemma append_later:
  assumes "idem st (ikey r) = Some x" and "same x r'" and "ikey r' = ikey r"
  shows "append st r' m = Inr (st, value_of x)"
  using append_known [of st r'] assms by simp

lemma append_added:
  assumes "append st r n = Inr (st', e)" and "stream st' k \<noteq> stream st k"
  obtains a where "k = key a" "key a = key r" "n = int (length (stream st k))" "stream st' k = stream st k @ [a]"
    "version a = n + 1" "e = value_of a"
proof -
  from append_Inr [OF assms(1)] assms(2)
  obtain a where "key a = key r" "n = int (length (stream st (key r)))" "version a = n + 1" "e = value_of a"
    and s: "stream st' = (stream st)(key a := stream st (key a) @ [a])" by auto
  moreover have "k = key a" using assms(2) s by (auto split: if_splits)
  ultimately show ?thesis using that [of a] s by simp
qed

text \<open>Of two appends that expect the same version of a stream, at most one adds an entry.\<close>

lemma append_race:
  assumes "append st r n = Inr (st1, e)" "stream st1 (key r) \<noteq> stream st (key r)"
    and "append st1 r' n = Inr (st2, e')"
  shows "stream st2 (key r) = stream st1 (key r)"
proof (rule ccontr)
  assume "stream st2 (key r) \<noteq> stream st1 (key r)"
  from append_added [OF assms(3) this] have "n = int (length (stream st1 (key r)))" by blast
  moreover from append_added [OF assms(1,2)] obtain a where "n = int (length (stream st (key r)))"
    "stream st1 (key r) = stream st (key r) @ [a]" by blast
  ultimately show False by simp
qed

end

end
