(* ===== verification/SelectionService.thy ===== *)
theory SelectionService
  imports SelectionEvaluator AliasStore
begin

text \<open>
  The history of selections and the service: \<open>app/runtime/worker_selection/ports.py\<close> and
  \<open>service.py\<close>.  The lock makes an \<open>append\<close> one step, so a state is the three
  dictionaries; the clock that \<open>append\<close> reads for \<open>recorded_at\<close> is an argument.  A stream
  that \<open>setdefault\<close> creates is the empty list, which is what an absent stream reads as.
\<close>

section \<open>The history\<close>

record selection_record =
  hr_request :: selection_request
  hr_selection :: worker_selection
  hr_key :: string
  hr_input :: string

type_synonym stream_key = "string \<times> string"
type_synonym operation_key = "stream_key \<times> string \<times> string"

record selection_state =
  hs_streams :: "stream_key \<Rightarrow> selection_record list"
  hs_by_id :: "string \<rightharpoonup> selection_record"
  hs_idempotency :: "operation_key \<rightharpoonup> selection_record"

definition selection_init :: selection_state where
  "selection_init = \<lparr>hs_streams = (\<lambda>_. []), hs_by_id = Map.empty, hs_idempotency = Map.empty\<rparr>"

definition selection_stream_key :: "selection_record \<Rightarrow> stream_key" where
  "selection_stream_key r = (ws_organization (hr_selection r), ws_workload (hr_selection r))"

definition selection_operation_key :: "selection_record \<Rightarrow> operation_key" where
  "selection_operation_key r = (selection_stream_key r, ''evaluate'', hr_key r)"

definition selection_conflict :: exc where
  "selection_conflict = SelectionError SelectionIdempotencyConflict"

definition selection_append ::
  "instant \<Rightarrow> selection_state \<Rightarrow> selection_record \<Rightarrow> int \<Rightarrow> (selection_state \<times> worker_selection) res"
where
  "selection_append now st r expected_version =
     (let selection = hr_selection r; key = selection_stream_key r; op = selection_operation_key r in
      case hs_idempotency st op of
        Some prior \<Rightarrow>
          if hr_input prior \<noteq> hr_input r then Inl selection_conflict
          else Inr (st, hr_selection prior)
      | None \<Rightarrow>
          (let stream = hs_streams st key; current_version = int (length stream) in
           if expected_version \<noteq> current_version then Inl (SelectionError SelectionVersionConflict)
           else
             (case hs_by_id st (ws_id selection) of
                Some prior \<Rightarrow>
                  if hr_input prior \<noteq> hr_input r then Inl selection_conflict
                  else Inr (st\<lparr>hs_idempotency := (hs_idempotency st)(op \<mapsto> prior)\<rparr>, hr_selection prior)
              | None \<Rightarrow>
                  (let accepted = selection\<lparr>ws_version := current_version + 1, ws_recorded := Some now\<rparr>;
                       accepted_record = r\<lparr>hr_selection := accepted\<rparr>
                   in Inr (\<lparr>hs_streams = (hs_streams st)(key := stream @ [accepted_record]),
                            hs_by_id = (hs_by_id st)(ws_id accepted \<mapsto> accepted_record),
                            hs_idempotency = (hs_idempotency st)(op \<mapsto> accepted_record)\<rparr>, accepted)))))"

definition selection_get :: "selection_state \<Rightarrow> string \<Rightarrow> worker_selection option" where
  "selection_get st i = map_option hr_selection (hs_by_id st i)"

definition selection_history :: "selection_state \<Rightarrow> string \<Rightarrow> string \<Rightarrow> worker_selection list" where
  "selection_history st organization workload = map hr_selection (hs_streams st (organization, workload))"

definition selection_current :: "selection_state \<Rightarrow> string \<Rightarrow> string \<Rightarrow> worker_selection option" where
  "selection_current st organization workload =
     (let history = selection_history st organization workload in
      if history = [] then None else Some (last history))"

section \<open>The service\<close>

definition selection_evaluate ::
  "normalizer \<Rightarrow> instant \<Rightarrow> selection_state \<Rightarrow> selection_request \<Rightarrow> int \<Rightarrow> string
    \<Rightarrow> (selection_state \<times> worker_selection) res"
where
  "selection_evaluate uni now st q expected_version key =
     bindr (raise_if (key = []) selection_invalid) (\<lambda>_.
     bindr (selection_hash ''worker-selection-service-input'' (selection_request_doc q)) (\<lambda>input_hash.
     bindr (evaluate_selection uni q (expected_version + 1)) (\<lambda>selection.
       selection_append now st \<lparr>hr_request = q, hr_selection = selection, hr_key = key, hr_input = input_hash\<rparr>
         expected_version)))"

definition selection_replay :: "normalizer \<Rightarrow> selection_state \<Rightarrow> string \<Rightarrow> worker_selection res" where
  "selection_replay uni st i =
     (case hs_by_id st i of
        None \<Rightarrow> Inl (SelectionError SelectionReplayFailed)
      | Some r \<Rightarrow>
          bindr (evaluate_selection uni (hr_request r) (ws_version (hr_selection r))) (\<lambda>replayed.
          let expected = hr_selection r in
          bindr (raise_if (ws_id replayed \<noteq> ws_id expected \<or> ws_hash replayed \<noteq> ws_hash expected
              \<or> sm_output_hash (ws_metadata replayed) \<noteq> sm_output_hash (ws_metadata expected))
              (SelectionError SelectionReplayDiverged)) (\<lambda>_.
            Inr (replayed\<lparr>ws_recorded := ws_recorded expected\<rparr>))))"

section \<open>The store as an interface\<close>

definition same_input :: "selection_record \<Rightarrow> selection_record \<Rightarrow> bool" where
  "same_input a b \<longleftrightarrow> hr_input a = hr_input b"

interpretation selections: alias_store "selection_append now" hs_streams hs_by_id hs_idempotency
  selection_stream_key selection_operation_key same_input hr_selection
  "\<lambda>r. ws_id (hr_selection r)" "\<lambda>r. ws_version (hr_selection r)"
  for now
proof
  fix st st' r n e p
  assume a: "selection_append now st r n = Inr (st', e)"
  let ?a = "r\<lparr>hr_selection := (hr_selection r)\<lparr>ws_version := n + 1, ws_recorded := Some now\<rparr>\<rparr>"
  have "selection_stream_key ?a = selection_stream_key r" "same_input ?a r' \<longleftrightarrow> same_input r r'" for r'
    by (simp_all add: selection_stream_key_def same_input_def)
  then show "(\<exists>p. hs_idempotency st (selection_operation_key r) = Some p \<and> same_input p r \<and> st' = st
        \<and> e = hr_selection p)
      \<or> (\<exists>p. hs_idempotency st (selection_operation_key r) = None
         \<and> n = int (length (hs_streams st (selection_stream_key r)))
         \<and> hs_by_id st (ws_id (hr_selection r)) = Some p
         \<and> same_input p r \<and> hs_streams st' = hs_streams st \<and> hs_by_id st' = hs_by_id st
         \<and> hs_idempotency st' = (hs_idempotency st)(selection_operation_key r \<mapsto> p) \<and> e = hr_selection p)
      \<or> (\<exists>a. hs_idempotency st (selection_operation_key r) = None
         \<and> n = int (length (hs_streams st (selection_stream_key r)))
         \<and> hs_by_id st (ws_id (hr_selection r)) = None
         \<and> selection_stream_key a = selection_stream_key r \<and> ws_id (hr_selection a) = ws_id (hr_selection r)
         \<and> ws_version (hr_selection a) = n + 1
         \<and> (\<forall>r'. same_input a r' \<longleftrightarrow> same_input r r') \<and> same_input r r
         \<and> hs_streams st' = (hs_streams st)(selection_stream_key a := hs_streams st (selection_stream_key a) @ [a])
         \<and> hs_by_id st' = (hs_by_id st)(ws_id (hr_selection a) \<mapsto> a)
         \<and> hs_idempotency st' = (hs_idempotency st)(selection_operation_key r \<mapsto> a) \<and> e = hr_selection a)"
    using a unfolding selection_append_def Let_def
    by (intro disjCI) (auto simp: same_input_def split: option.splits if_splits intro!: exI [of _ ?a])
qed (simp add: selection_append_def same_input_def)

end
