(* ===== verification/SelectionProperties.thy ===== *)
theory SelectionProperties
  imports SelectionService
begin

text \<open>
  Facts on the evaluator: what the loop over the workers collects, what the ranking keeps,
  the arithmetic of the scores; and the invariant of the history over the runs of the
  service.
\<close>

section \<open>Scores\<close>

text \<open>The number a piece of score evidence denotes; missing evidence counts as 0.\<close>

definition evidence_value :: "normalizer \<Rightarrow> string option \<Rightarrow> real" where
  "evidence_value uni raw =
     (case raw of
        None \<Rightarrow> 0
      | Some v \<Rightarrow>
          (case parse_decimal uni v of
             Some (DecFinite neg c e) \<Rightarrow> (if neg then - 1 else 1) * dec_real c e
           | _ \<Rightarrow> 0))"

lemma quantize6_0 [simp]: "quantize6 0 e = 0"
  by (simp add: quantize6_def half_even_def)

lemma dec_real_0 [simp]: "dec_real 0 e = 0"
  by (simp add: dec_real_def)

lemma score_decimal_Inr:
  assumes "score_decimal uni v = Inr x"
  shows "fx_micros x \<le> 1000000" and "fx_neg x \<longrightarrow> fx_micros x = 0"
    and "\<bar>real (fx_micros x) - 1000000 * evidence_value uni (Some v)\<bar> \<le> 1 / 2"
proof -
  from assms obtain neg c e where d: "parse_decimal uni v = Some (DecFinite neg c e)"
    "\<not> (neg \<and> c \<noteq> 0 \<or> \<not> neg \<and> above_one c e)" "x = Fixed6 neg (quantize6 c e)"
    by (auto simp: score_decimal_def split: option.splits pydecimal.splits if_splits)
  show "fx_micros x \<le> 1000000" "fx_neg x \<longrightarrow> fx_micros x = 0"
    using d(2,3) quantize6_le [of c e] by auto
  show "\<bar>real (fx_micros x) - 1000000 * evidence_value uni (Some v)\<bar> \<le> 1 / 2"
    using d quantize6_error [of c e] by (auto simp: evidence_value_def)
qed

lemma score_component_Inr:
  assumes "score_component_of uni scores ev d = Inr c" and "0 \<le> cf_weight d" "cf_weight d \<le> 1000000"
  obtains m where "m \<le> 1000000" "decimal_micros (parse_decimal uni (sc_weighted c)) = int m * cf_weight d"
    "\<bar>real m - 1000000 * evidence_value uni (map_of scores (cf_code d))\<bar> \<le> 1 / 2"
    "sc_code c = cf_code d" "sc_weight c = cf_weight d" "sc_raw c = map_of scores (cf_code d)"
proof -
  define raw where "raw = map_of scores (cf_code d)"
  from assms(1) obtain x where x: "(case raw of None \<Rightarrow> Inr (Fixed6 False 0) | Some v \<Rightarrow> score_decimal uni v) = Inr x"
    and c: "sc_weighted c = fixed6_text (weighted_decimal x (cf_weight d))" "sc_code c = cf_code d"
      "sc_weight c = cf_weight d" "sc_raw c = raw"
    by (auto simp: score_component_of_def Let_def raw_def res_simps)
  have m: "fx_micros x \<le> 1000000" "fx_neg x \<longrightarrow> fx_micros x = 0"
    "\<bar>real (fx_micros x) - 1000000 * evidence_value uni raw\<bar> \<le> 1 / 2"
    using x score_decimal_Inr [of uni _ x]
    by (cases raw; auto simp: evidence_value_def)+
  obtain w where w: "cf_weight d = int w" using assms(2) by (metis zero_le_imp_eq_int)
  have "fx_micros x * w \<le> 1000000 * 1000000" using m(1) w assms(3) by (intro mult_le_mono) simp_all
  then have "decimal_micros (parse_decimal uni (sc_weighted c)) = int (fx_micros x) * cf_weight d"
    using m(2) w c(1) by (auto simp: weighted_decimal_def quantize6_def micros_fixed6)
  with m c show ?thesis using that [of "fx_micros x"] by (simp add: raw_def)
qed

text \<open>The weights of the registered policy add up to 100.\<close>

lemma scoring_policy_for_Inr: "scoring_policy_for v = Inr p \<Longrightarrow> p = scoring_policy_v1"
  by (auto simp: scoring_policy_for_def policy_registry_def split: if_splits)

lemma policy_v1_weights:
  "\<forall>d \<in> set (sp_components scoring_policy_v1). 0 \<le> cf_weight d \<and> cf_weight d \<le> 1000000"
  "sum_list (map cf_weight (sp_components scoring_policy_v1)) = 100"
  by (simp_all add: scoring_policy_v1_def)

definition weighted_value :: "normalizer \<Rightarrow> (string \<times> string) list \<Rightarrow> scoring_policy \<Rightarrow> real" where
  "weighted_value uni scores p =
     sum_list (map (\<lambda>d. of_int (cf_weight d) * evidence_value uni (map_of scores (cf_code d))) (sp_components p))"

lemma score_total_bounds:
  assumes "mapr (score_component_of uni scores ev) ds = Inr cs"
    and "\<forall>d \<in> set ds. 0 \<le> cf_weight d \<and> cf_weight d \<le> 1000000"
  shows "0 \<le> score_total uni cs \<and> score_total uni cs \<le> 1000000 * sum_list (map cf_weight ds)
    \<and> \<bar>real_of_int (score_total uni cs)
        - 1000000 * sum_list (map (\<lambda>d. of_int (cf_weight d) * evidence_value uni (map_of scores (cf_code d))) ds)\<bar>
      \<le> sum_list (map cf_weight ds) / 2"
  using assms
proof (induction ds arbitrary: cs)
  case (Cons d ds)
  then obtain c cs' where c: "score_component_of uni scores ev d = Inr c" "cs = c # cs'"
    "mapr (score_component_of uni scores ev) ds = Inr cs'" by (auto simp: bindr_Inr_conv)
  from Cons.prems(2) have w: "0 \<le> cf_weight d" "cf_weight d \<le> 1000000" by simp_all
  obtain m where m: "m \<le> 1000000" "decimal_micros (parse_decimal uni (sc_weighted c)) = int m * cf_weight d"
    "\<bar>real m - 1000000 * evidence_value uni (map_of scores (cf_code d))\<bar> \<le> 1 / 2"
    using score_component_Inr [OF c(1) w] .
  have bounds: "int m * cf_weight d \<le> 1000000 * cf_weight d" "0 \<le> int m * cf_weight d"
    using m(1) w(1) by (auto intro: mult_right_mono)
  have error: "\<bar>real_of_int (int m * cf_weight d) - 1000000 * (of_int (cf_weight d) * evidence_value uni (map_of scores (cf_code d)))\<bar>
      \<le> of_int (cf_weight d) / 2"
  proof -
    have "\<bar>of_int (cf_weight d) * (real m - 1000000 * evidence_value uni (map_of scores (cf_code d)))\<bar>
      \<le> of_int (cf_weight d) * (1 / 2)"
      unfolding abs_mult using m(3) w(1) by (intro mult_mono) simp_all
    then show ?thesis by (simp add: algebra_simps)
  qed
  have add: "score_total uni cs = int m * cf_weight d + score_total uni cs'"
    using c(2) m(2) by (simp add: score_total_def)
  have ih: "0 \<le> score_total uni cs' \<and> score_total uni cs' \<le> 1000000 * sum_list (map cf_weight ds)
    \<and> \<bar>real_of_int (score_total uni cs')
        - 1000000 * sum_list (map (\<lambda>d. of_int (cf_weight d) * evidence_value uni (map_of scores (cf_code d))) ds)\<bar>
      \<le> sum_list (map cf_weight ds) / 2"
    by (rule Cons.IH [OF c(3)]) (use Cons.prems(2) in simp)
  show ?case unfolding add list.map sum_list.Cons of_int_add distrib_left_numeral add_divide_distrib
    using bounds error conjunct1 [OF ih] conjunct1 [OF conjunct2 [OF ih]] conjunct2 [OF conjunct2 [OF ih]]
    by (intro conjI) linarith+
qed (simp add: score_total_def)

lemma score_components_bounds:
  assumes "score_components uni scores ev scoring_policy_v1 = Inr cs"
  shows "0 \<le> score_total uni cs" "score_total uni cs \<le> 100000000"
    "\<bar>real_of_int (score_total uni cs) - 1000000 * weighted_value uni scores scoring_policy_v1\<bar> \<le> 50"
  using score_total_bounds [OF assms [unfolded score_components_def] policy_v1_weights(1)]
  unfolding weighted_value_def policy_v1_weights(2) by simp_all

section \<open>Eligibility\<close>

text \<open>The hard constraints of the evaluator, as one condition.\<close>

definition eligible :: "selection_request \<Rightarrow> worker_readiness \<Rightarrow> bool" where
  "eligible q r \<longleftrightarrow>
     wr_organization r = sq_organization q \<and> wr_workload r = sq_workload q
     \<and> wr_hash r \<noteq> [] \<and> wr_reference r \<noteq> [] \<and> wr_schema r = ''worker-readiness.v1''
     \<and> sq_boundary q \<le> wr_expires r \<and> wr_ready r
     \<and> set (sq_capabilities q) \<subseteq> set (wr_capabilities r)
     \<and> wr_policy_pass r = Some True \<and> wr_consistent r"

lemma sort_Nil_conv [simp]: "sort xs = [] \<longleftrightarrow> xs = []"
  by (metis length_0_conv length_sort)

lemma exclusion_reasons_Nil: "exclusion_reasons q r = [] \<longleftrightarrow> eligible q r"
  by (auto simp: exclusion_reasons_def eligible_def split: option.splits if_splits)

section \<open>The loop over the workers\<close>

definition scored :: "normalizer \<Rightarrow> worker_readiness \<Rightarrow> worker_readiness \<times> score_component list \<times> int" where
  "scored uni r =
     (case score_components uni (wr_scores r) (wr_evidence r) scoring_policy_v1 of
        Inr cs \<Rightarrow> (r, cs, score_total uni cs)
      | Inl _ \<Rightarrow> (r, [], 0))"

definition worker_score :: "normalizer \<Rightarrow> worker_readiness \<Rightarrow> int" where
  "worker_score uni r = snd (snd (scored uni r))"

lemma fst_scored [simp]: "fst (scored uni r) = r"
  by (simp add: scored_def split: sum.split)

lemma scored_Inr:
  "score_components uni (wr_scores r) (wr_evidence r) scoring_policy_v1 = Inr cs \<Longrightarrow>
     scored uni r = (r, cs, score_total uni cs)"
  by (simp add: scored_def)

lemma worker_score_bounds: "0 \<le> worker_score uni r \<and> worker_score uni r \<le> 100000000"
  using score_components_bounds(1,2) [of uni "wr_scores r" "wr_evidence r"]
  by (auto simp: worker_score_def scored_def split: sum.split)

lemma assess_fold:
  assumes "fold_res (assess_worker uni q scoring_policy_v1) acc rs = Inr a"
  shows "as_provisional a = as_provisional acc @ map (scored uni) (filter (eligible q) rs)
    \<and> as_categories a = as_categories acc @ concat (map (exclusion_reasons q) rs)
    \<and> (\<forall>r \<in> set rs. eligible q r \<longrightarrow> is_ok (score_components uni (wr_scores r) (wr_evidence r) scoring_policy_v1))
    \<and> (\<exists>xs. as_exclusions a = as_exclusions acc @ xs
      \<and> list_all2 (\<lambda>r x. make_exclusion r (exclusion_reasons q r) = Inr x) (filter (\<lambda>r. \<not> eligible q r) rs) xs)"
  using assms
proof (induction rs arbitrary: acc)
  case (Cons r rs)
  then obtain acc' where acc': "assess_worker uni q scoring_policy_v1 acc r = Inr acc'"
    "fold_res (assess_worker uni q scoring_policy_v1) acc' rs = Inr a" by (auto simp: bindr_Inr_conv)
  show ?case
  proof (cases "eligible q r")
    case True
    then have n: "exclusion_reasons q r = []" by (simp add: exclusion_reasons_Nil)
    with acc'(1) obtain cs where cs: "score_components uni (wr_scores r) (wr_evidence r) scoring_policy_v1 = Inr cs"
      "acc' = acc\<lparr>as_provisional := as_provisional acc @ [(r, cs, score_total uni cs)]\<rparr>"
      by (auto simp: assess_worker_def Let_def bindr_Inr_conv)
    from Cons.IH [OF acc'(2)] show ?thesis using True n cs by (simp add: scored_Inr)
  next
    case False
    then have n: "exclusion_reasons q r \<noteq> []" by (simp add: exclusion_reasons_Nil)
    with acc'(1) obtain x where x: "make_exclusion r (exclusion_reasons q r) = Inr x"
      "acc' = acc\<lparr>as_exclusions := as_exclusions acc @ [x], as_categories := as_categories acc @ exclusion_reasons q r\<rparr>"
      by (auto simp: assess_worker_def Let_def bindr_Inr_conv)
    from Cons.IH [OF acc'(2)] show ?thesis using False x by auto
  qed
qed simp

lemma make_exclusion_Inr:
  "make_exclusion r reasons = Inr x \<Longrightarrow>
     xw_worker x = wr_worker r \<and> xw_readiness x = wr_reference r \<and> xw_reasons x = reasons"
  by (auto simp: make_exclusion_def Let_def bindr_Inr_conv)

section \<open>The ranking\<close>

lemma sort_key_map: "sort_key f (map g xs) = map g (sort_key (f \<circ> g) xs)"
proof -
  have "insort_key f (g x) (map g ys) = map g (insort_key (f \<circ> g) x ys)" for x ys
    by (induction ys) auto
  then show ?thesis by (induction xs) (simp_all add: sort_key_def)
qed

definition worker_rank :: "normalizer \<Rightarrow> worker_readiness \<Rightarrow> int \<times> instant \<times> string" where
  "worker_rank uni r = (- worker_score uni r, wr_evaluated r, wr_worker r)"

lemma rank_key_scored: "rank_key \<circ> scored uni = worker_rank uni"
  by (rule ext) (simp add: rank_key_def worker_rank_def worker_score_def scored_def split: sum.split)

text \<open>The workers that remain, best first.\<close>

definition ranked :: "normalizer \<Rightarrow> selection_request \<Rightarrow> worker_readiness list" where
  "ranked uni q = sort_key (worker_rank uni) (filter (eligible q) (sq_readiness q))"

lemma make_candidate_Inr:
  "make_candidate q i rank item = Inr c \<Longrightarrow>
     cn_worker c = wr_worker (fst item) \<and> cn_readiness c = wr_reference (fst item)
     \<and> cn_score c = total_text (snd (snd item)) \<and> cn_rank c = int rank \<and> cn_components c = fst (snd item)
     \<and> cn_evaluated c = wr_evaluated (fst item)"
  by (cases item) (auto simp: make_candidate_def Let_def bindr_Inr_conv)

lemma rank_candidates_Inr:
  assumes "rank_candidates q i (map (scored uni) rs) = Inr cs"
  shows "length cs = length rs"
    and "n < length rs \<Longrightarrow> make_candidate q i (Suc n) (scored uni (sort_key (worker_rank uni) rs ! n)) = Inr (cs ! n)"
proof -
  have l: "list_all2 (\<lambda>x c. (case x of (rank, item) \<Rightarrow> make_candidate q i rank item) = Inr c)
      (enumerate 1 (map (scored uni) (sort_key (worker_rank uni) rs))) cs"
    using assms by (simp add: rank_candidates_def mapr_Inr_conv sort_key_map rank_key_scored)
  then show len: "length cs = length rs" by (simp add: list_all2_lengthD [symmetric])
  show "make_candidate q i (Suc n) (scored uni (sort_key (worker_rank uni) rs ! n)) = Inr (cs ! n)" if "n < length rs"
    using list_all2_nthD [OF l, of n] that by (simp add: nth_enumerate_eq)
qed

section \<open>What an evaluation returns\<close>

lemma evaluate_selection_Inr:
  assumes "evaluate_selection uni q v = Inr s"
  obtains a where "validate_selection_request q = Inr ()" "scoring_policy_for (sq_policy q) = Inr scoring_policy_v1"
    "selection_identity q = Inr (ws_id s)" "assess_workers uni q scoring_policy_v1 = Inr a"
    "rank_candidates q (ws_id s) (as_provisional a) = Inr (ws_candidates s)"
    "ws_excluded s = as_exclusions a" "ws_outcome s = selection_outcome_of (ws_candidates s) (as_categories a)"
    "ws_version s = v" "ws_recorded s = None" "ws_organization s = sq_organization q" "ws_workload s = sq_workload q"
proof -
  from assms obtain p i a cs m h where e: "validate_selection_request q = Inr ()" "scoring_policy_for (sq_policy q) = Inr p"
    "selection_identity q = Inr i" "assess_workers uni q p = Inr a" "rank_candidates q i (as_provisional a) = Inr cs"
    and s: "s = \<lparr>ws_id = i, ws_organization = sq_organization q,
           ws_workload = sq_workload q, ws_version = v, ws_outcome = selection_outcome_of cs (as_categories a),
           ws_candidates = cs, ws_excluded = as_exclusions a,
           ws_inputs = sort ([sq_plan q, sq_requirements q, sq_constraints q]
             @ map wr_reference (sq_readiness q) @ sq_preferences q),
           ws_policy = sq_policy q, ws_evaluator = sq_evaluator q, ws_schema = sq_schema q,
           ws_metadata = m, ws_hash = h, ws_evaluated = sq_boundary q, ws_recorded = None\<rparr>"
    unfolding evaluate_selection_def Let_def
    by (simp only: bindr_Inr_conv, elim exE conjE) auto
  then show ?thesis using that [of a] scoring_policy_for_Inr [OF e(2)] by simp
qed

lemma evaluate_selection_parts:
  assumes "evaluate_selection uni q v = Inr s"
  shows "length (ws_candidates s) = length (ranked uni q)"
    and "n < length (ranked uni q) \<Longrightarrow>
      make_candidate q (ws_id s) (Suc n) (scored uni (ranked uni q ! n)) = Inr (ws_candidates s ! n)"
    and "list_all2 (\<lambda>r x. make_exclusion r (exclusion_reasons q r) = Inr x)
      (filter (\<lambda>r. \<not> eligible q r) (sq_readiness q)) (ws_excluded s)"
    and "r \<in> set (sq_readiness q) \<Longrightarrow> eligible q r \<Longrightarrow>
      \<exists>cs. score_components uni (wr_scores r) (wr_evidence r) scoring_policy_v1 = Inr cs"
    and "ws_outcome s = selection_outcome_of (ws_candidates s) (concat (map (exclusion_reasons q) (sq_readiness q)))"
    and "distinct (map wr_worker (sq_readiness q))"
proof -
  obtain a where e: "validate_selection_request q = Inr ()" "assess_workers uni q scoring_policy_v1 = Inr a"
    "rank_candidates q (ws_id s) (as_provisional a) = Inr (ws_candidates s)"
    "ws_excluded s = as_exclusions a" "ws_outcome s = selection_outcome_of (ws_candidates s) (as_categories a)"
    by (rule evaluate_selection_Inr [OF assms])
  from assess_fold [OF e(2) [unfolded assess_workers_def]]
  have a: "as_provisional a = map (scored uni) (filter (eligible q) (sq_readiness q))"
    "as_categories a = concat (map (exclusion_reasons q) (sq_readiness q))"
    "list_all2 (\<lambda>r x. make_exclusion r (exclusion_reasons q r) = Inr x)
      (filter (\<lambda>r. \<not> eligible q r) (sq_readiness q)) (as_exclusions a)"
    "\<forall>r \<in> set (sq_readiness q). eligible q r \<longrightarrow> is_ok (score_components uni (wr_scores r) (wr_evidence r) scoring_policy_v1)"
    by auto
  note r = rank_candidates_Inr [OF e(3) [unfolded a(1)]]
  show "length (ws_candidates s) = length (ranked uni q)" using r(1) by (simp add: ranked_def)
  show "n < length (ranked uni q) \<Longrightarrow>
      make_candidate q (ws_id s) (Suc n) (scored uni (ranked uni q ! n)) = Inr (ws_candidates s ! n)"
    using r(2) by (simp add: ranked_def)
  show "list_all2 (\<lambda>r x. make_exclusion r (exclusion_reasons q r) = Inr x)
      (filter (\<lambda>r. \<not> eligible q r) (sq_readiness q)) (ws_excluded s)" using a(3) e(4) by simp
  show "r \<in> set (sq_readiness q) \<Longrightarrow> eligible q r \<Longrightarrow>
      \<exists>cs. score_components uni (wr_scores r) (wr_evidence r) scoring_policy_v1 = Inr cs"
    using a(4) by (cases "score_components uni (wr_scores r) (wr_evidence r) scoring_policy_v1") auto
  show "ws_outcome s = selection_outcome_of (ws_candidates s) (concat (map (exclusion_reasons q) (sq_readiness q)))"
    using e(5) a(2) by simp
  show "distinct (map wr_worker (sq_readiness q))"
    using e(1) by (simp add: validate_selection_request_def res_simps)
qed

section \<open>Runs of the service\<close>

inductive selection_steps :: "normalizer \<Rightarrow> selection_state \<Rightarrow> selection_state \<Rightarrow> bool" for uni where
  none: "selection_steps uni st st"
| evaluate: "selection_steps uni st st1 \<Longrightarrow> selection_evaluate uni now st1 q n key = Inr (st2, s) \<Longrightarrow>
    selection_steps uni st st2"

definition selection_record_ok :: "normalizer \<Rightarrow> selection_record \<Rightarrow> bool" where
  "selection_record_ok uni r \<longleftrightarrow>
     (\<exists>s. evaluate_selection uni (hr_request r) (ws_version (hr_selection r)) = Inr s
       \<and> hr_selection r = s\<lparr>ws_recorded := ws_recorded (hr_selection r)\<rparr>)
     \<and> selection_hash ''worker-selection-service-input'' (selection_request_doc (hr_request r)) = Inr (hr_input r)"

definition selection_inv :: "normalizer \<Rightarrow> selection_state \<Rightarrow> bool" where
  "selection_inv uni st \<longleftrightarrow>
     alias_inv (hs_streams st) (hs_by_id st) (hs_idempotency st) selection_stream_key
       (\<lambda>r. ws_id (hr_selection r)) (\<lambda>r. ws_version (hr_selection r))
     \<and> (\<forall>i r. hs_by_id st i = Some r \<longrightarrow> selection_record_ok uni r)"

lemma selection_inv_init: "selection_inv uni selection_init"
  by (simp add: selection_inv_def selection_init_def alias_inv_empty)

lemma selection_evaluate_Inr:
  assumes "selection_evaluate uni now st q n key = Inr (st', s)"
  obtains s0 h where "key \<noteq> []" "selection_hash ''worker-selection-service-input'' (selection_request_doc q) = Inr h"
    "evaluate_selection uni q (n + 1) = Inr s0"
    "selection_append now st \<lparr>hr_request = q, hr_selection = s0, hr_key = key, hr_input = h\<rparr> n = Inr (st', s)"
  using assms by (auto simp: selection_evaluate_def res_simps)

lemma selection_append_by_id:
  assumes "selection_append now st r n = Inr (st', s)" and "hs_by_id st' i = Some x"
  shows "hs_by_id st i = Some x
    \<or> x = r\<lparr>hr_selection := (hr_selection r)\<lparr>ws_version := n + 1, ws_recorded := Some now\<rparr>\<rparr>"
  using assms by (auto simp: selection_append_def Let_def split: option.splits if_splits)

lemma selection_evaluate_inv:
  assumes "selection_inv uni st" and "selection_evaluate uni now st q n key = Inr (st', s)"
  shows "selection_inv uni st'"
proof -
  obtain s0 h where e: "selection_hash ''worker-selection-service-input'' (selection_request_doc q) = Inr h"
    "evaluate_selection uni q (n + 1) = Inr s0"
    and a: "selection_append now st \<lparr>hr_request = q, hr_selection = s0, hr_key = key, hr_input = h\<rparr> n = Inr (st', s)"
    by (rule selection_evaluate_Inr [OF assms(2)])
  have v: "ws_version s0 = n + 1" by (rule evaluate_selection_Inr [OF e(2)])
  have "selection_record_ok uni x" if "hs_by_id st' i = Some x" for i x
    using selection_append_by_id [OF a that]
  proof
    assume "hs_by_id st i = Some x"
    then show ?thesis using assms(1) by (simp add: selection_inv_def)
  next
    assume "x = \<lparr>hr_request = q, hr_selection = s0, hr_key = key, hr_input = h\<rparr>
      \<lparr>hr_selection := (hr_selection \<lparr>hr_request = q, hr_selection = s0, hr_key = key, hr_input = h\<rparr>)
        \<lparr>ws_version := n + 1, ws_recorded := Some now\<rparr>\<rparr>"
    then have "x = \<lparr>hr_request = q, hr_selection = s0\<lparr>ws_recorded := Some now\<rparr>, hr_key = key, hr_input = h\<rparr>"
      using v by (cases s0) simp
    then show ?thesis using e v by (simp add: selection_record_ok_def)
  qed
  with selections.append_ok [OF _ a] assms(1) show ?thesis by (simp add: selection_inv_def)
qed

lemma selection_evaluate_keeps:
  assumes "selection_evaluate uni now st q n key = Inr (st', s)"
  shows "hs_by_id st i = Some r \<Longrightarrow> hs_by_id st' i = Some r"
    and "hs_idempotency st j = Some r \<Longrightarrow> hs_idempotency st' j = Some r"
    and "\<exists>new. hs_streams st' k = hs_streams st k @ new"
  using selection_evaluate_Inr [OF assms]
  by (metis selections.append_keeps_id, metis selections.append_keeps_idem, metis selections.append_prefix)

lemma selection_steps_keep:
  assumes "selection_steps uni st st'"
  shows "selection_inv uni st \<Longrightarrow> selection_inv uni st'"
    and "hs_by_id st i = Some r \<Longrightarrow> hs_by_id st' i = Some r"
    and "hs_idempotency st j = Some r \<Longrightarrow> hs_idempotency st' j = Some r"
    and "\<exists>new. hs_streams st' k = hs_streams st k @ new"
  using assms
  by (induction rule: selection_steps.induct)
    (auto intro: selection_evaluate_inv selection_evaluate_keeps dest: selection_evaluate_keeps(3) [of _ _ _ _ _ _ _ _ k])

lemma selection_reachable: "selection_steps uni selection_init st \<Longrightarrow> selection_inv uni st"
  using selection_steps_keep(1) selection_inv_init by blast

text \<open>What an evaluation returned is retained, under its identifier and its operation key.\<close>

lemma selection_evaluate_retained:
  assumes "selection_inv uni st" and "selection_evaluate uni now st q n key = Inr (st', s)"
  obtains r where "hs_by_id st' (ws_id s) = Some r" "hr_selection r = s" "selection_record_ok uni r"
    "hs_idempotency st' ((sq_organization q, sq_workload q), ''evaluate'', key) = Some r"
    "selection_hash ''worker-selection-service-input'' (selection_request_doc q) = Inr (hr_input r)"
proof -
  obtain s0 h where e: "selection_hash ''worker-selection-service-input'' (selection_request_doc q) = Inr h"
    "evaluate_selection uni q (n + 1) = Inr s0"
    and a: "selection_append now st \<lparr>hr_request = q, hr_selection = s0, hr_key = key, hr_input = h\<rparr> n = Inr (st', s)"
    by (rule selection_evaluate_Inr [OF assms(2)])
  have o: "ws_organization s0 = sq_organization q" "ws_workload s0 = sq_workload q"
    by (rule evaluate_selection_Inr [OF e(2)]; assumption)+
  obtain x where x: "hs_idempotency st' ((sq_organization q, sq_workload q), ''evaluate'', key) = Some x"
    "hr_input x = h" "s = hr_selection x"
    using selections.append_bound [OF a] o by (auto simp: selection_operation_key_def selection_stream_key_def same_input_def)
  note inv = selection_evaluate_inv [OF assms]
  then have "hs_by_id st' (ws_id (hr_selection x)) = Some x"
    using x(1) unfolding selection_inv_def alias_inv_def by blast
  moreover from this have "selection_record_ok uni x" using inv by (simp add: selection_inv_def)
  ultimately show ?thesis using that x e(1) by simp
qed

text \<open>An evaluation that adds an entry binds the identifier that the evaluator computed.\<close>

lemma selection_evaluate_by_id:
  assumes "selection_evaluate uni now st q n key = Inr (st', s)" and "hs_streams st' \<noteq> hs_streams st"
    and "evaluate_selection uni q (n + 1) = Inr s0"
  shows "\<exists>r. hs_by_id st' (ws_id s0) = Some r"
  using assms by (elim selection_evaluate_Inr)
    (auto simp: selection_append_def Let_def split: option.splits if_splits)

end
