(* ===== verification/SelectionSample.thy ===== *)
theory SelectionSample
  imports SelectionProperties
begin

text \<open>
  When an evaluation returns: text that encodes, a supported policy, distinct workers and
  score evidence that is a number are all it needs.  And a concrete request, for the
  instances of the properties.
\<close>

section \<open>An evaluation returns\<close>

lemma utcoffset_utc [simp]: "utcoffset (utc i) = Some 0"
  by (simp add: utc_def)

lemma time_selection_cfg [simp]: "time_cfg selection_cfg"
  by (simp add: time_cfg_def selection_cfg_def)

lemma selection_hash_plain:
  assumes "plain_pv v"
  shows "\<exists>h. selection_hash ns v = Inr h \<and> ascii h"
  using canonical_bytes_plain [OF nfc_laws_id time_selection_cfg assms]
  by (auto simp: selection_hash_def is_sha256_hex_ascii)

lemma mapr_ok: "(\<And>x. x \<in> set xs \<Longrightarrow> \<exists>y. f x = Inr y \<and> P y) \<Longrightarrow> \<exists>ys. mapr f xs = Inr ys \<and> (\<forall>y \<in> set ys. P y)"
proof (induction xs)
  case (Cons x xs)
  then obtain y ys where "f x = Inr y" "P y" "mapr f xs = Inr ys" "\<forall>y \<in> set ys. P y" by force
  then show ?case by simp
qed simp

lemma fold_res_ok:
  "I s \<Longrightarrow> (\<And>s x. I s \<Longrightarrow> x \<in> set xs \<Longrightarrow> \<exists>s'. f s x = Inr s' \<and> I s') \<Longrightarrow> \<exists>s'. fold_res f s xs = Inr s' \<and> I s'"
proof (induction xs arbitrary: s)
  case (Cons x xs)
  from Cons.prems obtain s' where "f s x = Inr s'" "I s'" by force
  with Cons.IH [of s'] Cons.prems(2) show ?case by force
qed simp

lemma ascii_fixed6 [simp]: "ascii (fixed6_text x)"
  by (simp add: fixed6_text_def ascii_show_nat)

lemma ascii_join: "\<forall>s \<in> set ss. ascii s \<Longrightarrow> ascii sep \<Longrightarrow> ascii (join_with sep ss)"
  by (induction sep ss rule: join_with.induct) simp_all

lemma exclusion_reasons_ascii: "x \<in> set (exclusion_reasons q r) \<Longrightarrow> ascii x"
  unfolding exclusion_reasons_def by (auto split: option.splits if_splits)

lemma plain_component:
  assumes "score_component_of uni scores ev d = Inr c" and "ascii (cf_code d)" and "\<forall>x \<in> set ev. ascii x"
    and "\<forall>kv \<in> set scores. ascii (snd kv)"
  shows "plain_pv (component_doc c) \<and> ascii (sc_code c) \<and> ascii (sc_weighted c) \<and> ascii (sc_reason c)"
proof -
  have "ascii v" if "map_of scores (cf_code d) = Some v" for v
    using map_of_SomeD [OF that] assms(4) by fastforce
  then have "plain_pv (popt (map_of scores (cf_code d)))" by (cases "map_of scores (cf_code d)") simp_all
  with assms(1-3) show ?thesis
    by (auto simp: score_component_of_def Let_def bindr_Inr_conv component_doc_def split: if_splits)
qed

lemma policy_v1_ascii: "d \<in> set (sp_components scoring_policy_v1) \<Longrightarrow> ascii (cf_code d)"
  by (auto simp: scoring_policy_v1_def)

lemma score_components_ok:
  assumes "plain_pv (readiness_doc r)" and "\<forall>kv \<in> set (wr_scores r). is_ok (score_decimal uni (snd kv))"
  shows "\<exists>cs. score_components uni (wr_scores r) (wr_evidence r) scoring_policy_v1 = Inr cs
    \<and> (\<forall>c \<in> set cs. plain_pv (component_doc c) \<and> ascii (sc_code c) \<and> ascii (sc_weighted c) \<and> ascii (sc_reason c))"
  unfolding score_components_def
proof (rule mapr_ok)
  fix d assume d: "d \<in> set (sp_components scoring_policy_v1)"
  have "\<exists>x. (case map_of (wr_scores r) (cf_code d) of None \<Rightarrow> Inr (Fixed6 False 0) | Some v \<Rightarrow> score_decimal uni v) = Inr x"
  proof (cases "map_of (wr_scores r) (cf_code d)")
    case (Some v)
    then have "is_ok (score_decimal uni v)" using map_of_SomeD [OF Some] assms(2) by fastforce
    with Some show ?thesis by (cases "score_decimal uni v") simp_all
  qed simp
  then have "\<exists>c. score_component_of uni (wr_scores r) (wr_evidence r) d = Inr c"
    by (auto simp: score_component_of_def Let_def bindr_Inr_conv)
  moreover have "\<forall>x \<in> set (wr_evidence r). ascii x" "\<forall>kv \<in> set (wr_scores r). ascii (snd kv)"
    using assms(1) by (auto simp: readiness_doc_def)
  ultimately show "\<exists>c. score_component_of uni (wr_scores r) (wr_evidence r) d = Inr c
    \<and> (plain_pv (component_doc c) \<and> ascii (sc_code c) \<and> ascii (sc_weighted c) \<and> ascii (sc_reason c))"
    using plain_component policy_v1_ascii [OF d] by blast
qed

definition plain_assessment :: "assessment \<Rightarrow> bool" where
  "plain_assessment a \<longleftrightarrow>
     (\<forall>(r, cs, n) \<in> set (as_provisional a). plain_pv (readiness_doc r)
        \<and> (\<forall>c \<in> set cs. plain_pv (component_doc c) \<and> ascii (sc_code c) \<and> ascii (sc_weighted c) \<and> ascii (sc_reason c)))
     \<and> (\<forall>x \<in> set (as_exclusions a). plain_pv (exclusion_doc x))"

lemma assess_worker_ok:
  assumes "plain_assessment a" and "plain_pv (readiness_doc r)"
    and "eligible q r \<longrightarrow> (\<forall>kv \<in> set (wr_scores r). is_ok (score_decimal uni (snd kv)))"
  shows "\<exists>a'. assess_worker uni q scoring_policy_v1 a r = Inr a' \<and> plain_assessment a'"
proof (cases "eligible q r")
  case True
  with score_components_ok [OF assms(2)] assms(3) obtain cs
    where "score_components uni (wr_scores r) (wr_evidence r) scoring_policy_v1 = Inr cs"
      "\<forall>c \<in> set cs. plain_pv (component_doc c) \<and> ascii (sc_code c) \<and> ascii (sc_weighted c) \<and> ascii (sc_reason c)"
    by blast
  with True assms(1,2) show ?thesis
    by (auto simp: assess_worker_def Let_def exclusion_reasons_Nil [THEN iffD2] plain_assessment_def)
next
  case False
  let ?x = "\<lparr>xw_worker = wr_worker r, xw_readiness = wr_reference r, xw_reasons = exclusion_reasons q r,
               xw_evidence = wr_evidence r, xw_hash = []\<rparr>"
  have p: "plain_pv (exclusion_doc (?x\<lparr>xw_hash := h\<rparr>))" if "ascii h" for h
    using assms(2) that by (auto simp: exclusion_doc_def readiness_doc_def exclusion_reasons_ascii)
  obtain h where h: "selection_hash ''worker-selection-exclusion'' (exclusion_doc ?x) = Inr h" "ascii h"
    using selection_hash_plain [OF p [of "[]"]] by auto
  then have "make_exclusion r (exclusion_reasons q r) = Inr (?x\<lparr>xw_hash := h\<rparr>)" by (simp add: make_exclusion_def)
  with False assms(1) p [OF h(2)] show ?thesis
    by (auto simp: assess_worker_def Let_def exclusion_reasons_Nil plain_assessment_def)
qed

lemma make_candidate_ok:
  assumes "plain_pv (readiness_doc r)" "ascii i"
    and "\<forall>c \<in> set cs. plain_pv (component_doc c) \<and> ascii (sc_code c) \<and> ascii (sc_weighted c) \<and> ascii (sc_reason c)"
  shows "\<exists>c. make_candidate q i n (r, cs, m) = Inr c \<and> plain_pv (candidate_doc c)"
proof -
  let ?c = "\<lparr>cn_worker = wr_worker r, cn_readiness = wr_reference r, cn_score = total_text m,
                cn_rank = int n, cn_components = cs, cn_explanation = selection_explanation m cs,
                cn_reasons = map sc_reason cs, cn_evidence = wr_evidence r,
                cn_evaluated = wr_evaluated r, cn_hash = [], cn_timestamp = sq_boundary q\<rparr>"
  have "ascii (selection_explanation m cs)"
    using assms(3) by (auto simp: selection_explanation_def total_text_def intro!: ascii_join)
  then have p: "plain_pv (candidate_doc (?c\<lparr>cn_hash := h\<rparr>))" if "ascii h" for h
    using assms(1,3) that by (auto simp: candidate_doc_def readiness_doc_def total_text_def)
  have "plain_pv (pdict [(''selectionId'', PStr i), (''candidate'', candidate_doc ?c)])"
    using p [of "[]"] assms(2) by simp
  then obtain h where "selection_hash ''worker-selection-candidate''
      (pdict [(''selectionId'', PStr i), (''candidate'', candidate_doc ?c)]) = Inr h" "ascii h"
    using selection_hash_plain by blast
  with p [of h] show ?thesis by (simp add: make_candidate_def Let_def)
qed

lemma selection_identity_ok:
  "plain_pv (selection_request_doc q) \<Longrightarrow> \<exists>i. selection_identity q = Inr i \<and> ascii i"
  unfolding selection_identity_def
  by (rule selection_hash_plain) (auto simp: selection_request_doc_def readiness_doc_def)

lemma selection_outcome_ascii [simp]: "ascii (selection_outcome_value x)"
  by (cases x) simp_all

lemma selection_metadata_ok:
  assumes "plain_pv (selection_request_doc q)" "\<forall>c \<in> set cs. plain_pv (candidate_doc c)"
    "\<forall>x \<in> set xs. plain_pv (exclusion_doc x)"
  shows "\<exists>m. selection_metadata_of q scoring_policy_v1 x cs xs = Inr m \<and> plain_pv (selection_metadata_doc m)"
proof -
  obtain a where a: "selection_hash ''worker-selection-replay-input'' (selection_request_doc q) = Inr a" "ascii a"
    using selection_hash_plain [OF assms(1)] by blast
  let ?out = "pdict [
         (''outcome'', PEnum (selection_outcome_value x)), (''candidates'', PSeq (map candidate_doc cs)),
         (''excludedWorkers'', PSeq (map exclusion_doc xs))]"
  have "plain_pv ?out" using assms(2,3) by simp
  then obtain b where b: "selection_hash ''worker-selection-replay-output'' ?out = Inr b" "ascii b"
    using selection_hash_plain by blast
  have "plain_pv (scoring_policy_doc scoring_policy_v1)"
    by (simp add: scoring_policy_doc_def scoring_policy_v1_def)
  then obtain c where c: "scoring_policy_hash scoring_policy_v1 = Inr c" "ascii c"
    using selection_hash_plain unfolding scoring_policy_hash_def by blast
  have "plain_pv (PStr selection_configuration)" by (simp add: selection_configuration_def)
  then obtain d where d: "selection_hash ''worker-selection-configuration'' (PStr selection_configuration) = Inr d" "ascii d"
    using selection_hash_plain by blast
  have "\<forall>r \<in> set (sq_readiness q). ascii (wr_hash r)" "ascii (sq_history q)" "ascii (sq_evaluator q)"
    using assms(1) by (auto simp: selection_request_doc_def readiness_doc_def)
  with a b c d show ?thesis
    by (simp add: selection_metadata_of_def selection_metadata_doc_def ordering_version_def supported_serialization_def)
qed

lemma evaluate_selection_returns:
  assumes "plain_pv (selection_request_doc q)" and "validate_selection_request q = Inr ()"
    and "sq_policy q = ''worker-selection.scoring.v1''"
    and "\<forall>r \<in> set (sq_readiness q). eligible q r \<longrightarrow> (\<forall>kv \<in> set (wr_scores r). is_ok (score_decimal uni (snd kv)))"
  shows "\<exists>s. evaluate_selection uni q v = Inr s"
proof -
  have r: "\<forall>r \<in> set (sq_readiness q). plain_pv (readiness_doc r)"
    using assms(1) by (auto simp: selection_request_doc_def)
  have p: "scoring_policy_for (sq_policy q) = Inr scoring_policy_v1"
    using assms(3) by (simp add: scoring_policy_for_def policy_registry_def scoring_policy_v1_def)
  obtain i where i: "selection_identity q = Inr i" "ascii i" using selection_identity_ok [OF assms(1)] by blast
  have "\<exists>a. assess_workers uni q scoring_policy_v1 = Inr a \<and> plain_assessment a"
    unfolding assess_workers_def
    by (rule fold_res_ok) (use assess_worker_ok r assms(4) in \<open>auto simp: plain_assessment_def\<close>)
  then obtain a where a: "assess_workers uni q scoring_policy_v1 = Inr a" "plain_assessment a" by blast
  have "\<exists>cs. rank_candidates q i (as_provisional a) = Inr cs \<and> (\<forall>c \<in> set cs. plain_pv (candidate_doc c))"
    unfolding rank_candidates_def
  proof (rule mapr_ok)
    fix x assume "x \<in> set (enumerate 1 (sort_key rank_key (as_provisional a)))"
    then obtain n r cs m where x: "x = (n, r, cs, m)" "(r, cs, m) \<in> set (as_provisional a)"
    proof -
      from \<open>x \<in> set _\<close> have "snd x \<in> set (sort_key rank_key (as_provisional a))"
        by (metis in_set_enumerate_eq add_diff_inverse_nat less_diff_conv2 not_less nth_mem)
      then show ?thesis using that by (cases x) auto
    qed
    with a(2) make_candidate_ok [OF _ i(2), of r cs q n m]
    show "\<exists>c. (case x of (rank, item) \<Rightarrow> make_candidate q i rank item) = Inr c \<and> plain_pv (candidate_doc c)"
      by (auto simp: plain_assessment_def)
  qed
  then obtain cs where cs: "rank_candidates q i (as_provisional a) = Inr cs" "\<forall>c \<in> set cs. plain_pv (candidate_doc c)" by blast
  let ?o = "selection_outcome_of cs (as_categories a)"
  obtain m where m: "selection_metadata_of q scoring_policy_v1 ?o cs (as_exclusions a) = Inr m" "plain_pv (selection_metadata_doc m)"
    using selection_metadata_ok [OF assms(1) cs(2)] a(2) unfolding plain_assessment_def by blast
  let ?s = "\<lparr>ws_id = i, ws_organization = sq_organization q,
           ws_workload = sq_workload q, ws_version = v, ws_outcome = ?o,
           ws_candidates = cs, ws_excluded = as_exclusions a,
           ws_inputs = sort ([sq_plan q, sq_requirements q, sq_constraints q]
             @ map wr_reference (sq_readiness q) @ sq_preferences q),
           ws_policy = sq_policy q, ws_evaluator = sq_evaluator q, ws_schema = sq_schema q,
           ws_metadata = m, ws_hash = [], ws_evaluated = sq_boundary q, ws_recorded = None\<rparr>"
  have "\<forall>x \<in> set (ws_inputs ?s). ascii x"
    using assms(1) by (auto simp: selection_request_doc_def readiness_doc_def set_insort_key)
  then have "plain_pv (selection_doc ?s)"
    using assms(1) r i(2) cs(2) a(2) m(2)
    by (auto simp: selection_doc_def selection_request_doc_def readiness_doc_def plain_assessment_def)
  then obtain h where "selection_hash ''worker-selection'' (selection_doc ?s) = Inr h"
    using selection_hash_plain by blast
  with assms(2) p i(1) a(1) cs(1) m(1) show ?thesis by (simp add: evaluate_selection_def Let_def)
qed

section \<open>A concrete request\<close>

definition sample_worker :: "string \<Rightarrow> string \<Rightarrow> worker_readiness" where
  "sample_worker n v = \<lparr>wr_worker = ''00000000-0000-0000-0000-00000000000'' @ n, wr_reference = ''readiness-'' @ n,
     wr_hash = ''hash-'' @ n, wr_organization = ''org-1'', wr_workload = ''workload-1'', wr_evaluated = 0,
     wr_expires = 3600, wr_ready = True, wr_capabilities = [''cpu'', ''gpu''], wr_policy_pass = Some True,
     wr_consistent = True, wr_scores = [(''CAPABILITY_FIT'', v)], wr_evidence = [''evidence-'' @ n],
     wr_schema = ''worker-readiness.v1''\<rparr>"

definition sample_selection :: selection_request where
  "sample_selection = \<lparr>sq_organization = ''org-1'', sq_workload = ''workload-1'', sq_plan = ''plan-1'',
     sq_requirements = ''requirements-1'', sq_constraints = ''policy-1'', sq_capabilities = [''cpu''],
     sq_readiness = [sample_worker ''1'' ''0.5'', sample_worker ''2'' ''0.75'',
        (sample_worker ''3'' ''1'')\<lparr>wr_ready := False\<rparr>],
     sq_boundary = 60, sq_history = ''history-10'', sq_preferences = [],
     sq_policy = ''worker-selection.scoring.v1'', sq_evaluator = ''worker-selection.evaluator.v1'',
     sq_schema = ''worker-selection.v1''\<rparr>"

lemma parse_sample:
  "parse_decimal uni ''0.5'' = Some (DecFinite False 5 (- 1))"
  "parse_decimal uni ''0.75'' = Some (DecFinite False 75 (- 2))"
proof -
  have "decimal_text uni ''0.5'' = ''0.5''" "decimal_text uni ''0.75'' = ''0.75''"
    by (rule decimal_text_id; simp add: is_space_def)+
  moreover have "read_finite False ''0.5'' = Some (DecFinite False 5 (- 1))"
    "read_finite False ''0.75'' = Some (DecFinite False 75 (- 2))"
    by (simp_all add: read_finite_def read_exponent_def parse_nat_def digit_val_def is_digit_def)
  moreover have "in_range 5 (- 1)" "in_range 75 (- 2)"
    using show_nat_length [of 5 1] show_nat_length [of 75 2]
    by (simp_all add: in_range_def min_etiny_def max_emax_def)
  ultimately show "parse_decimal uni ''0.5'' = Some (DecFinite False 5 (- 1))"
    "parse_decimal uni ''0.75'' = Some (DecFinite False 75 (- 2))"
    by (intro parse_decimal_finite; simp add: is_digit_def)+
qed

lemma sample_scores: "is_ok (score_decimal uni ''0.5'')" "is_ok (score_decimal uni ''0.75'')"
  by (simp_all add: score_decimal_def parse_sample above_one_def)

lemma sample_readiness:
  "sq_readiness sample_selection = [sample_worker ''1'' ''0.5'', sample_worker ''2'' ''0.75'',
     (sample_worker ''3'' ''1'')\<lparr>wr_ready := False\<rparr>]"
  "wr_scores (sample_worker n v) = [(''CAPABILITY_FIT'', v)]"
  by (simp_all add: sample_selection_def sample_worker_def)

lemma sample_eligible:
  "eligible sample_selection (sample_worker ''1'' v)" "eligible sample_selection (sample_worker ''2'' v)"
  "\<not> eligible sample_selection ((sample_worker ''3'' v)\<lparr>wr_ready := False\<rparr>)"
  by (simp_all add: eligible_def sample_selection_def sample_worker_def)

lemma sample_selection_evaluates: "\<exists>s. evaluate_selection uni sample_selection v = Inr s"
proof (rule evaluate_selection_returns)
  show "plain_pv (selection_request_doc sample_selection)"
    by (simp add: selection_request_doc_def readiness_doc_def sample_selection_def sample_worker_def pbool_opt_def)
  show "validate_selection_request sample_selection = Inr ()"
    by (simp add: validate_selection_request_def sample_selection_def sample_worker_def)
  show "sq_policy sample_selection = ''worker-selection.scoring.v1''" by (simp add: sample_selection_def)
  show "\<forall>r \<in> set (sq_readiness sample_selection). eligible sample_selection r \<longrightarrow>
      (\<forall>kv \<in> set (wr_scores r). is_ok (score_decimal uni (snd kv)))"
    using sample_scores [of uni] sample_eligible(3) by (simp add: sample_readiness)
qed

end
