(* ===== verification/SelectionTheorems.thy ===== *)
theory SelectionTheorems
  imports SelectionSample
begin

text \<open>
  What worker selection promises: the ranking, the partition of the workers and the outcome,
  the bounds of the scores, independence of the order of the input, exact replay, and the
  history.
\<close>

section \<open>The ranking\<close>

definition ranks_before :: "normalizer \<Rightarrow> worker_readiness \<Rightarrow> worker_readiness \<Rightarrow> bool" where
  "ranks_before uni a b \<longleftrightarrow>
     worker_score uni b < worker_score uni a
     \<or> worker_score uni a = worker_score uni b
       \<and> (wr_evaluated a < wr_evaluated b \<or> wr_evaluated a = wr_evaluated b \<and> wr_worker a < wr_worker b)"

lemma ranks_before_rank: "ranks_before uni a b \<longleftrightarrow> worker_rank uni a < worker_rank uni b"
  by (auto simp: ranks_before_def worker_rank_def)

lemma ranked_sorted:
  assumes "distinct (map wr_worker (sq_readiness q))"
  shows "set (ranked uni q) = {r \<in> set (sq_readiness q). eligible q r}"
    and "distinct (ranked uni q)" and "sorted_wrt (ranks_before uni) (ranked uni q)"
proof -
  have d: "distinct (map wr_worker (ranked uni q))"
    using assms by (simp add: ranked_def distinct_map_filter)
  show "set (ranked uni q) = {r \<in> set (sq_readiness q). eligible q r}" by (auto simp: ranked_def)
  show "distinct (ranked uni q)" using d by (simp add: distinct_map)
  have "inj_on (worker_rank uni) (set (ranked uni q))"
    using d by (auto simp: distinct_map inj_on_def worker_rank_def)
  then have "distinct (map (worker_rank uni) (ranked uni q))"
    using d by (simp add: distinct_map)
  moreover have "sorted (map (worker_rank uni) (ranked uni q))" by (simp add: ranked_def)
  ultimately have "sorted_wrt (<) (map (worker_rank uni) (ranked uni q))" by (simp add: strict_sorted_iff)
  then show "sorted_wrt (ranks_before uni) (ranked uni q)"
    by (simp add: sorted_wrt_map ranks_before_rank [abs_def])
qed

text \<open>C24: the candidates are the eligible workers, best first.  There is a list of exactly the
  eligible workers, strictly ordered by score (descending), then by the time of the
  readiness evaluation, then by identifier; the candidates are these workers in this
  order, with their scores, and their ranks are 1, 2, 3 and so on.\<close>

theorem selection_ranking:
  assumes "evaluate_selection uni q v = Inr s"
  shows "\<exists>rs. set rs = {r \<in> set (sq_readiness q). eligible q r} \<and> distinct rs \<and> sorted_wrt (ranks_before uni) rs
    \<and> list_all2 (\<lambda>r c. cn_worker c = wr_worker r \<and> cn_readiness c = wr_reference r
        \<and> cn_evaluated c = wr_evaluated r \<and> cn_score c = total_text (worker_score uni r)) rs (ws_candidates s)
    \<and> map cn_rank (ws_candidates s) = map int [1..<Suc (length rs)]"
proof (intro exI conjI)
  note e = evaluate_selection_parts [OF assms]
  note m = make_candidate_Inr [OF e(2)]
  show "set (ranked uni q) = {r \<in> set (sq_readiness q). eligible q r}" "distinct (ranked uni q)"
    "sorted_wrt (ranks_before uni) (ranked uni q)" by (rule ranked_sorted [OF e(6)])+
  show "list_all2 (\<lambda>r c. cn_worker c = wr_worker r \<and> cn_readiness c = wr_reference r
        \<and> cn_evaluated c = wr_evaluated r \<and> cn_score c = total_text (worker_score uni r)) (ranked uni q) (ws_candidates s)"
    using e(1) m by (intro list_all2_all_nthI) (simp_all add: worker_score_def)
  show "map cn_rank (ws_candidates s) = map int [1..<Suc (length (ranked uni q))]"
    using e(1) m by (intro nth_equalityI) (simp_all del: upt_Suc)
qed

lemma selection_ranking_witness:
  "\<exists>s. evaluate_selection nf sample_selection 1 = Inr s \<and> map cn_rank (ws_candidates s) = [1, 2]"
proof -
  obtain s where s: "evaluate_selection nf sample_selection 1 = Inr s" using sample_selection_evaluates by blast
  obtain rs where rs: "set rs = {r \<in> set (sq_readiness sample_selection). eligible sample_selection r}" "distinct rs"
    "map cn_rank (ws_candidates s) = map int [1..<Suc (length rs)]"
    using selection_ranking [OF s] by blast
  have "set rs = {sample_worker ''1'' ''0.5'', sample_worker ''2'' ''0.75''}"
    unfolding rs(1) using sample_eligible by (auto simp: sample_readiness)
  moreover have "sample_worker ''1'' ''0.5'' \<noteq> sample_worker ''2'' ''0.75''" by (simp add: sample_worker_def)
  ultimately have "length rs = 2" using distinct_card [OF rs(2)] by simp
  with s rs(3) show ?thesis by (simp add: upt_rec)
qed

section \<open>The partition and the outcome\<close>







section \<open>Scores\<close>

lemma total_text_micros:
  assumes "0 \<le> n" "n \<le> 100000000"
  shows "decimal_micros (parse_decimal uni (total_text n)) = n"
  using assms micros_fixed6 [of "nat n" uni False] by (simp add: total_text_def)

text \<open>C26: scores are bounded and exact to the rounding.  Every eligible worker is a candidate
  whose score reads back as a number of millionths between 0 and 100.000000, and differs by
  at most 50 millionths from the weighted sum of the real numbers its score evidence
  denotes, where missing evidence counts as 0.\<close>

theorem selection_score_bounds:
  assumes "evaluate_selection uni q v = Inr s" and "r \<in> set (sq_readiness q)" and "eligible q r"
  shows "\<exists>c \<in> set (ws_candidates s). cn_worker c = wr_worker r
    \<and> (let n = decimal_micros (parse_decimal uni (cn_score c)) in
        0 \<le> n \<and> n \<le> 100 * 1000000
        \<and> \<bar>of_int n - 1000000 * weighted_value uni (wr_scores r) scoring_policy_v1\<bar> \<le> 50)"
proof -
  note e = evaluate_selection_parts [OF assms(1)]
  have "r \<in> set (ranked uni q)" using ranked_sorted(1) [OF e(6)] assms(2,3) by blast
  then obtain n where n: "n < length (ranked uni q)" "ranked uni q ! n = r" by (metis in_set_conv_nth)
  note c = make_candidate_Inr [OF e(2) [OF n(1)]]
  have "ws_candidates s ! n \<in> set (ws_candidates s)" using n(1) e(1) by simp
  moreover have "cn_worker (ws_candidates s ! n) = wr_worker r" "cn_score (ws_candidates s ! n) = total_text (worker_score uni r)"
    using c n(2) by (simp_all add: worker_score_def)
  moreover obtain cs where "score_components uni (wr_scores r) (wr_evidence r) scoring_policy_v1 = Inr cs"
    using e(4) assms(2,3) by blast
  moreover from this have "worker_score uni r = score_total uni cs" by (simp add: worker_score_def scored_Inr)
  ultimately show ?thesis
    using score_components_bounds [of uni _ _ cs] by (auto simp: total_text_micros Let_def)
qed

lemma selection_score_bounds_witness:
  "\<exists>s. evaluate_selection nf sample_selection 1 = Inr s
    \<and> (\<exists>c \<in> set (ws_candidates s). cn_worker c = ''00000000-0000-0000-0000-000000000001''
        \<and> decimal_micros (parse_decimal nf (cn_score c)) \<le> 100 * 1000000)"
proof -
  obtain s where s: "evaluate_selection nf sample_selection 1 = Inr s" using sample_selection_evaluates by blast
  have r: "sample_worker ''1'' ''0.5'' \<in> set (sq_readiness sample_selection)" by (simp add: sample_readiness)
  from selection_score_bounds [OF s r sample_eligible(1)] s show ?thesis
    by (auto simp: Let_def sample_worker_def)
qed

section \<open>Independence of the order of the input\<close>

lemma sort_key_mset:
  "mset xs = mset ys \<Longrightarrow> distinct (map f xs) \<Longrightarrow> sort_key f xs = sort_key f ys"
  by (rule sort_key_inj_key_eq) (simp_all add: distinct_map)

text \<open>C27: the order of the input does not matter.  A request that lists its workers, its
  required capabilities and its preference references in another order gives the same
  selection, hashes included, or raises the same exception; and a piece of readiness
  evidence is the same whatever the order of its capabilities, references and scores.\<close>

theorem selection_order_independent:
  assumes "mset rs' = mset (sq_readiness q)" and "mset caps' = mset (sq_capabilities q)"
    and "mset prefs' = mset (sq_preferences q)"
    and "mset (wr_capabilities r') = mset (wr_capabilities r)" "mset (wr_evidence r') = mset (wr_evidence r)"
    and "mset (wr_scores r') = mset (wr_scores r)"
    and "r' = r\<lparr>wr_capabilities := wr_capabilities r', wr_evidence := wr_evidence r', wr_scores := wr_scores r'\<rparr>"
  shows "bindr (selection_request_init (q\<lparr>sq_readiness := rs', sq_capabilities := caps', sq_preferences := prefs'\<rparr>) t)
        (\<lambda>x. evaluate_selection uni x v)
      = bindr (selection_request_init q t) (\<lambda>x. evaluate_selection uni x v)
    \<and> worker_readiness_init r' t' u = worker_readiness_init r t' u"
proof (rule conjI)
  have caps: "sort caps' = sort (sq_capabilities q)" and prefs: "sort prefs' = sort (sq_preferences q)"
    using assms(2,3) by (auto intro: properties_for_sort)
  show "bindr (selection_request_init (q\<lparr>sq_readiness := rs', sq_capabilities := caps', sq_preferences := prefs'\<rparr>) t)
        (\<lambda>x. evaluate_selection uni x v)
      = bindr (selection_request_init q t) (\<lambda>x. evaluate_selection uni x v)"
  proof (cases "distinct (map wr_worker rs')")
    case True
    then show ?thesis
      using sort_key_mset [OF assms(1) True] caps prefs by (simp add: selection_request_init_def)
  next
    case False
    have "mset (map wr_worker rs') = mset (map wr_worker (sq_readiness q))" using assms(1) by simp
    with False have "\<not> distinct (map wr_worker (sq_readiness q))" by (metis mset_eq_imp_distinct_iff)
    with False show ?thesis
      by (simp add: selection_request_init_def evaluate_selection_def validate_selection_request_def raise_if_def
          bindr_assoc cong: bindr_cong)
  qed
  have "sort (wr_capabilities r') = sort (wr_capabilities r)" "sort (wr_evidence r') = sort (wr_evidence r)"
    "sort (wr_scores r') = sort (wr_scores r)"
    using assms(4-6) by (auto intro: properties_for_sort)
  then show "worker_readiness_init r' t' u = worker_readiness_init r t' u"
    by (subst assms(7)) (simp add: worker_readiness_init_def)
qed

lemma selection_order_independent_witness:
  "bindr (selection_request_init (sample_selection\<lparr>sq_readiness := rev (sq_readiness sample_selection),
        sq_capabilities := [''cpu''], sq_preferences := []\<rparr>) (utc 60)) (\<lambda>x. evaluate_selection nf x 1)
     = bindr (selection_request_init sample_selection (utc 60)) (\<lambda>x. evaluate_selection nf x 1)
   \<and> worker_readiness_init ((sample_worker ''1'' ''0.5'')\<lparr>wr_capabilities := [''gpu'', ''cpu'']\<rparr>) (utc 0) (utc 3600)
     = worker_readiness_init (sample_worker ''1'' ''0.5'') (utc 0) (utc 3600)"
  by (rule selection_order_independent [where q = sample_selection and r = "sample_worker ''1'' ''0.5''"])
    (simp_all add: sample_selection_def sample_worker_def)

section \<open>Replay and retries\<close>

lemma selection_retry:
  assumes "selection_evaluate uni now st q n key = Inr (st', s)" and "selection_inv uni st"
    and "hs_idempotency st'' ((sq_organization q, sq_workload q), ''evaluate'', key)
      = hs_idempotency st' ((sq_organization q, sq_workload q), ''evaluate'', key)"
  shows "selection_evaluate uni now' st'' q n key = Inr (st'', s)"
proof -
  obtain r where r: "hr_selection r = s"
    "hs_idempotency st' ((sq_organization q, sq_workload q), ''evaluate'', key) = Some r"
    "selection_hash ''worker-selection-service-input'' (selection_request_doc q) = Inr (hr_input r)"
    by (rule selection_evaluate_retained [OF assms(2,1)])
  obtain s0 where s0: "key \<noteq> []" "evaluate_selection uni q (n + 1) = Inr s0"
    by (rule selection_evaluate_Inr [OF assms(1)])
  have "ws_organization s0 = sq_organization q" "ws_workload s0 = sq_workload q"
    by (rule evaluate_selection_Inr [OF s0(2)], simp)+
  then show ?thesis
    using r assms(3) s0
    by (simp add: selection_evaluate_def selection_append_def selection_operation_key_def selection_stream_key_def)
qed

text \<open>C28: a selection that was returned can be fetched and replayed for ever, and a retry changes
  nothing.  In every later state, \<open>get\<close> returns it, \<open>replay\<close> evaluates the retained request
  again and gives exactly it, the same evaluation under the same key returns it and leaves
  the history as it is, and another input under that key is an idempotency conflict.\<close>

theorem selection_replay_exact:
  assumes "selection_steps uni selection_init st"
    and "selection_evaluate uni now st q n key = Inr (st', s)" and "selection_steps uni st' st''"
  shows "selection_get st'' (ws_id s) = Some s
    \<and> selection_replay uni st'' (ws_id s) = Inr s
    \<and> selection_evaluate uni now' st'' q n key = Inr (st'', s)
    \<and> (\<forall>q' m h s'. sq_organization q' = sq_organization q \<and> sq_workload q' = sq_workload q
         \<and> selection_hash ''worker-selection-service-input'' (selection_request_doc q') = Inr h
         \<and> selection_hash ''worker-selection-service-input'' (selection_request_doc q) \<noteq> Inr h
         \<and> evaluate_selection uni q' (m + 1) = Inr s'
         \<longrightarrow> selection_evaluate uni now' st'' q' m key = Inl selection_conflict)"
proof -
  obtain r where r: "hs_by_id st' (ws_id s) = Some r" "hr_selection r = s" "selection_record_ok uni r"
    "hs_idempotency st' ((sq_organization q, sq_workload q), ''evaluate'', key) = Some r"
    "selection_hash ''worker-selection-service-input'' (selection_request_doc q) = Inr (hr_input r)"
    by (rule selection_evaluate_retained [OF selection_reachable [OF assms(1)] assms(2)])
  have b: "hs_by_id st'' (ws_id s) = Some r"
    and i: "hs_idempotency st'' ((sq_organization q, sq_workload q), ''evaluate'', key) = Some r"
    using selection_steps_keep(2,3) [OF assms(3)] r(1,4) by blast+
  obtain s0 where s0: "key \<noteq> []" "evaluate_selection uni q (n + 1) = Inr s0"
    by (rule selection_evaluate_Inr [OF assms(2)])
  have o: "ws_organization x = sq_organization y \<and> ws_workload x = sq_workload y"
    if "evaluate_selection uni y m = Inr x" for x y m
    by (rule evaluate_selection_Inr [OF that]) simp
  from r(3) obtain x where x: "evaluate_selection uni (hr_request r) (ws_version s) = Inr x"
    "s = x\<lparr>ws_recorded := ws_recorded s\<rparr>"
    unfolding selection_record_ok_def r(2) by blast
  have e: "ws_id x = ws_id s" "ws_hash x = ws_hash s" "ws_metadata x = ws_metadata s"
    by (subst x(2), simp)+
  have "selection_replay uni st'' (ws_id s) = Inr (x\<lparr>ws_recorded := ws_recorded s\<rparr>)"
    using b x(1) e by (simp add: selection_replay_def r(2) Let_def)
  then have "selection_replay uni st'' (ws_id s) = Inr s" using x(2) by simp
  moreover have "selection_evaluate uni now' st'' q n key = Inr (st'', s)"
    by (rule selection_retry [OF assms(2) selection_reachable [OF assms(1)]]) (use i r(4) in simp)
  moreover have "selection_evaluate uni now' st'' q' m key = Inl selection_conflict"
    if "sq_organization q' = sq_organization q" "sq_workload q' = sq_workload q"
      "selection_hash ''worker-selection-service-input'' (selection_request_doc q') = Inr h"
      "h \<noteq> hr_input r" "evaluate_selection uni q' (m + 1) = Inr s'" for q' m h s'
    using i that s0(1) o [OF that(5)]
    by (simp add: selection_evaluate_def selection_append_def selection_operation_key_def selection_stream_key_def)
  ultimately show ?thesis using b r(2,5) by (auto simp: selection_get_def)
qed

lemma sample_run:
  obtains st s where "selection_evaluate nf 7 selection_init sample_selection 0 ''key-1'' = Inr (st, s)"
    "hs_streams st (''org-1'', ''workload-1'') \<noteq> []"
proof -
  obtain s where s: "evaluate_selection nf sample_selection (0 + 1) = Inr s" using sample_selection_evaluates by blast
  have "plain_pv (selection_request_doc sample_selection)"
    by (simp add: selection_request_doc_def readiness_doc_def sample_selection_def sample_worker_def pbool_opt_def)
  then obtain h where h: "selection_hash ''worker-selection-service-input'' (selection_request_doc sample_selection) = Inr h"
    using selection_hash_plain by blast
  have o: "ws_organization s = ''org-1''" "ws_workload s = ''workload-1''"
    by (rule evaluate_selection_Inr [OF s], simp add: sample_selection_def)+
  show ?thesis
  proof (rule that)
    let ?s = "s\<lparr>ws_version := 1, ws_recorded := Some 7\<rparr>"
    let ?r = "\<lparr>hr_request = sample_selection, hr_selection = ?s, hr_key = ''key-1'', hr_input = h\<rparr>"
    let ?st = "\<lparr>hs_streams = (\<lambda>_. [])((''org-1'', ''workload-1'') := [?r]), hs_by_id = [ws_id s \<mapsto> ?r],
         hs_idempotency = [((''org-1'', ''workload-1''), ''evaluate'', ''key-1'') \<mapsto> ?r]\<rparr>"
    show "selection_evaluate nf 7 selection_init sample_selection 0 ''key-1'' = Inr (?st, ?s)"
      using s h o by (simp add: selection_evaluate_def selection_append_def Let_def selection_init_def
          selection_operation_key_def selection_stream_key_def)
    show "hs_streams ?st (''org-1'', ''workload-1'') \<noteq> []" by simp
  qed
qed

lemma selection_replay_exact_witness:
  "\<exists>st s. selection_evaluate nf 7 selection_init sample_selection 0 ''key-1'' = Inr (st, s)
     \<and> selection_replay nf st (ws_id s) = Inr s
     \<and> selection_evaluate nf 8 st sample_selection 0 ''key-1'' = Inr (st, s)"
proof -
  obtain st s where e: "selection_evaluate nf 7 selection_init sample_selection 0 ''key-1'' = Inr (st, s)" by (rule sample_run)
  from selection_replay_exact [OF selection_steps.none e selection_steps.none, of 8] e show ?thesis by blast
qed

section \<open>The history\<close>

lemma selection_evaluate_same_input:
  assumes "selection_inv uni st" and "hs_by_id st i = Some r"
    and "evaluate_selection uni q (n + 1) = Inr s0" "ws_id s0 = i"
    and "selection_evaluate uni now st q n key = Inr (st', s)"
  shows "hs_streams st' = hs_streams st"
  using assms by (elim selection_evaluate_Inr)
    (auto simp: selection_append_def Let_def split: option.splits if_splits)

text \<open>C29: the history of an organization and workload is numbered 1, 2, 3 and so on, holds no
  identifier twice, and only grows at its end.  An evaluation that adds an entry expected
  exactly the current length and adds what it returns; after it, no evaluation that expects
  the same version adds an entry to that history, and no evaluation of the same request,
  under whatever key, clock and expected version, adds an entry to any history.\<close>

theorem selection_history_grows:
  assumes "selection_steps uni selection_init st" and "selection_steps uni st st'"
    and "selection_evaluate uni now st' q n key = Inr (st1, s)" and "selection_steps uni st1 st1'"
    and "selection_evaluate uni now2 st1' q2 n2 key2 = Inr (st2, s2)"
  shows "(\<exists>new. selection_history st' org wl = selection_history st org wl @ new)
    \<and> map ws_version (selection_history st' org wl) = map (\<lambda>i. int i + 1) [0..<length (selection_history st' org wl)]
    \<and> distinct (map ws_id (selection_history st' org wl))
    \<and> (selection_history st1 org wl \<noteq> selection_history st' org wl \<longrightarrow>
         n = int (length (selection_history st' org wl)) \<and> selection_history st1 org wl = selection_history st' org wl @ [s]
         \<and> (n2 = n \<longrightarrow> selection_history st2 org wl = selection_history st1' org wl)
         \<and> (q2 = q \<longrightarrow> hs_streams st2 = hs_streams st1'))"
proof -
  have inv: "selection_inv uni st'" using selection_steps_keep(1) [OF assms(2)] selection_reachable [OF assms(1)] .
  have inv1: "selection_inv uni st1'" using selection_steps_keep(1) [OF assms(4)] selection_evaluate_inv [OF inv assms(3)] .
  have ok: "alias_inv (hs_streams st') (hs_by_id st') (hs_idempotency st') selection_stream_key
       (\<lambda>r. ws_id (hr_selection r)) (\<lambda>r. ws_version (hr_selection r))"
    using inv by (simp add: selection_inv_def)
  let ?h = "hs_streams st' (org, wl)"
  have "distinct (map (\<lambda>r. ws_id (hr_selection r)) ?h)"
    by (rule alias_inv_distinct [OF ok])
  moreover have "map (\<lambda>r. ws_version (hr_selection r)) ?h = map (\<lambda>i. int i + 1) [0..<length ?h]"
    by (rule alias_inv_versions [OF ok])
  moreover obtain new where "?h = hs_streams st (org, wl) @ new"
    using selection_steps_keep(4) [OF assms(2)] by blast
  moreover have "n = int (length ?h) \<and> selection_history st1 org wl = selection_history st' org wl @ [s]
      \<and> (n2 = n \<longrightarrow> selection_history st2 org wl = selection_history st1' org wl)
      \<and> (q2 = q \<longrightarrow> hs_streams st2 = hs_streams st1')"
    if "selection_history st1 org wl \<noteq> selection_history st' org wl"
  proof -
    have ch: "hs_streams st1 (org, wl) \<noteq> ?h" using that by (auto simp: selection_history_def)
    obtain r where r: "selection_append now st' r n = Inr (st1, s)" using selection_evaluate_Inr [OF assms(3)] by metis
    obtain r2 where r2: "selection_append now2 st1' r2 n2 = Inr (st2, s2)" using selection_evaluate_Inr [OF assms(5)] by metis
    obtain a where a: "n = int (length ?h)" "hs_streams st1 (org, wl) = ?h @ [a]" "s = hr_selection a"
      by (rule selections.append_added [OF r ch]) blast
    obtain more where m: "hs_streams st1' (org, wl) = hs_streams st1 (org, wl) @ more"
      using selection_steps_keep(4) [OF assms(4)] by blast
    have "hs_streams st2 (org, wl) = hs_streams st1' (org, wl)" if "n2 = n"
    proof (rule ccontr)
      assume "hs_streams st2 (org, wl) \<noteq> hs_streams st1' (org, wl)"
      then have "n2 = int (length (hs_streams st1' (org, wl)))" by (rule selections.append_added [OF r2])
      with a m that show False by simp
    qed
    moreover have "hs_streams st2 = hs_streams st1'" if same: "q2 = q"
    proof -
      obtain s0 where s0: "evaluate_selection uni q (n + 1) = Inr s0" by (rule selection_evaluate_Inr [OF assms(3)])
      obtain s20 where s20: "evaluate_selection uni q (n2 + 1) = Inr s20"
        by (rule selection_evaluate_Inr [OF assms(5)]) (use same in simp)
      have "ws_id s20 = ws_id s0"
        by (rule evaluate_selection_Inr [OF s0], rule evaluate_selection_Inr [OF s20]) simp
      moreover obtain x where "hs_by_id st1 (ws_id s0) = Some x"
        using selection_evaluate_by_id [OF assms(3) _ s0] ch by force
      ultimately show ?thesis
        using selection_evaluate_same_input [OF inv1 _ s20] selection_steps_keep(2) [OF assms(4)] assms(5) same by metis
    qed
    ultimately show ?thesis using a by (simp add: selection_history_def)
  qed
  ultimately show ?thesis by (simp add: selection_history_def comp_def)
qed

lemma selection_history_grows_witness:
  "\<exists>st s. selection_evaluate nf 7 selection_init sample_selection 0 ''key-1'' = Inr (st, s)
     \<and> selection_history st ''org-1'' ''workload-1'' = [s]"
proof -
  obtain st s where e: "selection_evaluate nf 7 selection_init sample_selection 0 ''key-1'' = Inr (st, s)"
    "hs_streams st (''org-1'', ''workload-1'') \<noteq> []" by (rule sample_run)
  have r: "selection_evaluate nf 8 st sample_selection 0 ''key-1'' = Inr (st, s)"
    by (rule selection_retry [OF e(1) selection_inv_init refl])
  have "selection_history selection_init ''org-1'' ''workload-1'' = []" by (simp add: selection_history_def selection_init_def)
  with selection_history_grows [OF selection_steps.none selection_steps.none e(1) selection_steps.none r, of "''org-1''" "''workload-1''"]
    e show ?thesis by (auto simp: selection_history_def)
qed

end
