(* ===== verification/PlanDomain.thy ===== *)
theory PlanDomain
  imports ExecutionRequest
begin

text \<open>
  Execution plans: \<open>app/runtime/execution_plan/domain.py\<close>.  Plans are read back from any
  JSON document, so a constructor takes the raw values of its caller and returns the record
  or the exception its \<open>__post_init__\<close> raises; a field that passed the check for text is a
  string.
\<close>

section \<open>Fields\<close>

definition plan_error :: "plan_exc \<Rightarrow> 'a res" where
  "plan_error e = Inl (PlanError e)"

definition plan_invalid :: exc where
  "plan_invalid = PlanError ExecutionPlanInvalid"

text \<open>The subclasses of \<open>ExecutionPlanInvalid\<close>, which \<open>except\<close> catches with it.\<close>

definition is_plan_invalid :: "exc \<Rightarrow> bool" where
  "is_plan_invalid e \<longleftrightarrow> e \<in> PlanError ` {ExecutionPlanInvalid, ExecutionPlanRequestInvalid,
     ExecutionPlanRequestDigestInvalid, ExecutionPlanSchemaVersionUnsupported,
     ExecutionPlanRuleVersionUnsupported, ExecutionPlanDigestMismatch, ExecutionPlanIdentityMismatch,
     ExecutionPlanPolicyConfigurationMismatch, ExecutionPlanOrganizationMismatch}"

definition plan_cfg :: freeze_cfg where
  "plan_cfg = \<lparr>fz_err = plan_invalid, fz_enum_raw = False, fz_time = None, fz_float = False\<rparr>"

definition plan_mapping :: "normalizer \<Rightarrow> pyval \<Rightarrow> json res" where
  "plan_mapping nfc values =
     bindr (raise_if (values \<noteq> PNone \<and> \<not> is_dict values) plan_invalid) (\<lambda>_.
     bindr (freeze plan_cfg nfc (if pv_falsy values then PMap [] else values)) (\<lambda>frozen.
       case frozen of JObj _ \<Rightarrow> Inr frozen | _ \<Rightarrow> Inl plan_invalid))"

definition plan_text :: "normalizer \<Rightarrow> pyval \<Rightarrow> string res" where
  "plan_text nfc v = (case v of PStr s \<Rightarrow> if s = [] then Inl plan_invalid else Inr (nfc s) | _ \<Rightarrow> Inl plan_invalid)"

definition plan_hex :: "pyval \<Rightarrow> string res" where
  "plan_hex v = (case v of PStr s \<Rightarrow> if is_sha256_hex s then Inr s else Inl plan_invalid | _ \<Rightarrow> Inl plan_invalid)"

text \<open>The elements of an iterable: a string is iterated by its characters, a dictionary by its
  keys.\<close>

function utf8_chars :: "string \<Rightarrow> string list" where
  "utf8_chars [] = []"
| "utf8_chars (c # s) =
     (c # takeWhile (\<lambda>d. cont (of_char d)) s) # utf8_chars (dropWhile (\<lambda>d. cont (of_char d)) s)"
  by pat_completeness auto
termination by (relation "measure length") (simp_all add: length_dropWhile_le less_Suc_eq_le)

fun py_iter :: "pyval \<Rightarrow> pyval list res" where
  "py_iter (PSeq vs) = Inr vs"
| "py_iter (PStr s) = Inr (map PStr (utf8_chars s))"
| "py_iter (PMap kvs) = Inr (map (key_value \<circ> fst) kvs)"
| "py_iter _ = Inl TypeError"

text \<open>\<open>_unique_sorted\<close>: a value that cannot be iterated is invalid as well.\<close>

definition unique_sorted :: "normalizer \<Rightarrow> pyval list \<Rightarrow> string list res" where
  "unique_sorted nfc values =
     bindr (mapr (plan_text nfc) values) (\<lambda>texts.
     let normalized = sort texts in
     bindr (raise_if (\<not> distinct normalized) plan_invalid) (\<lambda>_. Inr normalized))"

section \<open>Steps and dependencies\<close>

definition supported_plan_schema :: string where
  "supported_plan_schema = ''execution-plan.v1''"

definition supported_plan_rule :: string where
  "supported_plan_rule = ''execution-plan.rule.v1''"

definition supported_planner :: string where
  "supported_planner = ''execution-plan.planner.v1''"

record plan_step =
  ps_sequence :: int
  ps_id :: string
  ps_operation :: string
  ps_inputs :: json

definition make_step :: "normalizer \<Rightarrow> int \<Rightarrow> pyval \<Rightarrow> pyval \<Rightarrow> pyval \<Rightarrow> plan_step res" where
  "make_step nfc sequence step_id operation inputs =
     bindr (raise_if (sequence < 0) plan_invalid) (\<lambda>_.
     bindr (plan_text nfc step_id) (\<lambda>i.
     bindr (plan_text nfc operation) (\<lambda>op.
     bindr (plan_mapping nfc inputs) (\<lambda>ins.
       Inr \<lparr>ps_sequence = sequence, ps_id = i, ps_operation = op, ps_inputs = ins\<rparr>))))"

record plan_dependency =
  pd_predecessor :: string
  pd_successor :: string

definition make_dependency :: "normalizer \<Rightarrow> pyval \<Rightarrow> pyval \<Rightarrow> plan_dependency res" where
  "make_dependency nfc predecessor successor =
     bindr (plan_text nfc predecessor) (\<lambda>p.
     bindr (plan_text nfc successor) (\<lambda>s.
     bindr (raise_if (p = s) plan_invalid) (\<lambda>_.
       Inr \<lparr>pd_predecessor = p, pd_successor = s\<rparr>)))"

text \<open>The order of the dataclass.\<close>

definition dependency_key :: "plan_dependency \<Rightarrow> string \<times> string" where
  "dependency_key d = (pd_predecessor d, pd_successor d)"

definition sort_dependencies :: "plan_dependency list \<Rightarrow> plan_dependency list" where
  "sort_dependencies ds = sort_key dependency_key ds"

section \<open>Policy, configuration and planning input\<close>

record plan_metadata =
  pm_boundary :: string
  pm_planner :: string
  pm_serialization :: string
  pm_inputs :: "string list"

definition make_plan_metadata :: "normalizer \<Rightarrow> pyval \<Rightarrow> string list \<Rightarrow> plan_metadata res" where
  "make_plan_metadata nfc boundary hashes =
     bindr (plan_text nfc boundary) (\<lambda>b.
     bindr (mapr (\<lambda>h. plan_hex (PStr h)) hashes) (\<lambda>hs.
     let sorted_hashes = sort hs in
     bindr (raise_if (\<not> distinct sorted_hashes) plan_invalid) (\<lambda>_.
       Inr \<lparr>pm_boundary = b, pm_planner = supported_planner, pm_serialization = serialization_version,
            pm_inputs = sorted_hashes\<rparr>)))"

record planning_policy =
  pp_version :: string
  pp_capabilities :: "string list"
  pp_resources :: json
  pp_defaults :: json

definition make_planning_policy ::
  "normalizer \<Rightarrow> pyval \<Rightarrow> pyval list \<Rightarrow> pyval \<Rightarrow> pyval \<Rightarrow> planning_policy res"
where
  "make_planning_policy nfc version capabilities resources defaults =
     bindr (plan_text nfc version) (\<lambda>v.
     bindr (unique_sorted nfc capabilities) (\<lambda>caps.
     bindr (plan_mapping nfc resources) (\<lambda>res.
     bindr (plan_mapping nfc defaults) (\<lambda>defs.
       Inr \<lparr>pp_version = v, pp_capabilities = caps, pp_resources = res, pp_defaults = defs\<rparr>))))"

record planning_configuration =
  pg_version :: string
  pg_step :: string

definition make_planning_configuration :: "normalizer \<Rightarrow> pyval \<Rightarrow> pyval \<Rightarrow> planning_configuration res" where
  "make_planning_configuration nfc version step =
     bindr (plan_text nfc version) (\<lambda>v.
     bindr (plan_text nfc step) (\<lambda>s. Inr \<lparr>pg_version = v, pg_step = s\<rparr>))"

record planning_input =
  pi_organization :: string
  pi_workload :: string
  pi_request :: string
  pi_evidence :: string
  pi_policy :: planning_policy
  pi_configuration :: planning_configuration
  pi_schema :: string
  pi_rule :: string

definition make_planning_input ::
  "normalizer \<Rightarrow> pyval \<Rightarrow> pyval \<Rightarrow> pyval \<Rightarrow> pyval \<Rightarrow> planning_policy \<Rightarrow> planning_configuration \<Rightarrow> pyval \<Rightarrow> pyval
    \<Rightarrow> planning_input res"
where
  "make_planning_input nfc organization workload request_id evidence_id policy configuration schema rule =
     bindr (plan_text nfc organization) (\<lambda>org.
     bindr (plan_text nfc workload) (\<lambda>wl.
     bindr (plan_text nfc evidence_id) (\<lambda>ev.
     bindr (plan_hex request_id) (\<lambda>rid.
     bindr (raise_if (schema \<noteq> PStr supported_plan_schema)
        (PlanError ExecutionPlanSchemaVersionUnsupported)) (\<lambda>_.
     bindr (raise_if (rule \<noteq> PStr supported_plan_rule) (PlanError ExecutionPlanRuleVersionUnsupported)) (\<lambda>_.
       Inr \<lparr>pi_organization = org, pi_workload = wl, pi_request = rid, pi_evidence = ev, pi_policy = policy,
            pi_configuration = configuration, pi_schema = supported_plan_schema,
            pi_rule = supported_plan_rule\<rparr>))))))"

section \<open>Plans\<close>

record execution_plan =
  pl_id :: string
  pl_schema :: string
  pl_request :: string
  pl_request_schema :: string
  pl_request_digest :: string
  pl_organization :: string
  pl_workload :: string
  pl_rule :: string
  pl_configuration :: string
  pl_policy :: string
  pl_input_digest :: string
  pl_digest :: string
  pl_work :: "plan_step list"
  pl_capabilities :: "string list"
  pl_resources :: json
  pl_dependencies :: "plan_dependency list"
  pl_constraints :: json
  pl_evidence :: "string list"
  pl_metadata :: plan_metadata

text \<open>\<open>ExecutionPlan.__post_init__\<close>, on the fields of a plan whose request schema,
  organization and workload are still raw.\<close>

definition make_plan :: "normalizer \<Rightarrow> execution_plan \<Rightarrow> pyval \<Rightarrow> pyval \<Rightarrow> pyval \<Rightarrow> execution_plan res" where
  "make_plan nfc p request_schema organization workload =
     bindr (raise_if (\<not> list_all is_sha256_hex [pl_id p, pl_request_digest p, pl_configuration p,
        pl_input_digest p, pl_digest p]) plan_invalid) (\<lambda>_.
     bindr (plan_text nfc (PStr (pl_request p))) (\<lambda>request_id.
     bindr (plan_text nfc request_schema) (\<lambda>rs.
     bindr (plan_text nfc organization) (\<lambda>org.
     bindr (plan_text nfc workload) (\<lambda>wl.
     bindr (plan_text nfc (PStr (pl_policy p))) (\<lambda>policy.
     bindr (raise_if (\<not> is_sha256_hex request_id) plan_invalid) (\<lambda>_.
     bindr (raise_if (pl_schema p \<noteq> supported_plan_schema) (PlanError ExecutionPlanSchemaVersionUnsupported)) (\<lambda>_.
     bindr (raise_if (pl_rule p \<noteq> supported_plan_rule) (PlanError ExecutionPlanRuleVersionUnsupported)) (\<lambda>_.
     bindr (raise_if (pl_work p = []) plan_invalid) (\<lambda>_.
     bindr (unique_sorted nfc (map PStr (pl_capabilities p))) (\<lambda>caps.
     bindr (plan_mapping nfc (of_json (pl_resources p))) (\<lambda>resources.
     bindr (plan_mapping nfc (of_json (pl_constraints p))) (\<lambda>constraints.
     bindr (unique_sorted nfc (map PStr (pl_evidence p))) (\<lambda>evidence.
       Inr (p\<lparr>pl_request := request_id, pl_request_schema := rs, pl_organization := org, pl_workload := wl,
              pl_policy := policy, pl_capabilities := caps, pl_resources := resources,
              pl_dependencies := sort_dependencies (pl_dependencies p), pl_constraints := constraints,
              pl_evidence := evidence\<rparr>)))))))))))))))"

text \<open>The \<open>==\<close> of the dataclasses: numbers inside mappings compare by value.\<close>

definition step_eq :: "plan_step \<Rightarrow> plan_step \<Rightarrow> bool" where
  "step_eq a b \<longleftrightarrow> ps_sequence a = ps_sequence b \<and> ps_id a = ps_id b \<and> ps_operation a = ps_operation b
     \<and> py_eq (ps_inputs a) (ps_inputs b)"

definition plan_eq :: "execution_plan \<Rightarrow> execution_plan \<Rightarrow> bool" where
  "plan_eq a b \<longleftrightarrow>
     a\<lparr>pl_work := [], pl_resources := JNull, pl_constraints := JNull\<rparr>
       = b\<lparr>pl_work := [], pl_resources := JNull, pl_constraints := JNull\<rparr>
     \<and> list_all2 step_eq (pl_work a) (pl_work b)
     \<and> py_eq (pl_resources a) (pl_resources b) \<and> py_eq (pl_constraints a) (pl_constraints b)"

end
