(* ===== verification/PlanRules.thy ===== *)
theory PlanRules
  imports PlanDomain
begin

text \<open>
  Validation evidence and planning rules: \<open>app/runtime/execution_plan/validation.py\<close> and
  \<open>rules.py\<close>.  \<open>RequestValidationEvidence\<close> has no checks of its own, so its fields are raw
  values.
\<close>

section \<open>Request validation evidence\<close>

definition supported_validation_schema :: string where
  "supported_validation_schema = ''request-validation.v1''"

definition validation_digest_ns :: string where
  "validation_digest_ns = ''edgeiq.request-validation.v1''"

definition validation_id_ns :: string where
  "validation_id_ns = ''edgeiq.request-validation-id.v1''"

datatype validation_outcome = Valid | Invalid

primrec validation_outcome_value :: "validation_outcome \<Rightarrow> string" where
  "validation_outcome_value Valid = ''Valid''"
| "validation_outcome_value Invalid = ''Invalid''"

text \<open>\<open>ValidationOutcome(value)\<close>.\<close>

definition validation_outcome_of :: "pyval \<Rightarrow> validation_outcome res" where
  "validation_outcome_of v =
     (if v = PStr ''Valid'' then Inr Valid else if v = PStr ''Invalid'' then Inr Invalid else Inl ValueError)"

record validation_evidence =
  rv_id :: pyval
  rv_request :: pyval
  rv_request_digest :: pyval
  rv_organization :: pyval
  rv_workload :: pyval
  rv_policy :: pyval
  rv_outcome :: validation_outcome
  rv_findings :: "pyval list"
  rv_boundary :: pyval
  rv_schema :: pyval
  rv_digest :: pyval

text \<open>\<open>sorted(findings)\<close>: text sorts by code point and numbers by value, anything else of more
  than one element is a \<open>TypeError\<close>.  (Python also orders lists among each other.)\<close>

fun pv_str :: "pyval \<Rightarrow> string option" where
  "pv_str (PStr s) = Some s"
| "pv_str _ = None"

fun pv_num :: "pyval \<Rightarrow> int option" where
  "pv_num (PInt i) = Some i"
| "pv_num (PBool b) = Some (if b then 1 else 0)"
| "pv_num _ = None"

definition sort_findings :: "pyval list \<Rightarrow> pyval list res" where
  "sort_findings fs =
     (if length fs \<le> 1 then Inr fs
      else if list_all (\<lambda>f. pv_str f \<noteq> None) fs then Inr (sort_key (\<lambda>f. the (pv_str f)) fs)
      else if list_all (\<lambda>f. pv_num f \<noteq> None) fs then Inr (sort_key (\<lambda>f. the (pv_num f)) fs)
      else Inl TypeError)"

definition validation_input_document :: "validation_evidence \<Rightarrow> pyval list \<Rightarrow> pyval" where
  "validation_input_document v findings = pdict [
     (''canonical_request_digest'', rv_request_digest v),
     (''findings'', PSeq findings),
     (''history_boundary'', rv_boundary v),
     (''organization_id'', rv_organization v),
     (''outcome'', PStr (validation_outcome_value (rv_outcome v))),
     (''request_id'', rv_request v),
     (''schema_version'', PStr supported_validation_schema),
     (''validation_policy_version'', rv_policy v),
     (''workload_context_id'', rv_workload v)]"

text \<open>\<open>build_request_validation_evidence\<close>: the arguments are the fields of a record whose
  identifier, schema and digest are then filled in.\<close>

definition build_validation_evidence :: "normalizer \<Rightarrow> validation_evidence \<Rightarrow> validation_evidence res" where
  "build_validation_evidence nfc v =
     bindr (sort_findings (rv_findings v)) (\<lambda>findings.
     bindr (canonical_bytes request_cfg nfc (validation_input_document v findings)) (\<lambda>content.
     let digest = namespaced_digest validation_digest_ns content in
       Inr (v\<lparr>rv_id := PStr (namespaced_digest validation_id_ns digest), rv_findings := findings,
              rv_schema := PStr supported_validation_schema, rv_digest := PStr digest\<rparr>)))"

text \<open>\<open>UnicodeEncodeError\<close> is a \<open>ValueError\<close>.\<close>

definition caught_by_validation :: "exc \<Rightarrow> bool" where
  "caught_by_validation e \<longleftrightarrow> e \<in> {TypeError, ValueError, UnicodeEncodeError}"

definition plan_request_invalid :: exc where
  "plan_request_invalid = PlanError ExecutionPlanRequestInvalid"

definition validate_validation_evidence :: "normalizer \<Rightarrow> validation_evidence \<Rightarrow> unit res" where
  "validate_validation_evidence nfc v =
     bindr (raise_if (rv_schema v \<noteq> PStr supported_validation_schema)
        (PlanError ExecutionPlanSchemaVersionUnsupported)) (\<lambda>_.
     bindr (catch (build_validation_evidence nfc v) caught_by_validation plan_request_invalid) (\<lambda>rebuilt.
       raise_if (rebuilt \<noteq> v) plan_request_invalid))"

text \<open>The in-memory source of validation evidence: \<open>retain\<close> and \<open>get\<close>.\<close>

type_synonym validation_store = "pyval \<rightharpoonup> validation_evidence"

definition retain_validation :: "normalizer \<Rightarrow> validation_store \<Rightarrow> validation_evidence \<Rightarrow> validation_store res" where
  "retain_validation nfc store v =
     bindr (validate_validation_evidence nfc v) (\<lambda>_.
       case store (rv_id v) of
         Some prior \<Rightarrow> if prior \<noteq> v then Inl plan_request_invalid else Inr (store(rv_id v \<mapsto> v))
       | None \<Rightarrow> Inr (store(rv_id v \<mapsto> v)))"

definition get_validation :: "validation_store \<Rightarrow> string \<Rightarrow> validation_evidence option" where
  "get_validation store i = store (PStr i)"

section \<open>Rule results\<close>

record rule_result =
  rl_steps :: "plan_step list"
  rl_capabilities :: "string list"
  rl_resources :: json
  rl_dependencies :: "plan_dependency list"
  rl_constraints :: json
  rl_evidence :: "string list"

text \<open>\<open>{step_id: position for position, step_id in enumerate(step_ids)}\<close>: the last position
  of an identifier.\<close>

definition step_positions :: "string list \<Rightarrow> string \<Rightarrow> nat option" where
  "step_positions ids i = map_of (rev (map (\<lambda>(n, x). (x, n)) (enumerate 0 ids))) i"

definition points_forward :: "string list \<Rightarrow> plan_dependency \<Rightarrow> bool" where
  "points_forward ids d =
     (case (step_positions ids (pd_predecessor d), step_positions ids (pd_successor d)) of
        (Some p, Some s) \<Rightarrow> p < s
      | _ \<Rightarrow> False)"

definition make_rule_result :: "normalizer \<Rightarrow> rule_result \<Rightarrow> rule_result res" where
  "make_rule_result nfc r =
     (let steps = rl_steps r; ids = map ps_id steps; dependencies = sort_dependencies (rl_dependencies r);
          capabilities = sort (rl_capabilities r); derivation = sort (rl_evidence r) in
     bindr (raise_if (steps = []) TypeError) (\<lambda>_.
     bindr (raise_if (map ps_sequence steps \<noteq> map int [0..<length steps]) ValueError) (\<lambda>_.
     bindr (raise_if (\<not> distinct ids) ValueError) (\<lambda>_.
     bindr (raise_if (\<not> distinct dependencies) ValueError) (\<lambda>_.
     bindr (raise_if (\<not> list_all (points_forward ids) dependencies) ValueError) (\<lambda>_.
     bindr (raise_if (\<not> distinct capabilities) ValueError) (\<lambda>_.
     bindr (raise_if (derivation = [] \<or> \<not> distinct derivation) ValueError) (\<lambda>_.
     bindr (plan_mapping nfc (of_json (rl_resources r))) (\<lambda>resources.
     bindr (plan_mapping nfc (of_json (rl_constraints r))) (\<lambda>constraints.
       Inr \<lparr>rl_steps = steps, rl_capabilities = capabilities, rl_resources = resources,
            rl_dependencies = dependencies, rl_constraints = constraints, rl_evidence = derivation\<rparr>))))))))))"

section \<open>The registered rule\<close>

definition payload_digest :: "execution_request \<Rightarrow> pyval" where
  "payload_digest q = (case rq_reference q of Some p \<Rightarrow> pr_digest p | None \<Rightarrow> PStr (rq_digest q))"

text \<open>The derivation evidence is text; \<open>sorted\<close> of other values is the \<open>TypeError\<close> of the
  comparison.\<close>

definition evidence_texts :: "pyval list \<Rightarrow> string list res" where
  "evidence_texts vs = mapr (\<lambda>v. case pv_str v of Some s \<Rightarrow> Inr s | None \<Rightarrow> Inl TypeError) vs"

definition deterministic_rule_v1 ::
  "normalizer \<Rightarrow> execution_request \<Rightarrow> validation_evidence \<Rightarrow> planning_policy \<Rightarrow> planning_configuration \<Rightarrow> rule_result res"
where
  "deterministic_rule_v1 nfc q v policy configuration =
     bindr (make_step nfc 0 (PStr (pg_step configuration)) (of_json (rq_work_type q)) (pdict [
         (''payload_digest'', payload_digest q), (''request_id'', PStr (rq_id q))])) (\<lambda>step.
     bindr (plan_mapping nfc (pdict [
         (''policy_defaults'', of_json (pp_defaults policy)),
         (''request_constraints'', of_json (rq_constraints q))])) (\<lambda>constraints.
     bindr (evidence_texts [PStr (rq_id q), PStr (rq_digest q), rv_id v, rv_digest v]) (\<lambda>evidence.
       make_rule_result nfc \<lparr>rl_steps = [step], rl_capabilities = pp_capabilities policy,
         rl_resources = pp_resources policy, rl_dependencies = [], rl_constraints = constraints,
         rl_evidence = sort evidence\<rparr>)))"

type_synonym rule_function =
  "execution_request \<Rightarrow> validation_evidence \<Rightarrow> planning_policy \<Rightarrow> planning_configuration \<Rightarrow> rule_result res"

definition planning_rules :: "normalizer \<Rightarrow> string \<rightharpoonup> rule_function" where
  "planning_rules nfc = [supported_plan_rule \<mapsto> deterministic_rule_v1 nfc]"

definition planning_rule :: "normalizer \<Rightarrow> string \<Rightarrow> rule_function res" where
  "planning_rule nfc version =
     (case planning_rules nfc version of
        Some rule \<Rightarrow> Inr rule
      | None \<Rightarrow> Inl (PlanError ExecutionPlanRuleVersionUnsupported))"

end
