(* ===== verification/PlanSerialization.thy ===== *)
theory PlanSerialization
  imports PlanRules
begin

text \<open>
  Building a plan and reading it back: \<open>app/runtime/execution_plan/serialization.py\<close>.  A plan
  is computed from the planning input, the accepted request and the validation evidence by
  the registered rule; reconstruction reads the canonical input, computes the plan again and
  compares it with the retained content.
\<close>

section \<open>The accepted request\<close>

definition accepted_draft :: "normalizer \<Rightarrow> execution_request \<Rightarrow> request_draft res" where
  "accepted_draft nfc q =
     execution_request_draft nfc (of_json (rq_organization q)) (of_json (rq_workload q))
       (of_json (rq_work_type q)) (of_json (rq_payload q)) (rq_reference q) (of_json (rq_constraints q))
       (of_json (rq_provenance q)) (of_json (rq_schema q))"

definition is_request_invalid :: "exc \<Rightarrow> bool" where
  "is_request_invalid e \<longleftrightarrow> e = RequestError ExecutionRequestInvalid"

definition validate_accepted_request :: "normalizer \<Rightarrow> execution_request \<Rightarrow> string res" where
  "validate_accepted_request nfc q =
     bindr (catch
         (bindr (accepted_draft nfc q) (\<lambda>d. build_execution_request nfc d (rq_idempotency q)))
         is_request_invalid plan_request_invalid) (\<lambda>(rebuilt, content).
     bindr (raise_if (rq_digest rebuilt \<noteq> rq_digest q) (PlanError ExecutionPlanRequestDigestInvalid)) (\<lambda>_.
     bindr (raise_if (\<not> request_eq rebuilt q) plan_request_invalid) (\<lambda>_. Inr content)))"

section \<open>Documents and digests\<close>

definition plan_input_ns :: string where "plan_input_ns = ''edgeiq.execution-plan-input.v1''"
definition plan_digest_ns :: string where "plan_digest_ns = ''edgeiq.execution-plan.v1''"
definition plan_id_ns :: string where "plan_id_ns = ''edgeiq.execution-plan-id.v1''"
definition plan_idempotency_ns :: string where "plan_idempotency_ns = ''edgeiq.execution-plan-idempotency.v1''"
definition policy_ns :: string where "policy_ns = ''edgeiq.execution-plan-policy.v1''"
definition configuration_ns :: string where "configuration_ns = ''edgeiq.execution-plan-configuration.v1''"

definition plan_content :: "normalizer \<Rightarrow> pyval \<Rightarrow> string res" where
  "plan_content nfc document = canonical_bytes request_cfg nfc document"

definition plan_hash :: "normalizer \<Rightarrow> string \<Rightarrow> pyval \<Rightarrow> string res" where
  "plan_hash nfc ns document = bindr (plan_content nfc document) (\<lambda>c. Inr (namespaced_digest ns c))"

definition policy_document :: "planning_policy \<Rightarrow> pyval" where
  "policy_document p = pdict [
     (''plan_constraint_defaults'', of_json (pp_defaults p)), (''policy_version'', PStr (pp_version p)),
     (''required_capabilities'', ptuple (pp_capabilities p)), (''resource_requirements'', of_json (pp_resources p))]"

definition configuration_document :: "planning_configuration \<Rightarrow> pyval" where
  "configuration_document c = pdict [
     (''configuration_version'', PStr (pg_version c)), (''work_step_id'', PStr (pg_step c))]"

definition policy_digest :: "normalizer \<Rightarrow> planning_policy \<Rightarrow> string res" where
  "policy_digest nfc p = plan_hash nfc policy_ns (policy_document p)"

definition configuration_digest :: "normalizer \<Rightarrow> planning_configuration \<Rightarrow> string res" where
  "configuration_digest nfc c = plan_hash nfc configuration_ns (configuration_document c)"

definition plan_idempotency_identity ::
  "normalizer \<Rightarrow> string \<Rightarrow> string \<Rightarrow> string \<Rightarrow> string \<Rightarrow> string res"
where
  "plan_idempotency_identity nfc organization workload request_id submitted_key =
     bindr (raise_if (submitted_key = []) plan_invalid) (\<lambda>_.
     plan_hash nfc plan_idempotency_ns (pdict [
       (''operation'', PStr ''derive-execution-plan''), (''organization_id'', PStr organization),
       (''request_id'', PStr request_id), (''submitted_key'', PStr submitted_key),
       (''workload_context_id'', PStr workload)]))"

definition validation_document :: "validation_evidence \<Rightarrow> pyval" where
  "validation_document v = pdict [
     (''canonical_digest'', rv_digest v), (''canonical_request_digest'', rv_request_digest v),
     (''findings'', PSeq (rv_findings v)), (''history_boundary'', rv_boundary v),
     (''organization_id'', rv_organization v), (''outcome'', PStr (validation_outcome_value (rv_outcome v))),
     (''request_id'', rv_request v), (''schema_version'', rv_schema v),
     (''validation_evidence_id'', rv_id v), (''validation_policy_version'', rv_policy v),
     (''workload_context_id'', rv_workload v)]"

definition plan_input_document ::
  "planning_input \<Rightarrow> execution_request \<Rightarrow> validation_evidence \<Rightarrow> string \<Rightarrow> string \<Rightarrow> pyval"
where
  "plan_input_document i q v configuration_hash policy_hash = pdict [
     (''canonical_request_digest'', PStr (rq_digest q)),
     (''configuration'', configuration_document (pi_configuration i)),
     (''configuration_digest'', PStr configuration_hash),
     (''organization_id'', PStr (pi_organization i)),
     (''plan_schema_version'', PStr (pi_schema i)),
     (''planning_rule_version'', PStr (pi_rule i)),
     (''policy'', policy_document (pi_policy i)),
     (''policy_digest'', PStr policy_hash),
     (''request_id'', PStr (pi_request i)),
     (''request_schema_version'', of_json (rq_schema q)),
     (''serialization_version'', PStr serialization_version),
     (''validation_evidence'', validation_document v),
     (''workload_context_id'', PStr (pi_workload i))]"

definition step_document :: "plan_step \<Rightarrow> pyval" where
  "step_document s = pdict [
     (''inputs'', of_json (ps_inputs s)), (''operation'', PStr (ps_operation s)),
     (''sequence'', PInt (ps_sequence s)), (''step_id'', PStr (ps_id s))]"

definition dependency_document :: "plan_dependency \<Rightarrow> pyval" where
  "dependency_document d = pdict [
     (''predecessor_step_id'', PStr (pd_predecessor d)), (''successor_step_id'', PStr (pd_successor d))]"

definition plan_identity :: "normalizer \<Rightarrow> string \<Rightarrow> planning_input \<Rightarrow> string res" where
  "plan_identity nfc input_digest i = plan_hash nfc plan_id_ns (pdict [
     (''canonical_input_digest'', PStr input_digest), (''plan_schema_version'', PStr (pi_schema i)),
     (''planning_rule_version'', PStr (pi_rule i))])"

definition metadata_document :: "plan_metadata \<Rightarrow> pyval" where
  "metadata_document m = pdict [
     (''history_boundary'', PStr (pm_boundary m)), (''input_artifact_hashes'', ptuple (pm_inputs m)),
     (''planner_version'', PStr (pm_planner m)), (''serialization_version'', PStr (pm_serialization m))]"

definition plan_document ::
  "planning_input \<Rightarrow> execution_request \<Rightarrow> rule_result \<Rightarrow> plan_metadata \<Rightarrow> string \<Rightarrow> string \<Rightarrow> string \<Rightarrow> string \<Rightarrow> pyval"
where
  "plan_document i q out m input_digest plan_id configuration_hash policy_hash = pdict [
     (''canonical_input_digest'', PStr input_digest),
     (''canonical_request_digest'', PStr (rq_digest q)),
     (''capability_requirements'', ptuple (rl_capabilities out)),
     (''declared_dependencies'', PSeq (map dependency_document (rl_dependencies out))),
     (''derivation_evidence'', ptuple (rl_evidence out)),
     (''normalized_plan_constraints'', of_json (rl_constraints out)),
     (''organization_id'', of_json (rq_organization q)),
     (''plan_id'', PStr plan_id),
     (''plan_schema_version'', PStr (pi_schema i)),
     (''planning_configuration_digest'', PStr configuration_hash),
     (''planning_rule_version'', PStr (pi_rule i)),
     (''policy_version_or_digest'', PStr policy_hash),
     (''reconstruction_metadata'', metadata_document m),
     (''request_id'', PStr (rq_id q)),
     (''request_schema_version'', of_json (rq_schema q)),
     (''resource_requirements'', of_json (rl_resources out)),
     (''serialization_version'', PStr serialization_version),
     (''structured_planned_work'', PSeq (map step_document (rl_steps out))),
     (''workload_context_id'', of_json (rq_workload q))]"

section \<open>Building a plan\<close>

text \<open>The checks of \<open>build_execution_plan\<close> before anything is computed.\<close>

definition check_plan_inputs :: "normalizer \<Rightarrow> planning_input \<Rightarrow> execution_request \<Rightarrow> validation_evidence \<Rightarrow> unit res" where
  "check_plan_inputs nfc i q v =
     bindr (validate_accepted_request nfc q) (\<lambda>_.
     bindr (validate_validation_evidence nfc v) (\<lambda>_.
     bindr (raise_if (rq_id q \<noteq> pi_request i \<or> rq_organization q \<noteq> JStr (pi_organization i)
        \<or> rq_workload q \<noteq> JStr (pi_workload i)) plan_request_invalid) (\<lambda>_.
     bindr (raise_if (rv_id v \<noteq> PStr (pi_evidence i) \<or> rv_request v \<noteq> PStr (rq_id q)
        \<or> rv_request_digest v \<noteq> PStr (rq_digest q) \<or> rv_organization v \<noteq> of_json (rq_organization q)
        \<or> rv_workload v \<noteq> of_json (rq_workload q)) plan_request_invalid) (\<lambda>_.
     raise_if (rv_outcome v \<noteq> Valid) plan_request_invalid))))"

text \<open>The hashes of the metadata: \<open>validation.canonical_digest\<close> is a raw value, and the four
  are sorted.\<close>

definition input_hashes :: "execution_request \<Rightarrow> validation_evidence \<Rightarrow> string \<Rightarrow> string \<Rightarrow> string list res" where
  "input_hashes q v policy_hash configuration_hash =
     bindr (evidence_texts [PStr (rq_digest q), rv_digest v, PStr policy_hash, PStr configuration_hash])
       (\<lambda>hs. Inr (sort hs))"

definition build_execution_plan ::
  "normalizer \<Rightarrow> planning_input \<Rightarrow> execution_request \<Rightarrow> validation_evidence
    \<Rightarrow> (execution_plan \<times> string \<times> string) res"
where
  "build_execution_plan nfc i q v =
     bindr (check_plan_inputs nfc i q v) (\<lambda>_.
     bindr (planning_rule nfc (pi_rule i)) (\<lambda>rule.
     bindr (rule q v (pi_policy i) (pi_configuration i)) (\<lambda>out.
     bindr (configuration_digest nfc (pi_configuration i)) (\<lambda>configuration_hash.
     bindr (policy_digest nfc (pi_policy i)) (\<lambda>policy_hash.
     bindr (plan_content nfc (plan_input_document i q v configuration_hash policy_hash)) (\<lambda>input_content.
     let input_digest = namespaced_digest plan_input_ns input_content in
     bindr (plan_identity nfc input_digest i) (\<lambda>plan_id.
     bindr (input_hashes q v policy_hash configuration_hash) (\<lambda>hashes.
     bindr (make_plan_metadata nfc (rv_boundary v) hashes) (\<lambda>metadata.
     bindr (plan_content nfc (plan_document i q out metadata input_digest plan_id configuration_hash policy_hash))
       (\<lambda>content.
     let plan_digest = namespaced_digest plan_digest_ns content in
     bindr (make_plan nfc
         \<lparr>pl_id = plan_id, pl_schema = pi_schema i, pl_request = rq_id q, pl_request_schema = [],
          pl_request_digest = rq_digest q, pl_organization = [], pl_workload = [], pl_rule = pi_rule i,
          pl_configuration = configuration_hash, pl_policy = policy_hash, pl_input_digest = input_digest,
          pl_digest = plan_digest, pl_work = rl_steps out, pl_capabilities = rl_capabilities out,
          pl_resources = rl_resources out, pl_dependencies = rl_dependencies out,
          pl_constraints = rl_constraints out, pl_evidence = rl_evidence out, pl_metadata = metadata\<rparr>
         (of_json (rq_schema q)) (of_json (rq_organization q)) (of_json (rq_workload q))) (\<lambda>plan.
       Inr (plan, input_content, content))))))))))))"

section \<open>Reading back\<close>

definition plan_failed :: exc where
  "plan_failed = PlanError ExecutionPlanReconstructionFailed"

definition plan_load :: "normalizer \<Rightarrow> string \<Rightarrow> pyval res" where
  "plan_load nfc content =
     bindr (raise_if (content = []) plan_failed) (\<lambda>_.
     bindr (case json_loads content of None \<Rightarrow> Inl plan_failed | Some v \<Rightarrow> Inr v) (\<lambda>document.
     bindr (raise_if (\<not> is_dict document) plan_failed) (\<lambda>_.
     bindr (plan_content nfc document) (\<lambda>rendered.
     bindr (raise_if (rendered \<noteq> content) plan_failed) (\<lambda>_. Inr document)))))"

text \<open>\<open>except (KeyError, TypeError, ValueError, ExecutionPlanInvalid)\<close>.\<close>

definition caught_by_planning_input :: "exc \<Rightarrow> bool" where
  "caught_by_planning_input e \<longleftrightarrow> e \<in> {KeyError, TypeError, ValueError, UnicodeEncodeError} \<or> is_plan_invalid e"

text \<open>The keyword arguments read from the retained validation evidence.\<close>

definition read_validation :: "pyval \<Rightarrow> validation_evidence res" where
  "read_validation d =
     bindr (subscript d ''request_id'') (\<lambda>request_id.
     bindr (subscript d ''canonical_request_digest'') (\<lambda>request_digest.
     bindr (subscript d ''organization_id'') (\<lambda>organization.
     bindr (subscript d ''workload_context_id'') (\<lambda>workload.
     bindr (subscript d ''validation_policy_version'') (\<lambda>policy.
     bindr (subscript d ''outcome'') (\<lambda>o_raw.
     bindr (validation_outcome_of o_raw) (\<lambda>outcome.
     bindr (subscript d ''findings'') (\<lambda>f_raw.
     bindr (py_iter f_raw) (\<lambda>findings.
     bindr (subscript d ''history_boundary'') (\<lambda>boundary.
       Inr \<lparr>rv_id = PNone, rv_request = request_id, rv_request_digest = request_digest,
            rv_organization = organization, rv_workload = workload, rv_policy = policy,
            rv_outcome = outcome, rv_findings = findings, rv_boundary = boundary,
            rv_schema = PNone, rv_digest = PNone\<rparr>))))))))))"

definition read_planning_input ::
  "normalizer \<Rightarrow> pyval \<Rightarrow> (planning_input \<times> validation_evidence \<times> validation_evidence) res"
where
  "read_planning_input nfc document =
     bindr (subscript document ''policy'') (\<lambda>policy_data.
     bindr (subscript document ''configuration'') (\<lambda>config_data.
     bindr (subscript document ''validation_evidence'') (\<lambda>validation_data.
     bindr (subscript policy_data ''policy_version'') (\<lambda>policy_version.
     bindr (subscript policy_data ''required_capabilities'') (\<lambda>caps_raw.
     bindr (py_iter caps_raw) (\<lambda>capabilities.
     bindr (subscript policy_data ''resource_requirements'') (\<lambda>resources.
     bindr (subscript policy_data ''plan_constraint_defaults'') (\<lambda>defaults.
     bindr (make_planning_policy nfc policy_version capabilities resources defaults) (\<lambda>policy.
     bindr (subscript config_data ''configuration_version'') (\<lambda>configuration_version.
     bindr (subscript config_data ''work_step_id'') (\<lambda>work_step.
     bindr (make_planning_configuration nfc configuration_version work_step) (\<lambda>configuration.
     bindr (read_validation validation_data) (\<lambda>raw.
     bindr (build_validation_evidence nfc raw) (\<lambda>validation.
     bindr (subscript document ''organization_id'') (\<lambda>organization.
     bindr (subscript document ''workload_context_id'') (\<lambda>workload.
     bindr (subscript document ''request_id'') (\<lambda>request_id.
     bindr (subscript validation_data ''validation_evidence_id'') (\<lambda>evidence_id.
     bindr (subscript document ''plan_schema_version'') (\<lambda>schema.
     bindr (subscript document ''planning_rule_version'') (\<lambda>rule.
     bindr (make_planning_input nfc organization workload request_id evidence_id policy configuration schema rule)
       (\<lambda>i. Inr (i, raw, validation))))))))))))))))))))))"

text \<open>\<open>_planning_input_from_document\<close>: read, then compare the digests and the evidence as it was
  retained with the evidence as it is built; the subscripts after the \<open>try\<close> block are the
  only ones that can still raise a \<open>KeyError\<close>.\<close>

definition planning_input_from_document ::
  "normalizer \<Rightarrow> pyval \<Rightarrow> (planning_input \<times> validation_evidence) res"
where
  "planning_input_from_document nfc document =
     bindr (catch (read_planning_input nfc document) caught_by_planning_input plan_failed) (\<lambda>(i, raw, validation).
     bindr (policy_digest nfc (pi_policy i)) (\<lambda>policy_hash.
     if dget document ''policy_digest'' \<noteq> PStr policy_hash
     then Inl (PlanError ExecutionPlanPolicyConfigurationMismatch)
     else
       bindr (configuration_digest nfc (pi_configuration i)) (\<lambda>configuration_hash.
       if dget document ''configuration_digest'' \<noteq> PStr configuration_hash
       then Inl (PlanError ExecutionPlanPolicyConfigurationMismatch)
       else
         bindr (subscript document ''validation_evidence'') (\<lambda>validation_data.
         bindr (subscript validation_data ''validation_evidence_id'') (\<lambda>evidence_id.
         bindr (subscript validation_data ''schema_version'') (\<lambda>schema.
         bindr (subscript validation_data ''canonical_digest'') (\<lambda>digest.
         bindr (raise_if (validation \<noteq> raw\<lparr>rv_id := evidence_id, rv_schema := schema, rv_digest := digest\<rparr>)
            (PlanError ExecutionPlanPolicyConfigurationMismatch)) (\<lambda>_.
           Inr (i, validation)))))))))"

definition reconstruct_execution_plan ::
  "normalizer \<Rightarrow> execution_request \<Rightarrow> string \<Rightarrow> string \<Rightarrow> string \<Rightarrow> string \<Rightarrow> string \<Rightarrow> execution_plan res"
where
  "reconstruct_execution_plan nfc q input_content content input_digest plan_digest plan_id =
     bindr (raise_if (input_content = [] \<or> namespaced_digest plan_input_ns input_content \<noteq> input_digest)
        (PlanError ExecutionPlanDigestMismatch)) (\<lambda>_.
     bindr (plan_load nfc input_content) (\<lambda>document.
     bindr (raise_if (dget document ''serialization_version'' \<noteq> PStr serialization_version)
        (PlanError ExecutionPlanSchemaVersionUnsupported)) (\<lambda>_.
     bindr (planning_input_from_document nfc document) (\<lambda>(i, validation).
     bindr (build_execution_plan nfc i q validation) (\<lambda>(rebuilt, rebuilt_input, rebuilt_plan).
     bindr (raise_if (rebuilt_input \<noteq> input_content) (PlanError ExecutionPlanReplayDiverged)) (\<lambda>_.
     bindr (raise_if (content = [] \<or> namespaced_digest plan_digest_ns content \<noteq> plan_digest)
        (PlanError ExecutionPlanDigestMismatch)) (\<lambda>_.
     bindr (plan_load nfc content) (\<lambda>_.
     bindr (raise_if (pl_id rebuilt \<noteq> plan_id) (PlanError ExecutionPlanIdentityMismatch)) (\<lambda>_.
     bindr (raise_if (pl_digest rebuilt \<noteq> plan_digest \<or> rebuilt_plan \<noteq> content)
        (PlanError ExecutionPlanReplayDiverged)) (\<lambda>_.
       Inr rebuilt))))))))))"

end
