(* ===== verification/PlanService.thy ===== *)
theory PlanService
  imports PlanSerialization RequestService AliasStore
begin

text \<open>
  The plan repository and the service: \<open>app/runtime/execution_plan/ports.py\<close> and
  \<open>service.py\<close>.  The lock makes an \<open>append\<close> one step, and the four dictionaries are published
  together.  The service reads accepted requests from the request repository and evidence
  from the validation store.
\<close>

section \<open>The repository\<close>

record plan_record =
  kr_plan :: execution_plan
  kr_request :: execution_request
  kr_input :: string
  kr_content :: string
  kr_idempotency :: string
  kr_version :: int

type_synonym plan_key = "string \<times> string \<times> string"

record plan_state =
  ks_streams :: "plan_key \<Rightarrow> plan_record list"
  ks_by_id :: "string \<rightharpoonup> plan_record"
  ks_idempotency :: "string \<rightharpoonup> plan_record"
  ks_current :: "plan_key \<rightharpoonup> string"

definition plan_init :: plan_state where
  "plan_init = \<lparr>ks_streams = (\<lambda>_. []), ks_by_id = Map.empty, ks_idempotency = Map.empty, ks_current = Map.empty\<rparr>"

definition plan_stream_key :: "execution_plan \<Rightarrow> plan_key" where
  "plan_stream_key p = (pl_organization p, pl_workload p, pl_request p)"

definition plan_equivalent :: "plan_record \<Rightarrow> plan_record \<Rightarrow> bool" where
  "plan_equivalent a b \<longleftrightarrow>
     plan_eq (kr_plan a) (kr_plan b) \<and> request_eq (kr_request a) (kr_request b)
     \<and> kr_input a = kr_input b \<and> kr_content a = kr_content b"

definition plan_conflict :: exc where
  "plan_conflict = PlanError ExecutionPlanIdempotencyConflict"

definition validate_plan_record :: "normalizer \<Rightarrow> plan_record \<Rightarrow> unit res" where
  "validate_plan_record nfc r =
     (let p = kr_plan r; q = kr_request r in
     bindr (raise_if (rq_organization q \<noteq> JStr (pl_organization p) \<or> rq_workload q \<noteq> JStr (pl_workload p))
        (PlanError ExecutionPlanOrganizationMismatch)) (\<lambda>_.
     bindr (raise_if (rq_id q \<noteq> pl_request p) (PlanError ExecutionPlanIdentityMismatch)) (\<lambda>_.
     bindr (reconstruct_execution_plan nfc q (kr_input r) (kr_content r) (pl_input_digest p) (pl_digest p) (pl_id p))
       (\<lambda>reconstructed.
     bindr (raise_if (\<not> plan_eq reconstructed p) (PlanError ExecutionPlanDigestMismatch)) (\<lambda>_.
     bindr (raise_if (kr_version r \<noteq> 0) (PlanError ExecutionPlanVersionConflict)) (\<lambda>_.
     raise_if (\<not> is_sha256_hex (kr_idempotency r)) plan_conflict))))))"

text \<open>The part of \<open>append\<close> under the lock.\<close>

definition plan_insert :: "plan_state \<Rightarrow> plan_record \<Rightarrow> int \<Rightarrow> (plan_state \<times> plan_record \<times> bool) res" where
  "plan_insert st r expected_version =
     (let p = kr_plan r; key = plan_stream_key p in
      case ks_idempotency st (kr_idempotency r) of
        Some prior \<Rightarrow> if \<not> plan_equivalent prior r then Inl plan_conflict else Inr (st, prior, False)
      | None \<Rightarrow>
          (let stream = ks_streams st key; current_version = int (length stream) in
           if expected_version \<noteq> current_version then Inl (PlanError ExecutionPlanVersionConflict)
           else
             (case ks_by_id st (pl_id p) of
                Some prior \<Rightarrow>
                  if \<not> plan_equivalent prior r then Inl (PlanError ExecutionPlanIdentityMismatch)
                  else Inr (st\<lparr>ks_idempotency := (ks_idempotency st)(kr_idempotency r \<mapsto> prior)\<rparr>, prior, False)
              | None \<Rightarrow>
                  (let accepted = r\<lparr>kr_version := current_version + 1\<rparr>
                   in Inr (\<lparr>ks_streams = (ks_streams st)(key := stream @ [accepted]),
                            ks_by_id = (ks_by_id st)(pl_id p \<mapsto> accepted),
                            ks_idempotency = (ks_idempotency st)(kr_idempotency r \<mapsto> accepted),
                            ks_current = (ks_current st)(key \<mapsto> pl_id p)\<rparr>, accepted, True)))))"

definition plan_append ::
  "normalizer \<Rightarrow> plan_state \<Rightarrow> plan_record \<Rightarrow> int \<Rightarrow> (plan_state \<times> plan_record \<times> bool) res"
where
  "plan_append nfc st r expected_version =
     bindr (validate_plan_record nfc r) (\<lambda>_. plan_insert st r expected_version)"

definition plan_get :: "plan_state \<Rightarrow> string \<Rightarrow> execution_plan option" where
  "plan_get st i = map_option kr_plan (ks_by_id st i)"

definition plan_record_of :: "plan_state \<Rightarrow> string \<Rightarrow> plan_record option" where
  "plan_record_of st i = ks_by_id st i"

definition plan_history :: "plan_state \<Rightarrow> plan_key \<Rightarrow> plan_record list" where
  "plan_history st key = ks_streams st key"

text \<open>\<open>self._state.by_id[plan_id]\<close> of an identifier that is current but unknown would be a
  \<open>KeyError\<close>.\<close>

definition plan_current :: "plan_state \<Rightarrow> plan_key \<Rightarrow> execution_plan option res" where
  "plan_current st key =
     (case ks_current st key of
        None \<Rightarrow> Inr None
      | Some i \<Rightarrow> (case ks_by_id st i of Some r \<Rightarrow> Inr (Some (kr_plan r)) | None \<Rightarrow> Inl KeyError))"

section \<open>The service\<close>

datatype plan_outcome = PlanCreated | PlanExistingEquivalent

definition is_request_error :: "exc \<Rightarrow> bool" where
  "is_request_error e \<longleftrightarrow> (case e of RequestError _ \<Rightarrow> True | _ \<Rightarrow> False)"

text \<open>The upstream evidence \<open>derive\<close> requires: the retained request and its validation.\<close>

definition plan_upstream ::
  "normalizer \<Rightarrow> (string \<Rightarrow> request_record option) \<Rightarrow> (string \<Rightarrow> validation_evidence option) \<Rightarrow> planning_input
    \<Rightarrow> (execution_request \<times> validation_evidence) res"
where
  "plan_upstream nfc requests evidence i =
     (case requests (pi_request i) of
        None \<Rightarrow> Inl plan_request_invalid
      | Some retained \<Rightarrow>
          let q = rr_request retained in
          bindr (catch (reconstruct_execution_request nfc (rr_content retained) (rq_digest q))
             is_request_error plan_request_invalid) (\<lambda>reconstructed.
          bindr (raise_if (\<not> request_eq reconstructed q \<or> rq_organization q \<noteq> JStr (pi_organization i)
             \<or> rq_workload q \<noteq> JStr (pi_workload i)) plan_request_invalid) (\<lambda>_.
          case evidence (pi_evidence i) of
            None \<Rightarrow> Inl plan_request_invalid
          | Some v \<Rightarrow>
              bindr (validate_validation_evidence nfc v) (\<lambda>_.
              bindr (raise_if (rv_id v \<noteq> PStr (pi_evidence i) \<or> rv_outcome v \<noteq> Valid
                 \<or> rv_request v \<noteq> PStr (rq_id q) \<or> rv_request_digest v \<noteq> PStr (rq_digest q)
                 \<or> rv_organization v \<noteq> of_json (rq_organization q)
                 \<or> rv_workload v \<noteq> of_json (rq_workload q)) plan_request_invalid) (\<lambda>_.
                Inr (q, v))))))"

definition plan_derive ::
  "normalizer \<Rightarrow> (string \<Rightarrow> request_record option) \<Rightarrow> (string \<Rightarrow> validation_evidence option) \<Rightarrow> plan_state
    \<Rightarrow> planning_input \<Rightarrow> int \<Rightarrow> string \<Rightarrow> (plan_state \<times> plan_outcome \<times> execution_plan \<times> int) res"
where
  "plan_derive nfc requests evidence st i expected_version key =
     bindr (plan_upstream nfc requests evidence i) (\<lambda>(q, v).
     bindr (plan_idempotency_identity nfc (pi_organization i) (pi_workload i) (pi_request i) key) (\<lambda>identity.
     bindr (build_execution_plan nfc i q v) (\<lambda>(plan, input_content, content).
     bindr (plan_append nfc st \<lparr>kr_plan = plan, kr_request = q, kr_input = input_content, kr_content = content,
         kr_idempotency = identity, kr_version = 0\<rparr> expected_version) (\<lambda>(st', accepted, created).
       Inr (st', if created then PlanCreated else PlanExistingEquivalent, kr_plan accepted, kr_version accepted)))))"

definition plan_service_get :: "plan_state \<Rightarrow> string \<Rightarrow> string \<Rightarrow> execution_plan option" where
  "plan_service_get st i organization =
     (case plan_get st i of
        None \<Rightarrow> None
      | Some p \<Rightarrow> if pl_organization p \<noteq> organization then None else Some p)"

definition plan_service_history :: "plan_state \<Rightarrow> plan_key \<Rightarrow> execution_plan list" where
  "plan_service_history st key = map kr_plan (plan_history st key)"

definition plan_reconstruct :: "normalizer \<Rightarrow> plan_state \<Rightarrow> string \<Rightarrow> string \<Rightarrow> execution_plan res" where
  "plan_reconstruct nfc st i organization =
     (case plan_record_of st i of
        None \<Rightarrow> Inl (PlanError ExecutionPlanNotFound)
      | Some r \<Rightarrow>
          if pl_organization (kr_plan r) \<noteq> organization then Inl (PlanError ExecutionPlanNotFound)
          else
            (let history = plan_history st (plan_stream_key (kr_plan r)); p = kr_plan r in
             bindr (raise_if (map kr_version history \<noteq> map int [1..<length history + 1]) plan_failed) (\<lambda>_.
             bindr (reconstruct_execution_plan nfc (kr_request r) (kr_input r) (kr_content r)
                (pl_input_digest p) (pl_digest p) (pl_id p)) (\<lambda>reconstructed.
             bindr (raise_if (\<not> plan_eq reconstructed p) (PlanError ExecutionPlanReplayDiverged)) (\<lambda>_.
               Inr reconstructed)))))"

section \<open>The store as an interface\<close>

definition plan_record_key :: "plan_record \<Rightarrow> plan_key" where
  "plan_record_key r = plan_stream_key (kr_plan r)"

definition plan_insert_record :: "plan_state \<Rightarrow> plan_record \<Rightarrow> int \<Rightarrow> (plan_state \<times> plan_record) res" where
  "plan_insert_record st r n = bindr (plan_insert st r n) (\<lambda>(st', a, created). Inr (st', a))"

lemma plan_eq_refl [simp]: "plan_eq p p"
  by (simp add: plan_eq_def step_eq_def list_all2_refl)

lemma request_eq_refl [simp]: "request_eq q q"
  by (simp add: request_eq_def reference_eq_def split: option.split)

lemma plan_insert_record_Inr:
  "plan_insert_record st r n = Inr (st', a) \<longleftrightarrow> (\<exists>created. plan_insert st r n = Inr (st', a, created))"
  by (auto simp: plan_insert_record_def bindr_Inr_conv)

interpretation plans: alias_store plan_insert_record ks_streams ks_by_id ks_idempotency
  plan_record_key kr_idempotency plan_equivalent "\<lambda>r. r" "\<lambda>r. pl_id (kr_plan r)" kr_version
proof
  fix st st' r n e p
  assume a: "plan_insert_record st r n = Inr (st', e)"
  let ?a = "r\<lparr>kr_version := n + 1\<rparr>"
  have "plan_record_key ?a = plan_record_key r" "plan_equivalent ?a r' \<longleftrightarrow> plan_equivalent r r'"
    "plan_equivalent r r" for r'
    by (simp_all add: plan_record_key_def plan_equivalent_def)
  then show "(\<exists>p. ks_idempotency st (kr_idempotency r) = Some p \<and> plan_equivalent p r \<and> st' = st \<and> e = p)
      \<or> (\<exists>p. ks_idempotency st (kr_idempotency r) = None
         \<and> n = int (length (ks_streams st (plan_record_key r)))
         \<and> ks_by_id st (pl_id (kr_plan r)) = Some p
         \<and> plan_equivalent p r \<and> ks_streams st' = ks_streams st \<and> ks_by_id st' = ks_by_id st
         \<and> ks_idempotency st' = (ks_idempotency st)(kr_idempotency r \<mapsto> p) \<and> e = p)
      \<or> (\<exists>a. ks_idempotency st (kr_idempotency r) = None
         \<and> n = int (length (ks_streams st (plan_record_key r)))
         \<and> ks_by_id st (pl_id (kr_plan r)) = None
         \<and> plan_record_key a = plan_record_key r \<and> pl_id (kr_plan a) = pl_id (kr_plan r)
         \<and> kr_version a = n + 1
         \<and> (\<forall>r'. plan_equivalent a r' \<longleftrightarrow> plan_equivalent r r') \<and> plan_equivalent r r
         \<and> ks_streams st' = (ks_streams st)(plan_record_key a := ks_streams st (plan_record_key a) @ [a])
         \<and> ks_by_id st' = (ks_by_id st)(pl_id (kr_plan a) \<mapsto> a)
         \<and> ks_idempotency st' = (ks_idempotency st)(kr_idempotency r \<mapsto> a) \<and> e = a)"
    using a unfolding plan_insert_record_Inr plan_insert_def Let_def plan_record_key_def
    by (intro disjCI) (auto split: option.splits if_splits intro!: exI [of _ ?a])
qed (auto simp: plan_insert_record_Inr plan_insert_def)

end
