(* ===== verification/PlanProperties.thy ===== *)
theory PlanProperties
  imports PlanService
begin

text \<open>
  Facts on plans: what the rules and the builder return, what an append keeps, and the
  invariant of a world in which requests are admitted, evidence is retained and plans are
  derived in any order.
\<close>

section \<open>Rule results\<close>

lemma make_rule_result_Inr:
  assumes "make_rule_result nfc r = Inr out"
  shows "rl_steps out = rl_steps r" and "rl_steps out \<noteq> []"
    and "map ps_sequence (rl_steps out) = map int [0..<length (rl_steps out)]"
    and "distinct (map ps_id (rl_steps out))"
    and "rl_dependencies out = sort_dependencies (rl_dependencies r)" and "distinct (rl_dependencies out)"
    and "list_all (points_forward (map ps_id (rl_steps out))) (rl_dependencies out)"
    and "rl_capabilities out = sort (rl_capabilities r)" and "distinct (rl_capabilities out)"
    and "rl_evidence out = sort (rl_evidence r)" and "distinct (rl_evidence out)" and "rl_evidence out \<noteq> []"
  using assms by (auto simp: make_rule_result_def Let_def res_simps)

lemma step_positions_Some:
  assumes "distinct ids" and "step_positions ids i = Some n"
  shows "n < length ids" and "ids ! n = i"
proof -
  have "(i, n) \<in> set (map (\<lambda>(n, x). (x, n)) (enumerate 0 ids))"
    using assms(2) unfolding step_positions_def by (metis map_of_SomeD set_rev)
  then show "n < length ids" "ids ! n = i" by (auto simp: in_set_enumerate_eq)
qed

lemma points_forwardD:
  assumes "distinct ids" and "points_forward ids d"
  obtains m n where "m < n" "n < length ids" "ids ! m = pd_predecessor d" "ids ! n = pd_successor d"
  using assms step_positions_Some by (fastforce simp: points_forward_def split: option.splits)

text \<open>The relation "must run before" of a rule result.\<close>

definition runs_before :: "rule_result \<Rightarrow> (string \<times> string) set" where
  "runs_before r = {(pd_predecessor d, pd_successor d) | d. d \<in> set (rl_dependencies r)}"

lemma forward_index:
  assumes "distinct ids" and "list_all (points_forward ids) ds" and "d \<in> set ds"
  shows "the (step_positions ids (pd_predecessor d)) < the (step_positions ids (pd_successor d))"
proof -
  have "points_forward ids d" using assms(2,3) by (simp add: list_all_iff)
  then show ?thesis by (auto simp: points_forward_def split: option.splits)
qed

lemma wf_runs_before:
  assumes "distinct (map ps_id (rl_steps r))"
    and "list_all (points_forward (map ps_id (rl_steps r))) (rl_dependencies r)"
  shows "wf (runs_before r)"
proof (rule wf_subset)
  show "runs_before r \<subseteq> measure (\<lambda>i. the (step_positions (map ps_id (rl_steps r)) i))"
    using forward_index [OF assms] by (auto simp: runs_before_def)
qed simp

text \<open>The registered rule: one step, the work the request asks for.\<close>

lemma sort_singleton_evidence: "evidence_texts vs = Inr ts \<Longrightarrow> map PStr ts = vs"
proof (induction vs arbitrary: ts)
  case (Cons v vs)
  then show ?case by (cases v) (auto simp: evidence_texts_def bindr_Inr_conv)
qed (simp add: evidence_texts_def)

lemma make_step_Inr:
  "make_step nfc s i op ins = Inr step \<Longrightarrow>
     0 \<le> s \<and> ps_sequence step = s \<and> plan_text nfc i = Inr (ps_id step) \<and> plan_text nfc op = Inr (ps_operation step)
     \<and> plan_mapping nfc ins = Inr (ps_inputs step)"
  by (auto simp: make_step_def res_simps)

lemma plan_text_Inr: "plan_text nfc v = Inr t \<longleftrightarrow> (\<exists>s. v = PStr s \<and> s \<noteq> [] \<and> t = nfc s)"
  by (cases v) (auto simp: plan_text_def)

lemma deterministic_rule_Inr:
  assumes "deterministic_rule_v1 nfc q v policy configuration = Inr out"
  obtains step ev where "rl_steps out = [step]" "ps_sequence step = 0"
    "plan_text nfc (PStr (pg_step configuration)) = Inr (ps_id step)"
    "plan_text nfc (of_json (rq_work_type q)) = Inr (ps_operation step)"
    "plan_mapping nfc (pdict [(''payload_digest'', payload_digest q), (''request_id'', PStr (rq_id q))])
       = Inr (ps_inputs step)"
    "rl_dependencies out = []" "rl_capabilities out = sort (pp_capabilities policy)"
    "rl_evidence out = sort ev" "distinct ev"
    "map PStr ev = [PStr (rq_id q), PStr (rq_digest q), rv_id v, rv_digest v]"
proof -
  from assms obtain step cs ev where
    s: "make_step nfc 0 (PStr (pg_step configuration)) (of_json (rq_work_type q)) (pdict [
         (''payload_digest'', payload_digest q), (''request_id'', PStr (rq_id q))]) = Inr step"
    and ev: "evidence_texts [PStr (rq_id q), PStr (rq_digest q), rv_id v, rv_digest v] = Inr ev"
    and r: "make_rule_result nfc \<lparr>rl_steps = [step], rl_capabilities = pp_capabilities policy,
         rl_resources = pp_resources policy, rl_dependencies = [], rl_constraints = cs,
         rl_evidence = sort ev\<rparr> = Inr out"
    by (auto simp: deterministic_rule_v1_def bindr_Inr_conv)
  show ?thesis
    using that [of step ev] make_rule_result_Inr [OF r] make_step_Inr [OF s] sort_singleton_evidence [OF ev]
    by (simp add: sort_dependencies_def sort_key_id)
qed

lemma planning_rule_Inr: "planning_rule nfc version = Inr rule \<longleftrightarrow> version = supported_plan_rule \<and> rule = deterministic_rule_v1 nfc"
  by (auto simp: planning_rule_def planning_rules_def split: option.splits)

section \<open>Built plans\<close>

lemma unique_sorted_Inr:
  assumes "unique_sorted nfc (map PStr ss) = Inr ts"
  shows "ts = sort (map nfc ss)" and "distinct ts" and "[] \<notin> set ss"
proof -
  have m: "mapr (plan_text nfc) (map PStr ss) = Inr us \<Longrightarrow> us = map nfc ss \<and> [] \<notin> set ss" for us
    by (induction ss arbitrary: us) (auto simp: bindr_Inr_conv plan_text_Inr)
  from assms show "ts = sort (map nfc ss)" "distinct ts" "[] \<notin> set ss"
    using m by (auto simp: unique_sorted_def Let_def res_simps)
qed

lemma make_plan_Inr:
  assumes "make_plan nfc p rs org wl = Inr p'"
  shows "pl_id p' = pl_id p" "pl_request_digest p' = pl_request_digest p" "pl_digest p' = pl_digest p"
    "pl_input_digest p' = pl_input_digest p" "pl_work p' = pl_work p" "pl_metadata p' = pl_metadata p"
    "pl_configuration p' = pl_configuration p" "pl_rule p' = pl_rule p" "pl_schema p' = pl_schema p"
    "pl_request p' = nfc (pl_request p)" "pl_policy p' = nfc (pl_policy p)"
    "plan_text nfc rs = Inr (pl_request_schema p')" "plan_text nfc org = Inr (pl_organization p')"
    "plan_text nfc wl = Inr (pl_workload p')"
    "unique_sorted nfc (map PStr (pl_capabilities p)) = Inr (pl_capabilities p')"
    "unique_sorted nfc (map PStr (pl_evidence p)) = Inr (pl_evidence p')"
    "list_all is_sha256_hex [pl_id p, pl_request_digest p, pl_configuration p, pl_input_digest p, pl_digest p]"
  using assms by (auto simp: make_plan_def res_simps plan_text_Inr)

text \<open>What a build checks and computes.\<close>

lemma build_plan_Inr:
  assumes "build_execution_plan nfc i q v = Inr (p, input, content)"
  obtains out where "check_plan_inputs nfc i q v = Inr ()" "pi_rule i = supported_plan_rule"
    "deterministic_rule_v1 nfc q v (pi_policy i) (pi_configuration i) = Inr out"
    "pl_request p = nfc (rq_id q)" "pl_request_digest p = rq_digest q"
    "plan_text nfc (of_json (rq_organization q)) = Inr (pl_organization p)"
    "plan_text nfc (of_json (rq_workload q)) = Inr (pl_workload p)"
    "pl_work p = rl_steps out"
    "unique_sorted nfc (map PStr (rl_capabilities out)) = Inr (pl_capabilities p)"
    "unique_sorted nfc (map PStr (rl_evidence out)) = Inr (pl_evidence p)"
    "pl_input_digest p = namespaced_digest plan_input_ns input"
    "pl_digest p = namespaced_digest plan_digest_ns content"
    "plan_identity nfc (pl_input_digest p) i = Inr (pl_id p)"
  using assms unfolding build_execution_plan_def Let_def
proof (simp only: bindr_Inr_conv, elim exE conjE, goal_cases)
  case (1 u rule out chash phash inp pid hashes m c plan)
  then show ?case using make_plan_Inr [OF 1(13)] that [of out] by (simp add: planning_rule_Inr)
qed

section \<open>Reading a document back\<close>

text \<open>A raw value in normal form is what it is read back as.\<close>

definition raw_normal :: "normalizer \<Rightarrow> pyval \<Rightarrow> bool" where
  "raw_normal nfc x \<longleftrightarrow> (\<exists>j. x = of_json j \<and> canonical nfc j \<and> no_float j)"

lemma raw_normal_json [simp]: "canonical nfc j \<Longrightarrow> no_float j \<Longrightarrow> raw_normal nfc (of_json j)"
  by (auto simp: raw_normal_def)

lemma raw_normal_str [simp]: "raw_normal nfc (PStr s) \<longleftrightarrow> nfc s = s"
proof
  assume "raw_normal nfc (PStr s)"
  then obtain j where "of_json j = PStr s" "canonical nfc j" unfolding raw_normal_def by fastforce
  then show "nfc s = s" by (simp only: of_json_eq_simps canonical.simps)
next
  assume "nfc s = s"
  then show "raw_normal nfc (PStr s)" unfolding raw_normal_def by (intro exI [of _ "JStr s"]) simp
qed

lemma raw_normal_seq: "\<forall>v \<in> set vs. raw_normal nfc v \<Longrightarrow> raw_normal nfc (PSeq vs)"
proof -
  assume "\<forall>v \<in> set vs. raw_normal nfc v"
  then have "\<exists>js. vs = map of_json js \<and> (\<forall>j \<in> set js. canonical nfc j \<and> no_float j)"
  proof (induction vs)
    case (Cons v vs)
    then obtain js j where "vs = map of_json js" "v = of_json j" "\<forall>j \<in> set js. canonical nfc j \<and> no_float j"
      "canonical nfc j" "no_float j" by (auto simp: raw_normal_def)
    then show ?case by (intro exI [of _ "j # js"]) simp
  qed simp
  then obtain js where "vs = map of_json js" "\<forall>j \<in> set js. canonical nfc j \<and> no_float j" by (elim exE conjE)
  then show ?thesis unfolding raw_normal_def by (intro exI [of _ "JList js"]) simp
qed

lemma freeze_raw_normal: "raw_normal nfc x \<Longrightarrow> freeze c nfc x = Inr j \<Longrightarrow> of_json j = x"
  by (auto simp: raw_normal_def freeze_of_json)

lemma freeze_doc_lookup:
  "freeze_doc c nfc kvs = Inr items \<Longrightarrow> map_of kvs k = Some x \<Longrightarrow>
     \<exists>j. map_of items k = Some j \<and> freeze c nfc x = Inr j"
  by (induction kvs arbitrary: items) (auto simp: bindr_Inr_conv split: if_splits)

lemma doc_lookup:
  assumes "nfc_laws nfc" and "doc_keys (map fst kvs)" and "freeze c nfc (pdict kvs) = Inr j"
    and "map_of kvs k = Some x"
  obtains jx where "freeze c nfc x = Inr jx" "subscript (of_json j) k = Inr (of_json jx)" "dget (of_json j) k = of_json jx"
proof -
  obtain items where "freeze_doc c nfc kvs = Inr items" "j = JObj items"
    using assms(3) by (auto simp: freeze_pdict [OF assms(1,2)] bindr_Inr_conv)
  with freeze_doc_lookup [OF this(1) assms(4)] that show ?thesis
    unfolding \<open>j = JObj items\<close> subscript_JObj dget_JObj by auto
qed

lemma doc_read:
  assumes "nfc_laws nfc" and "doc_keys (map fst kvs)" and "freeze c nfc (pdict kvs) = Inr j"
    and "map_of kvs k = Some x" and "raw_normal nfc x"
  shows "subscript (of_json j) k = Inr x" and "dget (of_json j) k = x"
  using doc_lookup [OF assms(1-4)] freeze_raw_normal [OF assms(5)] by metis+

section \<open>Constructed inputs\<close>

text \<open>A constructed value is a fixed point of its constructor.\<close>

lemma plan_text_again: "nfc_laws nfc \<Longrightarrow> plan_text nfc v = Inr t \<Longrightarrow> plan_text nfc (PStr t) = Inr t \<and> nfc t = t \<and> t \<noteq> []"
  by (auto simp: plan_text_Inr nfc_lawsD)

lemma plan_hex_Inr: "plan_hex v = Inr t \<longleftrightarrow> v = PStr t \<and> is_sha256_hex t"
  by (cases v) (auto simp: plan_hex_def)

lemma plain_plan_cfg: "plain_cfg plan_cfg"
  by (simp add: plain_cfg_def plan_cfg_def)

lemma plan_mapping_again:
  assumes "nfc_laws nfc" and "plan_mapping nfc v = Inr j"
  shows "plan_mapping nfc (of_json j) = Inr j" and "canonical nfc j" and "no_float j"
proof -
  from assms(2) obtain v' k where k: "freeze plan_cfg nfc v' = Inr k"
    "(case k of JObj _ \<Rightarrow> Inr k | _ \<Rightarrow> Inl plan_invalid) = Inr j"
    unfolding plan_mapping_def by (simp only: bindr_Inr_conv) blast
  then obtain kvs where f: "j = JObj kvs" "freeze plan_cfg nfc v' = Inr j" by (cases k) auto
  note n = freeze_canonical [OF plain_plan_cfg assms(1) f(2)]
  show "canonical nfc j" "no_float j" by (rule n)+
  then have "freeze plan_cfg nfc (of_json j) = Inr j" by (simp add: freeze_of_json)
  moreover have "is_dict (of_json j)" "of_json j \<noteq> PNone" unfolding f(1) by simp_all
  moreover have "of_json j = PMap []" if "pv_falsy (of_json j)" using that unfolding f(1) by simp
  ultimately show "plan_mapping nfc (of_json j) = Inr j"
    unfolding plan_mapping_def by (simp add: f(1) split: if_split)
qed

lemma unique_sorted_again:
  assumes "nfc_laws nfc" and "unique_sorted nfc vs = Inr ts"
  shows "unique_sorted nfc (map PStr ts) = Inr ts" and "\<forall>t \<in> set ts. nfc t = t"
proof -
  from assms(2) obtain us where u: "mapr (plan_text nfc) vs = Inr us" "ts = sort us" "distinct ts"
    by (auto simp: unique_sorted_def Let_def res_simps)
  have n: "\<forall>t \<in> set us. nfc t = t \<and> t \<noteq> []"
    using u(1) by (induction vs arbitrary: us) (auto simp: bindr_Inr_conv dest: plan_text_again [OF assms(1)])
  have "mapr (plan_text nfc) (map PStr xs) = Inr xs" if "\<forall>t \<in> set xs. nfc t = t \<and> t \<noteq> []" for xs
    using that by (induction xs) (simp_all add: plan_text_def)
  with n u(2,3) show "unique_sorted nfc (map PStr ts) = Inr ts"
    by (simp add: unique_sorted_def Let_def raise_if_def sort_key_id)
  show "\<forall>t \<in> set ts. nfc t = t" using n u(2) by simp
qed

definition planning_input_made :: "normalizer \<Rightarrow> planning_input \<Rightarrow> bool" where
  "planning_input_made nfc i \<longleftrightarrow>
     (\<exists>version caps resources defaults.
        make_planning_policy nfc version caps resources defaults = Inr (pi_policy i))
     \<and> (\<exists>version step. make_planning_configuration nfc version step = Inr (pi_configuration i))
     \<and> (\<exists>org wl rid ev schema rule.
          make_planning_input nfc org wl rid ev (pi_policy i) (pi_configuration i) schema rule = Inr i)"

lemma make_planning_policy_again:
  assumes "nfc_laws nfc" and "make_planning_policy nfc version caps resources defaults = Inr p"
  shows "make_planning_policy nfc (PStr (pp_version p)) (map PStr (pp_capabilities p)) (of_json (pp_resources p))
      (of_json (pp_defaults p)) = Inr p"
    and "list_all (raw_normal nfc) [PStr (pp_version p), ptuple (pp_capabilities p), of_json (pp_resources p),
      of_json (pp_defaults p)]"
proof -
  from assms(2) have p: "plan_text nfc version = Inr (pp_version p)" "unique_sorted nfc caps = Inr (pp_capabilities p)"
    "plan_mapping nfc resources = Inr (pp_resources p)" "plan_mapping nfc defaults = Inr (pp_defaults p)"
    by (auto simp: make_planning_policy_def res_simps)
  note a = plan_text_again [OF assms(1) p(1)] unique_sorted_again [OF assms(1) p(2)]
    plan_mapping_again [OF assms(1) p(3)] plan_mapping_again [OF assms(1) p(4)]
  show "make_planning_policy nfc (PStr (pp_version p)) (map PStr (pp_capabilities p)) (of_json (pp_resources p))
      (of_json (pp_defaults p)) = Inr p"
    using a by (simp add: make_planning_policy_def)
  show "list_all (raw_normal nfc) [PStr (pp_version p), ptuple (pp_capabilities p), of_json (pp_resources p),
      of_json (pp_defaults p)]"
    using a by (simp add: ptuple_def raw_normal_seq)
qed

lemma make_planning_configuration_again:
  assumes "nfc_laws nfc" and "make_planning_configuration nfc version step = Inr c"
  shows "make_planning_configuration nfc (PStr (pg_version c)) (PStr (pg_step c)) = Inr c"
    and "nfc (pg_version c) = pg_version c" and "nfc (pg_step c) = pg_step c"
  using assms(2) plan_text_again [OF assms(1)]
  by (fastforce simp: make_planning_configuration_def res_simps)+

lemma make_planning_input_again:
  assumes "nfc_laws nfc" and "make_planning_input nfc org wl rid ev p c schema rule = Inr i"
  shows "make_planning_input nfc (PStr (pi_organization i)) (PStr (pi_workload i)) (PStr (pi_request i))
      (PStr (pi_evidence i)) p c (PStr (pi_schema i)) (PStr (pi_rule i)) = Inr i"
    and "list_all (\<lambda>s. nfc s = s) [pi_organization i, pi_workload i, pi_request i, pi_evidence i, pi_schema i, pi_rule i]"
proof -
  from assms(2) have i: "plan_text nfc org = Inr (pi_organization i)" "plan_text nfc wl = Inr (pi_workload i)"
    "plan_text nfc ev = Inr (pi_evidence i)" "is_sha256_hex (pi_request i)" "pi_policy i = p" "pi_configuration i = c"
    "pi_schema i = supported_plan_schema" "pi_rule i = supported_plan_rule"
    by (auto simp: make_planning_input_def res_simps plan_hex_Inr)
  have "ascii supported_plan_schema" "ascii supported_plan_rule"
    by (simp_all add: supported_plan_schema_def supported_plan_rule_def)
  then have n: "nfc supported_plan_schema = supported_plan_schema" "nfc supported_plan_rule = supported_plan_rule"
    by (simp_all add: nfc_ascii [OF assms(1)])
  note a = plan_text_again [OF assms(1) i(1)] plan_text_again [OF assms(1) i(2)] plan_text_again [OF assms(1) i(3)]
  show "make_planning_input nfc (PStr (pi_organization i)) (PStr (pi_workload i)) (PStr (pi_request i))
      (PStr (pi_evidence i)) p c (PStr (pi_schema i)) (PStr (pi_rule i)) = Inr i"
    using a i(4-8) by (simp add: make_planning_input_def plan_hex_def)
  show "list_all (\<lambda>s. nfc s = s) [pi_organization i, pi_workload i, pi_request i, pi_evidence i, pi_schema i, pi_rule i]"
    using a i(4-8) n by (simp add: nfc_hex [OF assms(1)])
qed

definition evidence_normal :: "normalizer \<Rightarrow> validation_evidence \<Rightarrow> bool" where
  "evidence_normal nfc v \<longleftrightarrow>
     list_all (raw_normal nfc) ([rv_request v, rv_request_digest v, rv_organization v, rv_workload v, rv_policy v,
       rv_boundary v] @ rv_findings v)"

section \<open>The round trip\<close>

lemma plan_doc_keys:
  "doc_keys (map fst [(''plan_constraint_defaults'', a), (''policy_version'', b), (''required_capabilities'', c),
     (''resource_requirements'', d)])"
  "doc_keys (map fst [(''configuration_version'', a), (''work_step_id'', b)])"
  "doc_keys [''canonical_digest'', ''canonical_request_digest'', ''findings'', ''history_boundary'',
     ''organization_id'', ''outcome'', ''request_id'', ''schema_version'', ''validation_evidence_id'',
     ''validation_policy_version'', ''workload_context_id'']"
  "doc_keys [''canonical_request_digest'', ''configuration'', ''configuration_digest'', ''organization_id'',
     ''plan_schema_version'', ''planning_rule_version'', ''policy'', ''policy_digest'', ''request_id'',
     ''request_schema_version'', ''serialization_version'', ''validation_evidence'', ''workload_context_id'']"
  unfolding list.map fst_conv by code_simp+

lemma read_policy:
  assumes "nfc_laws nfc" and "make_planning_policy nfc version caps resources defaults = Inr p"
    and "freeze cfg nfc (policy_document p) = Inr j"
  shows "subscript (of_json j) ''policy_version'' = Inr (PStr (pp_version p))"
    and "subscript (of_json j) ''required_capabilities'' = Inr (ptuple (pp_capabilities p))"
    and "subscript (of_json j) ''resource_requirements'' = Inr (of_json (pp_resources p))"
    and "subscript (of_json j) ''plan_constraint_defaults'' = Inr (of_json (pp_defaults p))"
proof -
  note n = make_planning_policy_again(2) [OF assms(1,2)]
  note r = doc_read(1) [OF assms(1) plan_doc_keys(1) assms(3) [unfolded policy_document_def]]
  show "subscript (of_json j) ''policy_version'' = Inr (PStr (pp_version p))"
    "subscript (of_json j) ''required_capabilities'' = Inr (ptuple (pp_capabilities p))"
    "subscript (of_json j) ''resource_requirements'' = Inr (of_json (pp_resources p))"
    "subscript (of_json j) ''plan_constraint_defaults'' = Inr (of_json (pp_defaults p))"
    by (rule r; use n in simp)+
qed

lemma read_configuration:
  assumes "nfc_laws nfc" and "make_planning_configuration nfc version step = Inr c"
    and "freeze cfg nfc (configuration_document c) = Inr j"
  shows "subscript (of_json j) ''configuration_version'' = Inr (PStr (pg_version c))"
    and "subscript (of_json j) ''work_step_id'' = Inr (PStr (pg_step c))"
proof -
  note n = make_planning_configuration_again(2,3) [OF assms(1,2)]
  note r = doc_read(1) [OF assms(1) plan_doc_keys(2) assms(3) [unfolded configuration_document_def]]
  show "subscript (of_json j) ''configuration_version'' = Inr (PStr (pg_version c))"
    "subscript (of_json j) ''work_step_id'' = Inr (PStr (pg_step c))"
    by (rule r; use n in simp)+
qed

text \<open>Valid evidence is what building it from its own fields gives.\<close>

lemma validate_evidence_Inr:
  assumes "validate_validation_evidence nfc v = Inr ()"
  shows "build_validation_evidence nfc v = Inr v"
  using assms by (auto simp: validate_validation_evidence_def catch_def res_simps split: sum.splits if_splits)

lemma build_evidence_ignores:
  "build_validation_evidence nfc (v\<lparr>rv_id := a, rv_schema := b, rv_digest := c\<rparr>) = build_validation_evidence nfc v"
  by (simp add: build_validation_evidence_def validation_input_document_def)

lemma build_evidence_Inr:
  assumes "build_validation_evidence nfc v = Inr v"
  obtains i d where "rv_id v = PStr i" "rv_digest v = PStr d" "rv_schema v = PStr supported_validation_schema"
    "is_sha256_hex i" "is_sha256_hex d"
proof -
  from assms obtain fs content where "v\<lparr>rv_id := PStr (namespaced_digest validation_id_ns (namespaced_digest validation_digest_ns content)),
      rv_findings := fs, rv_schema := PStr supported_validation_schema,
      rv_digest := PStr (namespaced_digest validation_digest_ns content)\<rparr> = v"
    by (auto simp: build_validation_evidence_def Let_def bindr_Inr_conv)
  note e = this [symmetric]
  from arg_cong [OF e, of rv_id] arg_cong [OF e, of rv_digest] arg_cong [OF e, of rv_schema] that
  show ?thesis by simp
qed

lemma read_validation_document:
  assumes "nfc_laws nfc" and "evidence_normal nfc v" and "build_validation_evidence nfc v = Inr v"
    and "freeze cfg nfc (validation_document v) = Inr j"
  shows "read_validation (of_json j) = Inr (v\<lparr>rv_id := PNone, rv_schema := PNone, rv_digest := PNone\<rparr>)"
    and "subscript (of_json j) ''validation_evidence_id'' = Inr (rv_id v)"
    and "subscript (of_json j) ''schema_version'' = Inr (rv_schema v)"
    and "subscript (of_json j) ''canonical_digest'' = Inr (rv_digest v)"
proof -
  obtain i d where id: "rv_id v = PStr i" "rv_digest v = PStr d" "rv_schema v = PStr supported_validation_schema"
    "is_sha256_hex i" "is_sha256_hex d" using build_evidence_Inr [OF assms(3)] .
  have "ascii supported_validation_schema" by (simp add: supported_validation_schema_def)
  then have a: "nfc supported_validation_schema = supported_validation_schema" by (rule nfc_ascii [OF assms(1)])
  have outcome: "ascii (validation_outcome_value (rv_outcome v))" by (cases "rv_outcome v") simp_all
  have keys: "doc_keys (map fst [
     (''canonical_digest'', rv_digest v), (''canonical_request_digest'', rv_request_digest v),
     (''findings'', PSeq (rv_findings v)), (''history_boundary'', rv_boundary v),
     (''organization_id'', rv_organization v), (''outcome'', PStr (validation_outcome_value (rv_outcome v))),
     (''request_id'', rv_request v), (''schema_version'', rv_schema v),
     (''validation_evidence_id'', rv_id v), (''validation_policy_version'', rv_policy v),
     (''workload_context_id'', rv_workload v)])"
    unfolding list.map fst_conv by (rule plan_doc_keys)
  note r = doc_read(1) [OF assms(1) keys assms(4) [unfolded validation_document_def]]
  note n = assms(2) [unfolded evidence_normal_def] nfc_ascii [OF assms(1) outcome] raw_normal_seq [of "rv_findings v" nfc]
  show "subscript (of_json j) ''validation_evidence_id'' = Inr (rv_id v)"
    "subscript (of_json j) ''schema_version'' = Inr (rv_schema v)"
    "subscript (of_json j) ''canonical_digest'' = Inr (rv_digest v)"
    by (rule r; use id a in \<open>simp add: nfc_hex [OF assms(1)]\<close>)+
  have s: "subscript (of_json j) ''canonical_request_digest'' = Inr (rv_request_digest v)"
    "subscript (of_json j) ''findings'' = Inr (PSeq (rv_findings v))"
    "subscript (of_json j) ''history_boundary'' = Inr (rv_boundary v)"
    "subscript (of_json j) ''organization_id'' = Inr (rv_organization v)"
    "subscript (of_json j) ''outcome'' = Inr (PStr (validation_outcome_value (rv_outcome v)))"
    "subscript (of_json j) ''request_id'' = Inr (rv_request v)"
    "subscript (of_json j) ''validation_policy_version'' = Inr (rv_policy v)"
    "subscript (of_json j) ''workload_context_id'' = Inr (rv_workload v)"
    by (rule r; use n in \<open>simp add: list_all_iff\<close>)+
  have o: "validation_outcome_of (PStr (validation_outcome_value x)) = Inr x" for x
    by (cases x) (simp_all add: validation_outcome_of_def)
  show "read_validation (of_json j) = Inr (v\<lparr>rv_id := PNone, rv_schema := PNone, rv_digest := PNone\<rparr>)"
    unfolding read_validation_def s by (simp add: o)
qed

lemma check_plan_inputs_Inr:
  "check_plan_inputs nfc i q v = Inr () \<longleftrightarrow>
     (\<exists>content. validate_accepted_request nfc q = Inr content) \<and> validate_validation_evidence nfc v = Inr ()
     \<and> rq_id q = pi_request i \<and> rq_organization q = JStr (pi_organization i) \<and> rq_workload q = JStr (pi_workload i)
     \<and> rv_id v = PStr (pi_evidence i) \<and> rv_request v = PStr (rq_id q) \<and> rv_request_digest v = PStr (rq_digest q)
     \<and> rv_organization v = of_json (rq_organization q) \<and> rv_workload v = of_json (rq_workload q)
     \<and> rv_outcome v = Valid"
  by (auto simp: check_plan_inputs_def res_simps)

lemma plan_hash_Inr: "plan_hash nfc ns d = Inr h \<Longrightarrow> is_sha256_hex h"
  by (auto simp: plan_hash_def bindr_Inr_conv)

text \<open>The input content of a build, and that it is read back as the values it was made of.\<close>

lemma build_plan_content:
  assumes "build_execution_plan nfc i q v = Inr (p, input, content)"
  obtains hc hp document where "configuration_digest nfc (pi_configuration i) = Inr hc"
    "policy_digest nfc (pi_policy i) = Inr hp" "plan_content nfc (plan_input_document i q v hc hp) = Inr input"
    "plan_content nfc document = Inr content" "is_dict document"
  using assms unfolding build_execution_plan_def Let_def
proof (simp only: bindr_Inr_conv, elim exE conjE, goal_cases)
  case (1 u rule out chash phash inp pid hashes m c plan)
  then show ?case
    using that [of chash phash "plan_document i q out m (namespaced_digest plan_input_ns inp) pid chash phash"]
    by (simp add: plan_document_def pdict_def)
qed

lemma plan_load_written:
  assumes "nfc_laws nfc" and "plan_content nfc d = Inr content" and "is_dict d"
  obtains j where "freeze request_cfg nfc d = Inr j" "plan_load nfc content = Inr (of_json j)" "content \<noteq> []"
proof -
  obtain j where j: "freeze request_cfg nfc d = Inr j" "no_float j" "content = json_dumps j"
    "json_loads content = Some (of_json j)" "\<And>c'. canonical_bytes c' nfc (of_json j) = Inr content"
    using written [OF plain_request_cfg assms(1) assms(2) [unfolded plan_content_def]] by metis
  have "is_dict (of_json j)" using j(1) assms(3) by (cases d) (auto simp: bindr_Inr_conv split: if_splits)
  moreover have "content \<noteq> []" using j(2,3) by simp
  ultimately have "plan_load nfc content = Inr (of_json j)"
    using j(4,5) by (simp add: plan_load_def plan_content_def)
  with j(1) \<open>content \<noteq> []\<close> that show ?thesis by blast
qed

lemma read_built_input:
  assumes nfc: "nfc_laws nfc" and made: "planning_input_made nfc i" and v: "evidence_normal nfc v"
    and check: "check_plan_inputs nfc i q v = Inr ()"
    and hc: "configuration_digest nfc (pi_configuration i) = Inr hc" and hp: "policy_digest nfc (pi_policy i) = Inr hp"
    and j: "freeze request_cfg nfc (plan_input_document i q v hc hp) = Inr j"
  shows "planning_input_from_document nfc (of_json j) = Inr (i, v)"
    and "dget (of_json j) ''serialization_version'' = PStr serialization_version"
proof -
  have keys: "doc_keys (map fst [
     (''canonical_request_digest'', PStr (rq_digest q)),
     (''configuration'', configuration_document (pi_configuration i)),
     (''configuration_digest'', PStr hc),
     (''organization_id'', PStr (pi_organization i)),
     (''plan_schema_version'', PStr (pi_schema i)),
     (''planning_rule_version'', PStr (pi_rule i)),
     (''policy'', policy_document (pi_policy i)),
     (''policy_digest'', PStr hp),
     (''request_id'', PStr (pi_request i)),
     (''request_schema_version'', of_json (rq_schema q)),
     (''serialization_version'', PStr serialization_version),
     (''validation_evidence'', validation_document v),
     (''workload_context_id'', PStr (pi_workload i))])"
    unfolding list.map fst_conv by (rule plan_doc_keys)
  note r = doc_read [OF nfc keys j [unfolded plan_input_document_def]]
  note l = doc_lookup [OF nfc keys j [unfolded plan_input_document_def]]
  have h: "nfc hc = hc" "nfc hp = hp"
    using hc hp by (auto simp: configuration_digest_def policy_digest_def nfc_hex [OF nfc] dest!: plan_hash_Inr)
  have sv: "nfc serialization_version = serialization_version"
    by (rule nfc_ascii [OF nfc]) (simp add: serialization_version_def)
  obtain version caps resources defaults where
    pol: "make_planning_policy nfc version caps resources defaults = Inr (pi_policy i)"
    using made unfolding planning_input_made_def by blast
  obtain version' step where conf: "make_planning_configuration nfc version' step = Inr (pi_configuration i)"
    using made unfolding planning_input_made_def by blast
  obtain org wl rid ev schema rule where
    inp: "make_planning_input nfc org wl rid ev (pi_policy i) (pi_configuration i) schema rule = Inr i"
    using made unfolding planning_input_made_def by blast
  note n = make_planning_input_again(2) [OF nfc inp]
  have built: "build_validation_evidence nfc v = Inr v"
    using check validate_evidence_Inr by (simp add: check_plan_inputs_Inr)
  have id: "rv_id v = PStr (pi_evidence i)" using check by (simp add: check_plan_inputs_Inr)
  obtain jc where jc: "freeze request_cfg nfc (configuration_document (pi_configuration i)) = Inr jc"
    "subscript (of_json j) ''configuration'' = Inr (of_json jc)" 
    by (rule l [where k = "''configuration''" and x = "configuration_document (pi_configuration i)"], simp) (rule that)
  obtain jp where jp: "freeze request_cfg nfc (policy_document (pi_policy i)) = Inr jp"
    "subscript (of_json j) ''policy'' = Inr (of_json jp)" 
    by (rule l [where k = "''policy''" and x = "policy_document (pi_policy i)"], simp) (rule that)
  obtain jv where jv: "freeze request_cfg nfc (validation_document v) = Inr jv"
    "subscript (of_json j) ''validation_evidence'' = Inr (of_json jv)" 
    by (rule l [where k = "''validation_evidence''" and x = "validation_document v"], simp) (rule that)
  have s: "subscript (of_json j) ''organization_id'' = Inr (PStr (pi_organization i))"
    "subscript (of_json j) ''plan_schema_version'' = Inr (PStr (pi_schema i))"
    "subscript (of_json j) ''planning_rule_version'' = Inr (PStr (pi_rule i))"
    "subscript (of_json j) ''request_id'' = Inr (PStr (pi_request i))"
    "subscript (of_json j) ''workload_context_id'' = Inr (PStr (pi_workload i))"
    by (rule r(1); use n in simp)+
  have d: "dget (of_json j) ''policy_digest'' = PStr hp" "dget (of_json j) ''configuration_digest'' = PStr hc"
    by (rule r(2); use h in simp)+
  show "dget (of_json j) ''serialization_version'' = PStr serialization_version"
    by (rule r(2); use sv in simp)
  note e = read_validation_document [OF nfc v built jv(1)]
  have "read_planning_input nfc (of_json j)
      = Inr (i, v\<lparr>rv_id := PNone, rv_schema := PNone, rv_digest := PNone\<rparr>, v)"
    unfolding read_planning_input_def jc(2) jp(2) jv(2) s bindr_simps
      read_policy [OF nfc pol jp(1)] read_configuration [OF nfc conf jc(1)] e id
    using make_planning_policy_again(1) [OF nfc pol] make_planning_configuration_again(1) [OF nfc conf]
      make_planning_input_again(1) [OF nfc inp] built
    by (simp add: ptuple_def build_evidence_ignores)
  then show "planning_input_from_document nfc (of_json j) = Inr (i, v)"
    unfolding planning_input_from_document_def by (simp add: catch_def d hc hp jv(2) e(2-4))
qed

lemma reconstruct_built_plan:
  assumes nfc: "nfc_laws nfc" and "planning_input_made nfc i" and "evidence_normal nfc v"
    and b: "build_execution_plan nfc i q v = Inr (p, input, content)"
  shows "reconstruct_execution_plan nfc q input content (pl_input_digest p) (pl_digest p) (pl_id p) = Inr p"
proof -
  obtain out where facts: "check_plan_inputs nfc i q v = Inr ()"
    "pl_input_digest p = namespaced_digest plan_input_ns input" "pl_digest p = namespaced_digest plan_digest_ns content"
    using build_plan_Inr [OF b] by metis
  obtain hc hp d where c: "configuration_digest nfc (pi_configuration i) = Inr hc" "policy_digest nfc (pi_policy i) = Inr hp"
    "plan_content nfc (plan_input_document i q v hc hp) = Inr input" "plan_content nfc d = Inr content" "is_dict d"
    using build_plan_content [OF b] .
  have "is_dict (plan_input_document i q v hc hp)" by (simp add: plan_input_document_def pdict_def)
  from plan_load_written [OF nfc c(3) this] obtain j where
    j: "freeze request_cfg nfc (plan_input_document i q v hc hp) = Inr j" "plan_load nfc input = Inr (of_json j)" "input \<noteq> []"
    by metis
  obtain j' where j': "plan_load nfc content = Inr j'" "content \<noteq> []"
    using plan_load_written [OF nfc c(4,5)] by metis
  note r = read_built_input [OF nfc assms(2,3) facts(1) c(1,2) j(1)]
  show ?thesis
    unfolding reconstruct_execution_plan_def j(2) j'(1) using j(3) j'(2) facts(2,3) r b by simp
qed

end
