(* ===== verification/PlanLineage.thy ===== *)
theory PlanLineage
  imports PlanProperties
begin

text \<open>
  The world of the plan service: a repository of accepted requests, a store of validation
  evidence and the repository of plans, and the steps that change them.  Every reachable
  world satisfies \<open>plan_inv\<close>: each retained plan is what the registered rule builds from a
  retained request and retained VALID evidence.
\<close>

section \<open>The world\<close>

record plan_world =
  pw_requests :: request_state
  pw_evidence :: validation_store
  pw_plans :: plan_state

definition plan_world_init :: plan_world where
  "plan_world_init = \<lparr>pw_requests = request_init, pw_evidence = Map.empty, pw_plans = plan_init\<rparr>"

definition world_derive ::
  "normalizer \<Rightarrow> plan_world \<Rightarrow> planning_input \<Rightarrow> int \<Rightarrow> string \<Rightarrow> (plan_state \<times> plan_outcome \<times> execution_plan \<times> int) res"
where
  "world_derive nfc w i n key =
     plan_derive nfc (request_record_of (pw_requests w)) (get_validation (pw_evidence w)) (pw_plans w) i n key"

inductive plan_step :: "normalizer \<Rightarrow> plan_world \<Rightarrow> plan_world \<Rightarrow> bool" for nfc where
  admit: "service_admit (request_admit nfc) nfc (pw_requests w) d key = Inr (rs, outcome, q) \<Longrightarrow>
     plan_step nfc w (w\<lparr>pw_requests := rs\<rparr>)"
| validated: "retain_validation nfc (pw_evidence w) v = Inr es \<Longrightarrow> plan_step nfc w (w\<lparr>pw_evidence := es\<rparr>)"
| derived: "world_derive nfc w i n key = Inr (ks, outcome', p, version) \<Longrightarrow> plan_step nfc w (w\<lparr>pw_plans := ks\<rparr>)"

inductive plan_steps :: "normalizer \<Rightarrow> plan_world \<Rightarrow> plan_world \<Rightarrow> bool" for nfc where
  none: "plan_steps nfc w w"
| step: "plan_steps nfc w w' \<Longrightarrow> plan_step nfc w' w'' \<Longrightarrow> plan_steps nfc w w''"

section \<open>What a derivation does\<close>

lemma plan_upstream_Inr:
  assumes "plan_upstream nfc requests evidence i = Inr (q, v)"
  obtains rr where "requests (pi_request i) = Some rr" "rr_request rr = q" "evidence (pi_evidence i) = Some v"
    "rq_organization q = JStr (pi_organization i)" "rq_workload q = JStr (pi_workload i)"
  using assms by (auto simp: plan_upstream_def Let_def res_simps split: option.splits)

lemma plan_upstream_later:
  assumes "plan_upstream nfc (request_record_of rs) (get_validation es) i = Inr (q, v)"
    and "rs_by_id rs \<subseteq>\<^sub>m rs_by_id rs'" and "es \<subseteq>\<^sub>m es'"
  shows "plan_upstream nfc (request_record_of rs') (get_validation es') i = Inr (q, v)"
proof -
  obtain rr where rr: "request_record_of rs (pi_request i) = Some rr" "get_validation es (pi_evidence i) = Some v"
    using plan_upstream_Inr [OF assms(1)] by metis
  have "request_record_of rs' (pi_request i) = Some rr" "get_validation es' (pi_evidence i) = Some v"
    using rr assms(2,3) unfolding request_record_of_def get_validation_def map_le_def by (metis domI)+
  with assms(1) rr show ?thesis by (simp add: plan_upstream_def)
qed

lemma plan_derive_Inr:
  assumes "plan_derive nfc requests evidence st i n key = Inr (st', outcome, p, version)"
  obtains q v plan input content identity r a created where
    "plan_upstream nfc requests evidence i = Inr (q, v)"
    "plan_idempotency_identity nfc (pi_organization i) (pi_workload i) (pi_request i) key = Inr identity"
    "build_execution_plan nfc i q v = Inr (plan, input, content)"
    "r = \<lparr>kr_plan = plan, kr_request = q, kr_input = input, kr_content = content, kr_idempotency = identity,
        kr_version = 0\<rparr>"
    "validate_plan_record nfc r = Inr ()" "plan_insert_record st r n = Inr (st', a)"
    "plan_insert st r n = Inr (st', a, created)"
    "p = kr_plan a" "version = kr_version a" "outcome = (if created then PlanCreated else PlanExistingEquivalent)"
  using assms unfolding plan_derive_def plan_append_def
proof (simp only: bindr_Inr_conv, elim exE, goal_cases)
  case (1 x)
  obtain q v where x: "x = (q, v)" by (cases x)
  from 1 obtain identity plan input content a created where
    "plan_upstream nfc requests evidence i = Inr (q, v)"
    "plan_idempotency_identity nfc (pi_organization i) (pi_workload i) (pi_request i) key = Inr identity"
    "build_execution_plan nfc i q v = Inr (plan, input, content)"
    "validate_plan_record nfc \<lparr>kr_plan = plan, kr_request = q, kr_input = input, kr_content = content,
        kr_idempotency = identity, kr_version = 0\<rparr> = Inr ()"
    "plan_insert st \<lparr>kr_plan = plan, kr_request = q, kr_input = input, kr_content = content,
        kr_idempotency = identity, kr_version = 0\<rparr> n = Inr (st', a, created)"
    "p = kr_plan a" "version = kr_version a" "outcome = (if created then PlanCreated else PlanExistingEquivalent)"
    unfolding x by (auto simp: bindr_Inr_conv)
  then show ?case
    using 1(1) [where identity = identity and created = created]
    by (auto simp: plan_insert_record_Inr)
qed

section \<open>The invariant\<close>

text \<open>A retained record: what was built, from which request and which evidence.\<close>

definition plan_backed :: "normalizer \<Rightarrow> plan_world \<Rightarrow> plan_record \<Rightarrow> bool" where
  "plan_backed nfc w r \<longleftrightarrow>
     validate_plan_record nfc (r\<lparr>kr_version := 0\<rparr>) = Inr ()
     \<and> (\<exists>i rr v. request_record_of (pw_requests w) (pi_request i) = Some rr \<and> rr_request rr = kr_request r
          \<and> get_validation (pw_evidence w) (pi_evidence i) = Some v
          \<and> build_execution_plan nfc i (kr_request r) v = Inr (kr_plan r, kr_input r, kr_content r))"

definition evidence_inv :: "normalizer \<Rightarrow> validation_store \<Rightarrow> bool" where
  "evidence_inv nfc store \<longleftrightarrow> (\<forall>i v. store i = Some v \<longrightarrow> rv_id v = i \<and> validate_validation_evidence nfc v = Inr ())"

definition current_inv :: "plan_state \<Rightarrow> bool" where
  "current_inv st \<longleftrightarrow>
     (\<forall>k. ks_current st k = (if ks_streams st k = [] then None else Some (pl_id (kr_plan (last (ks_streams st k))))))"

definition plan_inv :: "normalizer \<Rightarrow> plan_world \<Rightarrow> bool" where
  "plan_inv nfc w \<longleftrightarrow>
     request_inv nfc (pw_requests w) \<and> evidence_inv nfc (pw_evidence w) \<and> plans.store_ok (pw_plans w)
     \<and> current_inv (pw_plans w) \<and> (\<forall>i r. ks_by_id (pw_plans w) i = Some r \<longrightarrow> plan_backed nfc w r)"

lemma plan_inv_init: "plan_inv nfc plan_world_init"
  by (simp add: plan_inv_def plan_world_init_def request_inv_init evidence_inv_def plan_init_def alias_inv_empty
      current_inv_def)

lemma retain_validation_keeps:
  assumes "retain_validation nfc store v = Inr store'"
  shows "store \<subseteq>\<^sub>m store'" and "evidence_inv nfc store \<Longrightarrow> evidence_inv nfc store'"
proof -
  from assms have v: "validate_validation_evidence nfc v = Inr ()" "store' = store(rv_id v \<mapsto> v)"
    "store (rv_id v) = None \<or> store (rv_id v) = Some v"
    by (auto simp: retain_validation_def res_simps split: option.splits if_splits)
  then show "store \<subseteq>\<^sub>m store'" by (auto simp: map_le_def)
  show "evidence_inv nfc store \<Longrightarrow> evidence_inv nfc store'" using v(1,2) by (simp add: evidence_inv_def)
qed

lemma get_validation_mono: "store \<subseteq>\<^sub>m store' \<Longrightarrow> get_validation store i = Some v \<Longrightarrow> get_validation store' i = Some v"
  by (auto simp: get_validation_def map_le_def dest: bspec)

lemma plan_backed_mono:
  assumes "plan_backed nfc w r" and "rs_by_id (pw_requests w) \<subseteq>\<^sub>m rs_by_id (pw_requests w')"
    and "pw_evidence w \<subseteq>\<^sub>m pw_evidence w'"
  shows "plan_backed nfc w' r"
proof -
  have "request_record_of (pw_requests w') i = Some rr" if "request_record_of (pw_requests w) i = Some rr" for i rr
    using that assms(2) unfolding request_record_of_def map_le_def by (metis domI)
  with assms(1) get_validation_mono [OF assms(3)] show ?thesis unfolding plan_backed_def by blast
qed

lemma plan_insert_cases:
  assumes "plan_insert st r n = Inr (st', a, created)"
  obtains "st' = st"
    | j where "st' = st\<lparr>ks_idempotency := (ks_idempotency st)(j \<mapsto> a)\<rparr>"
    | "a = r\<lparr>kr_version := n + 1\<rparr>"
      "ks_streams st' = (ks_streams st)(plan_record_key r := ks_streams st (plan_record_key r) @ [a])"
      "ks_by_id st' = (ks_by_id st)(pl_id (kr_plan r) \<mapsto> a)"
      "ks_current st' = (ks_current st)(plan_record_key r \<mapsto> pl_id (kr_plan r))"
  using assms unfolding plan_insert_def Let_def plan_record_key_def by (fastforce split: option.splits if_splits)

lemma plan_insert_new:
  assumes "plan_insert st r n = Inr (st', a, created)"
  shows "ks_by_id st' i = Some x \<Longrightarrow> ks_by_id st i = Some x \<or> x = r\<lparr>kr_version := n + 1\<rparr>"
    and "current_inv st \<Longrightarrow> current_inv st'"
proof -
  show "ks_by_id st' i = Some x \<Longrightarrow> ks_by_id st i = Some x \<or> x = r\<lparr>kr_version := n + 1\<rparr>"
    using assms by (cases rule: plan_insert_cases) (auto split: if_splits)
  show "current_inv st \<Longrightarrow> current_inv st'"
    using assms by (cases rule: plan_insert_cases) (simp_all add: current_inv_def del: split_paired_All)
qed

lemma world_derive_inv:
  assumes inv: "plan_inv nfc w" and d: "world_derive nfc w i n key = Inr (st', outcome, p, version)"
  shows "plan_inv nfc (w\<lparr>pw_plans := st'\<rparr>)"
proof -
  obtain q v plan input content identity r a created where
    u: "plan_upstream nfc (request_record_of (pw_requests w)) (get_validation (pw_evidence w)) i = Inr (q, v)"
    and b: "build_execution_plan nfc i q v = Inr (plan, input, content)"
    and r: "r = \<lparr>kr_plan = plan, kr_request = q, kr_input = input, kr_content = content, kr_idempotency = identity,
        kr_version = 0\<rparr>"
    and ok: "validate_plan_record nfc r = Inr ()" "plan_insert_record (pw_plans w) r n = Inr (st', a)"
      "plan_insert (pw_plans w) r n = Inr (st', a, created)"
    using plan_derive_Inr [OF d [unfolded world_derive_def]] by metis
  obtain rr where rr: "request_record_of (pw_requests w) (pi_request i) = Some rr" "rr_request rr = q"
    "get_validation (pw_evidence w) (pi_evidence i) = Some v" using plan_upstream_Inr [OF u] by metis
  have "plan_backed nfc w (r\<lparr>kr_version := n + 1\<rparr>)"
    unfolding plan_backed_def using ok(1) rr b by (auto simp: r)
  then have "plan_backed nfc w x" if "ks_by_id st' j = Some x" for j x
    using plan_insert_new(1) [OF ok(3) that] inv unfolding plan_inv_def by blast
  then have "plan_backed nfc (w\<lparr>pw_plans := st'\<rparr>) x" if "ks_by_id st' j = Some x" for j x
    by (rule plan_backed_mono) (use that in simp_all)
  moreover have "plans.store_ok st'" using inv plans.append_ok [OF _ ok(2)] by (simp add: plan_inv_def)
  moreover have "current_inv st'" using inv plan_insert_new(2) [OF ok(3)] by (simp add: plan_inv_def)
  ultimately show ?thesis using inv by (simp add: plan_inv_def)
qed

text \<open>What a step keeps.\<close>

definition plan_grows :: "plan_world \<Rightarrow> plan_world \<Rightarrow> bool" where
  "plan_grows w w' \<longleftrightarrow>
     rs_by_id (pw_requests w) \<subseteq>\<^sub>m rs_by_id (pw_requests w') \<and> pw_evidence w \<subseteq>\<^sub>m pw_evidence w'
     \<and> ks_by_id (pw_plans w) \<subseteq>\<^sub>m ks_by_id (pw_plans w') \<and> ks_idempotency (pw_plans w) \<subseteq>\<^sub>m ks_idempotency (pw_plans w')
     \<and> (\<forall>k. \<exists>new. ks_streams (pw_plans w') k = ks_streams (pw_plans w) k @ new)"

lemma plan_grows_refl: "plan_grows w w"
  by (simp add: plan_grows_def)

lemma plan_grows_trans: "plan_grows w w' \<Longrightarrow> plan_grows w' w'' \<Longrightarrow> plan_grows w w''"
  unfolding plan_grows_def by (metis append_assoc map_le_trans)

lemma plan_step_inv:
  assumes "plan_step nfc w w'" and "plan_inv nfc w"
  shows "plan_inv nfc w' \<and> plan_grows w w'"
  using assms
proof cases
  case (admit d key rs outcome q)
  then obtain r c where a: "request_admit nfc (pw_requests w) r = Inr (rs, q, c)"
    by (auto simp: service_admit_def bindr_Inr_conv)
  have inv: "request_inv nfc (pw_requests w)" using assms(2) by (simp add: plan_inv_def)
  note k = request_admit_keeps [OF inv a]
  have "plan_backed nfc w' x" if "ks_by_id (pw_plans w) j = Some x" for j x
    using plan_backed_mono [of nfc w x w'] assms(2) that k admit(1) by (auto simp: plan_inv_def)
  then show ?thesis
    using assms(2) k request_admit_inv [OF inv a] admit(1) by (auto simp: plan_inv_def plan_grows_def)
next
  case (validated v es)
  note k = retain_validation_keeps [OF validated(2)]
  have "plan_backed nfc w' x" if "ks_by_id (pw_plans w) j = Some x" for j x
    using plan_backed_mono [of nfc w x w'] assms(2) that k(1) validated(1) by (auto simp: plan_inv_def)
  then show ?thesis using assms(2) k validated(1) by (auto simp: plan_inv_def plan_grows_def)
next
  case (derived i n key ks outcome' p version)
  obtain r a where i: "plan_insert_record (pw_plans w) r n = Inr (ks, a)"
    using plan_derive_Inr [OF derived(2) [unfolded world_derive_def]] by metis
  have "ks_by_id (pw_plans w) \<subseteq>\<^sub>m ks_by_id ks" "ks_idempotency (pw_plans w) \<subseteq>\<^sub>m ks_idempotency ks"
    "\<forall>k. \<exists>new. ks_streams ks k = ks_streams (pw_plans w) k @ new"
    using plans.append_keeps_id [OF i] plans.append_keeps_idem [OF i] plans.append_prefix [OF i]
    by (auto simp: map_le_def)
  then show ?thesis using world_derive_inv [OF assms(2) derived(2)] derived(1) by (simp add: plan_grows_def)
qed

lemma plan_steps_inv:
  "plan_steps nfc w w' \<Longrightarrow> plan_inv nfc w \<Longrightarrow> plan_inv nfc w' \<and> plan_grows w w'"
  by (induction rule: plan_steps.induct) (use plan_step_inv plan_grows_refl plan_grows_trans in blast)+

lemma plan_reachable_inv: "plan_steps nfc plan_world_init w \<Longrightarrow> plan_inv nfc w"
  using plan_steps_inv [OF _ plan_inv_init] by blast

end
