(* ===== verification/ShaEval.thy ===== *)
theory ShaEval
  imports Sha256
begin

text \<open>
  Evaluation of digests by rewriting.  A word is the list of its 32 bits, the lowest first; an
  operation is one pass over the bits whose equations the simplifier uses from the inside
  out, so that a block takes seconds.  \<open>sha256_hex_bits\<close> proves the evaluation equal to
  \<open>sha256_hex\<close>, and the samples of the development compute their digests with it.
\<close>

section \<open>Words as lists of bits\<close>

definition wd :: "bool list \<Rightarrow> w32" where
  "wd bs = word_of_int (horner_sum of_bool 2 bs)"

lemma bit_wd: "length bs = 32 \<Longrightarrow> bit (wd bs) n \<longleftrightarrow> n < 32 \<and> bs ! n"
  by (auto simp: wd_def bit_word_of_int_iff bit_horner_sum_bit_iff)

lemma wd_eqI:
  assumes "length bs = 32" and "\<And>n. n < 32 \<Longrightarrow> bs ! n \<longleftrightarrow> bit w n"
  shows "wd bs = w"
  using assms by (intro bit_eqI) (simp add: bit_wd)

definition xor3 :: "bool \<Rightarrow> bool \<Rightarrow> bool \<Rightarrow> bool" where
  "xor3 a b c \<longleftrightarrow> a \<noteq> (b \<noteq> c)"

definition major :: "bool \<Rightarrow> bool \<Rightarrow> bool \<Rightarrow> bool" where
  "major a b c \<longleftrightarrow> a \<and> b \<or> a \<and> c \<or> b \<and> c"

definition mux :: "bool \<Rightarrow> bool \<Rightarrow> bool \<Rightarrow> bool" where
  "mux a b c \<longleftrightarrow> (if a then b else c)"

lemma xor3_eval:
  "xor3 True True True = True" "xor3 True True False = False" "xor3 True False True = False"
  "xor3 True False False = True" "xor3 False True True = False" "xor3 False True False = True"
  "xor3 False False True = True" "xor3 False False False = False"
  by (simp_all add: xor3_def)

lemma major_eval:
  "major True True c = True" "major True False c = c" "major False True c = c" "major False False c = False"
  by (simp_all add: major_def)

lemma mux_eval: "mux True b c = b" "mux False b c = c"
  by (simp_all add: mux_def)

text \<open>Addition, with the carry as an argument.\<close>

fun add_bits :: "bool \<Rightarrow> bool list \<Rightarrow> bool list \<Rightarrow> bool list" where
  "add_bits c (a # as) (b # bs) = xor3 a b c # add_bits (major a b c) as bs"
| "add_bits c _ _ = []"

lemma add_bits_eval:
  "add_bits True (True # as) (True # bs) = True # add_bits True as bs"
  "add_bits True (True # as) (False # bs) = False # add_bits True as bs"
  "add_bits True (False # as) (True # bs) = False # add_bits True as bs"
  "add_bits True (False # as) (False # bs) = True # add_bits False as bs"
  "add_bits False (True # as) (True # bs) = False # add_bits True as bs"
  "add_bits False (True # as) (False # bs) = True # add_bits False as bs"
  "add_bits False (False # as) (True # bs) = True # add_bits False as bs"
  "add_bits False (False # as) (False # bs) = False # add_bits False as bs"
  "add_bits c [] [] = []"
  by (simp_all add: xor3_def major_def)

lemma length_add_bits [simp]: "length (add_bits c as bs) = min (length as) (length bs)"
  by (induction c as bs rule: add_bits.induct) simp_all

lemma mod_add_double:
  fixes r x m :: int
  assumes "0 < m" and "r = 0 \<or> r = 1"
  shows "(r + 2 * x) mod (2 * m) = r + 2 * (x mod m)"
proof -
  have "r + 2 * x = (r + 2 * (x mod m)) + 2 * m * (x div m)"
    by (metis (no_types, lifting) add.assoc add.commute distrib_left mult.assoc mult_div_mod_eq)
  moreover have "0 \<le> x mod m" "x mod m < m" using assms(1) by simp_all
  then have "0 \<le> r + 2 * (x mod m)" "r + 2 * (x mod m) < 2 * m" using assms(2) by auto
  ultimately show ?thesis by (metis mod_mult_self2 mod_pos_pos_trivial)
qed

lemma horner_add_bits:
  "length as = length bs \<Longrightarrow>
     (horner_sum of_bool 2 (add_bits c as bs) :: int)
       = (of_bool c + horner_sum of_bool 2 as + horner_sum of_bool 2 bs) mod 2 ^ length as"
proof (induction c as bs rule: add_bits.induct)
  case (1 c a as b bs)
  let ?h = "of_bool (major a b c) + horner_sum of_bool 2 as + horner_sum of_bool 2 bs :: int"
  have step: "(of_bool c + horner_sum of_bool 2 (a # as) + horner_sum of_bool 2 (b # bs) :: int)
      = of_bool (xor3 a b c) + 2 * ?h"
    by (simp add: xor3_def major_def)
  have double: "(of_bool (xor3 a b c) + 2 * ?h) mod (2 * 2 ^ length as)
      = of_bool (xor3 a b c) + 2 * (?h mod 2 ^ length as)"
    by (rule mod_add_double) simp_all
  have ih: "horner_sum of_bool 2 (add_bits (major a b c) as bs) = ?h mod 2 ^ length as"
    using 1 by simp
  have "(horner_sum of_bool 2 (add_bits c (a # as) (b # bs)) :: int) = of_bool (xor3 a b c) + 2 * (?h mod 2 ^ length as)"
    unfolding add_bits.simps horner_sum_simps ih ..
  then show ?case unfolding step list.size power_add power_one_right One_nat_def [symmetric]
    by (simp only: double [simplified mult.commute [of 2 "2 ^ length as"]])
qed simp_all

lemma wd_add:
  assumes "length as = 32" and "length bs = 32"
  shows "wd (add_bits False as bs) = wd as + wd bs"
proof -
  have "(horner_sum of_bool 2 (add_bits False as bs) :: int)
      = take_bit 32 (horner_sum of_bool 2 as + horner_sum of_bool 2 bs)"
    unfolding take_bit_eq_mod using horner_add_bits [of as bs False] assms by simp
  then show ?thesis
    unfolding wd_def wi_hom_add by (simp only: word_of_int_eq_iff) simp
qed

text \<open>The bitwise functions of three words.\<close>

fun map3 :: "(bool \<Rightarrow> bool \<Rightarrow> bool \<Rightarrow> bool) \<Rightarrow> bool list \<Rightarrow> bool list \<Rightarrow> bool list \<Rightarrow> bool list" where
  "map3 f (a # as) (b # bs) (c # cs) = f a b c # map3 f as bs cs"
| "map3 f _ _ _ = []"

lemma map3_eval: "map3 f (a # as) (b # bs) (c # cs) = f a b c # map3 f as bs cs" "map3 f [] [] [] = []"
  by simp_all

lemma length_map3 [simp]: "length (map3 f as bs cs) = min (length as) (min (length bs) (length cs))"
  by (induction f as bs cs rule: map3.induct) simp_all

lemma nth_map3:
  "i < length as \<Longrightarrow> i < length bs \<Longrightarrow> i < length cs \<Longrightarrow> map3 f as bs cs ! i = f (as ! i) (bs ! i) (cs ! i)"
  by (induction f as bs cs arbitrary: i rule: map3.induct) (auto simp: nth_Cons split: nat.splits)

lemma wd_ch: "length as = 32 \<Longrightarrow> length bs = 32 \<Longrightarrow> length cs = 32 \<Longrightarrow>
  wd (map3 mux as bs cs) = ch (wd as) (wd bs) (wd cs)"
  by (rule wd_eqI) (auto simp: nth_map3 ch_def bit_xor_iff bit_and_iff bit_not_iff bit_wd mux_def)

lemma wd_maj: "length as = 32 \<Longrightarrow> length bs = 32 \<Longrightarrow> length cs = 32 \<Longrightarrow>
  wd (map3 major as bs cs) = maj (wd as) (wd bs) (wd cs)"
  by (rule wd_eqI) (auto simp: nth_map3 maj_def bit_xor_iff bit_and_iff bit_wd major_def)

text \<open>The rotations and shifts.\<close>

definition rot_at :: "nat \<Rightarrow> bool list \<Rightarrow> nat \<Rightarrow> bool" where
  "rot_at n bs i = bs ! ((i + n) mod 32)"

definition shr_at :: "nat \<Rightarrow> bool list \<Rightarrow> nat \<Rightarrow> bool" where
  "shr_at n bs i = (i + n < 32 \<and> bs ! (i + n))"

lemma bit_rotr:
  assumes "length bs = 32" and "i < 32" and "0 < n" and "n < 32"
  shows "bit (rotr n (wd bs)) i = rot_at n bs i"
proof (cases "i + n < 32")
  case True
  with assms show ?thesis
    by (auto simp: rotr_def rot_at_def bit_or_iff bit_drop_bit_eq bit_push_bit_iff bit_wd add.commute)
next
  case False
  then have "(i + n) mod 32 = i + n - 32" using assms by (simp add: mod_if)
  with False assms show ?thesis
    by (auto simp: rotr_def rot_at_def bit_or_iff bit_drop_bit_eq bit_push_bit_iff bit_wd add.commute)
qed

lemma bit_shr: "length bs = 32 \<Longrightarrow> bit (drop_bit n (wd bs)) i = shr_at n bs i"
  by (auto simp: shr_at_def bit_drop_bit_eq bit_wd add.commute)

definition big_sigma0_bits :: "bool list \<Rightarrow> bool list" where
  "big_sigma0_bits bs = map (\<lambda>i. xor3 (rot_at 2 bs i) (rot_at 13 bs i) (rot_at 22 bs i)) [0..<32]"

definition big_sigma1_bits :: "bool list \<Rightarrow> bool list" where
  "big_sigma1_bits bs = map (\<lambda>i. xor3 (rot_at 6 bs i) (rot_at 11 bs i) (rot_at 25 bs i)) [0..<32]"

definition small_sigma0_bits :: "bool list \<Rightarrow> bool list" where
  "small_sigma0_bits bs = map (\<lambda>i. xor3 (rot_at 7 bs i) (rot_at 18 bs i) (shr_at 3 bs i)) [0..<32]"

definition small_sigma1_bits :: "bool list \<Rightarrow> bool list" where
  "small_sigma1_bits bs = map (\<lambda>i. xor3 (rot_at 17 bs i) (rot_at 19 bs i) (shr_at 10 bs i)) [0..<32]"

lemma length_sigma [simp]:
  "length (big_sigma0_bits bs) = 32" "length (big_sigma1_bits bs) = 32"
  "length (small_sigma0_bits bs) = 32" "length (small_sigma1_bits bs) = 32"
  by (simp_all add: big_sigma0_bits_def big_sigma1_bits_def small_sigma0_bits_def small_sigma1_bits_def)

lemma wd_sigma:
  assumes "length bs = 32"
  shows "wd (big_sigma0_bits bs) = big_sigma0 (wd bs)" "wd (big_sigma1_bits bs) = big_sigma1 (wd bs)"
    "wd (small_sigma0_bits bs) = small_sigma0 (wd bs)" "wd (small_sigma1_bits bs) = small_sigma1 (wd bs)"
  using assms
  by (auto intro!: wd_eqI simp: big_sigma0_def big_sigma1_def small_sigma0_def small_sigma1_def bit_xor_iff
      bit_rotr bit_shr big_sigma0_bits_def big_sigma1_bits_def small_sigma0_bits_def small_sigma1_bits_def xor3_def)

lemma big_sigma0_eval:
  "big_sigma0_bits [b0, b1, b2, b3, b4, b5, b6, b7, b8, b9, b10, b11, b12, b13, b14, b15,
     b16, b17, b18, b19, b20, b21, b22, b23, b24, b25, b26, b27, b28, b29, b30, b31] =
    [xor3 b2 b13 b22, xor3 b3 b14 b23, xor3 b4 b15 b24, xor3 b5 b16 b25, xor3 b6 b17 b26, xor3 b7 b18 b27,
     xor3 b8 b19 b28, xor3 b9 b20 b29, xor3 b10 b21 b30, xor3 b11 b22 b31, xor3 b12 b23 b0, xor3 b13 b24 b1,
     xor3 b14 b25 b2, xor3 b15 b26 b3, xor3 b16 b27 b4, xor3 b17 b28 b5, xor3 b18 b29 b6, xor3 b19 b30 b7,
     xor3 b20 b31 b8, xor3 b21 b0 b9, xor3 b22 b1 b10, xor3 b23 b2 b11, xor3 b24 b3 b12, xor3 b25 b4 b13,
     xor3 b26 b5 b14, xor3 b27 b6 b15, xor3 b28 b7 b16, xor3 b29 b8 b17, xor3 b30 b9 b18, xor3 b31 b10 b19,
     xor3 b0 b11 b20, xor3 b1 b12 b21]"
  unfolding big_sigma0_bits_def by (simp add: rot_at_def shr_at_def upt_rec)

lemma big_sigma1_eval:
  "big_sigma1_bits [b0, b1, b2, b3, b4, b5, b6, b7, b8, b9, b10, b11, b12, b13, b14, b15,
     b16, b17, b18, b19, b20, b21, b22, b23, b24, b25, b26, b27, b28, b29, b30, b31] =
    [xor3 b6 b11 b25, xor3 b7 b12 b26, xor3 b8 b13 b27, xor3 b9 b14 b28, xor3 b10 b15 b29, xor3 b11 b16 b30,
     xor3 b12 b17 b31, xor3 b13 b18 b0, xor3 b14 b19 b1, xor3 b15 b20 b2, xor3 b16 b21 b3, xor3 b17 b22 b4,
     xor3 b18 b23 b5, xor3 b19 b24 b6, xor3 b20 b25 b7, xor3 b21 b26 b8, xor3 b22 b27 b9, xor3 b23 b28 b10,
     xor3 b24 b29 b11, xor3 b25 b30 b12, xor3 b26 b31 b13, xor3 b27 b0 b14, xor3 b28 b1 b15, xor3 b29 b2 b16,
     xor3 b30 b3 b17, xor3 b31 b4 b18, xor3 b0 b5 b19, xor3 b1 b6 b20, xor3 b2 b7 b21, xor3 b3 b8 b22,
     xor3 b4 b9 b23, xor3 b5 b10 b24]"
  unfolding big_sigma1_bits_def by (simp add: rot_at_def shr_at_def upt_rec)

lemma small_sigma0_eval:
  "small_sigma0_bits [b0, b1, b2, b3, b4, b5, b6, b7, b8, b9, b10, b11, b12, b13, b14, b15,
     b16, b17, b18, b19, b20, b21, b22, b23, b24, b25, b26, b27, b28, b29, b30, b31] =
    [xor3 b7 b18 b3, xor3 b8 b19 b4, xor3 b9 b20 b5, xor3 b10 b21 b6, xor3 b11 b22 b7, xor3 b12 b23 b8,
     xor3 b13 b24 b9, xor3 b14 b25 b10, xor3 b15 b26 b11, xor3 b16 b27 b12, xor3 b17 b28 b13, xor3 b18 b29 b14,
     xor3 b19 b30 b15, xor3 b20 b31 b16, xor3 b21 b0 b17, xor3 b22 b1 b18, xor3 b23 b2 b19, xor3 b24 b3 b20,
     xor3 b25 b4 b21, xor3 b26 b5 b22, xor3 b27 b6 b23, xor3 b28 b7 b24, xor3 b29 b8 b25, xor3 b30 b9 b26,
     xor3 b31 b10 b27, xor3 b0 b11 b28, xor3 b1 b12 b29, xor3 b2 b13 b30, xor3 b3 b14 b31, xor3 b4 b15 False,
     xor3 b5 b16 False, xor3 b6 b17 False]"
  unfolding small_sigma0_bits_def by (simp add: rot_at_def shr_at_def upt_rec)

lemma small_sigma1_eval:
  "small_sigma1_bits [b0, b1, b2, b3, b4, b5, b6, b7, b8, b9, b10, b11, b12, b13, b14, b15,
     b16, b17, b18, b19, b20, b21, b22, b23, b24, b25, b26, b27, b28, b29, b30, b31] =
    [xor3 b17 b19 b10, xor3 b18 b20 b11, xor3 b19 b21 b12, xor3 b20 b22 b13, xor3 b21 b23 b14, xor3 b22 b24 b15,
     xor3 b23 b25 b16, xor3 b24 b26 b17, xor3 b25 b27 b18, xor3 b26 b28 b19, xor3 b27 b29 b20, xor3 b28 b30 b21,
     xor3 b29 b31 b22, xor3 b30 b0 b23, xor3 b31 b1 b24, xor3 b0 b2 b25, xor3 b1 b3 b26, xor3 b2 b4 b27,
     xor3 b3 b5 b28, xor3 b4 b6 b29, xor3 b5 b7 b30, xor3 b6 b8 b31, xor3 b7 b9 False, xor3 b8 b10 False,
     xor3 b9 b11 False, xor3 b10 b12 False, xor3 b11 b13 False, xor3 b12 b14 False, xor3 b13 b15 False, xor3 b14 b16 False,
     xor3 b15 b17 False, xor3 b16 b18 False]"
  unfolding small_sigma1_bits_def by (simp add: rot_at_def shr_at_def upt_rec)

section \<open>The constants\<close>

text \<open>A number below 312 that has a divisor has one of the first seven primes.\<close>

definition small_prime :: "nat \<Rightarrow> bool" where
  "small_prime n \<longleftrightarrow>
     (if n mod 2 = 0 then n = 2 else if n mod 3 = 0 then n = 3 else if n mod 5 = 0 then n = 5
      else if n mod 7 = 0 then n = 7 else if n mod 11 = 0 then n = 11 else if n mod 13 = 0 then n = 13
      else if n mod 17 = 0 then n = 17 else True)"

lemma small_divisor:
  fixes d n :: nat
  assumes "2 \<le> d" and "d < 18"
  shows "\<exists>p \<in> {2, 3, 5, 7, 11, 13, 17}. p dvd d"
proof -
  have eq: "[2..<18] = [2, 3, 4, 5, 6, 7, 8, 9, 10, 11, 12, 13, 14, 15, 16, 17]" by (simp add: upt_rec_numeral)
  have "d \<in> set [2..<18]" unfolding set_upt atLeastLessThan_iff using assms by (rule conjI)
  then have "d \<in> {2, 3, 4, 5, 6, 7, 8, 9, 10, 11, 12, 13, 14, 15, 16, 17}" unfolding eq list.set .
  then show ?thesis by (elim insertE emptyE) simp_all
qed

lemma divisor_of:
  fixes d n :: nat
  assumes "n < 312" and "2 \<le> d" and "d < n" and "n mod d = 0"
  shows "\<exists>p \<in> {2, 3, 5, 7, 11, 13, 17}. p < n \<and> n mod p = 0"
proof -
  obtain e where e: "n = d * e" using assms(4) by auto
  have "d < 18 \<or> e < 18"
  proof (rule ccontr)
    assume "\<not> (d < 18 \<or> e < 18)"
    then have "18 * 18 \<le> d * e" by (intro mult_le_mono) simp_all
    with e assms(1) show False by simp
  qed
  moreover have "2 \<le> e"
  proof (rule ccontr)
    assume "\<not> 2 \<le> e"
    then have "e = 0 \<or> e = 1" by linarith
    with e assms(3) show False by auto
  qed
  moreover from this have "e < n" using assms(2) e by simp
  moreover have "d dvd n" "e dvd n" using e by simp_all
  ultimately obtain c where c: "2 \<le> c" "c < 18" "c < n" "c dvd n" using assms(2,3) by blast
  from small_divisor [OF c(1,2)] obtain p where p: "p \<in> {2, 3, 5, 7, 11, 13, 17}" "p dvd c" by blast
  have "p \<le> c" using p(2) c(1) by (intro dvd_imp_le) simp_all
  then show ?thesis using p c(3) dvd_trans [OF p(2) c(4)] by (intro bexI [OF _ p(1)]) auto
qed

lemma list_all_prime: "n < 312 \<Longrightarrow> 2 \<le> n \<Longrightarrow> list_all (\<lambda>d. n mod d \<noteq> 0) [2..<n] \<longleftrightarrow> small_prime n"
proof -
  assume n: "n < 312" "2 \<le> n"
  have "list_all (\<lambda>d. n mod d \<noteq> 0) [2..<n] \<longleftrightarrow> (\<forall>p \<in> {2, 3, 5, 7, 11, 13, 17}. p < n \<longrightarrow> n mod p \<noteq> 0)"
  proof
    assume "list_all (\<lambda>d. n mod d \<noteq> 0) [2..<n]"
    then have "n mod d \<noteq> 0" if "2 \<le> d" "d < n" for d using that unfolding list_all_iff by simp
    then show "\<forall>p \<in> {2, 3, 5, 7, 11, 13, 17}. p < n \<longrightarrow> n mod p \<noteq> 0" by fastforce
  next
    assume "\<forall>p \<in> {2, 3, 5, 7, 11, 13, 17}. p < n \<longrightarrow> n mod p \<noteq> 0"
    then show "list_all (\<lambda>d. n mod d \<noteq> 0) [2..<n]"
      using divisor_of [OF n(1)] unfolding list_all_iff by (metis atLeastLessThan_iff set_upt)
  qed
  also have "\<dots> \<longleftrightarrow> small_prime n"
  proof (cases "n \<in> {2, 3, 5, 7, 11, 13, 17}")
    case True
    then show ?thesis by (elim insertE emptyE) (simp_all add: small_prime_def)
  next
    case False
    have other: "(p < n \<longrightarrow> n mod p \<noteq> 0) \<longleftrightarrow> n mod p \<noteq> 0" if "p \<noteq> n" for p
      using that n(2) mod_less [of n p] by (metis linorder_neqE_nat not_numeral_le_zero)
    have "p \<in> {2, 3, 5, 7, 11, 13, 17} \<Longrightarrow> (p < n \<longrightarrow> n mod p \<noteq> 0) \<longleftrightarrow> n mod p \<noteq> 0" for p
      by (rule other) (use False in blast)
    then have "(\<forall>p \<in> {2, 3, 5, 7, 11, 13, 17}. p < n \<longrightarrow> n mod p \<noteq> 0) \<longleftrightarrow> (\<forall>p \<in> {2, 3, 5, 7, 11, 13, 17}. n mod p \<noteq> 0)"
      by (intro ball_cong refl)
    then show ?thesis using False
      unfolding small_prime_def ball_simps insert_iff empty_iff if_bool_eq_conj by argo
  qed
  finally show ?thesis .
qed

lemma sha_primes_eval: "sha_primes =
  [2, 3, 5, 7, 11, 13, 17, 19, 23, 29, 31, 37, 41, 43, 47, 53,
   59, 61, 67, 71, 73, 79, 83, 89, 97, 101, 103, 107, 109, 113, 127, 131,
   137, 139, 149, 151, 157, 163, 167, 173, 179, 181, 191, 193, 197, 199, 211, 223,
   227, 229, 233, 239, 241, 251, 257, 263, 269, 271, 277, 281, 283, 293, 307, 311]"
proof -
  have short: "filter (\<lambda>n. list_all (\<lambda>d. n mod d \<noteq> 0) [2..<n]) ns = filter small_prime ns"
    if "\<forall>n \<in> set ns. n < 312 \<and> 2 \<le> n" for ns
    using that
  proof (induction ns)
    case (Cons n ns)
    then have "n < 312" "2 \<le> n" "\<forall>n \<in> set ns. n < 312 \<and> 2 \<le> n" by simp_all
    then show ?case using Cons.IH unfolding filter.simps list_all_prime [OF \<open>n < 312\<close> \<open>2 \<le> n\<close>] by simp
  qed simp
  have "sha_primes = filter small_prime [2..<312]"
    unfolding sha_primes_def by (intro short ballI) (simp only: set_upt atLeastLessThan_iff)
  also have "\<dots> =
    [2, 3, 5, 7, 11, 13, 17, 19, 23, 29, 31, 37, 41, 43, 47, 53,
   59, 61, 67, 71, 73, 79, 83, 89, 97, 101, 103, 107, 109, 113, 127, 131,
   137, 139, 149, 151, 157, 163, 167, 173, 179, 181, 191, 193, 197, 199, 211, 223,
   227, 229, 233, 239, 241, 251, 257, 263, 269, 271, 277, 281, 283, 293, 307, 311]"
    by (simp add: upt_rec_numeral small_prime_def)
  finally show ?thesis .
qed

text \<open>A root is determined by its two neighbours.\<close>

lemma root_bits_unique:
  assumes "0 < k" and "r ^ k \<le> n" and "n < (r + 1) ^ k" and "r0 \<le> r" and "r < r0 + 2 ^ b" and "0 \<le> r0"
  shows "root_bits k n r0 b = r"
  using assms(4-6)
proof (induction b arbitrary: r0)
  case (Suc b)
  have le: "(r0 + 2 ^ b) ^ k \<le> n \<longleftrightarrow> r0 + 2 ^ b \<le> r"
  proof
    assume "(r0 + 2 ^ b) ^ k \<le> n"
    from this assms(3) have "(r0 + 2 ^ b) ^ k < (r + 1) ^ k" by (rule le_less_trans)
    moreover have "0 \<le> r + 1" using Suc.prems by linarith
    ultimately have "r0 + 2 ^ b < r + 1" by (rule power_less_imp_less_base)
    then show "r0 + 2 ^ b \<le> r" by linarith
  next
    assume "r0 + 2 ^ b \<le> r"
    then have "(r0 + 2 ^ b) ^ k \<le> r ^ k" using Suc.prems by (intro power_mono) simp_all
    then show "(r0 + 2 ^ b) ^ k \<le> n" using assms(2) by (rule order_trans)
  qed
  show ?case unfolding root_bits.simps le using Suc.prems by (intro Suc.IH) (auto split: if_splits)
qed simp

definition is_root :: "nat \<Rightarrow> nat \<Rightarrow> int \<Rightarrow> bool" where
  "is_root k p r \<longleftrightarrow> 0 \<le> r \<and> r < 2 ^ 36 \<and> r ^ k \<le> int p * 2 ^ (32 * k) \<and> int p * 2 ^ (32 * k) < (r + 1) ^ k"

lemma root_bits_root: "0 < k \<Longrightarrow> is_root k p r \<Longrightarrow> root_bits k (int p * 2 ^ (32 * k)) 0 36 = r"
  by (rule root_bits_unique) (simp_all add: is_root_def)

lemma map_roots:
  assumes "list_all2 (is_root k) ps rs" and "0 < k" and "m = 32 * k"
  shows "map (\<lambda>p. word_of_int (root_bits k (int p * 2 ^ m) 0 36)) ps = map (word_of_int :: int \<Rightarrow> w32) rs"
  using assms(1) by induction (simp_all add: assms(2,3) root_bits_root)

text \<open>The bits of a literal.\<close>

primrec num_bits :: "num \<Rightarrow> bool list" where
  "num_bits num.One = [True]"
| "num_bits (num.Bit0 n) = False # num_bits n"
| "num_bits (num.Bit1 n) = True # num_bits n"

fun fit :: "'a list \<Rightarrow> bool list \<Rightarrow> bool list" where
  "fit (_ # us) (b # bs) = b # fit us bs"
| "fit (_ # us) [] = False # fit us []"
| "fit [] bs = []"

definition word_bits :: "int \<Rightarrow> bool list" where
  "word_bits i = map (bit i) [0..<32]"

lemma length_word_bits [simp]: "length (word_bits i) = 32"
  by (simp add: word_bits_def)

lemma wd_word_bits: "wd (word_bits i) = word_of_int i"
  by (rule wd_eqI) (simp_all add: word_bits_def bit_word_of_int_iff)

lemma fit_empty: "fit us [] = replicate (length us) False"
  by (induction us) simp_all

lemma fit_map:
  "m \<le> n \<Longrightarrow> fit us (map f [m..<n]) = map (\<lambda>i. i < n \<and> f i) [m..<m + length us]"
proof (induction us arbitrary: m)
  case (Cons u us)
  have cons: "[m..<m + length (u # us)] = m # [Suc m..<Suc m + length us]"
    by (simp add: upt_conv_Cons del: upt_Suc)
  show ?case
  proof (cases "m = n")
    case True
    have "map (\<lambda>i. i < n \<and> f i) [m..<m + length (u # us)] = map (\<lambda>i. False) [m..<m + length (u # us)]"
      using True by (intro map_cong) auto
    then show ?thesis using True by (simp only: upt_conv_Nil order_refl list.map fit_empty map_replicate_const length_upt) simp
  next
    case False
    with Cons.prems have m: "Suc m \<le> n" "[m..<n] = m # [Suc m..<n]" by (simp_all add: upt_conv_Cons)
    show ?thesis unfolding cons m(2) using Cons.IH [OF m(1)] m(1) by (simp del: upt_Suc)
  qed
qed simp

lemma num_bits_bit: "num_bits n = map (bit (numeral n :: int)) [0..<length (num_bits n)]"
proof (induction n)
  case (Bit0 n)
  then show ?case by (simp add: upt_conv_Cons map_Suc_upt [symmetric] comp_def del: upt_Suc)
next
  case (Bit1 n)
  then show ?case by (simp add: upt_conv_Cons map_Suc_upt [symmetric] comp_def del: upt_Suc)
qed simp

lemma bit_num_bits: "length (num_bits n) \<le> i \<Longrightarrow> \<not> bit (numeral n :: int) i"
proof (induction n arbitrary: i)
  case One
  then show ?case by (cases i) simp_all
next
  case (Bit0 n)
  then show ?case by (cases i) simp_all
next
  case (Bit1 n)
  then show ?case by (cases i) simp_all
qed

lemma word_bits_eval:
  "word_bits (numeral n) = fit (replicate 32 ()) (num_bits n)"
  by (subst num_bits_bit, subst fit_map) (auto simp: word_bits_def intro!: map_cong intro: ccontr [of "_ < _"] simp: bit_num_bits not_less)

text \<open>The roots of the primes, scaled by \<open>2 ^ 32\<close>: the bits beyond 32 are the integer parts.\<close>

definition k_roots :: "int list" where
  "k_roots =
  [5411319704, 6194414737, 7344290767, 8215976869, 9551921755, 10098905585, 11043570340, 11460697813,
   12214315672, 13195500289, 13492127166, 14311783875, 14809980276, 15046980094, 15499789991, 16133124468,
   16720292289, 16907126662, 17444216262, 17784676812, 17950125167, 18429019306, 18734950876, 19175934170,
   19734090066, 20001703533, 20132865992, 20390182855, 20516441075, 20764397895, 21588763473, 21813078375,
   22141143685, 22248366392, 22769593852, 22871018771, 23170020180, 23461497531, 23651862830, 23931792517,
   24205322401, 24295138891, 24734567280, 24820601251, 24990902297, 25075189284, 25569408389, 26045227120,
   26200031510, 26276752392, 26428864332, 26653801653, 26727943347, 27092625994, 27306805839, 27517677555,
   27725365998, 27793908591, 27997534228, 28131656200, 28198240250, 28526537963, 28973835255, 29099129074]"

definition h_roots :: "int list" where
  "h_roots =
  [6074000999, 7439101573, 9603838834, 11363415354, 14244795007, 15485724812, 17708603819, 18721328409]"

lemma sha_k_eval: "sha_k = map wd (map word_bits k_roots)"
proof -
  have "list_all2 (is_root 3) sha_primes k_roots"
    unfolding sha_primes_eval k_roots_def by (simp add: is_root_def)
  from map_roots [OF this] show ?thesis unfolding sha_k_def by (simp add: wd_word_bits comp_def)
qed

lemma sha_h0_eval: "sha_h0 = map wd (map word_bits h_roots)"
proof -
  have "list_all2 (is_root 2) (take 8 sha_primes) h_roots"
    unfolding sha_primes_eval h_roots_def by (simp add: is_root_def)
  from map_roots [OF this] show ?thesis unfolding sha_h0_def by (simp add: wd_word_bits comp_def)
qed
section \<open>The compression function\<close>

type_synonym bits_state =
  "bool list \<times> bool list \<times> bool list \<times> bool list \<times> bool list \<times> bool list \<times> bool list \<times> bool list"

fun wd_state :: "bits_state \<Rightarrow> sha_state" where
  "wd_state (a, b, c, d, e, f, g, h) = (wd a, wd b, wd c, wd d, wd e, wd f, wd g, wd h)"

fun words32 :: "bits_state \<Rightarrow> bool" where
  "words32 (a, b, c, d, e, f, g, h) \<longleftrightarrow> length a = 32 \<and> length b = 32 \<and> length c = 32 \<and> length d = 32
     \<and> length e = 32 \<and> length f = 32 \<and> length g = 32 \<and> length h = 32"

definition round_end ::
  "bool list \<Rightarrow> bool list \<Rightarrow> bool list \<Rightarrow> bool list \<Rightarrow> bool list \<Rightarrow> bool list \<Rightarrow> bool list \<Rightarrow> bool list \<Rightarrow> bits_state"
where
  "round_end t a b c d e f g =
     (add_bits False t (add_bits False (big_sigma0_bits a) (map3 major a b c)), a, b, c, add_bits False d t, e, f, g)"

fun round_bits :: "bool list \<Rightarrow> bool list \<Rightarrow> bits_state \<Rightarrow> bits_state" where
  "round_bits k w (a, b, c, d, e, f, g, h) =
     round_end (add_bits False (add_bits False (add_bits False (add_bits False h (big_sigma1_bits e)) (map3 mux e f g)) k) w)
       a b c d e f g"

lemma round_bits:
  assumes "words32 s" and "length k = 32" and "length w = 32"
  shows "words32 (round_bits k w s)" and "wd_state (round_bits k w s) = sha_round (wd k, wd w) (wd_state s)"
  using assms
  by (cases s rule: words32.cases;
      simp add: round_end_def wd_add wd_ch wd_maj wd_sigma Let_def)+

fun rounds_bits :: "bool list list \<Rightarrow> bool list list \<Rightarrow> bits_state \<Rightarrow> bits_state" where
  "rounds_bits (k # ks) (w # ws) s = rounds_bits ks ws (round_bits k w s)"
| "rounds_bits _ _ s = s"

lemma rounds_bits_eval:
  "rounds_bits (k # ks) (w # ws) s = rounds_bits ks ws (round_bits k w s)" "rounds_bits [] [] s = s"
  by simp_all

definition all32 :: "bool list list \<Rightarrow> bool" where
  "all32 ws \<longleftrightarrow> (\<forall>w \<in> set ws. length w = 32)"

lemma all32_simps [simp]: "all32 []" "all32 (w # ws) \<longleftrightarrow> length w = 32 \<and> all32 ws" "all32 (rev ws) = all32 ws"
  "all32 (map word_bits is)" "all32 (as @ bs) \<longleftrightarrow> all32 as \<and> all32 bs"
  by (auto simp: all32_def)

lemma all32_nth: "all32 ws \<Longrightarrow> n < length ws \<Longrightarrow> length (ws ! n) = 32"
  by (simp add: all32_def)

lemma rounds_bits:
  assumes "words32 s" and "all32 ks" and "all32 ws"
  shows "words32 (rounds_bits ks ws s)
    \<and> wd_state (rounds_bits ks ws s) = fold sha_round (zip (map wd ks) (map wd ws)) (wd_state s)"
  using assms by (induction ks ws s rule: rounds_bits.induct) (simp_all add: round_bits)

text \<open>The schedule, by a pattern of the sixteen last words; the first argument counts.\<close>

fun schedule_bits :: "unit list \<Rightarrow> bool list list \<Rightarrow> bool list list" where
  "schedule_bits (_ # us) r =
     schedule_bits us
       (add_bits False (add_bits False (add_bits False (small_sigma1_bits (r ! 1)) (r ! 6)) (small_sigma0_bits (r ! 14)))
          (r ! 15) # r)"
| "schedule_bits [] r = r"

lemma schedule_bits_eval:
  "schedule_bits (u # us) (r0 # r1 # r2 # r3 # r4 # r5 # r6 # r7 # r8 # r9 # r10 # r11 # r12 # r13 # r14 # r15 # r) =
     schedule_bits us
       (add_bits False (add_bits False (add_bits False (small_sigma1_bits r1) r6) (small_sigma0_bits r14)) r15
        # r0 # r1 # r2 # r3 # r4 # r5 # r6 # r7 # r8 # r9 # r10 # r11 # r12 # r13 # r14 # r15 # r)"
  "schedule_bits [] r = r"
  by simp_all

lemma schedule_bits:
  assumes "all32 r" and "16 \<le> length r"
  shows "all32 (schedule_bits us r) \<and> map wd (schedule_bits us r) = schedule (length us) (map wd r)"
  using assms
proof (induction us r rule: schedule_bits.induct)
  case (1 u us r)
  have l: "length (r ! 1) = 32" "length (r ! 6) = 32" "length (r ! 14) = 32" "length (r ! 15) = 32"
    using 1(2,3) by (simp_all add: all32_nth)
  then show ?case using 1 by (simp add: wd_add wd_sigma)
qed simp

fun add_state_bits :: "bits_state \<Rightarrow> bits_state \<Rightarrow> bits_state" where
  "add_state_bits (a, b, c, d, e, f, g, h) (a', b', c', d', e', f', g', h') =
     (add_bits False a a', add_bits False b b', add_bits False c c', add_bits False d d',
      add_bits False e e', add_bits False f f', add_bits False g g', add_bits False h h')"

lemma add_state_bits:
  assumes "words32 s" and "words32 t"
  shows "words32 (add_state_bits s t)" and "wd_state (add_state_bits s t) = add_state (wd_state s) (wd_state t)"
  using assms by (cases s rule: words32.cases; cases t rule: words32.cases; simp add: wd_add)+

definition rev_onto :: "'a list \<Rightarrow> 'a list \<Rightarrow> 'a list" where
  "rev_onto xs ys = rev xs @ ys"

lemma rev_onto_eval: "rev_onto (x # xs) ys = rev_onto xs (x # ys)" "rev_onto [] ys = ys"
  by (simp_all add: rev_onto_def)

definition k_bits :: "bool list list" where
  "k_bits = map word_bits k_roots"

definition compress_bits :: "bool list list \<Rightarrow> bool list list \<Rightarrow> bits_state \<Rightarrow> bits_state" where
  "compress_bits ks rws s =
     add_state_bits s (rounds_bits ks (rev_onto (schedule_bits (replicate 48 ()) rws) []) s)"

lemma compress_bits:
  assumes "words32 s" and "all32 ws" and "length ws = 16"
  shows "words32 (compress_bits k_bits (rev ws) s)" and "wd_state (compress_bits k_bits (rev ws) s) = compress (map wd ws) (wd_state s)"
proof -
  have "all32 (schedule_bits (replicate 48 ()) (rev ws))
      \<and> map wd (schedule_bits (replicate 48 ()) (rev ws)) = schedule 48 (map wd (rev ws))"
    using schedule_bits [of "rev ws" "replicate 48 ()"] assms by simp
  then show "words32 (compress_bits k_bits (rev ws) s)" "wd_state (compress_bits k_bits (rev ws) s) = compress (map wd ws) (wd_state s)"
    using rounds_bits [OF assms(1), of k_bits "rev (schedule_bits (replicate 48 ()) (rev ws))"]
      add_state_bits [OF assms(1)]
    by (simp_all add: compress_bits_def k_bits_def compress_def sha_k_eval rev_onto_def flip: rev_map)
qed

section \<open>Messages\<close>

text \<open>Four characters are the bits of a word.\<close>

fun char_bits :: "char \<Rightarrow> bool list" where
  "char_bits (Char b0 b1 b2 b3 b4 b5 b6 b7) = [b0, b1, b2, b3, b4, b5, b6, b7]"

lemma char_bits_int: "(of_char c :: int) = horner_sum of_bool 2 (char_bits c)"
  by (cases c) (simp add: of_char_def)

lemma length_char_bits [simp]: "length (char_bits c) = 8"
  by (cases c) simp

fun pack :: "string \<Rightarrow> bool list list" where
  "pack (a # b # c # d # s) = (char_bits d @ char_bits c @ char_bits b @ char_bits a) # pack s"
| "pack _ = []"

lemma pack_eval:
  "pack (Char a0 a1 a2 a3 a4 a5 a6 a7 # Char b0 b1 b2 b3 b4 b5 b6 b7 # Char c0 c1 c2 c3 c4 c5 c6 c7
      # Char d0 d1 d2 d3 d4 d5 d6 d7 # s) =
    [d0, d1, d2, d3, d4, d5, d6, d7, c0, c1, c2, c3, c4, c5, c6, c7, b0, b1, b2, b3, b4, b5, b6, b7,
     a0, a1, a2, a3, a4, a5, a6, a7] # pack s"
  "pack [] = []"
  by simp_all

lemma be_words_pack: "be_words (map of_char s) = map wd (pack s)"
proof (induction s rule: pack.induct)
  case (1 a b c d s)
  have "horner_sum of_bool 2 (char_bits d @ char_bits c @ char_bits b @ char_bits a)
      = (((of_char a * 256 + of_char b) * 256 + of_char c) * 256 + of_char d :: int)"
    by (simp add: char_bits_int horner_sum_append algebra_simps)
  then show ?case using 1 by (simp add: wd_def)
qed simp_all

lemma all32_pack [simp]: "all32 (pack s)"
  by (induction s rule: pack.induct) simp_all

lemma length_pack: "length (pack s) = length s div 4"
  by (induction s rule: pack.induct) simp_all

definition pad_chars :: "nat \<Rightarrow> string" where
  "pad_chars n =
     CHR 0x80 # replicate ((119 - n mod 64) mod 64) CHR 0x00 @ map (\<lambda>i. char_of (byte_of i (8 * int n))) [7, 6, 5, 4, 3, 2, 1, 0]"

lemma sha_pad_chars: "sha_pad (map of_char s) = map of_char (s @ pad_chars (length s))"
  by (simp add: sha_pad_def pad_chars_def of_char_of byte_of_def take_bit_eq_mod)

function blocks_bits :: "bool list list \<Rightarrow> bool list list \<Rightarrow> bits_state \<Rightarrow> bits_state" where
  "blocks_bits ks ws s = (if ws = [] then s else blocks_bits ks (drop 16 ws) (compress_bits ks (rev (take 16 ws)) s))"
  by pat_completeness auto
termination
  by (relation "measure (\<lambda>(ks, ws, s). length ws)") auto

declare blocks_bits.simps [simp del]

lemma blocks_bits_eval:
  "blocks_bits ks (w0 # w1 # w2 # w3 # w4 # w5 # w6 # w7 # w8 # w9 # w10 # w11 # w12 # w13 # w14 # w15 # ws) s =
     blocks_bits ks ws (compress_bits ks [w15, w14, w13, w12, w11, w10, w9, w8, w7, w6, w5, w4, w3, w2, w1, w0] s)"
  "blocks_bits ks [] s = s"
  by (subst blocks_bits.simps, simp)+

lemma all32_take_drop: "all32 ws \<Longrightarrow> all32 (take n ws) \<and> all32 (drop n ws)"
  by (auto simp: all32_def dest: in_set_takeD in_set_dropD)

lemma blocks_bits:
  assumes "words32 s" and "all32 ws" and "16 dvd length ws"
  shows "wd_state (blocks_bits k_bits ws s) = sha_blocks (map wd ws) (wd_state s)"
  using assms
proof (induction k_bits ws s rule: blocks_bits.induct)
  case (1 ws s)
  show ?case
  proof (cases "ws = []")
    case True
    then show ?thesis by (simp add: blocks_bits.simps sha_blocks.simps)
  next
    case False
    then have "16 \<le> length ws" using 1(4) by (intro dvd_imp_le) simp_all
    then have "length (take 16 ws) = 16" by simp
    note c = compress_bits [OF 1(2) conjunct1 [OF all32_take_drop [OF 1(3)]] this]
    have "16 dvd length (drop 16 ws)" using 1(4) by (simp add: dvd_diff_nat)
    then show ?thesis
      using 1(1) [OF False c(1)] all32_take_drop [OF 1(3)] False c(2)
      by (simp add: blocks_bits.simps [of _ ws] sha_blocks.simps [of "map wd ws"] take_map drop_map)
  qed
qed

section \<open>The digest\<close>

definition nibble :: "bool \<Rightarrow> bool \<Rightarrow> bool \<Rightarrow> bool \<Rightarrow> char" where
  "nibble b0 b1 b2 b3 = hex_char (horner_sum of_bool 2 [b0, b1, b2, b3])"

lemma nibble_eval:
  "nibble False False False False = CHR ''0''"
  "nibble True False False False = CHR ''1''"
  "nibble False True False False = CHR ''2''"
  "nibble True True False False = CHR ''3''"
  "nibble False False True False = CHR ''4''"
  "nibble True False True False = CHR ''5''"
  "nibble False True True False = CHR ''6''"
  "nibble True True True False = CHR ''7''"
  "nibble False False False True = CHR ''8''"
  "nibble True False False True = CHR ''9''"
  "nibble False True False True = CHR ''a''"
  "nibble True True False True = CHR ''b''"
  "nibble False False True True = CHR ''c''"
  "nibble True False True True = CHR ''d''"
  "nibble False True True True = CHR ''e''"
  "nibble True True True True = CHR ''f''"
  by (simp_all add: nibble_def hex_char_def hex_digits_def)

definition hex_bits :: "bool list \<Rightarrow> string" where
  "hex_bits bs = map (\<lambda>i. nibble (bs ! (4 * i)) (bs ! (4 * i + 1)) (bs ! (4 * i + 2)) (bs ! (4 * i + 3))) [7, 6, 5, 4, 3, 2, 1, 0]"

lemma hex_bits_eval:
  "hex_bits [b0, b1, b2, b3, b4, b5, b6, b7, b8, b9, b10, b11, b12, b13, b14, b15,
    b16, b17, b18, b19, b20, b21, b22, b23, b24, b25, b26, b27, b28, b29, b30, b31] =
     [nibble b28 b29 b30 b31, nibble b24 b25 b26 b27, nibble b20 b21 b22 b23, nibble b16 b17 b18 b19,
      nibble b12 b13 b14 b15, nibble b8 b9 b10 b11, nibble b4 b5 b6 b7, nibble b0 b1 b2 b3]"
  by (simp add: hex_bits_def)

lemma uint_wd: "length bs = 32 \<Longrightarrow> uint (wd bs) = horner_sum of_bool 2 bs"
  by (simp add: wd_def uint_word_of_int_eq take_bit_horner_sum_bit_eq)

lemma drop_bit_horner: "drop_bit n (horner_sum of_bool 2 bs :: int) = horner_sum of_bool 2 (drop n bs)"
  by (rule bit_eqI) (auto simp: bit_drop_bit_eq bit_horner_sum_bit_iff)

lemma hex_nibble:
  assumes "length bs = 32" and "4 * i + 4 \<le> 32"
  shows "hex_char (uint (wd bs) div 16 ^ i) = nibble (bs ! (4 * i)) (bs ! (4 * i + 1)) (bs ! (4 * i + 2)) (bs ! (4 * i + 3))"
proof -
  have "uint (wd bs) div 16 ^ i mod 16 = take_bit 4 (drop_bit (4 * i) (uint (wd bs)))"
    by (simp add: take_bit_eq_mod drop_bit_eq_div power_mult)
  also have "\<dots> = horner_sum of_bool 2 (take 4 (drop (4 * i) bs))"
    using assms(1) by (simp add: uint_wd drop_bit_horner take_bit_horner_sum_bit_eq)
  also have "take 4 (drop (4 * i) bs) = [bs ! (4 * i), bs ! (4 * i + 1), bs ! (4 * i + 2), bs ! (4 * i + 3)]"
    using assms by (intro nth_equalityI) (auto simp: less_Suc_eq numeral_eq_Suc)
  finally show ?thesis unfolding nibble_def hex_char_def by (metis mod_mod_trivial)
qed

lemma hex_bits: "length bs = 32 \<Longrightarrow> hex_word (wd bs) = hex_bits bs"
proof -
  assume "length bs = 32"
  moreover have "4 * i + 4 \<le> 32" if "i \<in> set [7, 6, 5, 4, 3, 2, 1, 0]" for i :: nat using that by auto
  ultimately show ?thesis unfolding hex_word_def hex_bits_def by (intro map_cong refl hex_nibble)
qed

fun hex_state_bits :: "bits_state \<Rightarrow> string" where
  "hex_state_bits (a, b, c, d, e, f, g, h) =
     hex_bits a @ hex_bits b @ hex_bits c @ hex_bits d @ hex_bits e @ hex_bits f @ hex_bits g @ hex_bits h"


definition start_bits :: bits_state where
  "start_bits = (case map word_bits h_roots of [a, b, c, d, e, f, g, h] \<Rightarrow> (a, b, c, d, e, f, g, h))"

lemma start_bits: "words32 start_bits" "wd_state start_bits = sha_init"
  by (simp_all add: start_bits_def h_roots_def sha_init_def sha_h0_eval)

lemma words32_blocks: "words32 s \<Longrightarrow> all32 ws \<Longrightarrow> 16 dvd length ws \<Longrightarrow> words32 (blocks_bits k_bits ws s)"
proof (induction k_bits ws s rule: blocks_bits.induct)
  case (1 ws s)
  show ?case
  proof (cases "ws = []")
    case False
    then have "16 \<le> length ws" using 1(4) by (intro dvd_imp_le) simp_all
    then have "length (take 16 ws) = 16" by simp
    note c = compress_bits(1) [OF 1(2) conjunct1 [OF all32_take_drop [OF 1(3)]] this]
    have "16 dvd length (drop 16 ws)" using 1(4) by (simp add: dvd_diff_nat)
    then show ?thesis
      using 1(1) [OF False c] all32_take_drop [OF 1(3)] False by (simp add: blocks_bits.simps [of _ ws])
  qed (use 1 in \<open>simp add: blocks_bits.simps\<close>)
qed

text \<open>The length of a literal, counted from the left.\<close>

fun count_from :: "nat \<Rightarrow> 'a list \<Rightarrow> nat" where
  "count_from n [] = n"
| "count_from n (_ # xs) = count_from (Suc n) xs"

lemma count_from_length: "count_from n xs = n + length xs"
  by (induction n xs rule: count_from.induct) simp_all

lemma pad_length: "64 dvd n + (1 + (119 - n mod 64) mod 64 + 8)" for n :: nat
proof -
  obtain q r where r: "n = 64 * q + r" "r < 64" using mult_div_mod_eq [of 64 n] by (metis mod_less_divisor zero_less_numeral)
  then have m: "n mod 64 = r" by simp
  show ?thesis
  proof (cases "r < 56")
    case True
    then have "(119 - r) mod 64 = 119 - r - 64" by (subst le_mod_geq) simp_all
    then have "n + (1 + (119 - n mod 64) mod 64 + 8) = 64 * (q + 1)" unfolding m using r(1) True by simp
    then show ?thesis by (simp only: dvd_triv_left)
  next
    case False
    then have "(119 - r) mod 64 = 119 - r" by (intro mod_less) simp
    then have "n + (1 + (119 - n mod 64) mod 64 + 8) = 64 * (q + 2)" unfolding m using r False by simp
    then show ?thesis by (simp only: dvd_triv_left)
  qed
qed

theorem sha256_hex_bits:
  assumes "count_from 0 s = n"
  shows "sha256_hex s = hex_state_bits (blocks_bits k_bits (pack (s @ pad_chars n)) start_bits)"
proof -
  have n: "n = length s" using assms by (simp add: count_from_length)
  have "length (s @ pad_chars n) = n + (1 + (119 - n mod 64) mod 64 + 8)" unfolding n pad_chars_def by simp
  then have "64 dvd length (s @ pad_chars n)" using pad_length [of n] by simp
  then have d: "16 dvd length (pack (s @ pad_chars n))" by (auto simp: length_pack)
  have "hex_state (wd_state t) = hex_state_bits t" if "words32 t" for t
    using that by (cases t rule: words32.cases) (simp add: hex_bits)
  moreover have "sha_blocks (be_words (sha_pad (map of_char s))) sha_init = wd_state (blocks_bits k_bits (pack (s @ pad_chars n)) start_bits)"
    unfolding sha_pad_chars be_words_pack n [symmetric]
    using blocks_bits [OF start_bits(1) all32_pack d] start_bits(2) by simp
  ultimately show ?thesis
    unfolding sha256_hex_def using words32_blocks [OF start_bits(1) all32_pack d] by simp
qed


section \<open>Evaluation\<close>

lemma replicate_units:
  "replicate 32 () = [(), (), (), (), (), (), (), (), (), (), (), (), (), (), (), (), (), (), (), (), (), (), (), (), (), (), (), (), (), (), (), ()]"
  "replicate 48 () =
     [(), (), (), (), (), (), (), (), (), (), (), (), (), (), (), (), (), (), (), (), (), (), (), (),
      (), (), (), (), (), (), (), (), (), (), (), (), (), (), (), (), (), (), (), (), (), (), (), ()]"
  by (simp_all add: numeral_eq_Suc)

lemma start_bits_eval: "start_bits = (word_bits 6074000999, word_bits 7439101573, word_bits 9603838834, word_bits 11363415354, word_bits 14244795007, word_bits 15485724812, word_bits 17708603819, word_bits 18721328409)"
  by (simp add: start_bits_def h_roots_def)

lemma replicate_step: "replicate (numeral n) x = x # replicate (pred_numeral n) x" "replicate 1 x = [x]"
  by (simp_all add: numeral_eq_Suc)

lemmas pad_eval = pad_chars_def byte_of_def char_of_def replicate_step

lemmas sha_eval =
  blocks_bits_eval compress_bits_def add_state_bits.simps rounds_bits_eval round_bits.simps round_end_def
  schedule_bits_eval rev_onto_eval map3_eval add_bits_eval xor3_eval major_eval mux_eval
  big_sigma0_eval big_sigma1_eval small_sigma0_eval small_sigma1_eval
  k_bits_def k_roots_def start_bits_eval word_bits_eval num_bits.simps fit.simps replicate_units list.map
  hex_state_bits.simps hex_bits_eval nibble_eval pack_eval append_Cons append_Nil

lemma sha256_abc:
  "sha256_hex ''abc'' = ''ba7816bf8f01cfea414140de5dae2223b00361a396177a9cb410ff61f20015ad''"
proof -
  have "count_from 0 ''abc'' = 3" by simp
  from sha256_hex_bits [OF this] show ?thesis
    by (simp add: pad_eval) (simp only: sha_eval)
qed
end
