(* ===== verification/PlanSample.thy ===== *)
theory PlanSample
  imports PlanLineage ShaEval RequestProperties
begin

text \<open>
  A derived plan, for the concrete instances of the properties: the sample request is
  admitted, VALID evidence of it is retained, and a plan is built and appended.  A build
  requires the digests it collects to be different, so they are evaluated here, with
  \<open>ShaEval\<close>; the texts are the canonical JSON of each document.
\<close>

section \<open>Digests\<close>

definition idem_text :: string where
  \<open>idem_text = ''{"operation":"admit-execution-request","organization_id":"org-1","submitted_key":"key-1","workload_context_id":"workload-7"}''\<close>

definition idem_hex :: string where
  "idem_hex = ''71bba93d936b9cef9376e4befd8b20dc4bdfe5ed6f0afd21d9b12bac39dbaf4f''"

definition request_text :: string where
  \<open>request_text = ''{"idempotency_identity":"71bba93d936b9cef9376e4befd8b20dc4bdfe5ed6f0afd21d9b12bac39dbaf4f","immutable_payload":{"dry_run":false,"epochs":3},"immutable_payload_reference":null,"organization_id":"org-1","provenance":{"source":"cli"},"request_constraints":{},"request_schema_version":"execution-request.v1","requested_work_type":"train","serialization_version":"canonical-json.v1","workload_context_id":"workload-7"}''\<close>

definition request_hex :: string where
  "request_hex = ''90e79fa65bcfef6162949503a4981eae3204852ae2c5d8e7c6b24c6aa4ee65d4''"

definition request_id_hex :: string where
  "request_id_hex = ''51a1f4303a7cdaf29ee646a3ffcc42d1298b96f9cc9dcff770f10a1530323ecc''"

definition evidence_text :: string where
  \<open>evidence_text = ''{"canonical_request_digest":"90e79fa65bcfef6162949503a4981eae3204852ae2c5d8e7c6b24c6aa4ee65d4","findings":[],"history_boundary":"h-1","organization_id":"org-1","outcome":"Valid","request_id":"51a1f4303a7cdaf29ee646a3ffcc42d1298b96f9cc9dcff770f10a1530323ecc","schema_version":"request-validation.v1","validation_policy_version":"v-1","workload_context_id":"workload-7"}''\<close>

definition evidence_hex :: string where
  "evidence_hex = ''0dae6a77320465acd36001b0a32d524aafa6c6db71f986e3034680136f54cb24''"

definition evidence_id_hex :: string where
  "evidence_id_hex = ''14b89d867d7140bd326035c7207667f162a1889cea299d9e56764e56d43ae2f1''"

definition policy_text :: string where
  \<open>policy_text = ''{"plan_constraint_defaults":{},"policy_version":"p-1","required_capabilities":["gpu"],"resource_requirements":{"cpus":2}}''\<close>

definition policy_hex :: string where
  "policy_hex = ''9a63c991c98fba124037d4e86430a06040d2fda8eed807b744ee8acf996c1add''"

definition configuration_text :: string where
  \<open>configuration_text = ''{"configuration_version":"c-1","work_step_id":"step-1"}''\<close>

definition configuration_hex :: string where
  "configuration_hex = ''6df6ad21344dd6f85c49a24a0d4a7d8170e8a0c1f23fa2513822d3b13d177fbc''"

lemma idem_digest: "namespaced_digest request_idempotency_ns idem_text =
  idem_hex"
proof -
  have n: "count_from 0 (request_idempotency_ns @ [CHR 0x0A] @ idem_text) = 164"
    unfolding request_idempotency_ns_def idem_text_def append_Cons append_Nil by simp
  have p: "pad_chars 164 =
     [CHR 0x80, CHR 0x00, CHR 0x00, CHR 0x00, CHR 0x00, CHR 0x00, CHR 0x00, CHR 0x00, CHR 0x00, CHR 0x00,
      CHR 0x00, CHR 0x00, CHR 0x00, CHR 0x00, CHR 0x00, CHR 0x00, CHR 0x00, CHR 0x00, CHR 0x00, CHR 0x00,
      CHR 0x00, CHR 0x00, CHR 0x00, CHR 0x00, CHR 0x00, CHR 0x00, CHR 0x05, CHR 0x20]"
    by (simp add: pad_eval)
  show ?thesis
    unfolding namespaced_digest_def sha256_hex_bits [OF n] p unfolding request_idempotency_ns_def idem_text_def append_Cons append_Nil
    unfolding idem_hex_def by (simp only: sha_eval)
qed

lemma request_digest: "namespaced_digest request_digest_ns request_text =
  request_hex"
proof -
  have n: "count_from 0 (request_digest_ns @ [CHR 0x0A] @ request_text) = 441"
    unfolding request_digest_ns_def request_text_def append_Cons append_Nil by simp
  have p: "pad_chars 441 =
     [CHR 0x80, CHR 0x00, CHR 0x00, CHR 0x00, CHR 0x00, CHR 0x00, CHR 0x00, CHR 0x00, CHR 0x00, CHR 0x00,
      CHR 0x00, CHR 0x00, CHR 0x00, CHR 0x00, CHR 0x00, CHR 0x00, CHR 0x00, CHR 0x00, CHR 0x00, CHR 0x00,
      CHR 0x00, CHR 0x00, CHR 0x00, CHR 0x00, CHR 0x00, CHR 0x00, CHR 0x00, CHR 0x00, CHR 0x00, CHR 0x00,
      CHR 0x00, CHR 0x00, CHR 0x00, CHR 0x00, CHR 0x00, CHR 0x00, CHR 0x00, CHR 0x00, CHR 0x00, CHR 0x00,
      CHR 0x00, CHR 0x00, CHR 0x00, CHR 0x00, CHR 0x00, CHR 0x00, CHR 0x00, CHR 0x00, CHR 0x00, CHR 0x00,
      CHR 0x00, CHR 0x00, CHR 0x00, CHR 0x00, CHR 0x00, CHR 0x00, CHR 0x00, CHR 0x00, CHR 0x00, CHR 0x00,
      CHR 0x00, CHR 0x00, CHR 0x00, CHR 0x00, CHR 0x00, CHR 0x00, CHR 0x00, CHR 0x00, CHR 0x00, CHR 0x0D,
      CHR 0xC8]"
    by (simp add: pad_eval)
  show ?thesis
    unfolding namespaced_digest_def sha256_hex_bits [OF n] p unfolding request_digest_ns_def request_text_def append_Cons append_Nil
    unfolding request_hex_def by (simp only: sha_eval)
qed

lemma request_id_digest: "namespaced_digest request_id_ns request_hex =
  request_id_hex"
proof -
  have n: "count_from 0 (request_id_ns @ [CHR 0x0A] @ request_hex) = 95"
    unfolding request_id_ns_def request_hex_def append_Cons append_Nil by simp
  have p: "pad_chars 95 =
     [CHR 0x80, CHR 0x00, CHR 0x00, CHR 0x00, CHR 0x00, CHR 0x00, CHR 0x00, CHR 0x00, CHR 0x00, CHR 0x00,
      CHR 0x00, CHR 0x00, CHR 0x00, CHR 0x00, CHR 0x00, CHR 0x00, CHR 0x00, CHR 0x00, CHR 0x00, CHR 0x00,
      CHR 0x00, CHR 0x00, CHR 0x00, CHR 0x00, CHR 0x00, CHR 0x00, CHR 0x00, CHR 0x00, CHR 0x00, CHR 0x00,
      CHR 0x00, CHR 0x02, CHR 0xF8]"
    by (simp add: pad_eval)
  show ?thesis
    unfolding namespaced_digest_def sha256_hex_bits [OF n] p unfolding request_id_ns_def request_hex_def append_Cons append_Nil
    unfolding request_id_hex_def by (simp only: sha_eval)
qed

lemma evidence_digest: "namespaced_digest validation_digest_ns evidence_text =
  evidence_hex"
proof -
  have n: "count_from 0 (validation_digest_ns @ [CHR 0x0A] @ evidence_text) = 397"
    unfolding validation_digest_ns_def evidence_text_def append_Cons append_Nil by simp
  have p: "pad_chars 397 =
     [CHR 0x80, CHR 0x00, CHR 0x00, CHR 0x00, CHR 0x00, CHR 0x00, CHR 0x00, CHR 0x00, CHR 0x00, CHR 0x00,
      CHR 0x00, CHR 0x00, CHR 0x00, CHR 0x00, CHR 0x00, CHR 0x00, CHR 0x00, CHR 0x00, CHR 0x00, CHR 0x00,
      CHR 0x00, CHR 0x00, CHR 0x00, CHR 0x00, CHR 0x00, CHR 0x00, CHR 0x00, CHR 0x00, CHR 0x00, CHR 0x00,
      CHR 0x00, CHR 0x00, CHR 0x00, CHR 0x00, CHR 0x00, CHR 0x00, CHR 0x00, CHR 0x00, CHR 0x00, CHR 0x00,
      CHR 0x00, CHR 0x00, CHR 0x00, CHR 0x00, CHR 0x00, CHR 0x00, CHR 0x00, CHR 0x00, CHR 0x00, CHR 0x0C,
      CHR 0x68]"
    by (simp add: pad_eval)
  show ?thesis
    unfolding namespaced_digest_def sha256_hex_bits [OF n] p unfolding validation_digest_ns_def evidence_text_def append_Cons append_Nil
    unfolding evidence_hex_def by (simp only: sha_eval)
qed

lemma evidence_id_digest: "namespaced_digest validation_id_ns evidence_hex =
  evidence_id_hex"
proof -
  have n: "count_from 0 (validation_id_ns @ [CHR 0x0A] @ evidence_hex) = 96"
    unfolding validation_id_ns_def evidence_hex_def append_Cons append_Nil by simp
  have p: "pad_chars 96 =
     [CHR 0x80, CHR 0x00, CHR 0x00, CHR 0x00, CHR 0x00, CHR 0x00, CHR 0x00, CHR 0x00, CHR 0x00, CHR 0x00,
      CHR 0x00, CHR 0x00, CHR 0x00, CHR 0x00, CHR 0x00, CHR 0x00, CHR 0x00, CHR 0x00, CHR 0x00, CHR 0x00,
      CHR 0x00, CHR 0x00, CHR 0x00, CHR 0x00, CHR 0x00, CHR 0x00, CHR 0x00, CHR 0x00, CHR 0x00, CHR 0x00,
      CHR 0x03, CHR 0x00]"
    by (simp add: pad_eval)
  show ?thesis
    unfolding namespaced_digest_def sha256_hex_bits [OF n] p unfolding validation_id_ns_def evidence_hex_def append_Cons append_Nil
    unfolding evidence_id_hex_def by (simp only: sha_eval)
qed

lemma policy_sample_digest: "namespaced_digest policy_ns policy_text =
  policy_hex"
proof -
  have n: "count_from 0 (policy_ns @ [CHR 0x0A] @ policy_text) = 153"
    unfolding policy_ns_def policy_text_def append_Cons append_Nil by simp
  have p: "pad_chars 153 =
     [CHR 0x80, CHR 0x00, CHR 0x00, CHR 0x00, CHR 0x00, CHR 0x00, CHR 0x00, CHR 0x00, CHR 0x00, CHR 0x00,
      CHR 0x00, CHR 0x00, CHR 0x00, CHR 0x00, CHR 0x00, CHR 0x00, CHR 0x00, CHR 0x00, CHR 0x00, CHR 0x00,
      CHR 0x00, CHR 0x00, CHR 0x00, CHR 0x00, CHR 0x00, CHR 0x00, CHR 0x00, CHR 0x00, CHR 0x00, CHR 0x00,
      CHR 0x00, CHR 0x00, CHR 0x00, CHR 0x00, CHR 0x00, CHR 0x00, CHR 0x00, CHR 0x04, CHR 0xC8]"
    by (simp add: pad_eval)
  show ?thesis
    unfolding namespaced_digest_def sha256_hex_bits [OF n] p unfolding policy_ns_def policy_text_def append_Cons append_Nil
    unfolding policy_hex_def by (simp only: sha_eval)
qed

lemma configuration_sample_digest: "namespaced_digest configuration_ns configuration_text =
  configuration_hex"
proof -
  have n: "count_from 0 (configuration_ns @ [CHR 0x0A] @ configuration_text) = 94"
    unfolding configuration_ns_def configuration_text_def append_Cons append_Nil by simp
  have p: "pad_chars 94 =
     [CHR 0x80, CHR 0x00, CHR 0x00, CHR 0x00, CHR 0x00, CHR 0x00, CHR 0x00, CHR 0x00, CHR 0x00, CHR 0x00,
      CHR 0x00, CHR 0x00, CHR 0x00, CHR 0x00, CHR 0x00, CHR 0x00, CHR 0x00, CHR 0x00, CHR 0x00, CHR 0x00,
      CHR 0x00, CHR 0x00, CHR 0x00, CHR 0x00, CHR 0x00, CHR 0x00, CHR 0x00, CHR 0x00, CHR 0x00, CHR 0x00,
      CHR 0x00, CHR 0x00, CHR 0x02, CHR 0xF0]"
    by (simp add: pad_eval)
  show ?thesis
    unfolding namespaced_digest_def sha256_hex_bits [OF n] p unfolding configuration_ns_def configuration_text_def append_Cons append_Nil
    unfolding configuration_hex_def by (simp only: sha_eval)
qed

lemma hex_shapes:
  "is_sha256_hex idem_hex" "is_sha256_hex request_hex" "is_sha256_hex request_id_hex" "is_sha256_hex evidence_hex"
  "is_sha256_hex evidence_id_hex" "is_sha256_hex policy_hex" "is_sha256_hex configuration_hex"
  by (simp_all flip: idem_digest request_digest request_id_digest evidence_digest evidence_id_digest
      policy_sample_digest configuration_sample_digest)

lemmas hex_ascii = hex_shapes [THEN is_sha256_hex_ascii]

text \<open>The order of the digests, which also separates them.\<close>

lemma hex_order:
  "sort [request_id_hex, request_hex, evidence_id_hex, evidence_hex] = [evidence_hex, evidence_id_hex, request_id_hex, request_hex]"
  "sort [request_hex, evidence_hex, policy_hex, configuration_hex] = [evidence_hex, configuration_hex, request_hex, policy_hex]"
  "distinct [evidence_hex, evidence_id_hex, request_id_hex, request_hex]" "distinct [evidence_hex, configuration_hex, request_hex, policy_hex]"
  unfolding request_id_hex_def request_hex_def evidence_id_hex_def evidence_hex_def policy_hex_def configuration_hex_def
  by code_simp+

lemma hex_sorted: "sort [evidence_hex, evidence_id_hex, request_id_hex, request_hex] = [evidence_hex, evidence_id_hex, request_id_hex, request_hex]"
  using hex_order(1) sort_key_id [of "\<lambda>x. x" "[evidence_hex, evidence_id_hex, request_id_hex, request_hex]"] sorted_sort [of "[request_id_hex, request_hex, evidence_id_hex, evidence_hex]"]
  by simp

lemma hex_distinct:
  "distinct [request_id_hex, request_hex, evidence_id_hex, evidence_hex]"
  "distinct [request_hex, evidence_hex, policy_hex, configuration_hex]"
  using hex_order by (metis distinct_sort)+

section \<open>The admitted request\<close>

lemma sample_idem:
  "idempotency_identity (\<lambda>s. s) (dr_organization sample_draft) (dr_workload sample_draft) ''key-1'' = Inr idem_hex"
proof -
  have "canonical_bytes request_cfg (\<lambda>s. s) (pdict [
      (''operation'', PStr ''admit-execution-request''), (''organization_id'', of_json (dr_organization sample_draft)),
      (''submitted_key'', PStr ''key-1''), (''workload_context_id'', of_json (dr_workload sample_draft))]) = Inr idem_text"
    by code_simp
  then show ?thesis by (simp add: idempotency_identity_def idem_digest)
qed

lemma sample_text: "json_dumps (request_json sample_draft idem_hex) = request_text"
  by code_simp

definition sample_request :: execution_request where
  "sample_request = request_of sample_draft idem_hex request_text"

lemma sample_request_built: "build_execution_request (\<lambda>s. s) sample_draft idem_hex = Inr (sample_request, request_text)"
  using sample_content [OF hex_shapes(1)] by (simp add: sample_text sample_request_def)

lemma sample_request_fields:
  "rq_id sample_request = request_id_hex" "rq_digest sample_request = request_hex"
  "rq_organization sample_request = JStr ''org-1''" "rq_workload sample_request = JStr ''workload-7''"
  "rq_schema sample_request = JStr supported_request_schema" "rq_work_type sample_request = JStr ''train''"
  "rq_reference sample_request = None" "rq_constraints sample_request = JObj []"
  by (simp_all add: sample_request_def request_of_def request_digest request_id_digest sample_draft_def)

definition sample_requests :: request_state where
  "sample_requests =
     \<lparr>rs_by_id = [request_id_hex \<mapsto> \<lparr>rr_request = sample_request, rr_content = request_text\<rparr>],
      rs_by_idempotency = [idem_hex \<mapsto> \<lparr>rr_request = sample_request, rr_content = request_text\<rparr>]\<rparr>"

lemma sample_reconstructs:
  "reconstruct_execution_request (\<lambda>s. s) request_text (rq_digest sample_request) = Inr sample_request"
  by (rule reconstruct_built [OF nfc_laws_id sample_ok sample_request_built])

lemma sample_request_admitted:
  "service_admit (request_admit (\<lambda>s. s)) (\<lambda>s. s) request_init sample_draft ''key-1'' = Inr (sample_requests, Created, sample_request)"
proof -
  have "validate_record (\<lambda>s. s) \<lparr>rr_request = sample_request, rr_content = request_text\<rparr> = Inr ()"
    by (simp add: validate_record_def sample_reconstructs)
  moreover have "rq_idempotency sample_request = idem_hex" by (simp add: sample_request_def request_of_def)
  ultimately show ?thesis
    by (simp add: service_admit_def sample_idem sample_request_built request_admit_def request_init_def
        sample_requests_def sample_request_fields)
qed

section \<open>The evidence\<close>

definition sample_evidence :: validation_evidence where
  "sample_evidence =
     \<lparr>rv_id = PStr evidence_id_hex, rv_request = PStr request_id_hex, rv_request_digest = PStr request_hex,
      rv_organization = PStr ''org-1'', rv_workload = PStr ''workload-7'', rv_policy = PStr ''v-1'', rv_outcome = Valid,
      rv_findings = [], rv_boundary = PStr ''h-1'', rv_schema = PStr supported_validation_schema,
      rv_digest = PStr evidence_hex\<rparr>"

lemma sample_evidence_built: "build_validation_evidence (\<lambda>s. s) sample_evidence = Inr sample_evidence"
proof -
  have "canonical_bytes request_cfg (\<lambda>s. s) (validation_input_document sample_evidence []) = Inr evidence_text"
    by code_simp
  moreover have "sort_findings (rv_findings sample_evidence) = Inr []"
    by (simp add: sample_evidence_def sort_findings_def)
  ultimately show ?thesis
    by (simp add: build_validation_evidence_def evidence_digest evidence_id_digest) (simp add: sample_evidence_def)
qed

lemma sample_evidence_valid: "validate_validation_evidence (\<lambda>s. s) sample_evidence = Inr ()"
  by (simp add: validate_validation_evidence_def sample_evidence_built catch_def) (simp add: sample_evidence_def)

lemma sample_evidence_normal: "evidence_normal (\<lambda>s. s) sample_evidence"
  by (simp add: evidence_normal_def sample_evidence_def)

lemma sample_evidence_retained:
  "retain_validation (\<lambda>s. s) Map.empty sample_evidence = Inr [PStr evidence_id_hex \<mapsto> sample_evidence]"
  by (simp add: retain_validation_def sample_evidence_valid) (simp add: sample_evidence_def)

section \<open>The planning input\<close>

definition sample_policy :: planning_policy where
  "sample_policy = \<lparr>pp_version = ''p-1'', pp_capabilities = [''gpu''], pp_resources = JObj [(''cpus'', JInt 2)],
     pp_defaults = JObj []\<rparr>"

definition sample_configuration :: planning_configuration where
  "sample_configuration = \<lparr>pg_version = ''c-1'', pg_step = ''step-1''\<rparr>"

definition sample_planning :: planning_input where
  "sample_planning =
     \<lparr>pi_organization = ''org-1'', pi_workload = ''workload-7'', pi_request = request_id_hex,
      pi_evidence = evidence_id_hex, pi_policy = sample_policy, pi_configuration = sample_configuration,
      pi_schema = supported_plan_schema, pi_rule = supported_plan_rule\<rparr>"

lemma sample_planning_made: "planning_input_made (\<lambda>s. s) sample_planning"
proof -
  have "make_planning_policy (\<lambda>s. s) (PStr ''p-1'') [PStr ''gpu''] (pdict [(''cpus'', PInt 2)]) PNone = Inr sample_policy"
    by code_simp
  moreover have "make_planning_configuration (\<lambda>s. s) (PStr ''c-1'') (PStr ''step-1'') = Inr sample_configuration"
    by code_simp
  moreover have "make_planning_input (\<lambda>s. s) (PStr ''org-1'') (PStr ''workload-7'') (PStr request_id_hex)
      (PStr evidence_id_hex) sample_policy sample_configuration (PStr supported_plan_schema) (PStr supported_plan_rule)
    = Inr sample_planning"
    using hex_shapes by (auto simp: make_planning_input_def plan_text_def plan_hex_def sample_planning_def)
  moreover have "pi_policy sample_planning = sample_policy" "pi_configuration sample_planning = sample_configuration"
    by (simp_all add: sample_planning_def)
  ultimately show ?thesis unfolding planning_input_made_def by metis
qed

section \<open>The plan\<close>

lemma sample_policy_digest: "policy_digest (\<lambda>s. s) sample_policy = Inr policy_hex"
proof -
  have "plan_content (\<lambda>s. s) (policy_document sample_policy) = Inr policy_text" by code_simp
  then show ?thesis by (simp add: policy_digest_def plan_hash_def policy_sample_digest)
qed

lemma sample_configuration_digest: "configuration_digest (\<lambda>s. s) sample_configuration = Inr configuration_hex"
proof -
  have "plan_content (\<lambda>s. s) (configuration_document sample_configuration) = Inr configuration_text" by code_simp
  then show ?thesis by (simp add: configuration_digest_def plan_hash_def configuration_sample_digest)
qed

definition sample_rule_result :: rule_result where
  "sample_rule_result =
     \<lparr>rl_steps = [\<lparr>ps_sequence = 0, ps_id = ''step-1'', ps_operation = ''train'',
        ps_inputs = JObj [(''payload_digest'', JStr request_hex), (''request_id'', JStr request_id_hex)]\<rparr>],
      rl_capabilities = [''gpu''], rl_resources = JObj [(''cpus'', JInt 2)], rl_dependencies = [],
      rl_constraints = JObj [(''policy_defaults'', JObj []), (''request_constraints'', JObj [])],
      rl_evidence = [evidence_hex, evidence_id_hex, request_id_hex, request_hex]\<rparr>"

lemma sample_mappings:
  "plan_mapping (\<lambda>s. s) (pdict [(''payload_digest'', PStr request_hex), (''request_id'', PStr request_id_hex)])
     = Inr (JObj [(''payload_digest'', JStr request_hex), (''request_id'', JStr request_id_hex)])"
  "plan_mapping (\<lambda>s. s) (pdict [(''policy_defaults'', PMap []), (''request_constraints'', PMap [])])
     = Inr (JObj [(''policy_defaults'', JObj []), (''request_constraints'', JObj [])])"
  "plan_mapping (\<lambda>s. s) (of_json (JObj [(''policy_defaults'', JObj []), (''request_constraints'', JObj [])]))
     = Inr (JObj [(''policy_defaults'', JObj []), (''request_constraints'', JObj [])])"
  "plan_mapping (\<lambda>s. s) (of_json (JObj [(''cpus'', JInt 2)])) = Inr (JObj [(''cpus'', JInt 2)])"
  by code_simp+

lemma sample_rule:
  "deterministic_rule_v1 (\<lambda>s. s) sample_request sample_evidence sample_policy sample_configuration = Inr sample_rule_result"
  using hex_order(1) hex_distinct(1) hex_sorted sample_mappings
  by (simp add: deterministic_rule_v1_def make_step_def payload_digest_def sample_request_fields plan_text_def
      sample_policy_def sample_configuration_def evidence_texts_def sample_evidence_def make_rule_result_def
      sort_dependencies_def sample_rule_result_def)

text \<open>The two documents of the plan are of ASCII text, so they are written.\<close>

lemma canonical_document:
  assumes "\<exists>j. freeze request_cfg (\<lambda>s. s) d = Inr j \<and> ascii_json j"
  shows "\<exists>content. plan_content (\<lambda>s. s) d = Inr content"
  using assms by (auto simp: plan_content_def canonical_bytes_def canonical_json_def encode_dumps_ascii)

lemma freeze_ptuple: "freeze c (\<lambda>s. s) (ptuple ss) = Inr (JList (map JStr ss))"
proof -
  have "freeze_list c (\<lambda>s. s) (map PStr ss) = Inr (map JStr ss)" by (induction ss) simp_all
  then show ?thesis by (simp add: ptuple_def)
qed

lemma more_doc_keys:
  "doc_keys [''canonical_input_digest'', ''plan_schema_version'', ''planning_rule_version'']"
  "doc_keys [''history_boundary'', ''input_artifact_hashes'', ''planner_version'', ''serialization_version'']"
  "doc_keys [''inputs'', ''operation'', ''sequence'', ''step_id'']"
  "doc_keys [''canonical_input_digest'', ''canonical_request_digest'', ''capability_requirements'',
     ''declared_dependencies'', ''derivation_evidence'', ''normalized_plan_constraints'', ''organization_id'',
     ''plan_id'', ''plan_schema_version'', ''planning_configuration_digest'', ''planning_rule_version'',
     ''policy_version_or_digest'', ''reconstruction_metadata'', ''request_id'', ''request_schema_version'',
     ''resource_requirements'', ''serialization_version'', ''structured_planned_work'', ''workload_context_id'']"
  by code_simp+

lemmas freeze_document = freeze_pdict [OF nfc_laws_id] freeze_ptuple

lemma sample_canonical:
  "freeze c (\<lambda>s. s) (of_json j) = Inr j" if "canonical (\<lambda>s. s) j" "no_float j"
  using that by (simp add: freeze_of_json)

lemma sample_ascii: "ascii supported_plan_schema" "ascii supported_plan_rule" "ascii serialization_version"
  "ascii supported_planner" "ascii supported_validation_schema" "ascii supported_request_schema"
  by (simp_all add: supported_plan_schema_def supported_plan_rule_def serialization_version_def
      supported_planner_def supported_validation_schema_def supported_request_schema_def)

lemma sample_input_written:
  "\<exists>input. plan_content (\<lambda>s. s) (plan_input_document sample_planning sample_request sample_evidence
      configuration_hex policy_hex) = Inr input"
proof -
  obtain jv where jv: "freeze request_cfg (\<lambda>s. s) (validation_document sample_evidence) = Inr jv" "ascii_json jv"
    using plan_doc_keys(3) hex_ascii sample_ascii
    by (simp add: validation_document_def freeze_document sample_evidence_def)
  obtain jp where jp: "freeze request_cfg (\<lambda>s. s) (policy_document sample_policy) = Inr jp" "ascii_json jp"
    using plan_doc_keys(1) by (simp add: policy_document_def freeze_document sample_policy_def is_str_key_def)
  obtain jc where jc: "freeze request_cfg (\<lambda>s. s) (configuration_document sample_configuration) = Inr jc" "ascii_json jc"
    using plan_doc_keys(2) by (simp add: configuration_document_def freeze_document sample_configuration_def)
  have "\<exists>j. freeze request_cfg (\<lambda>s. s) (plan_input_document sample_planning sample_request sample_evidence
      configuration_hex policy_hex) = Inr j \<and> ascii_json j"
    using plan_doc_keys(4) hex_ascii sample_ascii jv jp jc
    by (simp add: plan_input_document_def freeze_document sample_planning_def sample_request_fields)
  then show ?thesis by (rule canonical_document)
qed

lemma sample_identity_written:
  assumes "is_sha256_hex d"
  shows "\<exists>identity. plan_identity (\<lambda>s. s) d sample_planning = Inr identity \<and> is_sha256_hex identity"
proof -
  have "\<exists>j. freeze request_cfg (\<lambda>s. s) (pdict [
     (''canonical_input_digest'', PStr d), (''plan_schema_version'', PStr (pi_schema sample_planning)),
     (''planning_rule_version'', PStr (pi_rule sample_planning))]) = Inr j \<and> ascii_json j"
    using more_doc_keys(1) sample_ascii is_sha256_hex_ascii [OF assms] by (simp add: freeze_document sample_planning_def)
  from canonical_document [OF this] obtain c where "plan_content (\<lambda>s. s) (pdict [
     (''canonical_input_digest'', PStr d), (''plan_schema_version'', PStr (pi_schema sample_planning)),
     (''planning_rule_version'', PStr (pi_rule sample_planning))]) = Inr c" ..
  then have "plan_identity (\<lambda>s. s) d sample_planning = Inr (namespaced_digest plan_id_ns c)"
    unfolding plan_identity_def plan_hash_def by (simp only: bindr_simps)
  then show ?thesis using namespaced_digest_shape by blast
qed

definition sample_metadata :: plan_metadata where
  "sample_metadata = \<lparr>pm_boundary = ''h-1'', pm_planner = supported_planner,
     pm_serialization = serialization_version, pm_inputs = [evidence_hex, configuration_hex, request_hex, policy_hex]\<rparr>"

lemma sample_metadata_made:
  "make_plan_metadata (\<lambda>s. s) (PStr ''h-1'') [evidence_hex, configuration_hex, request_hex, policy_hex] = Inr sample_metadata"
proof -
  have "sort [evidence_hex, configuration_hex, request_hex, policy_hex] = [evidence_hex, configuration_hex, request_hex, policy_hex]"
    using hex_order(2) sort_key_id [of "\<lambda>x. x" "[evidence_hex, configuration_hex, request_hex, policy_hex]"]
      sorted_sort [of "[request_hex, evidence_hex, policy_hex, configuration_hex]"] by simp
  moreover have "mapr (\<lambda>h. plan_hex (PStr h)) [evidence_hex, configuration_hex, request_hex, policy_hex] = Inr [evidence_hex, configuration_hex, request_hex, policy_hex]"
    using hex_shapes by (simp add: plan_hex_def)
  ultimately show ?thesis
    using hex_order(4) by (simp only: make_plan_metadata_def bindr_simps Let_def raise_if_def plan_text_def) 
      (simp add: sample_metadata_def)
qed

lemma sample_plan_written:
  assumes "is_sha256_hex d" and "is_sha256_hex i"
  shows "\<exists>content. plan_content (\<lambda>s. s) (plan_document sample_planning sample_request sample_rule_result
      sample_metadata d i configuration_hex policy_hex) = Inr content"
proof -
  obtain jm where jm: "freeze request_cfg (\<lambda>s. s) (metadata_document sample_metadata) = Inr jm" "ascii_json jm"
    using more_doc_keys(2) hex_ascii sample_ascii
    by (simp add: metadata_document_def freeze_document sample_metadata_def)
  obtain js where js: "freeze request_cfg (\<lambda>s. s) (step_document (hd (rl_steps sample_rule_result))) = Inr js" "ascii_json js"
    using more_doc_keys(3) hex_ascii
    by (simp add: step_document_def freeze_document sample_rule_result_def freeze_of_json del: of_json.simps)
  have "freeze request_cfg (\<lambda>s. s) (of_json (rl_constraints sample_rule_result)) = Inr (rl_constraints sample_rule_result)"
    "freeze request_cfg (\<lambda>s. s) (of_json (rl_resources sample_rule_result)) = Inr (rl_resources sample_rule_result)"
    by (intro sample_canonical; code_simp)+
  then have "\<exists>j. freeze request_cfg (\<lambda>s. s) (plan_document sample_planning sample_request sample_rule_result
      sample_metadata d i configuration_hex policy_hex) = Inr j \<and> ascii_json j"
    using more_doc_keys(4) hex_ascii sample_ascii jm js is_sha256_hex_ascii [OF assms(1)] is_sha256_hex_ascii [OF assms(2)]
    by (simp add: plan_document_def freeze_document sample_planning_def sample_request_fields del: of_json.simps(7))
      (simp add: sample_rule_result_def)
  then show ?thesis by (rule canonical_document)
qed

lemma sample_check: "check_plan_inputs (\<lambda>s. s) sample_planning sample_request sample_evidence = Inr ()"
proof -
  have "accepted_draft (\<lambda>s. s) sample_request = Inr sample_draft"
    using draft_rebuild [OF nfc_laws_id sample_ok]
    by (simp add: accepted_draft_def sample_request_def request_of_def)
  then have "validate_accepted_request (\<lambda>s. s) sample_request = Inr request_text"
    by (simp add: validate_accepted_request_def catch_def sample_request_built)
      (simp add: sample_request_def request_of_def sample_request_built [unfolded sample_request_def request_of_def])
  then show ?thesis
    by (simp add: check_plan_inputs_Inr sample_evidence_valid sample_request_fields)
      (simp add: sample_planning_def sample_evidence_def)
qed

lemma sample_sorted_texts: "unique_sorted (\<lambda>s. s) (map PStr (rl_capabilities sample_rule_result)) = Inr (rl_capabilities sample_rule_result)"
  "unique_sorted (\<lambda>s. s) (map PStr (rl_evidence sample_rule_result)) = Inr (rl_evidence sample_rule_result)"
proof -
  have u: "unique_sorted (\<lambda>s. s) (map PStr ss) = Inr (sort ss)" if "distinct ss" "[] \<notin> set ss" for ss
  proof -
    have "mapr (plan_text (\<lambda>s. s)) (map PStr ss) = Inr ss"
      using that(2) by (induction ss) (auto simp: plan_text_def)
    with that(1) show ?thesis by (simp add: unique_sorted_def)
  qed
  show "unique_sorted (\<lambda>s. s) (map PStr (rl_capabilities sample_rule_result)) = Inr (rl_capabilities sample_rule_result)"
    using u [of "[''gpu'']"] by (simp add: sample_rule_result_def)
  have "[] \<notin> set [evidence_hex, evidence_id_hex, request_id_hex, request_hex]" using hex_shapes by (auto dest: is_sha256_hex_nonempty)
  from u [OF hex_order(3) this]
  show "unique_sorted (\<lambda>s. s) (map PStr (rl_evidence sample_rule_result)) = Inr (rl_evidence sample_rule_result)"
    by (simp only: hex_sorted sample_rule_result_def rule_result.select_convs)
qed

lemma sample_built:
  obtains p input content where
    "build_execution_plan (\<lambda>s. s) sample_planning sample_request sample_evidence = Inr (p, input, content)"
    "pl_request p = request_id_hex" "pl_organization p = ''org-1''" "pl_workload p = ''workload-7''"
proof -
  obtain input where input: "plan_content (\<lambda>s. s) (plan_input_document sample_planning sample_request sample_evidence
      configuration_hex policy_hex) = Inr input" using sample_input_written ..
  define d where "d = namespaced_digest plan_input_ns input"
  have d: "is_sha256_hex d" by (simp add: d_def)
  obtain i where i: "plan_identity (\<lambda>s. s) d sample_planning = Inr i" "is_sha256_hex i"
    using sample_identity_written [OF d] by (elim exE conjE)
  obtain content where content: "plan_content (\<lambda>s. s) (plan_document sample_planning sample_request sample_rule_result
      sample_metadata d i configuration_hex policy_hex) = Inr content" using sample_plan_written [OF d i(2)] ..
  define e where "e = namespaced_digest plan_digest_ns content"
  have e: "is_sha256_hex e" by (simp add: e_def)
  have hashes: "input_hashes sample_request sample_evidence policy_hex configuration_hex = Inr [evidence_hex, configuration_hex, request_hex, policy_hex]"
    using hex_order(2) by (simp add: input_hashes_def evidence_texts_def sample_request_fields sample_evidence_def)
  have rule: "planning_rule (\<lambda>s. s) supported_plan_rule = Inr (deterministic_rule_v1 (\<lambda>s. s))"
    by (simp add: planning_rule_Inr)
  have fields: "pi_rule sample_planning = supported_plan_rule" "pi_schema sample_planning = supported_plan_schema"
    "pi_policy sample_planning = sample_policy" "pi_configuration sample_planning = sample_configuration"
    "rv_boundary sample_evidence = PStr ''h-1''"
    by (simp_all add: sample_planning_def sample_evidence_def)
  have maps: "plan_mapping (\<lambda>s. s) (of_json (rl_resources sample_rule_result)) = Inr (rl_resources sample_rule_result)"
    "plan_mapping (\<lambda>s. s) (of_json (rl_constraints sample_rule_result)) = Inr (rl_constraints sample_rule_result)"
    using sample_mappings(3,4) by (simp_all only: sample_rule_result_def rule_result.select_convs)
  have schema: "plan_text (\<lambda>s. s) (PStr supported_request_schema) = Inr supported_request_schema"
    by (simp add: plan_text_def supported_request_schema_def)
  let ?p = "\<lparr>pl_id = i, pl_schema = supported_plan_schema, pl_request = request_id_hex,
      pl_request_schema = supported_request_schema, pl_request_digest = request_hex, pl_organization = ''org-1'',
      pl_workload = ''workload-7'', pl_rule = supported_plan_rule, pl_configuration = configuration_hex,
      pl_policy = policy_hex, pl_input_digest = d, pl_digest = e, pl_work = rl_steps sample_rule_result,
      pl_capabilities = rl_capabilities sample_rule_result, pl_resources = rl_resources sample_rule_result,
      pl_dependencies = sort_dependencies (rl_dependencies sample_rule_result),
      pl_constraints = rl_constraints sample_rule_result, pl_evidence = rl_evidence sample_rule_result,
      pl_metadata = sample_metadata\<rparr>"
  have work: "rl_steps sample_rule_result \<noteq> []" by (simp add: sample_rule_result_def)
  have texts: "plan_text (\<lambda>s. s) (PStr x) = Inr x" if "x \<noteq> []" for x using that by (simp add: plan_text_def)
  have ne: "request_id_hex \<noteq> []" "policy_hex \<noteq> []" using hex_shapes by (auto dest: is_sha256_hex_nonempty)
  have "make_plan (\<lambda>s. s) (?p\<lparr>pl_request_schema := [], pl_organization := [], pl_workload := [],
       pl_dependencies := rl_dependencies sample_rule_result\<rparr>)
      (PStr supported_request_schema) (PStr ''org-1'') (PStr ''workload-7'') = Inr ?p"
    using hex_shapes d e i(2) work ne
    by (simp add: make_plan_def schema texts maps sample_sorted_texts raise_if_def)
  then have "build_execution_plan (\<lambda>s. s) sample_planning sample_request sample_evidence = Inr (?p, input, content)"
    unfolding build_execution_plan_def Let_def sample_check fields rule bindr_simps sample_rule
      sample_configuration_digest sample_policy_digest input d_def [symmetric] i(1) hashes sample_metadata_made
      content e_def [symmetric] sample_request_fields of_json.simps
    by simp
  then show ?thesis using that by simp
qed

definition sample_record :: "execution_plan \<Rightarrow> string \<Rightarrow> string \<Rightarrow> string \<Rightarrow> plan_record" where
  "sample_record p input content identity =
     \<lparr>kr_plan = p, kr_request = sample_request, kr_input = input, kr_content = content, kr_idempotency = identity,
      kr_version = 0\<rparr>"

definition sample_world :: plan_world where
  "sample_world = \<lparr>pw_requests = sample_requests, pw_evidence = [PStr evidence_id_hex \<mapsto> sample_evidence],
     pw_plans = plan_init\<rparr>"

lemma sample_world_reached: "plan_steps (\<lambda>s. s) plan_world_init sample_world"
proof -
  have "plan_step (\<lambda>s. s) plan_world_init (plan_world_init\<lparr>pw_requests := sample_requests\<rparr>)"
    by (rule plan_step.admit) (simp add: plan_world_init_def, rule sample_request_admitted)
  from plan_steps.step [OF plan_steps.none this]
  have "plan_steps (\<lambda>s. s) plan_world_init (plan_world_init\<lparr>pw_requests := sample_requests\<rparr>)" .
  moreover have "plan_step (\<lambda>s. s) (plan_world_init\<lparr>pw_requests := sample_requests\<rparr>) sample_world"
    using plan_step.validated [of "\<lambda>s. s" "plan_world_init\<lparr>pw_requests := sample_requests\<rparr>" sample_evidence
        "[PStr evidence_id_hex \<mapsto> sample_evidence]"] sample_evidence_retained
    by (simp add: plan_world_init_def sample_world_def)
  ultimately show ?thesis by (rule plan_steps.step)
qed

lemma sample_upstream:
  "plan_upstream (\<lambda>s. s) (request_record_of (pw_requests sample_world)) (get_validation (pw_evidence sample_world)) sample_planning
     = Inr (sample_request, sample_evidence)"
proof -
  have "request_record_of (pw_requests sample_world) (pi_request sample_planning)
      = Some \<lparr>rr_request = sample_request, rr_content = request_text\<rparr>"
    by (simp add: sample_world_def request_record_of_def sample_requests_def sample_planning_def)
  moreover have "get_validation (pw_evidence sample_world) (pi_evidence sample_planning) = Some sample_evidence"
    by (simp add: sample_world_def get_validation_def sample_planning_def)
  ultimately show ?thesis
    using sample_reconstructs
    by (simp add: plan_upstream_def Let_def catch_def sample_evidence_valid sample_request_fields)
      (simp add: sample_planning_def sample_evidence_def raise_if_def)
qed

lemma sample_plan_identity:
  assumes "ascii key" and "key \<noteq> []"
  obtains identity where "plan_idempotency_identity (\<lambda>s. s) (pi_organization sample_planning) (pi_workload sample_planning)
      (pi_request sample_planning) key = Inr identity" "is_sha256_hex identity"
proof -
  have keys: "doc_keys [''operation'', ''organization_id'', ''request_id'', ''submitted_key'', ''workload_context_id'']"
    by code_simp
  have "\<exists>j. freeze request_cfg (\<lambda>s. s) (pdict [
       (''operation'', PStr ''derive-execution-plan''), (''organization_id'', PStr (pi_organization sample_planning)),
       (''request_id'', PStr (pi_request sample_planning)), (''submitted_key'', PStr key),
       (''workload_context_id'', PStr (pi_workload sample_planning))]) = Inr j \<and> ascii_json j"
    using keys hex_ascii assms(1) by (simp add: freeze_document sample_planning_def)
  from canonical_document [OF this] obtain c where c: "plan_content (\<lambda>s. s) (pdict [
       (''operation'', PStr ''derive-execution-plan''), (''organization_id'', PStr (pi_organization sample_planning)),
       (''request_id'', PStr (pi_request sample_planning)), (''submitted_key'', PStr key),
       (''workload_context_id'', PStr (pi_workload sample_planning))]) = Inr c" ..
  show ?thesis
    by (rule that [of "namespaced_digest plan_idempotency_ns c"])
      (simp_all only: plan_idempotency_identity_def plan_hash_def c bindr_simps raise_if_def assms(2) if_False
        namespaced_digest_shape)
qed

text \<open>The plan is derived, as version 1 of its stream.\<close>

lemma sample_derived:
  assumes "ascii key" and "key \<noteq> []"
  obtains st p where "world_derive (\<lambda>s. s) sample_world sample_planning 0 key = Inr (st, PlanCreated, p, 1)"
    "pl_organization p = ''org-1''" "ks_by_id st (pl_id p) \<noteq> None"
    "ks_streams st (''org-1'', ''workload-7'', request_id_hex) \<noteq> []"
proof -
  obtain p input content where b: "build_execution_plan (\<lambda>s. s) sample_planning sample_request sample_evidence = Inr (p, input, content)"
    and p: "pl_request p = request_id_hex" "pl_organization p = ''org-1''" "pl_workload p = ''workload-7''"
    by (rule sample_built)
  obtain identity where i: "plan_idempotency_identity (\<lambda>s. s) (pi_organization sample_planning) (pi_workload sample_planning)
      (pi_request sample_planning) key = Inr identity" "is_sha256_hex identity"
    by (rule sample_plan_identity [OF assms])
  let ?r = "sample_record p input content identity"
  have r: "reconstruct_execution_plan (\<lambda>s. s) sample_request input content (pl_input_digest p) (pl_digest p) (pl_id p) = Inr p"
    by (rule reconstruct_built_plan [OF nfc_laws_id sample_planning_made sample_evidence_normal b])
  have "validate_plan_record (\<lambda>s. s) ?r = Inr ()"
    using p i(2) by (simp add: validate_plan_record_def sample_record_def sample_request_fields r Let_def)
  moreover have "plan_stream_key p = (''org-1'', ''workload-7'', request_id_hex)"
    by (simp add: plan_stream_key_def p)
  moreover have "pw_plans sample_world = plan_init" by (simp add: sample_world_def)
  ultimately have "world_derive (\<lambda>s. s) sample_world sample_planning 0 key
      = Inr (\<lparr>ks_streams = (ks_streams plan_init)((''org-1'', ''workload-7'', request_id_hex) := [?r\<lparr>kr_version := 1\<rparr>]),
              ks_by_id = [pl_id p \<mapsto> ?r\<lparr>kr_version := 1\<rparr>], ks_idempotency = [identity \<mapsto> ?r\<lparr>kr_version := 1\<rparr>],
              ks_current = [(''org-1'', ''workload-7'', request_id_hex) \<mapsto> pl_id p]\<rparr>, PlanCreated, p, 1)"
    unfolding world_derive_def plan_derive_def sample_upstream i(1) bindr_simps prod.case b
    by (simp add: plan_append_def plan_insert_def plan_init_def sample_record_def Let_def)
  then show ?thesis using p(2) that by simp
qed

end
