(* ===== verification/PlanTheorems.thy ===== *)
theory PlanTheorems
  imports PlanSample
begin

text \<open>
  The properties of execution plans: what a rule may return, the round trip of the canonical
  input, and what holds of the service in every reachable world.
\<close>

section \<open>Rules and the round trip\<close>

text \<open>C30: the work of a plan can be run to its end.  Whatever a planning rule returns, if
  \<open>PlanRuleResult\<close> accepts it, then its steps are numbered 0, 1, 2 and so on with different
  identifiers, every dependency joins two of its steps and goes from an earlier to a later
  one, and "must run before" is well-founded: following predecessors from any step ends, and
  there is no cycle.\<close>

theorem plan_rule_dependencies:
  assumes "make_rule_result nfc r = Inr out"
  shows "map ps_sequence (rl_steps out) = map int [0..<length (rl_steps out)]
    \<and> rl_steps out \<noteq> [] \<and> distinct (map ps_id (rl_steps out))
    \<and> (\<forall>d \<in> set (rl_dependencies out). \<exists>m n. m < n \<and> n < length (rl_steps out)
         \<and> ps_id (rl_steps out ! m) = pd_predecessor d \<and> ps_id (rl_steps out ! n) = pd_successor d)
    \<and> wf (runs_before out) \<and> acyclic (runs_before out)"
proof -
  note f = make_rule_result_Inr [OF assms]
  have w: "wf (runs_before out)" by (rule wf_runs_before [OF f(4,7)])
  have "\<exists>m n. m < n \<and> n < length (rl_steps out) \<and> ps_id (rl_steps out ! m) = pd_predecessor d
      \<and> ps_id (rl_steps out ! n) = pd_successor d" if "d \<in> set (rl_dependencies out)" for d
  proof -
    have "points_forward (map ps_id (rl_steps out)) d" using f(7) that by (simp add: list_all_iff)
    from points_forwardD [OF f(4) this] show ?thesis
      by (metis length_map less_trans nth_map)
  qed
  with f(2-4) w wf_acyclic [OF w] show ?thesis by blast
qed

definition sample_draft_rule :: rule_result where
  "sample_draft_rule =
     \<lparr>rl_steps = [\<lparr>ps_sequence = 0, ps_id = ''load'', ps_operation = ''read'', ps_inputs = JObj []\<rparr>,
        \<lparr>ps_sequence = 1, ps_id = ''fit'', ps_operation = ''train'', ps_inputs = JObj []\<rparr>,
        \<lparr>ps_sequence = 2, ps_id = ''save'', ps_operation = ''write'', ps_inputs = JObj []\<rparr>],
      rl_capabilities = [''gpu'', ''disk''], rl_resources = JObj [],
      rl_dependencies = [\<lparr>pd_predecessor = ''load'', pd_successor = ''fit''\<rparr>,
        \<lparr>pd_predecessor = ''fit'', pd_successor = ''save''\<rparr>],
      rl_constraints = JObj [], rl_evidence = [''b'', ''a'']\<rparr>"

lemma plan_rule_dependencies_witness:
  "\<exists>out. make_rule_result (\<lambda>s. s) sample_draft_rule = Inr out \<and> length (rl_dependencies out) = 2
     \<and> (''load'', ''fit'') \<in> runs_before out \<and> acyclic (runs_before out)"
proof -
  have "make_rule_result (\<lambda>s. s) sample_draft_rule = Inr (sample_draft_rule
      \<lparr>rl_capabilities := [''disk'', ''gpu''], rl_evidence := [''a'', ''b''],
       rl_dependencies := [\<lparr>pd_predecessor = ''fit'', pd_successor = ''save''\<rparr>,
         \<lparr>pd_predecessor = ''load'', pd_successor = ''fit''\<rparr>]\<rparr>)" (is "_ = Inr ?out")
    by code_simp
  moreover from plan_rule_dependencies [OF this] have "acyclic (runs_before ?out)" by blast
  moreover have "length (rl_dependencies ?out) = 2" "(''load'', ''fit'') \<in> runs_before ?out"
    by (auto simp: runs_before_def intro!: exI [of _ "\<lparr>pd_predecessor = ''load'', pd_successor = ''fit''\<rparr>"])
  ultimately show ?thesis by blast
qed



section \<open>The service\<close>

text \<open>C32: no plan without accepted work.  Every plan retained in a reachable world rests on
  the request that the request repository retains under the plan's request identifier, with
  the same organization, workload context and digest, and on retained evidence that found
  that request VALID; the plan is what is built from that request, that evidence and a
  planning input that names both: one step that performs the requested type of work, the
  capabilities of the policy, and the digests of the request and of the evidence as its
  derivation evidence.\<close>

theorem plan_backed_by_evidence:
  assumes "plan_steps nfc plan_world_init w" and "ks_by_id (pw_plans w) i = Some r"
  shows "let p = kr_plan r; q = kr_request r in
    pl_id p = i \<and> pl_request p = rq_id q \<and> pl_request_digest p = rq_digest q
    \<and> rq_organization q = JStr (pl_organization p) \<and> rq_workload q = JStr (pl_workload p)
    \<and> (\<exists>rr. request_record_of (pw_requests w) (pl_request p) = Some rr \<and> rr_request rr = q \<and> record_ok nfc rr)
    \<and> (\<exists>k v step. get_validation (pw_evidence w) (pi_evidence k) = Some v \<and> rv_outcome v = Valid
         \<and> build_execution_plan nfc k q v = Inr (p, kr_input r, kr_content r) \<and> pi_request k = pl_request p
         \<and> rv_request v = PStr (pl_request p) \<and> rv_request_digest v = PStr (pl_request_digest p)
         \<and> rv_organization v = PStr (pl_organization p) \<and> rv_workload v = PStr (pl_workload p)
         \<and> pl_work p = [step] \<and> ps_sequence step = 0
         \<and> plan_text nfc (of_json (rq_work_type q)) = Inr (ps_operation step)
         \<and> pl_capabilities p = sort (map nfc (pp_capabilities (pi_policy k)))
         \<and> set (pl_evidence p) = nfc ` {rq_id q, rq_digest q, pi_evidence k} \<union> {nfc d | d. rv_digest v = PStr d})"
proof -
  have inv: "plan_inv nfc w" by (rule plan_reachable_inv [OF assms(1)])
  then have "plan_backed nfc w r" "pl_id (kr_plan r) = i"
    using assms(2) alias_inv_by_id(1) [of "ks_streams (pw_plans w)" "ks_by_id (pw_plans w)"] unfolding plan_inv_def by blast+
  then obtain j rr v where v: "validate_plan_record nfc (r\<lparr>kr_version := 0\<rparr>) = Inr ()"
    and rr: "request_record_of (pw_requests w) (pi_request j) = Some rr" "rr_request rr = kr_request r"
    and ev: "get_validation (pw_evidence w) (pi_evidence j) = Some v"
    and b: "build_execution_plan nfc j (kr_request r) v = Inr (kr_plan r, kr_input r, kr_content r)"
    unfolding plan_backed_def by blast
  obtain out where out: "check_plan_inputs nfc j (kr_request r) v = Inr ()"
    "deterministic_rule_v1 nfc (kr_request r) v (pi_policy j) (pi_configuration j) = Inr out"
    "pl_request_digest (kr_plan r) = rq_digest (kr_request r)" "pl_work (kr_plan r) = rl_steps out"
    "unique_sorted nfc (map PStr (rl_capabilities out)) = Inr (pl_capabilities (kr_plan r))"
    "unique_sorted nfc (map PStr (rl_evidence out)) = Inr (pl_evidence (kr_plan r))"
    using build_plan_Inr [OF b] by metis
  obtain step es where step: "rl_steps out = [step]" "ps_sequence step = 0"
    "plan_text nfc (of_json (rq_work_type (kr_request r))) = Inr (ps_operation step)"
    "rl_capabilities out = sort (pp_capabilities (pi_policy j))" "rl_evidence out = sort es"
    "map PStr es = [PStr (rq_id (kr_request r)), PStr (rq_digest (kr_request r)), rv_id v, rv_digest v]"
    using deterministic_rule_Inr [OF out(2)] by metis
  have scope: "rq_organization (kr_request r) = JStr (pl_organization (kr_plan r))"
    "rq_workload (kr_request r) = JStr (pl_workload (kr_plan r))" "rq_id (kr_request r) = pl_request (kr_plan r)"
    using v by (auto simp: validate_plan_record_def Let_def res_simps)
  note c = out(1) [unfolded check_plan_inputs_Inr]
  have "record_ok nfc rr"
    using inv rr(1) request_inv_record unfolding plan_inv_def request_record_of_def by blast
  moreover obtain d where "es = [rq_id (kr_request r), rq_digest (kr_request r), pi_evidence j, d]" "rv_digest v = PStr d"
    using step(6) c by (auto simp: map_eq_Cons_conv)
  then have "set (pl_evidence (kr_plan r)) = nfc ` {rq_id (kr_request r), rq_digest (kr_request r), pi_evidence j} \<union> {nfc d | d. rv_digest v = PStr d}"
    using unique_sorted_Inr(1) [OF out(6)] step(5) by auto
  moreover have "pl_capabilities (kr_plan r) = sort (map nfc (pp_capabilities (pi_policy j)))"
    using unique_sorted_Inr(1) [OF out(5)] unfolding step(4)
    by (metis (no_types) mset_map mset_sort sorted_list_of_multiset_mset)
  ultimately show ?thesis
    unfolding Let_def using scope c out(3,4) step(1-3) rr ev b \<open>pl_id (kr_plan r) = i\<close>
    by (intro conjI exI [of _ rr] exI [of _ j] exI [of _ v] exI [of _ step]) simp_all
qed

lemma sample_derived_world:
  obtains st p r where "world_derive (\<lambda>s. s) sample_world sample_planning 0 ''key-1'' = Inr (st, PlanCreated, p, 1)"
    "plan_steps (\<lambda>s. s) plan_world_init (sample_world\<lparr>pw_plans := st\<rparr>)" "ks_by_id st (pl_id p) = Some r"
    "pl_organization p = ''org-1''" "ks_streams st (''org-1'', ''workload-7'', request_id_hex) \<noteq> []"
proof -
  have "ascii ''key-1''" by simp
  from sample_derived [OF this] obtain st p where
    d: "world_derive (\<lambda>s. s) sample_world sample_planning 0 ''key-1'' = Inr (st, PlanCreated, p, 1)"
    "pl_organization p = ''org-1''" "ks_by_id st (pl_id p) \<noteq> None"
    "ks_streams st (''org-1'', ''workload-7'', request_id_hex) \<noteq> []" by blast
  with plan_steps.step [OF sample_world_reached plan_step.derived [OF d(1)]] that show ?thesis by blast
qed

lemma plan_backed_by_evidence_witness:
  "\<exists>w i r. plan_steps (\<lambda>s. s) plan_world_init w \<and> ks_by_id (pw_plans w) i = Some r
     \<and> pl_id (kr_plan r) = i \<and> pl_request (kr_plan r) = rq_id (kr_request r)"
proof -
  obtain st p r where "world_derive (\<lambda>s. s) sample_world sample_planning 0 ''key-1'' = Inr (st, PlanCreated, p, 1)"
    and w: "plan_steps (\<lambda>s. s) plan_world_init (sample_world\<lparr>pw_plans := st\<rparr>)" and r: "ks_by_id st (pl_id p) = Some r"
    and "pl_organization p = ''org-1''" "ks_streams st (''org-1'', ''workload-7'', request_id_hex) \<noteq> []"
    by (rule sample_derived_world)
  have r': "ks_by_id (pw_plans (sample_world\<lparr>pw_plans := st\<rparr>)) (pl_id p) = Some r" using r by simp
  note p = plan_backed_by_evidence [OF w r', unfolded Let_def]
  from w r' conjunct1 [OF p] conjunct1 [OF conjunct2 [OF p]] show ?thesis by (intro exI conjI)
qed

text \<open>C33: the history of a request's plans.  In every reachable world the plans of an
  organization, workload context and request carry the versions 1, 2, 3 and so on and
  different identifiers, \<open>current\<close> is the last of them and is always found, a later world
  only adds to them, and a derivation that creates a plan is a compare-and-set: the stream
  had exactly \<open>expected_version\<close> plans, and the new plan is the next version.\<close>

theorem plan_history_ordered:
  assumes "plan_steps nfc plan_world_init w" and "plan_steps nfc w w'"
  shows "map kr_version (plan_history (pw_plans w) k) = map (\<lambda>n. int n + 1) [0..<length (plan_history (pw_plans w) k)]
    \<and> distinct (map pl_id (plan_service_history (pw_plans w) k))
    \<and> plan_current (pw_plans w) k
        = Inr (if plan_history (pw_plans w) k = [] then None else Some (last (plan_service_history (pw_plans w) k)))
    \<and> (\<exists>new. plan_history (pw_plans w') k = plan_history (pw_plans w) k @ new)
    \<and> (\<forall>i n key st p version. world_derive nfc w i n key = Inr (st, PlanCreated, p, version) \<longrightarrow>
         int (length (plan_history (pw_plans w) (plan_stream_key p))) = n \<and> version = n + 1
         \<and> plan_service_history st (plan_stream_key p) = plan_service_history (pw_plans w) (plan_stream_key p) @ [p])"
proof -
  have inv: "plan_inv nfc w" by (rule plan_reachable_inv [OF assms(1)])
  then have ok: "plans.store_ok (pw_plans w)" and cur: "current_inv (pw_plans w)" by (simp_all add: plan_inv_def)
  have "distinct (map pl_id (plan_service_history (pw_plans w) k))"
    using alias_inv_distinct [OF ok, of k] by (simp add: plan_service_history_def plan_history_def comp_def)
  moreover have "plan_current (pw_plans w) k
      = Inr (if plan_history (pw_plans w) k = [] then None else Some (last (plan_service_history (pw_plans w) k)))"
  proof (cases "ks_streams (pw_plans w) k = []")
    case False
    then have "ks_by_id (pw_plans w) (pl_id (kr_plan (last (ks_streams (pw_plans w) k)))) = Some (last (ks_streams (pw_plans w) k))"
      using alias_inv_stream(1) [OF ok last_in_set] by blast
    moreover have "ks_current (pw_plans w) k = Some (pl_id (kr_plan (last (ks_streams (pw_plans w) k))))"
      using cur False unfolding current_inv_def by presburger
    ultimately show ?thesis using False
      by (simp add: plan_current_def plan_history_def plan_service_history_def last_map)
  next
    case True
    then have "ks_current (pw_plans w) k = None" using cur unfolding current_inv_def by presburger
    then show ?thesis using True by (simp add: plan_current_def plan_history_def)
  qed
  moreover have "int (length (plan_history (pw_plans w) (plan_stream_key p))) = n \<and> version = n + 1
      \<and> plan_service_history st (plan_stream_key p) = plan_service_history (pw_plans w) (plan_stream_key p) @ [p]"
    if d: "world_derive nfc w i n key = Inr (st, PlanCreated, p, version)" for i n key st p version
  proof -
    obtain r a created where "plan_insert (pw_plans w) r n = Inr (st, a, created)" "p = kr_plan a"
      "version = kr_version a" "PlanCreated = (if created then PlanCreated else PlanExistingEquivalent)"
      using plan_derive_Inr [OF d [unfolded world_derive_def]] by metis
    then show ?thesis
      by (auto simp: plan_insert_def Let_def plan_history_def plan_service_history_def split: option.splits if_splits)
  qed
  moreover have "\<exists>new. plan_history (pw_plans w') k = plan_history (pw_plans w) k @ new"
    using plan_steps_inv [OF assms(2) inv] unfolding plan_grows_def plan_history_def by blast
  ultimately show ?thesis using alias_inv_versions [OF ok, of k] unfolding plan_history_def by blast
qed

lemma plan_history_ordered_witness:
  "\<exists>w w' k. plan_steps (\<lambda>s. s) plan_world_init w \<and> plan_steps (\<lambda>s. s) w w' \<and> plan_history (pw_plans w) k \<noteq> []
     \<and> distinct (map pl_id (plan_service_history (pw_plans w) k))
     \<and> plan_current (pw_plans w) k = Inr (Some (last (plan_service_history (pw_plans w) k)))"
proof -
  obtain st p r where "world_derive (\<lambda>s. s) sample_world sample_planning 0 ''key-1'' = Inr (st, PlanCreated, p, 1)"
    and w: "plan_steps (\<lambda>s. s) plan_world_init (sample_world\<lparr>pw_plans := st\<rparr>)" and "ks_by_id st (pl_id p) = Some r"
    and "pl_organization p = ''org-1''" and ne: "ks_streams st (''org-1'', ''workload-7'', request_id_hex) \<noteq> []"
    by (rule sample_derived_world)
  have h: "plan_history (pw_plans (sample_world\<lparr>pw_plans := st\<rparr>)) (''org-1'', ''workload-7'', request_id_hex) \<noteq> []"
    using ne by (simp add: plan_history_def)
  note p = plan_history_ordered [OF w plan_steps.none, of "(''org-1'', ''workload-7'', request_id_hex)", unfolded if_not_P [OF h]]
  from w plan_steps.none h conjunct1 [OF conjunct2 [OF p]] conjunct1 [OF conjunct2 [OF conjunct2 [OF p]]]
  show ?thesis by (intro exI conjI)
qed

text \<open>C34: a derived plan is kept for ever.  After a derivation succeeded in a reachable
  world, in every later world \<open>reconstruct\<close> under the organization of the plan computes an
  equal plan from the retained documents, under any other organization \<open>get\<close> finds nothing
  and \<open>reconstruct\<close> raises \<open>ExecutionPlanNotFound\<close>, and deriving the same input again under
  the same key, whatever version is expected, changes nothing and returns the same plan.\<close>

theorem plan_reconstructs_forever:
  assumes "plan_steps nfc plan_world_init w"
    and "world_derive nfc w i n key = Inr (st, outcome, p, version)"
    and "plan_steps nfc (w\<lparr>pw_plans := st\<rparr>) w'"
  shows "(\<exists>p'. plan_reconstruct nfc (pw_plans w') (pl_id p) (pl_organization p) = Inr p' \<and> plan_eq p' p)
    \<and> (\<forall>other. other \<noteq> pl_organization p \<longrightarrow> plan_service_get (pw_plans w') (pl_id p) other = None
         \<and> plan_reconstruct nfc (pw_plans w') (pl_id p) other = Inl (PlanError ExecutionPlanNotFound))
    \<and> world_derive nfc w' i m key = Inr (pw_plans w', PlanExistingEquivalent, p, version)"
proof -
  have "plan_steps nfc plan_world_init (w\<lparr>pw_plans := st\<rparr>)"
    by (rule plan_steps.step [OF assms(1) plan_step.derived [OF assms(2)]])
  note inv1 = plan_reachable_inv [OF this]
  have inv: "plan_inv nfc w'" and grows: "plan_grows (w\<lparr>pw_plans := st\<rparr>) w'"
    using plan_steps_inv [OF assms(3) inv1] by blast+
  obtain q v plan input content identity r a where
    up: "plan_upstream nfc (request_record_of (pw_requests w)) (get_validation (pw_evidence w)) i = Inr (q, v)"
    and id: "plan_idempotency_identity nfc (pi_organization i) (pi_workload i) (pi_request i) key = Inr identity"
    and b: "build_execution_plan nfc i q v = Inr (plan, input, content)"
    and r: "r = \<lparr>kr_plan = plan, kr_request = q, kr_input = input, kr_content = content, kr_idempotency = identity,
        kr_version = 0\<rparr>"
    and valid: "validate_plan_record nfc r = Inr ()" and ins: "plan_insert_record (pw_plans w) r n = Inr (st, a)"
    and p: "p = kr_plan a" "version = kr_version a"
    using plan_derive_Inr [OF assms(2) [unfolded world_derive_def]] by metis
  obtain x where x: "ks_idempotency st identity = Some x" "plan_equivalent x r" "a = x"
    using plans.append_bound [OF ins] by (auto simp: r)
  have idem: "ks_idempotency (pw_plans w') identity = Some a"
  proof -
    have "ks_idempotency st \<subseteq>\<^sub>m ks_idempotency (pw_plans w')" using grows by (simp add: plan_grows_def)
    then show ?thesis using x(1,3) unfolding map_le_def by (metis domI)
  qed
  have ok: "plans.store_ok (pw_plans w')" using inv by (simp add: plan_inv_def)
  have byid: "ks_by_id (pw_plans w') (pl_id p) = Some a" using alias_inv_idem [OF ok idem] p(1) by simp
  have "plan_backed nfc w' a" using inv byid by (simp add: plan_inv_def)
  then obtain p' where p': "reconstruct_execution_plan nfc (kr_request a) (kr_input a) (kr_content a)
      (pl_input_digest p) (pl_digest p) (pl_id p) = Inr p'" "plan_eq p' p"
    using p(1) by (auto simp: plan_backed_def validate_plan_record_def Let_def res_simps)
  have "map kr_version (ks_streams (pw_plans w') k) = map int [1..<length (ks_streams (pw_plans w') k) + 1]" for k
    unfolding alias_inv_versions [OF ok] by (intro nth_equalityI) (simp_all del: upt_Suc)
  then have "plan_reconstruct nfc (pw_plans w') (pl_id p) (pl_organization p) = Inr p'"
    using byid p p' by (simp add: plan_reconstruct_def plan_record_of_def plan_history_def Let_def del: upt_Suc)
  moreover have "plan_service_get (pw_plans w') (pl_id p) other = None
         \<and> plan_reconstruct nfc (pw_plans w') (pl_id p) other = Inl (PlanError ExecutionPlanNotFound)"
    if "other \<noteq> pl_organization p" for other
    using that byid p by (simp add: plan_service_get_def plan_get_def plan_reconstruct_def plan_record_of_def)
  moreover have "world_derive nfc w' i m key = Inr (pw_plans w', PlanExistingEquivalent, p, version)"
  proof -
    have "plan_upstream nfc (request_record_of (pw_requests w')) (get_validation (pw_evidence w')) i = Inr (q, v)"
      by (rule plan_upstream_later [OF up]) (use grows in \<open>simp_all add: plan_grows_def\<close>)
    moreover have "plan_insert (pw_plans w') r m = Inr (pw_plans w', a, False)"
      using idem x(2,3) by (simp add: plan_insert_def r)
    ultimately show ?thesis
      using id b valid p by (simp add: world_derive_def plan_derive_def plan_append_def r)
  qed
  ultimately show ?thesis using p'(2) by blast
qed

lemma plan_reconstructs_forever_witness:
  "\<exists>w st p p'. world_derive (\<lambda>s. s) w sample_planning 0 ''key-1'' = Inr (st, PlanCreated, p, 1)
     \<and> plan_reconstruct (\<lambda>s. s) st (pl_id p) ''org-1'' = Inr p' \<and> plan_eq p' p
     \<and> plan_reconstruct (\<lambda>s. s) st (pl_id p) ''org-2'' = Inl (PlanError ExecutionPlanNotFound)
     \<and> world_derive (\<lambda>s. s) (w\<lparr>pw_plans := st\<rparr>) sample_planning 5 ''key-1'' = Inr (st, PlanExistingEquivalent, p, 1)"
proof -
  obtain st p r where d: "world_derive (\<lambda>s. s) sample_world sample_planning 0 ''key-1'' = Inr (st, PlanCreated, p, 1)"
    and "plan_steps (\<lambda>s. s) plan_world_init (sample_world\<lparr>pw_plans := st\<rparr>)" and "ks_by_id st (pl_id p) = Some r"
    and org: "pl_organization p = ''org-1''" and "ks_streams st (''org-1'', ''workload-7'', request_id_hex) \<noteq> []"
    by (rule sample_derived_world)
  note f = plan_reconstructs_forever [OF sample_world_reached d plan_steps.none, of 5, unfolded org]
  have w: "pw_plans (sample_world\<lparr>pw_plans := st\<rparr>) = st" by simp
  obtain p' where "plan_reconstruct (\<lambda>s. s) st (pl_id p) ''org-1'' = Inr p'" "plan_eq p' p"
    using conjunct1 [OF f] unfolding w by (elim exE conjE)
  moreover have "plan_reconstruct (\<lambda>s. s) st (pl_id p) ''org-2'' = Inl (PlanError ExecutionPlanNotFound)"
    by (rule conjunct2 [OF conjunct1 [OF conjunct2 [OF f [unfolded w]], rule_format, of "''org-2''"]]) simp
  ultimately show ?thesis using d conjunct2 [OF conjunct2 [OF f [unfolded w]]] by (intro exI conjI)
qed

end
