(* ===== verification/FeatureRegistry.thy ===== *)
theory FeatureRegistry
  imports Canonical Complex_Main
begin

text \<open>
  The registry of research features, \<open>feature_store/registry.py\<close>, with the contract of the
  learned model that chooses from it (\<open>WRPoissonConfig\<close> of
  \<open>app/research/models/wr_receptions.py\<close>) and the column types of
  \<open>app/research/features.py\<close>.  A model class is a record whose constructor checks the
  declared constraints of the fields and then runs the validator; both raise \<open>ValueError\<close>.
  The registry itself is built by the calls the module makes when it is imported.
\<close>

section \<open>Feature definitions\<close>

datatype feature_timing = Pregame | Lagged | Postgame

datatype leakage_risk = NoRisk | LowRisk | HighRisk

datatype missing_value_policy = LeaveNull | FillZero | ForwardFill | PositionFallback | NotAvailable

datatype entity_grain = PlayerGame | TeamGame | OpponentGame

record feature_definition =
  fd_name :: string
  fd_description :: string
  fd_source_dataset :: string
  fd_source_columns :: "string list"
  fd_transformation :: string
  fd_entity_grain :: entity_grain
  fd_lookback_games :: int
  fd_minimum_history :: int
  fd_availability_timing :: feature_timing
  fd_availability_timestamp :: string
  fd_missing_value_policy :: missing_value_policy
  fd_leakage_risk :: leakage_risk
  fd_enabled :: bool
  fd_dtype :: string
  fd_version :: string
  fd_carry_across_seasons :: bool

text \<open>The constraints of the fields, \<open>min_length=1\<close> and \<open>ge=0\<close>.\<close>

definition feature_fields :: "feature_definition \<Rightarrow> bool" where
  "feature_fields f \<longleftrightarrow>
     fd_name f \<noteq> [] \<and> fd_description f \<noteq> [] \<and> fd_source_dataset f \<noteq> [] \<and> fd_transformation f \<noteq> []
     \<and> 0 \<le> fd_lookback_games f \<and> 0 \<le> fd_minimum_history f \<and> fd_availability_timestamp f \<noteq> []
     \<and> fd_dtype f \<noteq> [] \<and> fd_version f \<noteq> []"

definition make_feature :: "feature_definition \<Rightarrow> feature_definition res" where
  "make_feature f =
     bindr (raise_if (\<not> feature_fields f) ValueError) (\<lambda>_.
     bindr (raise_if (fd_enabled f \<and> fd_leakage_risk f = HighRisk) ValueError) (\<lambda>_.
     bindr (raise_if (fd_enabled f \<and> fd_missing_value_policy f = NotAvailable) ValueError) (\<lambda>_.
     bindr (raise_if (fd_availability_timing f = Lagged \<and> fd_lookback_games f < 1) ValueError) (\<lambda>_.
     Inr f))))"

section \<open>Registries\<close>

record feature_registry =
  fr_name :: string
  fr_version :: string
  fr_features :: "feature_definition list"

definition make_registry :: "feature_registry \<Rightarrow> feature_registry res" where
  "make_registry r =
     (let names = map fd_name (fr_features r) in
      bindr (raise_if (length names \<noteq> card (set names)) ValueError) (\<lambda>_. Inr r))"

definition enabled_names :: "feature_registry \<Rightarrow> string list" where
  "enabled_names r = map fd_name (filter fd_enabled (fr_features r))"

definition by_name :: "feature_registry \<Rightarrow> string \<Rightarrow> feature_definition res" where
  "by_name r name =
     (case find (\<lambda>f. fd_name f = name) (fr_features r) of None \<Rightarrow> Inl KeyError | Some f \<Rightarrow> Inr f)"

section \<open>The features of the wide-receiver model\<close>

text \<open>The keyword arguments of \<open>_feature\<close> with their defaults.\<close>

record feature_options =
  fo_grain :: entity_grain
  fo_lookback :: int
  fo_minimum_history :: int
  fo_timing :: feature_timing
  fo_missing :: missing_value_policy
  fo_risk :: leakage_risk
  fo_enabled :: bool
  fo_dtype :: string
  fo_carry :: bool

definition default_options :: feature_options where
  "default_options =
     \<lparr>fo_grain = PlayerGame, fo_lookback = 1, fo_minimum_history = 1, fo_timing = Lagged,
      fo_missing = LeaveNull, fo_risk = NoRisk, fo_enabled = True, fo_dtype = ''Float64'', fo_carry = True\<rparr>"

fun availability_text :: "feature_timing \<Rightarrow> string" where
  "availability_text Lagged = ''after_prior_game_final_and_before_current_kickoff''"
| "availability_text Pregame = ''before_current_kickoff''"
| "availability_text Postgame = ''after_current_game_final''"

definition feature ::
  "string \<Rightarrow> string \<Rightarrow> string \<Rightarrow> string list \<Rightarrow> string \<Rightarrow> feature_options \<Rightarrow> feature_definition res"
where
  "feature name description source_dataset source_columns transformation o' =
     make_feature
       \<lparr>fd_name = name, fd_description = description, fd_source_dataset = source_dataset,
        fd_source_columns = source_columns, fd_transformation = transformation,
        fd_entity_grain = fo_grain o', fd_lookback_games = fo_lookback o',
        fd_minimum_history = fo_minimum_history o', fd_availability_timing = fo_timing o',
        fd_availability_timestamp = availability_text (fo_timing o'),
        fd_missing_value_policy = fo_missing o', fd_leakage_risk = fo_risk o',
        fd_enabled = fo_enabled o', fd_dtype = fo_dtype o', fd_version = ''1.0'',
        fd_carry_across_seasons = fo_carry o'\<rparr>"

text \<open>\<open>source.replace('_', ' ')\<close>, and \<open>.title()\<close> of ASCII text.\<close>

definition spaced :: "string \<Rightarrow> string" where
  "spaced s = map (\<lambda>c. if c = CHR ''_'' then CHR '' '' else c) s"

definition is_lower :: "char \<Rightarrow> bool" where
  "is_lower c \<longleftrightarrow> CHR ''a'' \<le> c \<and> c \<le> CHR ''z''"

definition is_upper :: "char \<Rightarrow> bool" where
  "is_upper c \<longleftrightarrow> CHR ''A'' \<le> c \<and> c \<le> CHR ''Z''"

fun title_case :: "bool \<Rightarrow> string \<Rightarrow> string" where
  "title_case inside [] = []"
| "title_case inside (c # cs) =
     (if is_lower c \<and> \<not> inside then char_of (of_char c - 32 :: nat)
      else if is_upper c \<and> inside then char_of (of_char c + 32 :: nat)
      else c) # title_case (is_lower c \<or> is_upper c) cs"

text \<open>The features of \<open>_rolling_history_features\<close>: for each source the previous game and the
  three windows, then for each window the catch rate and the target share.\<close>

definition rolling_source_features :: "string \<Rightarrow> feature_definition res list" where
  "rolling_source_features source =
     feature (source @ ''_lag1'') (title_case False (spaced source) @ '' in the prior completed game.'')
       ''player_stats'' [source] (''shift('' @ source @ '', 1) by source_player_id'') default_options
     # map (\<lambda>window. feature (source @ ''_roll'' @ show_int window)
         (''Mean '' @ spaced source @ '' over up to '' @ show_int window @ '' prior completed games.'')
         ''player_stats'' [source]
         (''rolling_mean(shift('' @ source @ '', 1), window='' @ show_int window @ '', min_history=1)'')
         (default_options\<lparr>fo_lookback := window\<rparr>)) [3, 5, 8]"

definition rolling_rate_features :: "int \<Rightarrow> feature_definition res list" where
  "rolling_rate_features window =
     [feature (''catch_rate_roll'' @ show_int window)
        (''Receptions divided by targets over up to '' @ show_int window @ '' prior completed games.'')
        ''player_stats'' [''receptions'', ''targets'']
        (''rolling_sum(shift(receptions, 1), '' @ show_int window @ '') / rolling_sum(shift(targets, 1), ''
          @ show_int window @ '')'')
        (default_options\<lparr>fo_lookback := window\<rparr>),
      feature (''target_share_roll'' @ show_int window)
        (''Mean player targets divided by team pass attempts over up to '' @ show_int window @ '' prior games.'')
        ''player_stats'' [''targets'', ''attempts'']
        (''rolling_mean(shift(targets / team_pass_attempts, 1), window='' @ show_int window @ '')'')
        (default_options\<lparr>fo_lookback := window\<rparr>)]"

definition rolling_history_features :: "feature_definition res list" where
  "rolling_history_features =
     concat (map rolling_source_features [''receptions'', ''targets'', ''receiving_yards''])
     @ concat (map rolling_rate_features [3, 5, 8])"

text \<open>\<open>_context_features\<close>.\<close>

definition team_context_features :: "string \<times> string \<times> string list \<Rightarrow> feature_definition res list" where
  "team_context_features = (\<lambda>(metric, label, source_columns).
     map (\<lambda>window. feature (metric @ ''_roll'' @ show_int window)
       (''Mean '' @ label @ '' over prior games in the same season.'')
       ''player_stats'' source_columns
       (''team rolling_mean(shift('' @ metric @ '', 1), window='' @ show_int window @ '')'')
       (default_options\<lparr>fo_grain := TeamGame, fo_lookback := window, fo_carry := False\<rparr>)) [3, 5])"

definition opponent_context_features :: "string \<times> string \<times> string list \<Rightarrow> feature_definition res list" where
  "opponent_context_features = (\<lambda>(metric, label, source_columns).
     map (\<lambda>window. feature (metric @ ''_roll'' @ show_int window)
       (''Mean '' @ label @ '' over the opponent's prior games in the same season.'')
       ''player_stats + wr_player_game'' source_columns
       (''defense rolling_mean(shift('' @ metric @ '', 1), window='' @ show_int window @ '')'')
       (default_options\<lparr>fo_grain := OpponentGame, fo_lookback := window, fo_carry := False\<rparr>)) [3, 5])"

definition context_features :: "feature_definition res list" where
  "context_features =
     concat (map team_context_features
       [(''team_pass_attempts'', ''team pass attempts'', [''attempts'']),
        (''team_completions'', ''team completions'', [''completions'']),
        (''team_completion_rate'', ''team completion rate'', [''completions'', ''attempts'']),
        (''team_target_concentration'', ''team WR target concentration'', [''targets''])])
     @ concat (map opponent_context_features
       [(''opponent_pass_attempts_allowed'', ''opponent pass attempts allowed'', [''attempts'', ''opponent'']),
        (''opponent_completions_allowed'', ''opponent completions allowed'', [''completions'', ''opponent'']),
        (''opponent_wr_receptions_allowed'', ''opponent WR receptions allowed'',
          [''position'', ''receptions'', ''opponent'']),
        (''opponent_wr_targets_allowed'', ''opponent WR targets allowed'',
          [''position'', ''targets'', ''opponent''])])"

text \<open>The features \<open>FEATURE_REGISTRY\<close> lists one by one, before and after the context features.\<close>

definition player_features :: "feature_definition res list" where
  "player_features =
     [feature ''receptions_season_mean''
        ''Mean receptions before kickoff in the current season.''
        ''player_stats'' [''receptions'']
        ''expanding_mean(shift(receptions, 1)) by player and season''
        (default_options\<lparr>fo_lookback := 1, fo_carry := False\<rparr>),
      feature ''targets_season_mean''
        ''Mean targets before kickoff in the current season.''
        ''player_stats'' [''targets'']
        ''expanding_mean(shift(targets, 1)) by player and season''
        (default_options\<lparr>fo_lookback := 1, fo_carry := False\<rparr>),
      feature ''receiving_yards_season_mean''
        ''Mean receiving yards before kickoff in the current season.''
        ''player_stats'' [''receiving_yards'']
        ''expanding_mean(shift(receiving_yards, 1)) by player and season''
        (default_options\<lparr>fo_lookback := 1, fo_carry := False\<rparr>),
      feature ''games_played_before''
        ''Completed player games available before kickoff.''
        ''wr_player_game'' [''game_id'']
        ''cumulative prior non-null game count''
        (default_options\<lparr>fo_dtype := ''UInt32'', fo_missing := FillZero\<rparr>),
      feature ''snap_share_lag1''
        ''Offensive snap share in the prior completed game when identity mapping exists.''
        ''snap_counts'' [''source_player_id'', ''game_id'', ''snap_share'']
        ''shift(snap_share, 1) by source_player_id''
        default_options,
      feature ''snap_share_roll3''
        ''Mean offensive snap share over up to three prior completed games.''
        ''snap_counts'' [''source_player_id'', ''game_id'', ''snap_share'']
        ''rolling_mean(shift(snap_share, 1), window=3)''
        (default_options\<lparr>fo_lookback := 3\<rparr>),
      feature ''snap_share_roll5''
        ''Mean offensive snap share over up to five prior completed games.''
        ''snap_counts'' [''source_player_id'', ''game_id'', ''snap_share'']
        ''rolling_mean(shift(snap_share, 1), window=5)''
        (default_options\<lparr>fo_lookback := 5\<rparr>),
      feature ''snap_share_missing''
        ''One when prior snap-share history is unavailable.''
        ''snap_counts'' [''snap_share'']
        ''is_null(snap_share_lag1)''
        (default_options\<lparr>fo_timing := Pregame, fo_lookback := 0, fo_minimum_history := 0, fo_missing := FillZero, fo_dtype := ''Int8''\<rparr>),
      feature ''route_participation_lag1''
        ''Prior-game route participation proxy from a pre-aggregated, source-ID keyed input.''
        ''participation'' [''source_player_id'', ''game_id'', ''route_participation'']
        ''shift(route_participation, 1) by source_player_id''
        default_options,
      feature ''route_participation_roll3''
        ''Mean route participation proxy over up to three prior completed games.''
        ''participation'' [''source_player_id'', ''game_id'', ''route_participation'']
        ''rolling_mean(shift(route_participation, 1), window=3)''
        (default_options\<lparr>fo_lookback := 3\<rparr>),
      feature ''route_participation_roll5''
        ''Mean route participation proxy over up to five prior completed games.''
        ''participation'' [''source_player_id'', ''game_id'', ''route_participation'']
        ''rolling_mean(shift(route_participation, 1), window=5)''
        (default_options\<lparr>fo_lookback := 5\<rparr>),
      feature ''route_participation_missing''
        ''One when prior route-participation history is unavailable.''
        ''participation'' [''route_participation'']
        ''is_null(route_participation_lag1)''
        (default_options\<lparr>fo_timing := Pregame, fo_lookback := 0, fo_minimum_history := 0, fo_missing := FillZero, fo_dtype := ''Int8''\<rparr>)]"

definition schedule_features :: "feature_definition res list" where
  "schedule_features =
     [feature ''home_indicator''
        ''One when the player's team is the scheduled home team.''
        ''schedules'' [''is_home'']
        ''copy pregame schedule flag''
        (default_options\<lparr>fo_timing := Pregame, fo_lookback := 0, fo_minimum_history := 0, fo_missing := FillZero, fo_dtype := ''Int8''\<rparr>),
      feature ''rest_days''
        ''Days since the player's previous recorded game.''
        ''schedules'' [''kickoff'']
        ''kickoff - prior player kickoff in days''
        (default_options\<lparr>fo_timing := Pregame, fo_lookback := 1\<rparr>),
      feature ''game_week''
        ''NFL week known before kickoff.''
        ''schedules'' [''week'']
        ''copy scheduled week''
        (default_options\<lparr>fo_timing := Pregame, fo_lookback := 0, fo_minimum_history := 0, fo_missing := FillZero, fo_dtype := ''Int32''\<rparr>),
      feature ''season_year''
        ''NFL season known before kickoff.''
        ''schedules'' [''season'']
        ''copy scheduled season''
        (default_options\<lparr>fo_timing := Pregame, fo_lookback := 0, fo_minimum_history := 0, fo_missing := FillZero, fo_dtype := ''Int32''\<rparr>),
      feature ''has_prior_history''
        ''One when at least one prior player game exists.''
        ''wr_player_game'' [''game_id'']
        ''games_played_before > 0''
        (default_options\<lparr>fo_timing := Pregame, fo_lookback := 0, fo_minimum_history := 0, fo_missing := FillZero, fo_dtype := ''Int8''\<rparr>),
      feature ''team_plays_roll3''
        ''Prior three-game team plays, unavailable in the v0.5A source contract.''
        ''team_stats'' [''plays'']
        ''not implemented''
        (default_options\<lparr>fo_grain := TeamGame, fo_lookback := 3, fo_missing := NotAvailable, fo_enabled := False, fo_carry := False\<rparr>),
      feature ''team_plays_roll5''
        ''Prior five-game team plays, unavailable in the v0.5A source contract.''
        ''team_stats'' [''plays'']
        ''not implemented''
        (default_options\<lparr>fo_grain := TeamGame, fo_lookback := 5, fo_missing := NotAvailable, fo_enabled := False, fo_carry := False\<rparr>),
      feature ''player_age''
        ''Pregame player age; no reliable timestamped source is joined in v0.5B.''
        ''rosters'' [''birth_date'']
        ''not implemented''
        (default_options\<lparr>fo_timing := Pregame, fo_lookback := 0, fo_minimum_history := 0, fo_missing := NotAvailable, fo_enabled := False\<rparr>),
      feature ''prior_injury_designation''
        ''Prior injury designation; disabled until source publication timestamps are validated.''
        ''injuries'' [''report_status'', ''captured_at'']
        ''not implemented''
        (default_options\<lparr>fo_timing := Pregame, fo_lookback := 0, fo_minimum_history := 0, fo_missing := NotAvailable, fo_enabled := False, fo_dtype := ''String''\<rparr>),
      feature ''same_game_targets''
        ''Current-game targets, documented only as a prohibited leakage example.''
        ''player_stats'' [''targets'']
        ''prohibited current-game value''
        (default_options\<lparr>fo_timing := Postgame, fo_lookback := 0, fo_minimum_history := 0, fo_risk := HighRisk, fo_enabled := False, fo_missing := LeaveNull\<rparr>)]"

definition feature_registry_features :: "feature_definition list res" where
  "feature_registry_features =
     mapr (\<lambda>f. f) (rolling_history_features @ player_features @ context_features @ schedule_features)"

definition wr_feature_registry :: "feature_registry res" where
  "wr_feature_registry =
     bindr feature_registry_features (\<lambda>features.
     make_registry \<lparr>fr_name = ''wr_receptions'', fr_version = ''wr-receptions-features-v1'', fr_features = features\<rparr>)"

section \<open>The contract of the learned model\<close>

record model_config =
  mc_name :: string
  mc_version :: string
  mc_feature_names :: "string list"
  mc_target_column :: string
  mc_l2_penalty :: rat
  mc_max_iterations :: int
  mc_tolerance :: rat
  mc_linear_predictor_limit :: rat
  mc_solver_epsilon :: rat
  mc_minimum_training_rows :: int

text \<open>The defaults; 1e-10 is the double nearest to it.\<close>

definition default_model_config :: model_config where
  "default_model_config =
     \<lparr>mc_name = ''wr_receptions_poisson_regression'', mc_version = ''0.1.0'',
      mc_feature_names = [''receptions_roll3'', ''targets_roll3'', ''home_indicator'', ''games_played_before''],
      mc_target_column = ''actual_receptions'', mc_l2_penalty = 1, mc_max_iterations = 100,
      mc_tolerance = 7737125245533627 / 77371252455336267181195264, mc_linear_predictor_limit = 20,
      mc_solver_epsilon = 7737125245533627 / 77371252455336267181195264, mc_minimum_training_rows = 4\<rparr>"

definition model_config_fields :: "model_config \<Rightarrow> bool" where
  "model_config_fields c \<longleftrightarrow>
     0 < mc_l2_penalty c \<and> 1 \<le> mc_max_iterations c \<and> 0 < mc_tolerance c
     \<and> 0 < mc_linear_predictor_limit c \<and> mc_linear_predictor_limit c \<le> 700
     \<and> 0 < mc_solver_epsilon c \<and> 2 \<le> mc_minimum_training_rows c"

definition check_model_feature :: "feature_registry \<Rightarrow> string \<Rightarrow> unit res" where
  "check_model_feature registry name =
     bindr (catch (by_name registry name) (\<lambda>e. e = KeyError) ValueError) (\<lambda>f.
     bindr (raise_if (\<not> fd_enabled f) ValueError) (\<lambda>_.
     bindr (raise_if (fd_availability_timing f = Postgame) ValueError) (\<lambda>_.
     raise_if (fd_leakage_risk f = HighRisk) ValueError)))"

definition make_model_config :: "feature_registry \<Rightarrow> model_config \<Rightarrow> model_config res" where
  "make_model_config registry c =
     bindr (raise_if (\<not> model_config_fields c) ValueError) (\<lambda>_.
     bindr (raise_if (mc_target_column c \<noteq> ''actual_receptions'') ValueError) (\<lambda>_.
     bindr (raise_if (mc_feature_names c = []) ValueError) (\<lambda>_.
     bindr (raise_if (length (mc_feature_names c) \<noteq> card (set (mc_feature_names c))) ValueError) (\<lambda>_.
     bindr (mapr (check_model_feature registry) (mc_feature_names c)) (\<lambda>_.
     Inr c)))))"

text \<open>\<open>_polars_dtype\<close>: the types a registered feature may be cast to.\<close>

datatype column_type = Float64 | UInt32 | Int8 | Int32

definition polars_dtype :: "string \<Rightarrow> column_type res" where
  "polars_dtype dtype =
     (case map_of [(''Float64'', Float64), (''UInt32'', UInt32), (''Int8'', Int8), (''Int32'', Int32)] dtype of
        None \<Rightarrow> Inl (ResearchError FeatureDatasetError) | Some t \<Rightarrow> Inr t)"

end
