(* ===== verification/FeatureTheorems.thy ===== *)
theory FeatureTheorems
  imports FeatureRegistry
begin

text \<open>
  What the registry promises: whatever a model may choose from it is known before the game
  it predicts.  The registry the module builds is evaluated.
\<close>

section \<open>The registry that is built\<close>

text \<open>What every registered feature satisfies.\<close>

definition feature_sound :: "feature_definition \<Rightarrow> bool" where
  "feature_sound f \<longleftrightarrow>
     (fd_enabled f \<longrightarrow> fd_availability_timing f \<noteq> Postgame \<and> fd_leakage_risk f \<noteq> HighRisk
        \<and> fd_missing_value_policy f \<noteq> NotAvailable \<and> is_ok (polars_dtype (fd_dtype f)))
     \<and> (fd_availability_timing f = Lagged \<longrightarrow> 1 \<le> fd_lookback_games f)
     \<and> (fd_entity_grain f \<noteq> PlayerGame \<longrightarrow> \<not> fd_carry_across_seasons f)"

text \<open>56 features, of which 51 are enabled, and the default configuration of the model is accepted.\<close>

definition registry_built :: "feature_registry res \<Rightarrow> bool" where
  "registry_built m = (case m of Inl _ \<Rightarrow> False
     | Inr r \<Rightarrow> list_all feature_sound (fr_features r) \<and> length (fr_features r) = 56
         \<and> length (enabled_names r) = 51 \<and> is_ok (make_model_config r default_model_config))"

lemma wr_registry_built: "registry_built wr_feature_registry"
  by code_simp

lemma wr_registry_Inr:
  obtains r where "wr_feature_registry = Inr r" "list_all feature_sound (fr_features r)"
  using wr_registry_built by (auto simp: registry_built_def split: sum.splits)

section \<open>Registries and model configurations\<close>

lemma by_name_Inr:
  assumes "by_name r name = Inr f"
  shows "f \<in> set (fr_features r)" and "fd_name f = name"
  using assms by (auto simp: by_name_def find_Some_iff split: option.splits)

lemma mapr_unit_Inr: "mapr f xs = Inr us \<Longrightarrow> x \<in> set xs \<Longrightarrow> \<exists>u. f x = Inr u"
  by (induction xs arbitrary: us) (auto simp: bindr_Inr_conv)

lemma make_model_config_Inr:
  assumes "make_model_config r c = Inr c'"
  shows "c' = c" and "model_config_fields c" and "mc_feature_names c \<noteq> []" and "distinct (mc_feature_names c)"
    and "\<And>name. name \<in> set (mc_feature_names c) \<Longrightarrow>
      \<exists>f. by_name r name = Inr f \<and> fd_enabled f \<and> fd_availability_timing f \<noteq> Postgame \<and> fd_leakage_risk f \<noteq> HighRisk"
proof -
  show "c' = c" and "model_config_fields c" and "mc_feature_names c \<noteq> []" and "distinct (mc_feature_names c)"
    using assms by (auto simp: make_model_config_def bindr_Inr_conv raise_if_Inr_conv intro: card_distinct)
  show "\<exists>f. by_name r name = Inr f \<and> fd_enabled f \<and> fd_availability_timing f \<noteq> Postgame \<and> fd_leakage_risk f \<noteq> HighRisk"
    if "name \<in> set (mc_feature_names c)" for name
  proof -
    obtain us where "mapr (check_model_feature r) (mc_feature_names c) = Inr us"
      using assms by (auto simp: make_model_config_def bindr_Inr_conv)
    from mapr_unit_Inr [OF this that] show ?thesis
      by (auto simp: check_model_feature_def bindr_Inr_conv raise_if_Inr_conv catch_Inr_conv)
  qed
qed

text \<open>C40: a model reads only what is known before kickoff.  The registry the module builds is
  accepted.  A model configuration that is accepted against it chooses distinct features, each
  registered under its name, enabled, of a type the table can be cast to, not missing as a
  source, without high leakage risk, and available before the game: pregame, or lagged by at
  least one completed game.  Team and opponent histories among them do not cross seasons.\<close>

theorem model_reads_pregame_features:
  assumes "make_model_config r c = Inr c'" and "wr_feature_registry = Inr r"
  shows "distinct (mc_feature_names c) \<and>
    (\<forall>name \<in> set (mc_feature_names c). name \<in> set (enabled_names r) \<and>
       (\<exists>f. by_name r name = Inr f \<and> fd_name f = name \<and> fd_enabled f
          \<and> (fd_availability_timing f = Pregame \<or> fd_availability_timing f = Lagged \<and> 1 \<le> fd_lookback_games f)
          \<and> fd_leakage_risk f \<noteq> HighRisk \<and> fd_missing_value_policy f \<noteq> NotAvailable
          \<and> is_ok (polars_dtype (fd_dtype f))
          \<and> (fd_entity_grain f = PlayerGame \<or> \<not> fd_carry_across_seasons f)))"
proof (intro conjI ballI)
  show "distinct (mc_feature_names c)" by (rule make_model_config_Inr(4) [OF assms(1)])
next
  fix name assume "name \<in> set (mc_feature_names c)"
  then obtain f where f: "by_name r name = Inr f" "fd_enabled f" "fd_availability_timing f \<noteq> Postgame"
      "fd_leakage_risk f \<noteq> HighRisk"
    using make_model_config_Inr(5) [OF assms(1)] by blast
  have "feature_sound f"
    using wr_registry_Inr by_name_Inr(1) [OF f(1)] assms(2) by (metis list_all_iff sum.inject(2))
  moreover have "fd_availability_timing f = Pregame \<or> fd_availability_timing f = Lagged"
    using f(3) by (cases "fd_availability_timing f") simp_all
  ultimately show "\<exists>f. by_name r name = Inr f \<and> fd_name f = name \<and> fd_enabled f
      \<and> (fd_availability_timing f = Pregame \<or> fd_availability_timing f = Lagged \<and> 1 \<le> fd_lookback_games f)
      \<and> fd_leakage_risk f \<noteq> HighRisk \<and> fd_missing_value_policy f \<noteq> NotAvailable
      \<and> is_ok (polars_dtype (fd_dtype f)) \<and> (fd_entity_grain f = PlayerGame \<or> \<not> fd_carry_across_seasons f)"
    using f by_name_Inr(2) [OF f(1)] by (intro exI [of _ f]) (auto simp: feature_sound_def)
  show "name \<in> set (enabled_names r)"
    using f(2) by_name_Inr [OF f(1)] by (auto simp: enabled_names_def)
qed

lemma model_reads_pregame_features_witness:
  "\<exists>r. wr_feature_registry = Inr r \<and> ''targets_roll3'' \<in> set (enabled_names r)"
proof -
  obtain r c where r: "wr_feature_registry = Inr r" "make_model_config r default_model_config = Inr c"
    using wr_registry_built by (auto simp: registry_built_def is_ok_def split: sum.splits)
  with model_reads_pregame_features [OF r(2,1)] show ?thesis
    by (auto simp: default_model_config_def)
qed

end
