(* ===== verification/Baselines.thy ===== *)
theory Baselines
  imports Prelude "HOL-Library.Option_ord"
begin

text \<open>
  Point-in-time baselines of the research pipeline:
  \<open>app/research/baselines/wr_receptions.py\<close>.  A row of the feature table is a record of
  cells, \<open>None\<close> being a null.  The loop over the games is the source's own; what it asks of
  the data frame library and of floating point is an argument, \<open>tools\<close>: the conversion of a
  cell to a finite float, the sum of a list and a quotient, the sorts and the partition by
  game.  \<open>table_laws\<close> states what the library documents of them.
\<close>

section \<open>Baselines\<close>

datatype baseline_name =
    LeagueMean
  | PreviousGame
  | Rolling3
  | Rolling5
  | SeasonToDate
  | CareerAverage
  | PoissonRate

fun baseline_value :: "baseline_name \<Rightarrow> string" where
  "baseline_value LeagueMean = ''league_mean''"
| "baseline_value PreviousGame = ''previous_game''"
| "baseline_value Rolling3 = ''rolling_3''"
| "baseline_value Rolling5 = ''rolling_5''"
| "baseline_value SeasonToDate = ''season_to_date''"
| "baseline_value CareerAverage = ''career_average''"
| "baseline_value PoissonRate = ''poisson''"

text \<open>\<open>tuple(BaselineName)\<close>, the default of \<open>baselines\<close>.\<close>

definition all_baselines :: "baseline_name list" where
  "all_baselines = [LeagueMean, PreviousGame, Rolling3, Rolling5, SeasonToDate, CareerAverage, PoissonRate]"

record baseline_spec =
  bs_name :: baseline_name
  bs_level :: string
  bs_version :: string
  bs_distribution :: string
  bs_minimum_history :: nat
  bs_description :: string

definition make_spec :: "baseline_name \<Rightarrow> string \<Rightarrow> string \<Rightarrow> string \<Rightarrow> baseline_spec" where
  "make_spec name level distribution description =
     \<lparr>bs_name = name, bs_level = level, bs_version = ''1.0.0'', bs_distribution = distribution,
      bs_minimum_history = 1, bs_description = description\<rparr>"

definition baseline_specs :: "baseline_spec list" where
  "baseline_specs =
     [make_spec LeagueMean ''L0'' ''point''
        ''Mean receptions across all completed prior WR player-games.'',
      make_spec PreviousGame ''L1'' ''point''
        ''Receptions in the player's previous completed game.'',
      make_spec Rolling3 ''L2'' ''point''
        ''Mean receptions over up to three prior player-games.'',
      make_spec Rolling5 ''L3'' ''point''
        ''Mean receptions over up to five prior player-games.'',
      make_spec SeasonToDate ''L4'' ''point''
        ''Mean receptions in the current season before kickoff.'',
      make_spec CareerAverage ''L4'' ''point''
        ''Mean receptions across the player's completed prior games.'',
      make_spec PoissonRate ''L5'' ''poisson''
        ''Poisson rate from season-to-date mean, then rolling five, career, and league history as deterministic fallbacks.'']"

text \<open>\<open>_SPEC_BY_NAME[name]\<close>.\<close>

definition spec_by_name :: "baseline_name \<Rightarrow> baseline_spec res" where
  "spec_by_name name =
     (case map_of (map (\<lambda>s. (bs_name s, s)) baseline_specs) name of
        None \<Rightarrow> Inl KeyError | Some s \<Rightarrow> Inr s)"

section \<open>Tables\<close>

record 'c raw_row =
  rw_player :: "string option"
  rw_game :: "string option"
  rw_season :: int
  rw_kickoff :: "int option"
  rw_actual :: "'c option"
  rw_lag1 :: "'c option"
  rw_roll3 :: "'c option"
  rw_roll5 :: "'c option"
  rw_season_mean :: "'c option"

record 'c feature_frame =
  ff_columns :: "string list"
  ff_rows :: "'c raw_row list"

record 'n history_row =
  hr_player :: string
  hr_game :: string
  hr_season :: int
  hr_kickoff :: int
  hr_actual :: 'n
  hr_lag1 :: "'n option"
  hr_roll3 :: "'n option"
  hr_roll5 :: "'n option"
  hr_season_mean :: "'n option"

record 'n prediction =
  pr_player :: string
  pr_game :: string
  pr_season :: int
  pr_kickoff :: int
  pr_actual :: 'n
  pr_baseline :: baseline_name
  pr_level :: string
  pr_version :: string
  pr_distribution :: string
  pr_prediction :: "'n option"
  pr_history_count :: nat
  pr_eligible :: bool
  pr_exclusion :: "string option"

record ('c, 'n) tools =
  strip_chars :: "string \<Rightarrow> string"
  cast_finite :: "'c \<Rightarrow> 'n option"
  below_zero :: "'n \<Rightarrow> bool"
  float_sum :: "'n list \<Rightarrow> 'n"
  float_div :: "'n \<Rightarrow> nat \<Rightarrow> 'n"
  sort_input :: "'c raw_row list \<Rightarrow> 'c raw_row list"
  partition_games :: "'n history_row list \<Rightarrow> 'n history_row list list"
  sort_output :: "'n prediction list \<Rightarrow> 'n prediction list"

abbreviation baseline_error :: exc where
  "baseline_error \<equiv> ResearchError BaselineDatasetError"

definition required_columns :: "string list" where
  "required_columns = [''source_player_id'', ''game_id'', ''season'', ''kickoff'', ''actual_receptions'',
     ''receptions_lag1'', ''receptions_roll3'', ''receptions_roll5'', ''receptions_season_mean'']"

section \<open>Validation\<close>

definition null_or_empty :: "('c, 'n) tools \<Rightarrow> string option \<Rightarrow> bool" where
  "null_or_empty T cell = (case cell of None \<Rightarrow> True | Some s \<Rightarrow> strip_chars T s = [])"

definition cell_number :: "('c, 'n) tools \<Rightarrow> 'c option \<Rightarrow> 'n option" where
  "cell_number T cell = (case cell of None \<Rightarrow> None | Some c \<Rightarrow> cast_finite T c)"

text \<open>The two checks of one numeric column: a cell that is no finite number, a negative one.\<close>

definition check_numeric :: "('c, 'n) tools \<Rightarrow> 'c raw_row list \<Rightarrow> ('c raw_row \<Rightarrow> 'c option) \<Rightarrow> unit res" where
  "check_numeric T rows column =
     bindr (raise_if (list_ex (\<lambda>r. column r \<noteq> None \<and> cell_number T (column r) = None) rows) baseline_error) (\<lambda>_.
     raise_if (list_ex (\<lambda>r. case cell_number T (column r) of None \<Rightarrow> False | Some n \<Rightarrow> below_zero T n) rows)
       baseline_error)"

definition history_of :: "('c, 'n) tools \<Rightarrow> 'c raw_row \<Rightarrow> 'n history_row res" where
  "history_of T r =
     (case (rw_player r, rw_game r, rw_kickoff r, cell_number T (rw_actual r)) of
        (Some p, Some g, Some k, Some a) \<Rightarrow>
          Inr \<lparr>hr_player = p, hr_game = g, hr_season = rw_season r, hr_kickoff = k, hr_actual = a,
               hr_lag1 = cell_number T (rw_lag1 r), hr_roll3 = cell_number T (rw_roll3 r),
               hr_roll5 = cell_number T (rw_roll5 r), hr_season_mean = cell_number T (rw_season_mean r)\<rparr>
      | _ \<Rightarrow> Inl baseline_error)"

definition validate_input :: "('c, 'n) tools \<Rightarrow> 'c feature_frame \<Rightarrow> 'n history_row list res" where
  "validate_input T frame =
     bindr (raise_if (\<not> set required_columns \<subseteq> set (ff_columns frame)) baseline_error) (\<lambda>_.
     let selected = sort_input T (ff_rows frame) in
     bindr (raise_if (list_ex (\<lambda>r. null_or_empty T (rw_player r)) selected) baseline_error) (\<lambda>_.
     bindr (raise_if (list_ex (\<lambda>r. null_or_empty T (rw_game r)) selected) baseline_error) (\<lambda>_.
     bindr (raise_if (list_ex (\<lambda>r. rw_kickoff r = None) selected) baseline_error) (\<lambda>_.
     bindr (raise_if (\<not> distinct (map (\<lambda>r. (rw_player r, rw_game r)) selected)) baseline_error) (\<lambda>_.
     bindr (mapr (check_numeric T selected) [rw_actual, rw_lag1, rw_roll3, rw_roll5, rw_season_mean]) (\<lambda>_.
     bindr (raise_if (list_ex (\<lambda>r. rw_actual r = None) selected) baseline_error) (\<lambda>_.
     mapr (history_of T) selected)))))))"

section \<open>Predictions\<close>

text \<open>\<open>_mean\<close>.\<close>

definition mean_of :: "('c, 'n) tools \<Rightarrow> 'n list \<Rightarrow> 'n option" where
  "mean_of T values = (if values = [] then None else Some (float_div T (float_sum T values) (length values)))"

definition prediction_row :: "'n history_row \<Rightarrow> baseline_spec \<Rightarrow> 'n option \<Rightarrow> nat \<Rightarrow> 'n prediction" where
  "prediction_row r spec prediction history_count =
     (let eligible = (prediction \<noteq> None \<and> bs_minimum_history spec \<le> history_count)
      in \<lparr>pr_player = hr_player r, pr_game = hr_game r, pr_season = hr_season r, pr_kickoff = hr_kickoff r,
          pr_actual = hr_actual r, pr_baseline = bs_name spec, pr_level = bs_level spec,
          pr_version = bs_version spec, pr_distribution = bs_distribution spec,
          pr_prediction = (if eligible then prediction else None), pr_history_count = history_count,
          pr_eligible = eligible, pr_exclusion = (if eligible then None else Some ''insufficient_history'')\<rparr>)"

text \<open>\<open>next((float(value) for value in ... if value is not None), None)\<close>.\<close>

fun first_some :: "'n option list \<Rightarrow> 'n option" where
  "first_some [] = None"
| "first_some (None # xs) = first_some xs"
| "first_some (Some x # xs) = Some x"

text \<open>The prediction and the history count of one baseline for one row, from the outcomes of
  the league and of the player that the loop has recorded.\<close>

definition baseline_of ::
  "('c, 'n) tools \<Rightarrow> 'n list \<Rightarrow> 'n list \<Rightarrow> 'n history_row \<Rightarrow> baseline_name \<Rightarrow> 'n option \<times> nat"
where
  "baseline_of T league career r name =
     (case name of
        LeagueMean \<Rightarrow> (mean_of T league, length league)
      | CareerAverage \<Rightarrow> (mean_of T career, length career)
      | PoissonRate \<Rightarrow>
          (first_some [hr_season_mean r, hr_roll5 r, mean_of T career, mean_of T league],
           max (length career) (max (if hr_season_mean r \<noteq> None then 1 else 0)
             (max (if hr_roll5 r \<noteq> None then 1 else 0) (length league))))
      | PreviousGame \<Rightarrow> (hr_lag1 r, length career)
      | Rolling3 \<Rightarrow> (hr_roll3 r, length career)
      | Rolling5 \<Rightarrow> (hr_roll5 r, length career)
      | SeasonToDate \<Rightarrow> (hr_season_mean r, length career))"

definition predict_row ::
  "('c, 'n) tools \<Rightarrow> 'n list \<Rightarrow> 'n list \<Rightarrow> 'n history_row \<Rightarrow> baseline_name \<Rightarrow> 'n prediction res"
where
  "predict_row T league career r name =
     bindr (spec_by_name name) (\<lambda>spec.
     Inr (case baseline_of T league career r name of (p, n) \<Rightarrow> prediction_row r spec p n))"

text \<open>The state of the loop: \<open>player_history\<close>, a dictionary whose default is the empty list,
  and \<open>league_history\<close>.\<close>

type_synonym 'n history = "(string \<Rightarrow> 'n list) \<times> 'n list"

definition predict_game ::
  "('c, 'n) tools \<Rightarrow> baseline_name list \<Rightarrow> 'n history \<Rightarrow> 'n history_row list \<Rightarrow> 'n prediction list res"
where
  "predict_game T names h rows =
     bindr (mapr (\<lambda>r. mapr (predict_row T (snd h) (fst h (hr_player r)) r) names) rows) (\<lambda>ps. Inr (concat ps))"

text \<open>The pending updates, after every row of the game is predicted.\<close>

fun record_outcomes :: "'n history \<Rightarrow> 'n history_row list \<Rightarrow> 'n history" where
  "record_outcomes h [] = h"
| "record_outcomes (career, league) (r # rows) =
     record_outcomes (career(hr_player r := career (hr_player r) @ [hr_actual r]), league @ [hr_actual r]) rows"

fun predict_games ::
  "('c, 'n) tools \<Rightarrow> baseline_name list \<Rightarrow> 'n history \<Rightarrow> 'n history_row list list \<Rightarrow> 'n prediction list res"
where
  "predict_games T names h [] = Inr []"
| "predict_games T names h (game # games) =
     bindr (predict_game T names h game) (\<lambda>ps.
     bindr (predict_games T names (record_outcomes h game) games) (\<lambda>qs.
     Inr (ps @ qs)))"

definition build_predictions ::
  "('c, 'n) tools \<Rightarrow> baseline_name list \<Rightarrow> 'c feature_frame \<Rightarrow> 'n prediction list res"
where
  "build_predictions T names frame =
     bindr (raise_if (names = []) baseline_error) (\<lambda>_.
     bindr (raise_if (\<not> distinct names) baseline_error) (\<lambda>_.
     bindr (validate_input T frame) (\<lambda>rows.
     bindr (predict_games T names (\<lambda>_. [], []) (partition_games T rows)) (\<lambda>out.
     Inr (if out = [] then [] else sort_output T out)))))"

section \<open>What the data frame library documents\<close>

text \<open>\<open>partition_by(maintain_order=True)\<close>: one table for each value, in the order of the first
  row of each, the rows in their order.\<close>

function partition_by :: "('r \<Rightarrow> 'k) \<Rightarrow> 'r list \<Rightarrow> 'r list list" where
  "partition_by key [] = []"
| "partition_by key (r # rs) =
     (r # filter (\<lambda>q. key q = key r) rs) # partition_by key (filter (\<lambda>q. key q \<noteq> key r) rs)"
  by pat_completeness auto
termination by (relation "measure (\<lambda>(_, rs). length rs)") (auto simp: le_imp_less_Suc)

definition raw_key :: "'c raw_row \<Rightarrow> int option \<times> string option \<times> string option" where
  "raw_key r = (rw_kickoff r, rw_game r, rw_player r)"

definition output_key :: "'n prediction \<Rightarrow> int \<times> string \<times> string \<times> string" where
  "output_key p = (pr_kickoff p, pr_game p, pr_player p, baseline_value (pr_baseline p))"

definition sorts_by :: "('r \<Rightarrow> 'k::linorder) \<Rightarrow> ('r list \<Rightarrow> 'r list) \<Rightarrow> bool" where
  "sorts_by key srt \<longleftrightarrow> (\<forall>rs. mset (srt rs) = mset rs \<and> sorted (map key (srt rs)))"

definition table_laws :: "('c, 'n) tools \<Rightarrow> bool" where
  "table_laws T \<longleftrightarrow> sorts_by raw_key (sort_input T) \<and> sorts_by output_key (sort_output T)
     \<and> (\<forall>rs. partition_games T rs = partition_by hr_game rs)"

lemma sorts_by_sort_key: "sorts_by key (sort_key key)"
  by (simp add: sorts_by_def)

lemma sorts_byD:
  assumes "sorts_by key srt"
  shows "mset (srt rs) = mset rs" and "set (srt rs) = set rs" and "sorted (map key (srt rs))"
    and "distinct (map f (srt rs)) = distinct (map f rs)"
proof -
  show m: "mset (srt rs) = mset rs" and "sorted (map key (srt rs))"
    using assms by (simp_all add: sorts_by_def)
  from m show "set (srt rs) = set rs" by (rule mset_eq_setD)
  from m have "mset (map f (srt rs)) = mset (map f rs)" by simp
  then show "distinct (map f (srt rs)) = distinct (map f rs)" by (rule mset_eq_imp_distinct_iff)
qed

text \<open>With distinct keys a sort is determined by the rows it is given.\<close>

lemma sorts_by_unique:
  assumes "sorts_by key srt" and "mset (map f rs) = mset qs"
    and "distinct (map key qs)" and "\<And>r. r \<in> set rs \<Longrightarrow> key (f r) = key r"
  shows "srt qs = map f (srt rs)"
proof (rule map_sorted_distinct_set_unique [of key])
  note s = sorts_byD [OF assms(1)]
  have m: "mset (map f (srt rs)) = mset qs" using s(1) assms(2) by simp
  have k: "map key (map f (srt rs)) = map key (srt rs)" using s(2) assms(4) by simp
  show "set (srt qs) = set (map f (srt rs))" using mset_eq_setD [OF m] s(2) by simp
  show "inj_on key (set (srt qs) \<union> set (map f (srt rs)))"
    using assms(3) mset_eq_setD [OF m] s(2) by (simp add: distinct_map)
  show "sorted (map key (srt qs))" by (rule s(3))
  show "sorted (map key (map f (srt rs)))" unfolding k by (rule s(3))
  show "distinct (map key (srt qs))" unfolding s(4) by (rule assms(3))
  have "mset (map key (map f (srt rs))) = mset (map key qs)" using m by (metis mset_map)
  then show "distinct (map key (map f (srt rs)))" using assms(3) mset_eq_imp_distinct_iff by metis
qed

end
