(* ===== verification/Governance.thy ===== *)
theory Governance
  imports Prelude Complex_Main
begin

text \<open>
  The research contract: \<open>app/research/evaluation/governance.py\<close>, and the recommendation of
  \<open>app/research/evaluation/learned.py\<close>.  A model class is a record; its constructor checks the
  constraints the fields declare and then runs the validator, and raises \<open>ValueError\<close> (of
  which \<open>ValidationError\<close> is a subclass).  A float is the rational it denotes: only
  comparisons are made.  The pattern of version texts is an argument, \<open>version_text\<close>, as the
  regular expressions of the validation library are not part of the program.
\<close>

section \<open>Names\<close>

datatype metric_name =
    MAE
  | CalibrationError
  | PoissonDeviance
  | RMSE
  | Bias
  | Coverage
  | PredictionVariance
  | SampleCount

definition all_metrics :: "metric_name list" where
  "all_metrics = [MAE, CalibrationError, PoissonDeviance, RMSE, Bias, Coverage, PredictionVariance, SampleCount]"

fun metric_value :: "metric_name \<Rightarrow> string" where
  "metric_value MAE = ''mean_absolute_error''"
| "metric_value CalibrationError = ''expected_calibration_error''"
| "metric_value PoissonDeviance = ''mean_poisson_deviance''"
| "metric_value RMSE = ''root_mean_squared_error''"
| "metric_value Bias = ''signed_bias''"
| "metric_value Coverage = ''prediction_coverage''"
| "metric_value PredictionVariance = ''prediction_variance''"
| "metric_value SampleCount = ''sample_count''"

datatype metric_role = Primary | Diagnostic

datatype metric_direction = Lower | Higher | TargetZero | Informational

datatype research_decision = Promote | Research | Revise | Reject

definition all_decisions :: "research_decision list" where
  "all_decisions = [Promote, Research, Revise, Reject]"

section \<open>The protocol\<close>

record metric_definition =
  md_name :: metric_name
  md_role :: metric_role
  md_direction :: metric_direction
  md_description :: string

definition make_metric :: "metric_definition \<Rightarrow> metric_definition res" where
  "make_metric m = bindr (raise_if (md_description m = []) ValueError) (\<lambda>_. Inr m)"

record evaluation_protocol =
  ep_version :: string
  ep_validation_method :: string
  ep_primary_metric :: metric_name
  ep_baseline_selection_metric :: metric_name
  ep_baseline_tie_breaker :: string
  ep_calibration_metric :: metric_name
  ep_calibration_method :: string
  ep_calibration_bins :: int
  ep_distribution_metric :: metric_name
  ep_significance_test :: string
  ep_confidence_level :: rat
  ep_bootstrap_iterations :: int
  ep_random_seed :: int

text \<open>The defaults; 0.95 is the double nearest to it.\<close>

definition default_protocol :: evaluation_protocol where
  "default_protocol =
     \<lparr>ep_version = ''1.0'', ep_validation_method = ''chronological_held_out'', ep_primary_metric = MAE,
      ep_baseline_selection_metric = MAE, ep_baseline_tie_breaker = ''baseline_name_ascending'',
      ep_calibration_metric = CalibrationError, ep_calibration_method = ''fixed_width'',
      ep_calibration_bins = 10, ep_distribution_metric = PoissonDeviance,
      ep_significance_test = ''paired_bootstrap'',
      ep_confidence_level = 4278419646001971 / 4503599627370496,
      ep_bootstrap_iterations = 10000, ep_random_seed = 50000\<rparr>"

definition protocol_fields :: "(string \<Rightarrow> bool) \<Rightarrow> evaluation_protocol \<Rightarrow> bool" where
  "protocol_fields version_text p \<longleftrightarrow>
     version_text (ep_version p) \<and> 2 \<le> ep_calibration_bins p
     \<and> 0 < ep_confidence_level p \<and> ep_confidence_level p < 1 \<and> 1 \<le> ep_bootstrap_iterations p"

definition make_protocol :: "(string \<Rightarrow> bool) \<Rightarrow> evaluation_protocol \<Rightarrow> evaluation_protocol res" where
  "make_protocol version_text p =
     bindr (raise_if (\<not> protocol_fields version_text p) ValueError) (\<lambda>_.
     bindr (raise_if (ep_validation_method p \<noteq> ''chronological_held_out'') ValueError) (\<lambda>_.
     bindr (raise_if (ep_primary_metric p \<noteq> MAE) ValueError) (\<lambda>_.
     bindr (raise_if (ep_baseline_selection_metric p \<noteq> MAE) ValueError) (\<lambda>_.
     bindr (raise_if (ep_baseline_tie_breaker p \<noteq> ''baseline_name_ascending'') ValueError) (\<lambda>_.
     bindr (raise_if (ep_calibration_metric p \<noteq> CalibrationError) ValueError) (\<lambda>_.
     bindr (raise_if (ep_calibration_method p \<noteq> ''fixed_width'') ValueError) (\<lambda>_.
     bindr (raise_if (ep_calibration_bins p \<noteq> 10) ValueError) (\<lambda>_.
     bindr (raise_if (ep_distribution_metric p \<noteq> PoissonDeviance) ValueError) (\<lambda>_.
     bindr (raise_if (ep_significance_test p \<noteq> ''paired_bootstrap'') ValueError) (\<lambda>_.
     Inr p))))))))))"

section \<open>The policy\<close>

record promotion_criteria =
  pc_version :: string
  pc_strongest_eligible_baseline :: bool
  pc_significant_mae_improvement :: bool
  pc_equal_or_better_calibration :: bool
  pc_improved_poisson_deviance :: bool
  pc_predefined_subgroups_pass :: bool
  pc_no_unresolved_leakage :: bool
  pc_no_unresolved_reproducibility_issue :: bool
  pc_no_unresolved_data_quality_issue :: bool
  pc_reproducible_artifacts :: bool
  pc_final_decision :: research_decision

definition default_criteria :: promotion_criteria where
  "default_criteria =
     \<lparr>pc_version = ''1.0'', pc_strongest_eligible_baseline = True, pc_significant_mae_improvement = True,
      pc_equal_or_better_calibration = True, pc_improved_poisson_deviance = True,
      pc_predefined_subgroups_pass = True, pc_no_unresolved_leakage = True,
      pc_no_unresolved_reproducibility_issue = True, pc_no_unresolved_data_quality_issue = True,
      pc_reproducible_artifacts = True, pc_final_decision = Promote\<rparr>"

definition make_criteria :: "(string \<Rightarrow> bool) \<Rightarrow> promotion_criteria \<Rightarrow> promotion_criteria res" where
  "make_criteria version_text c = bindr (raise_if (\<not> version_text (pc_version c)) ValueError) (\<lambda>_. Inr c)"

record governance_policy =
  gp_version :: string
  gp_protocol :: evaluation_protocol
  gp_metrics :: "metric_definition list"
  gp_promotion :: promotion_criteria
  gp_allowed_decisions :: "research_decision list"

definition make_policy :: "(string \<Rightarrow> bool) \<Rightarrow> governance_policy \<Rightarrow> governance_policy res" where
  "make_policy version_text g =
     bindr (raise_if (\<not> version_text (gp_version g)) ValueError) (\<lambda>_.
     let names = map md_name (gp_metrics g) in
     bindr (raise_if (length names \<noteq> card (set names)) ValueError) (\<lambda>_.
     bindr (raise_if (set names \<noteq> set all_metrics) ValueError) (\<lambda>_.
     bindr (raise_if (set (map md_name (filter (\<lambda>m. md_role m = Primary) (gp_metrics g)))
         \<noteq> {MAE, CalibrationError, PoissonDeviance}) ValueError) (\<lambda>_.
     bindr (raise_if (gp_allowed_decisions g \<noteq> all_decisions) ValueError) (\<lambda>_.
     Inr g)))))"

text \<open>\<open>GovernancePolicy.metric\<close>.\<close>

definition policy_metric :: "governance_policy \<Rightarrow> metric_name \<Rightarrow> metric_definition res" where
  "policy_metric g name =
     (case find (\<lambda>m. md_name m = name) (gp_metrics g) of None \<Rightarrow> Inl KeyError | Some m \<Rightarrow> Inr m)"

definition governance_metrics :: "metric_definition list" where
  "governance_metrics =
     [\<lparr>md_name = MAE, md_role = Primary, md_direction = Lower,
       md_description = ''Mean absolute prediction error.''\<rparr>,
      \<lparr>md_name = CalibrationError, md_role = Primary, md_direction = Lower,
       md_description = ''Expected calibration error under pre-registered bins.''\<rparr>,
      \<lparr>md_name = PoissonDeviance, md_role = Primary, md_direction = Lower,
       md_description = ''Mean Poisson deviance for non-negative count outcomes.''\<rparr>,
      \<lparr>md_name = RMSE, md_role = Diagnostic, md_direction = Lower,
       md_description = ''Root mean squared prediction error.''\<rparr>,
      \<lparr>md_name = Bias, md_role = Diagnostic, md_direction = TargetZero,
       md_description = ''Mean signed prediction error.''\<rparr>,
      \<lparr>md_name = Coverage, md_role = Diagnostic, md_direction = Higher,
       md_description = ''Share of eligible rows receiving a prediction.''\<rparr>,
      \<lparr>md_name = PredictionVariance, md_role = Diagnostic, md_direction = Informational,
       md_description = ''Population variance of predictions.''\<rparr>,
      \<lparr>md_name = SampleCount, md_role = Diagnostic, md_direction = Informational,
       md_description = ''Number of evaluated player-games.''\<rparr>]"

text \<open>\<open>GOVERNANCE_V1\<close>, as the module builds it when it is imported.\<close>

definition governance_v1 :: "(string \<Rightarrow> bool) \<Rightarrow> governance_policy res" where
  "governance_v1 version_text =
     bindr (make_protocol version_text default_protocol) (\<lambda>protocol.
     bindr (mapr make_metric governance_metrics) (\<lambda>metrics.
     bindr (make_criteria version_text default_criteria) (\<lambda>promotion.
     make_policy version_text
       \<lparr>gp_version = ''1.0'', gp_protocol = protocol, gp_metrics = metrics, gp_promotion = promotion,
        gp_allowed_decisions = all_decisions\<rparr>)))"

section \<open>Metrics and the recommendation\<close>

record metric_summary =
  ms_mae :: rat
  ms_calibration_error :: rat
  ms_poisson_deviance :: rat
  ms_rmse :: rat
  ms_bias :: rat
  ms_coverage :: rat
  ms_prediction_variance :: rat
  ms_sample_count :: int

definition make_metric_summary :: "metric_summary \<Rightarrow> metric_summary res" where
  "make_metric_summary m =
     bindr (raise_if (\<not> (0 \<le> ms_mae m \<and> 0 \<le> ms_calibration_error m \<and> ms_calibration_error m \<le> 1
         \<and> 0 \<le> ms_poisson_deviance m \<and> 0 \<le> ms_rmse m \<and> 0 \<le> ms_coverage m \<and> ms_coverage m \<le> 1
         \<and> 0 \<le> ms_prediction_variance m \<and> 1 \<le> ms_sample_count m)) ValueError) (\<lambda>_. Inr m)"

record metric_gates =
  mg_lower_mae :: bool
  mg_significant_mae_improvement :: bool
  mg_equal_or_better_calibration :: bool
  mg_improved_poisson_deviance :: bool

text \<open>The gates as \<open>fit_and_evaluate_wr_poisson\<close> computes them from the candidate's metrics, the
  significance of the bootstrap comparison and the metrics of the baseline.\<close>

definition learned_gates :: "metric_summary \<Rightarrow> bool \<Rightarrow> metric_summary \<Rightarrow> metric_gates" where
  "learned_gates candidate significant baseline =
     \<lparr>mg_lower_mae = (ms_mae candidate < ms_mae baseline),
      mg_significant_mae_improvement = significant,
      mg_equal_or_better_calibration = (ms_calibration_error candidate \<le> ms_calibration_error baseline),
      mg_improved_poisson_deviance = (ms_poisson_deviance candidate < ms_poisson_deviance baseline)\<rparr>"

record recommendation =
  rc_decision :: research_decision
  rc_reasons :: "string list"

definition learned_recommendation :: "metric_gates \<Rightarrow> recommendation" where
  "learned_recommendation g =
     (let passed = mg_lower_mae g \<and> mg_significant_mae_improvement g
            \<and> mg_equal_or_better_calibration g \<and> mg_improved_poisson_deviance g
      in \<lparr>rc_decision = Research,
          rc_reasons =
            [if passed
             then ''Learned-model metric gates passed; subgroup and remaining promotion gates are not evaluated.''
             else ''One or more learned-model promotion-critical metric gates did not pass.'',
             ''v0.6A remains research-only and cannot receive PROMOTE from this evaluation.'']\<rparr>)"

section \<open>Facts\<close>

lemma make_protocol_Inr: "make_protocol vt p = Inr p' \<longleftrightarrow>
    p' = p \<and> protocol_fields vt p \<and> ep_validation_method p = ''chronological_held_out''
    \<and> ep_primary_metric p = MAE \<and> ep_baseline_selection_metric p = MAE
    \<and> ep_baseline_tie_breaker p = ''baseline_name_ascending'' \<and> ep_calibration_metric p = CalibrationError
    \<and> ep_calibration_method p = ''fixed_width'' \<and> ep_calibration_bins p = 10
    \<and> ep_distribution_metric p = PoissonDeviance \<and> ep_significance_test p = ''paired_bootstrap''"
  by (auto simp: make_protocol_def bindr_Inr_conv raise_if_Inr_conv)

lemma all_metrics: "name \<in> set all_metrics"
  by (cases name) (simp_all add: all_metrics_def)

lemma make_policy_Inr:
  assumes "make_policy vt g = Inr g'"
  shows "g' = g" and "distinct (map md_name (gp_metrics g))" and "set (map md_name (gp_metrics g)) = set all_metrics"
    and "\<forall>m \<in> set (gp_metrics g). md_role m = Primary \<longleftrightarrow> md_name m \<in> {MAE, CalibrationError, PoissonDeviance}"
    and "gp_allowed_decisions g = all_decisions"
proof -
  show "g' = g" and d: "distinct (map md_name (gp_metrics g))"
    and "set (map md_name (gp_metrics g)) = set all_metrics" and "gp_allowed_decisions g = all_decisions"
    using assms by (auto simp: make_policy_def bindr_Inr_conv raise_if_Inr_conv Let_def intro: card_distinct)
  have p: "md_name ` {m \<in> set (gp_metrics g). md_role m = Primary} = {MAE, CalibrationError, PoissonDeviance}"
    using assms by (auto simp: make_policy_def bindr_Inr_conv raise_if_Inr_conv Let_def)
  have "inj_on md_name (set (gp_metrics g))" using d by (simp add: distinct_map)
  then show "\<forall>m \<in> set (gp_metrics g). md_role m = Primary \<longleftrightarrow> md_name m \<in> {MAE, CalibrationError, PoissonDeviance}"
    unfolding p [symmetric] by (auto dest: inj_onD)
qed

lemma policy_metric_Inr:
  assumes "make_policy vt g = Inr g'"
  shows "\<exists>m. policy_metric g name = Inr m \<and> md_name m = name \<and> m \<in> set (gp_metrics g)"
proof -
  have "name \<in> md_name ` set (gp_metrics g)"
    using make_policy_Inr(3) [OF assms] all_metrics [of name] by simp
  then obtain m where m: "find (\<lambda>m. md_name m = name) (gp_metrics g) = Some m"
    by (cases "find (\<lambda>m. md_name m = name) (gp_metrics g)") (auto simp: find_None_iff)
  then have "md_name m = name" "m \<in> set (gp_metrics g)" by (auto simp: find_Some_iff)
  with m show ?thesis by (simp add: policy_metric_def)
qed

lemma governance_v1_Inr:
  assumes "vt ''1.0''"
  obtains g where "governance_v1 vt = Inr g" "make_policy vt g = Inr g" "gp_protocol g = default_protocol"
    "gp_metrics g = governance_metrics" "gp_promotion g = default_criteria"
proof -
  have p: "make_protocol vt default_protocol = Inr default_protocol"
    using assms by (simp add: make_protocol_Inr protocol_fields_def default_protocol_def)
  have m: "mapr make_metric governance_metrics = Inr governance_metrics"
    by (simp add: governance_metrics_def make_metric_def)
  have c: "make_criteria vt default_criteria = Inr default_criteria"
    using assms by (simp add: make_criteria_def default_criteria_def)
  let ?g = "\<lparr>gp_version = ''1.0'', gp_protocol = default_protocol, gp_metrics = governance_metrics,
    gp_promotion = default_criteria, gp_allowed_decisions = all_decisions\<rparr>"
  have "make_policy vt ?g = Inr ?g"
    using assms by (auto simp: make_policy_def governance_metrics_def all_metrics_def)
  then show thesis using p m c by (intro that [of ?g]) (simp_all add: governance_v1_def)
qed

end
