(* ===== verification/Cohort.thy ===== *)
theory Cohort
  imports Baselines Governance PyTime
begin

text \<open>
  The governed cohort of \<open>app/research/evaluation/scorecard.py\<close>: evaluation periods and the
  configuration, the rows for which every baseline makes an eligible prediction, the inputs
  of the metrics, and the choice of the strongest baseline.  Column types enter as the
  instants of \<open>PyTime\<close>; the quotient of two counts is the argument \<open>ratio\<close>.
\<close>

section \<open>Periods and the configuration\<close>

record evaluation_period =
  pd_start :: pytime
  pd_end :: pytime

definition make_period :: "pytime \<Rightarrow> pytime \<Rightarrow> evaluation_period res" where
  "make_period start end' =
     bindr (raise_if (utcoffset start = None \<or> utcoffset end' = None) ValueError) (\<lambda>_.
     bindr (raise_if (instant_of start > instant_of end') ValueError) (\<lambda>_.
     Inr \<lparr>pd_start = start, pd_end = end'\<rparr>))"

record evaluation_config =
  ec_schema_version :: string
  ec_training :: evaluation_period
  ec_validation :: evaluation_period
  ec_calibration_line :: rat
  ec_poisson_epsilon :: rat
  ec_minimum_rows :: int
  ec_error_report_limit :: int
  ec_rookie_max_prior_games :: int
  ec_high_volume_targets :: rat
  ec_early_season_last_week :: int
  ec_post_bye_minimum_rest_days :: rat
  ec_protocol :: evaluation_protocol

definition evaluation_config_fields :: "evaluation_config \<Rightarrow> bool" where
  "evaluation_config_fields c \<longleftrightarrow>
     0 \<le> ec_calibration_line c \<and> 0 < ec_poisson_epsilon c \<and> 1 \<le> ec_minimum_rows c
     \<and> 1 \<le> ec_error_report_limit c \<and> 0 \<le> ec_rookie_max_prior_games c \<and> 0 \<le> ec_high_volume_targets c
     \<and> 1 \<le> ec_early_season_last_week c \<and> 0 \<le> ec_post_bye_minimum_rest_days c"

definition make_evaluation_config :: "evaluation_config \<Rightarrow> evaluation_config res" where
  "make_evaluation_config c =
     bindr (raise_if (\<not> evaluation_config_fields c) ValueError) (\<lambda>_.
     bindr (raise_if (instant_of (pd_end (ec_training c)) \<ge> instant_of (pd_start (ec_validation c))) ValueError) (\<lambda>_.
     Inr c))"

section \<open>Shared rows\<close>

type_synonym player_game = "string \<times> string"

definition prediction_key :: "'n prediction \<Rightarrow> player_game" where
  "prediction_key p = (pr_player p, pr_game p)"

text \<open>The variables of the loop of \<open>_shared_rows\<close>: \<open>total_keys\<close>, \<open>grouped\<close> with the order of its
  keys, and \<open>eligible_counts\<close>.\<close>

record 'n grouping =
  gr_keys :: "player_game set"
  gr_order :: "player_game list"
  gr_rows :: "player_game \<Rightarrow> baseline_name \<Rightarrow> 'n prediction option"
  gr_counts :: "baseline_name \<Rightarrow> nat"

definition no_grouping :: "'n grouping" where
  "no_grouping = \<lparr>gr_keys = {}, gr_order = [], gr_rows = (\<lambda>_ _. None), gr_counts = (\<lambda>_. 0)\<rparr>"

definition group_row :: "'n grouping \<Rightarrow> 'n prediction \<Rightarrow> 'n grouping" where
  "group_row g p =
     (let key = prediction_key p; name = pr_baseline p; g = g\<lparr>gr_keys := insert key (gr_keys g)\<rparr>
      in if pr_eligible p
         then g\<lparr>gr_counts := (gr_counts g)(name := gr_counts g name + 1),
                gr_order := (if key \<in> set (gr_order g) then gr_order g else gr_order g @ [key]),
                gr_rows := (gr_rows g)(key := (gr_rows g key)(name \<mapsto> p))\<rparr>
         else g)"

text \<open>The rows of a key, for the baselines that have one.\<close>

type_synonym 'n cohort = "(player_game \<times> (baseline_name \<Rightarrow> 'n prediction option)) list"

definition complete_values :: "baseline_name list \<Rightarrow> (baseline_name \<Rightarrow> 'n prediction option) \<Rightarrow> bool" where
  "complete_values names values \<longleftrightarrow>
     list_all (\<lambda>name. (values name \<noteq> None) = (name \<in> set names)) all_baselines"

definition shared_rows ::
  "(nat \<Rightarrow> nat \<Rightarrow> 'f) \<Rightarrow> 'n prediction list \<Rightarrow> baseline_name list \<Rightarrow> 'n cohort \<times> (baseline_name \<times> 'f) list"
where
  "shared_rows ratio predictions names =
     (let rows = filter (\<lambda>p. pr_baseline p \<in> set names) predictions;
          g = foldl group_row no_grouping rows;
          shared = filter (\<lambda>key. complete_values names (gr_rows g key)) (gr_order g);
          denominator = card (gr_keys g)
      in (map (\<lambda>key. (key, gr_rows g key)) (sort shared),
          map (\<lambda>name. (name, if denominator \<noteq> 0 then ratio (gr_counts g name) denominator else ratio 0 1)) names))"

text \<open>The table of keys an evaluation is restricted to.\<close>

record key_frame =
  kf_columns :: "string list"
  kf_rows :: "(string option \<times> string option) list"

definition check_keys :: "key_frame \<Rightarrow> unit res" where
  "check_keys keys =
     bindr (raise_if (\<not> {''source_player_id'', ''game_id''} \<subseteq> set (kf_columns keys)) ValueError) (\<lambda>_.
     bindr (raise_if (list_ex (\<lambda>(p, g). p = None \<or> g = None) (kf_rows keys)) ValueError) (\<lambda>_.
     raise_if (\<not> distinct (kf_rows keys)) ValueError))"

definition in_period :: "evaluation_period \<Rightarrow> int \<Rightarrow> bool" where
  "in_period period kickoff \<longleftrightarrow> instant_of (pd_start period) \<le> kickoff \<and> kickoff \<le> instant_of (pd_end period)"

definition governed_cohort ::
  "('c, 'n) tools \<Rightarrow> (nat \<Rightarrow> nat \<Rightarrow> 'f) \<Rightarrow> evaluation_config \<Rightarrow> key_frame option \<Rightarrow> 'c feature_frame
    \<Rightarrow> ('n cohort \<times> (baseline_name \<times> 'f) list) res"
where
  "governed_cohort T ratio config evaluation_keys frame =
     bindr (build_predictions T all_baselines frame) (\<lambda>predictions.
     let predictions = filter (\<lambda>p. in_period (ec_validation config) (pr_kickoff p)) predictions in
     bindr (case evaluation_keys of
         None \<Rightarrow> Inr predictions
       | Some keys \<Rightarrow> bindr (check_keys keys) (\<lambda>_.
           Inr (filter (\<lambda>p. (Some (pr_player p), Some (pr_game p)) \<in> set (kf_rows keys)) predictions))) (\<lambda>predictions.
     let result = shared_rows ratio predictions (map bs_name baseline_specs) in
     bindr (raise_if (int (length (fst result)) < ec_minimum_rows config) ValueError) (\<lambda>_.
     Inr result)))"

text \<open>\<open>_metric_inputs\<close>: \<open>float(None)\<close> is a \<open>TypeError\<close>.\<close>

definition metric_inputs :: "'n cohort \<Rightarrow> baseline_name \<Rightarrow> ('n list \<times> 'n list) res" where
  "metric_inputs shared baseline =
     bindr (mapr (\<lambda>(key, values). case values baseline of None \<Rightarrow> Inl KeyError
       | Some p \<Rightarrow> Inr (pr_actual p)) shared) (\<lambda>actuals.
     bindr (mapr (\<lambda>(key, values). case values baseline of None \<Rightarrow> Inl KeyError
       | Some p \<Rightarrow> (case pr_prediction p of None \<Rightarrow> Inl TypeError | Some x \<Rightarrow> Inr x)) shared) (\<lambda>predictions.
     Inr (actuals, predictions)))"

section \<open>The strongest baseline\<close>

definition governed_hierarchy :: "baseline_name list" where
  "governed_hierarchy = [LeagueMean, PreviousGame, Rolling3, Rolling5, SeasonToDate, PoissonRate]"

text \<open>Python's \<open>min\<close> with a key: the first of the least elements.\<close>

fun min_by :: "('a \<Rightarrow> 'k::linorder) \<Rightarrow> 'a \<Rightarrow> 'a list \<Rightarrow> 'a" where
  "min_by key best [] = best"
| "min_by key best (x # xs) = min_by key (if key x < key best then x else best) xs"

text \<open>\<open>hierarchy\<close> lists a set in the order of its iteration.\<close>

definition select_strongest ::
  "evaluation_protocol \<Rightarrow> (baseline_name \<Rightarrow> metric_summary option) \<Rightarrow> baseline_name list \<Rightarrow> baseline_name res"
where
  "select_strongest protocol metrics hierarchy =
     bindr (raise_if (list_ex (\<lambda>name. metrics name = None) hierarchy) ValueError) (\<lambda>_.
     bindr (raise_if (metric_value (ep_baseline_selection_metric protocol) \<noteq> ''mean_absolute_error'') ValueError) (\<lambda>_.
     case hierarchy of
       [] \<Rightarrow> Inl ValueError
     | name # names \<Rightarrow>
         Inr (min_by (\<lambda>n. (case metrics n of None \<Rightarrow> 0 | Some m \<Rightarrow> ms_mae m, baseline_value n)) name names)))"

end
