(* ===== verification/Rolling.thy ===== *)
theory Rolling
  imports Cohort
begin

text \<open>
  Rolling evaluation: the configuration of expanding windows and the bookkeeping of held-out
  rows of \<open>app/research/evaluation/rolling.py\<close>, and the chronological split of
  \<open>app/research/models/wr_receptions.py\<close>.  What a model is fitted to and how it predicts is
  left out; which rows have all the features of the model is the argument \<open>has_features\<close>.
  A table whose kickoff column has no time zone is read in UTC, \<open>naive\<close>.
\<close>

section \<open>Windows\<close>

record rolling_window =
  rl_id :: string
  rl_period :: evaluation_period

definition make_window :: "string \<Rightarrow> evaluation_period \<Rightarrow> rolling_window res" where
  "make_window window_id period =
     bindr (raise_if (window_id = []) ValueError) (\<lambda>_. Inr \<lparr>rl_id = window_id, rl_period = period\<rparr>)"

record rolling_config =
  rg_schema_version :: string
  rg_protocol_version :: string
  rg_training_start :: pytime
  rg_windows :: "rolling_window list"
  rg_baseline :: evaluation_config

abbreviation window_start :: "rolling_window \<Rightarrow> instant" where
  "window_start w \<equiv> instant_of (pd_start (rl_period w))"

abbreviation window_end :: "rolling_window \<Rightarrow> instant" where
  "window_end w \<equiv> instant_of (pd_end (rl_period w))"

definition window_key :: "rolling_window \<Rightarrow> instant \<times> instant \<times> string" where
  "window_key w = (window_start w, window_end w, rl_id w)"

text \<open>The loop of \<open>validate_windows\<close> with its \<open>previous_end\<close>.\<close>

fun check_windows :: "instant \<Rightarrow> instant option \<Rightarrow> rolling_window list \<Rightarrow> unit res" where
  "check_windows training_start previous_end [] = Inr ()"
| "check_windows training_start previous_end (w # ws) =
     bindr (raise_if (training_start \<ge> window_start w) ValueError) (\<lambda>_.
     bindr (raise_if (case previous_end of None \<Rightarrow> False | Some e \<Rightarrow> e \<ge> window_start w) ValueError) (\<lambda>_.
     check_windows training_start (Some (window_end w)) ws))"

definition make_rolling_config :: "rolling_config \<Rightarrow> rolling_config res" where
  "make_rolling_config c =
     bindr (raise_if (utcoffset (rg_training_start c) = None) ValueError) (\<lambda>_.
     bindr (raise_if (rg_windows c = []) ValueError) (\<lambda>_.
     let ids = map rl_id (rg_windows c) in
     bindr (raise_if (length ids \<noteq> card (set ids)) ValueError) (\<lambda>_.
     let ordered = sort_key window_key (rg_windows c) in
     bindr (raise_if (rg_windows c \<noteq> ordered) ValueError) (\<lambda>_.
     bindr (check_windows (instant_of (rg_training_start c)) None (rg_windows c)) (\<lambda>_.
     Inr c)))))"

text \<open>\<open>_period_for_window\<close>: training ends one microsecond before the window starts.\<close>

definition before_microsecond :: "pytime \<Rightarrow> pytime" where
  "before_microsecond t = PyTime (clock t - 1) (utcoffset t)"

definition period_for_window :: "rolling_config \<Rightarrow> rolling_window \<Rightarrow> evaluation_period res" where
  "period_for_window c w = make_period (rg_training_start c) (before_microsecond (pd_start (rl_period w)))"

section \<open>The chronological split\<close>

abbreviation fit_error :: exc where
  "fit_error \<equiv> ResearchError ModelFitError"

definition period_boundaries :: "bool \<Rightarrow> evaluation_period \<Rightarrow> (pytime \<times> pytime) res" where
  "period_boundaries naive period =
     bindr (raise_if (utcoffset (pd_start period) = None \<or> utcoffset (pd_end period) = None) fit_error) (\<lambda>_.
     Inr (if naive
          then (PyTime (instant_of (pd_start period)) None, PyTime (instant_of (pd_end period)) None)
          else (pd_start period, pd_end period)))"

definition kickoff_between :: "pytime \<Rightarrow> pytime \<Rightarrow> 'c raw_row \<Rightarrow> bool" where
  "kickoff_between start end' r =
     (case rw_kickoff r of None \<Rightarrow> False | Some k \<Rightarrow> instant_of start \<le> k \<and> k \<le> instant_of end')"

definition chronological_split ::
  "('c, 'n) tools \<Rightarrow> bool \<Rightarrow> 'c feature_frame \<Rightarrow> evaluation_period \<Rightarrow> evaluation_period
    \<Rightarrow> ('c raw_row list \<times> 'c raw_row list) res"
where
  "chronological_split T naive frame training_period evaluation_period =
     bindr (raise_if (\<not> {''kickoff'', ''game_id'', ''source_player_id''} \<subseteq> set (ff_columns frame)) fit_error) (\<lambda>_.
     bindr (raise_if (list_ex (\<lambda>r. rw_kickoff r = None) (ff_rows frame)) fit_error) (\<lambda>_.
     bindr (period_boundaries naive training_period) (\<lambda>(training_start, training_end).
     bindr (period_boundaries naive evaluation_period) (\<lambda>(evaluation_start, evaluation_end).
     bindr (raise_if (instant_of training_end \<ge> instant_of evaluation_start) fit_error) (\<lambda>_.
     let training = sort_input T (filter (kickoff_between training_start training_end) (ff_rows frame));
         evaluation = sort_input T (filter (kickoff_between evaluation_start evaluation_end) (ff_rows frame)) in
     bindr (raise_if (training = []) fit_error) (\<lambda>_.
     bindr (raise_if (evaluation = []) fit_error) (\<lambda>_.
     Inr (training, evaluation))))))))"

section \<open>Held-out rows\<close>

text \<open>\<open>str(value)\<close> of a cell.\<close>

definition cell_text :: "string option \<Rightarrow> string" where
  "cell_text cell = (case cell of None \<Rightarrow> ''None'' | Some s \<Rightarrow> s)"

text \<open>The keys \<open>_ordered_window_inputs\<close> returns: the rows of the window with all features that are
  in the governed cohort, in the order of the split.\<close>

definition ordered_window_keys ::
  "('c, 'n) tools \<Rightarrow> (nat \<Rightarrow> nat \<Rightarrow> 'f) \<Rightarrow> bool \<Rightarrow> ('c raw_row \<Rightarrow> bool) \<Rightarrow> 'c feature_frame \<Rightarrow> evaluation_config
    \<Rightarrow> player_game list res"
where
  "ordered_window_keys T ratio naive has_features frame config =
     bindr (chronological_split T naive frame (ec_training config) (ec_validation config)) (\<lambda>(_, evaluation).
     let eligible = filter has_features evaluation;
         keys = \<lparr>kf_columns = [''source_player_id'', ''game_id''],
                 kf_rows = map (\<lambda>r. (rw_player r, rw_game r)) eligible\<rparr> in
     bindr (governed_cohort T ratio config (Some keys) frame) (\<lambda>(shared, _).
     Inr (filter (\<lambda>key. key \<in> set (map fst shared))
       (map (\<lambda>r. (cell_text (rw_player r), cell_text (rw_game r))) eligible))))"

definition window_config :: "rolling_config \<Rightarrow> rolling_window \<Rightarrow> evaluation_config res" where
  "window_config c w =
     bindr (period_for_window c w) (\<lambda>training.
     Inr ((rg_baseline c)\<lparr>ec_training := training, ec_validation := rl_period w\<rparr>))"

text \<open>The held-out keys of the windows in turn, with the guard against a row that was held out
  before (\<open>pooled_keys\<close>).\<close>

fun pool_windows ::
  "('c, 'n) tools \<Rightarrow> (nat \<Rightarrow> nat \<Rightarrow> 'f) \<Rightarrow> bool \<Rightarrow> ('c raw_row \<Rightarrow> bool) \<Rightarrow> 'c feature_frame \<Rightarrow> rolling_config
    \<Rightarrow> player_game set \<Rightarrow> rolling_window list \<Rightarrow> player_game list list res"
where
  "pool_windows T ratio naive has_features frame c pooled [] = Inr []"
| "pool_windows T ratio naive has_features frame c pooled (w # ws) =
     bindr (window_config c w) (\<lambda>config.
     bindr (ordered_window_keys T ratio naive has_features frame config) (\<lambda>keys.
     bindr (raise_if (pooled \<inter> set keys \<noteq> {}) ValueError) (\<lambda>_.
     bindr (pool_windows T ratio naive has_features frame c (pooled \<union> set keys) ws) (\<lambda>rest.
     Inr (keys # rest)))))"

end
