(* ===== verification/BaselineProperties.thy ===== *)
theory BaselineProperties
  imports Baselines
begin

text \<open>
  What the baselines read: the loop over the games predicts each row from the rows of the
  games before it, which \<open>reference\<close> states without a loop.
\<close>

section \<open>Specifications\<close>

definition spec_of :: "baseline_name \<Rightarrow> baseline_spec" where
  "spec_of name = hd (filter (\<lambda>s. bs_name s = name) baseline_specs)"

lemma spec_by_name [simp]: "spec_by_name name = Inr (spec_of name)"
  by (cases name) (simp_all add: spec_by_name_def spec_of_def baseline_specs_def make_spec_def)

lemma spec_of_simps [simp]: "bs_name (spec_of name) = name" "bs_minimum_history (spec_of name) = 1"
  by (cases name; simp add: spec_of_def baseline_specs_def make_spec_def)+

lemma baseline_value_inj: "baseline_value a = baseline_value b \<longleftrightarrow> a = b"
  by (cases a; cases b) simp_all

section \<open>History\<close>

definition outcomes :: "'n history_row list \<Rightarrow> 'n history" where
  "outcomes rows = (\<lambda>p. map hr_actual (filter (\<lambda>r. hr_player r = p) rows), map hr_actual rows)"

lemma record_outcomes: "record_outcomes (outcomes pre) rows = outcomes (pre @ rows)"
proof (induction rows arbitrary: pre)
  case (Cons r rows)
  have "record_outcomes (outcomes pre) (r # rows) = record_outcomes (outcomes (pre @ [r])) rows"
    by (simp add: outcomes_def fun_upd_def) (rule arg_cong2 [of _ _ _ _ record_outcomes]; auto)
  with Cons show ?case by simp
qed simp

definition game_key :: "'n history_row \<Rightarrow> int \<times> string" where
  "game_key r = (hr_kickoff r, hr_game r)"

text \<open>The rows of the games before the game of \<open>r\<close>, by kickoff and then by identifier.\<close>

definition earlier :: "'n history_row list \<Rightarrow> 'n history_row \<Rightarrow> 'n history_row list" where
  "earlier rows r = filter (\<lambda>q. game_key q < game_key r) rows"

text \<open>The prediction of a baseline for a row, from what happened before.\<close>

definition reference :: "('c, 'n) tools \<Rightarrow> 'n history_row list \<Rightarrow> 'n history_row \<Rightarrow> baseline_name \<Rightarrow> 'n prediction" where
  "reference T rows r name =
     (let before = earlier rows r
      in case baseline_of T (map hr_actual before)
           (map hr_actual (filter (\<lambda>q. hr_player q = hr_player r) before)) r name of
        (p, n) \<Rightarrow> prediction_row r (spec_of name) p n)"

lemma predict_row_reference:
  "predict_row T (snd (outcomes (earlier rows r))) (fst (outcomes (earlier rows r)) (hr_player r)) r name
    = Inr (reference T rows r name)"
  by (simp add: predict_row_def reference_def outcomes_def Let_def split: prod.splits)

lemma predict_game_reference:
  assumes "\<And>r. r \<in> set game \<Longrightarrow> earlier rows r = pre"
  shows "predict_game T names (outcomes pre) game = Inr (concat (map (\<lambda>r. map (reference T rows r) names) game))"
proof -
  have "mapr (predict_row T (snd (outcomes pre)) (fst (outcomes pre) (hr_player r)) r) names
      = Inr (map (reference T rows r) names)" if "r \<in> set game" for r
    using predict_row_reference [of T rows r] assms [OF that] by (intro mapr_ident) simp
  then have "mapr (\<lambda>r. mapr (predict_row T (snd (outcomes pre)) (fst (outcomes pre) (hr_player r)) r) names) game
      = Inr (map (\<lambda>r. map (reference T rows r) names) game)"
    by (rule mapr_ident)
  then show ?thesis by (simp add: predict_game_def)
qed

section \<open>The loop is the reference\<close>

text \<open>The first game of sorted rows, and the rows after it.\<close>

lemma sorted_first_game:
  fixes key :: "'r \<Rightarrow> 'k::linorder"
  assumes "sorted (map key (r # rs))"
  shows "rs = filter (\<lambda>q. key q = key r) rs @ filter (\<lambda>q. key q \<noteq> key r) rs"
  using assms
proof (induction rs)
  case (Cons q rs)
  show ?case
  proof (cases "key q = key r")
    case True
    with Cons show ?thesis by simp
  next
    case False
    with Cons.prems have "key r < key q" "\<forall>x \<in> set rs. key q \<le> key x" by auto
    then have "filter (\<lambda>x. key x = key r) rs = []" "filter (\<lambda>x. key x \<noteq> key r) rs = rs"
      by (fastforce simp: filter_empty_conv filter_id_conv)+
    with False show ?thesis by simp
  qed
qed simp

lemma predict_games_reference:
  assumes "sorted (map game_key rows)"
    and "\<And>r q. r \<in> set rows \<Longrightarrow> q \<in> set rows \<Longrightarrow> hr_game r = hr_game q \<Longrightarrow> hr_kickoff r = hr_kickoff q"
    and "\<And>r. r \<in> set rows \<Longrightarrow> earlier whole r = pre @ earlier rows r"
  shows "predict_games T names (outcomes pre) (partition_by hr_game rows)
    = Inr (concat (map (\<lambda>r. map (reference T whole r) names) rows))"
  using assms
proof (induction rows arbitrary: pre rule: length_induct)
  case (1 rows)
  show ?case
  proof (cases rows)
    case (Cons r rs)
    let ?same = "r # filter (\<lambda>q. hr_game q = hr_game r) rs"
    let ?rest = "filter (\<lambda>q. hr_game q \<noteq> hr_game r) rs"
    have key: "game_key q = game_key r \<longleftrightarrow> hr_game q = hr_game r" if "q \<in> set rs" for q
      using 1(3) [of q r] that Cons by (auto simp: game_key_def)
    then have split: "filter (\<lambda>q. hr_game q = hr_game r) rs = filter (\<lambda>q. game_key q = game_key r) rs"
      "?rest = filter (\<lambda>q. game_key q \<noteq> game_key r) rs"
      by (auto intro: filter_cong)
    have rows: "rows = ?same @ ?rest"
      using sorted_first_game [of game_key r rs] 1(2) split Cons by simp
    have least: "game_key r \<le> game_key q" if "q \<in> set rows" for q
      using 1(2) that Cons by auto
    have same: "game_key q = game_key r" if "q \<in> set ?same" for q
      using that key by auto
    have above: "game_key r < game_key q" if "q \<in> set ?rest" for q
    proof -
      have q: "q \<in> set rs" "hr_game q \<noteq> hr_game r" using that by simp_all
      then have "game_key q \<noteq> game_key r" using key by simp
      then show ?thesis using least [of q] q(1) Cons by (metis list.set_intros(2) order_le_imp_less_or_eq)
    qed
    have "earlier rows q = []" if "q \<in> set ?same" for q
      using least same [OF that] by (auto simp: earlier_def filter_empty_conv not_less)
    then have first: "predict_game T names (outcomes pre) ?same
        = Inr (concat (map (\<lambda>r. map (reference T whole r) names) ?same))"
      using 1(4) rows by (intro predict_game_reference) (metis Un_iff append_Nil2 set_append)
    have "earlier rows q = ?same @ earlier ?rest q" if "q \<in> set ?rest" for q
    proof -
      have "earlier ?same q = ?same"
        unfolding earlier_def using same above [OF that] by (intro filter_True ballI) (metis)
      then show ?thesis using rows unfolding earlier_def by (metis filter_append)
    qed
    then have e: "earlier whole q = (pre @ ?same) @ earlier ?rest q" if "q \<in> set ?rest" for q
      using 1(4) [of q] that Cons by simp
    have len: "length ?rest < length rows" using Cons by (simp add: le_imp_less_Suc)
    have sub: "set ?rest \<subseteq> set rows" using Cons by auto
    have s: "sorted (map game_key ?rest)"
      using 1(2) Cons by (intro sorted_filter) simp
    have "predict_games T names (outcomes (pre @ ?same)) (partition_by hr_game ?rest)
        = Inr (concat (map (\<lambda>r. map (reference T whole r) names) ?rest))"
      by (rule 1(1) [rule_format, OF len s 1(3) e]) (use sub in blast)+
    moreover have "concat (map (\<lambda>r. map (reference T whole r) names) rows)
        = concat (map (\<lambda>r. map (reference T whole r) names) ?same)
          @ concat (map (\<lambda>r. map (reference T whole r) names) ?rest)"
      by (subst rows) (simp only: map_append concat_append)
    ultimately show ?thesis
      using first unfolding Cons
      by (simp only: partition_by.simps predict_games.simps record_outcomes bindr_simps)
  qed simp
qed

section \<open>Accepted tables\<close>

definition one_kickoff :: "'c feature_frame \<Rightarrow> bool" where
  "one_kickoff frame \<longleftrightarrow> (\<forall>r \<in> set (ff_rows frame). \<forall>q \<in> set (ff_rows frame).
     rw_game r = rw_game q \<longrightarrow> rw_kickoff r = rw_kickoff q)"

lemma history_of_Inr:
  assumes "history_of T r = Inr h"
  shows "rw_player r = Some (hr_player h)" and "rw_game r = Some (hr_game h)"
    and "rw_kickoff r = Some (hr_kickoff h)" and "cell_number T (rw_actual r) = Some (hr_actual h)"
  using assms by (auto simp: history_of_def split: option.splits)

lemma list_all2_right_witness:
  assumes "list_all2 R xs ys" and "y \<in> set ys"
  obtains x where "x \<in> set xs" "R x y"
  using assms by (induction rule: list_all2_induct) auto

lemma history_of_outcome:
  assumes "history_of T r = Inr h" and "history_of T (r\<lparr>rw_actual := c\<rparr>) = Inr h'"
  shows "h' = h\<lparr>hr_actual := hr_actual h'\<rparr>"
  using assms by (auto simp: history_of_def split: option.splits)

lemma validate_input_Inr:
  assumes "table_laws T" and "validate_input T frame = Inr rows"
  shows "list_all2 (\<lambda>r h. history_of T r = Inr h) (sort_input T (ff_rows frame)) rows"
    and "distinct (map (\<lambda>r. (rw_player r, rw_game r)) (ff_rows frame))"
    and "sorted (map game_key rows)"
    and "distinct (map (\<lambda>h. (hr_player h, hr_game h)) rows)"
proof -
  let ?s = "sort_input T (ff_rows frame)"
  have srt: "sorts_by raw_key (sort_input T)" using assms(1) by (simp add: table_laws_def)
  show all: "list_all2 (\<lambda>r h. history_of T r = Inr h) ?s rows"
    and d: "distinct (map (\<lambda>r. (rw_player r, rw_game r)) (ff_rows frame))"
    using assms(2) sorts_byD(4) [OF srt]
    by (auto simp: validate_input_def bindr_Inr_conv raise_if_Inr_conv Let_def mapr_Inr_conv simp del: mapr.simps)
  have "map raw_key ?s = map (\<lambda>h. (Some (hr_kickoff h), Some (hr_game h), Some (hr_player h))) rows"
    using all by (induction rule: list_all2_induct) (simp_all add: raw_key_def history_of_Inr)
  then have "sorted (map (\<lambda>h. (Some (hr_kickoff h), Some (hr_game h), Some (hr_player h))) rows)"
    using sorts_byD(3) [OF srt] by metis
  then show "sorted (map game_key rows)"
    unfolding sorted_map by (rule sorted_wrt_mono_rel [rotated]) (auto simp: game_key_def less_eq_prod_def)
  have m: "map (\<lambda>r. (rw_player r, rw_game r)) ?s = map (\<lambda>h. (Some (hr_player h), Some (hr_game h))) rows"
    using all by (induction rule: list_all2_induct) (simp_all add: history_of_Inr)
  have "distinct (map (\<lambda>r. (rw_player r, rw_game r)) ?s)"
    unfolding sorts_byD(4) [OF srt] by (rule d)
  then have "distinct (map (\<lambda>h. (Some (hr_player h), Some (hr_game h))) rows)"
    unfolding m .
  then show "distinct (map (\<lambda>h. (hr_player h, hr_game h)) rows)"
    by (auto simp: distinct_map inj_on_def)
qed

lemma one_kickoff_rows:
  assumes "table_laws T" and "validate_input T frame = Inr rows" and "one_kickoff frame"
    and "r \<in> set rows" and "q \<in> set rows" and "hr_game r = hr_game q"
  shows "hr_kickoff r = hr_kickoff q"
proof -
  have srt: "sorts_by raw_key (sort_input T)" using assms(1) by (simp add: table_laws_def)
  have "\<exists>x \<in> set (ff_rows frame). rw_game x = Some (hr_game h) \<and> rw_kickoff x = Some (hr_kickoff h)"
    if h: "h \<in> set rows" for h
  proof -
    obtain x where "x \<in> set (sort_input T (ff_rows frame))" "history_of T x = Inr h"
      by (rule list_all2_right_witness [OF validate_input_Inr(1) [OF assms(1,2)] h])
    then have "x \<in> set (ff_rows frame)" "rw_game x = Some (hr_game h)" "rw_kickoff x = Some (hr_kickoff h)"
      by (simp_all add: sorts_byD(2) [OF srt] history_of_Inr)
    then show ?thesis by (intro bexI conjI)
  qed
  from this [OF assms(4)] this [OF assms(5)] show ?thesis
    using assms(3,6) unfolding one_kickoff_def by (metis option.inject)
qed

section \<open>The predictions of a table\<close>

definition references :: "('c, 'n) tools \<Rightarrow> baseline_name list \<Rightarrow> 'n history_row list \<Rightarrow> 'n prediction list" where
  "references T names rows = concat (map (\<lambda>r. map (reference T rows r) names) rows)"

lemma sort_output_Nil: "table_laws T \<Longrightarrow> sort_output T [] = []"
  unfolding table_laws_def sorts_by_def by (metis mset_zero_iff)

lemma build_predictions_Inr:
  assumes "table_laws T" and "one_kickoff frame" and "validate_input T frame = Inr rows"
    and "names \<noteq> []" and "distinct names"
  shows "build_predictions T names frame = Inr (sort_output T (references T names rows))"
proof -
  have e: "outcomes [] = ((\<lambda>_. []), [])" by (simp add: outcomes_def)
  have "predict_games T names (outcomes []) (partition_by hr_game rows)
      = Inr (concat (map (\<lambda>r. map (reference T rows r) names) rows))"
    by (rule predict_games_reference [OF validate_input_Inr(3) [OF assms(1,3)]
          one_kickoff_rows [OF assms(1,3,2)]]) simp_all
  then show ?thesis
    using assms sort_output_Nil [OF assms(1)]
    by (simp add: build_predictions_def table_laws_def references_def e)
qed

lemma reference_simps [simp]:
  "pr_kickoff (reference T rows r name) = hr_kickoff r" "pr_game (reference T rows r name) = hr_game r"
  "pr_player (reference T rows r name) = hr_player r" "pr_baseline (reference T rows r name) = name"
  "pr_actual (reference T rows r name) = hr_actual r"
  by (simp_all add: reference_def prediction_row_def Let_def split: prod.splits)

lemma references_distinct:
  assumes "distinct (map (\<lambda>h. (hr_player h, hr_game h)) rows)" and "distinct names"
  shows "distinct (map output_key (references T names rows))"
proof -
  have "distinct (map output_key (concat (map (\<lambda>r. map (reference T all r) names) rows)))" for all
    using assms(1)
  proof (induction rows)
    case (Cons r rows)
    have "distinct (map output_key (map (reference T all r) names))"
      using assms(2) by (auto simp: distinct_map inj_on_def output_key_def baseline_value_inj)
    moreover have "set (map output_key (map (reference T all r) names))
        \<inter> set (map output_key (concat (map (\<lambda>r. map (reference T all r) names) rows))) = {}"
      using Cons.prems by (auto simp: output_key_def image_iff)
    ultimately show ?case using Cons by simp
  qed simp
  then show ?thesis by (simp add: references_def)
qed

lemma sort_output_distinct:
  assumes "table_laws T"
  shows "distinct (map output_key (sort_output T ps)) = distinct (map output_key ps)"
    and "sorted (map output_key (sort_output T ps))" and "mset (sort_output T ps) = mset ps"
proof -
  have s: "sorts_by output_key (sort_output T)" using assms by (simp add: table_laws_def)
  show "distinct (map output_key (sort_output T ps)) = distinct (map output_key ps)" by (rule sorts_byD(4) [OF s])
  show "sorted (map output_key (sort_output T ps))" by (rule sorts_byD(3) [OF s])
  show "mset (sort_output T ps) = mset ps" by (rule sorts_byD(1) [OF s])
qed

end
