(* ===== verification/BaselineTheorems.thy ===== *)
theory BaselineTheorems
  imports BaselineProperties
begin

text \<open>
  The properties of the baselines: they are the reference that reads only earlier games, and
  no outcome of the game itself or of a later one changes a prediction.
\<close>

section \<open>Changed outcomes\<close>

definition with_outcomes :: "('c raw_row \<Rightarrow> 'c option) \<Rightarrow> 'c feature_frame \<Rightarrow> 'c feature_frame" where
  "with_outcomes f frame = frame\<lparr>ff_rows := map (\<lambda>r. r\<lparr>rw_actual := f r\<rparr>) (ff_rows frame)\<rparr>"

lemma one_kickoff_with_outcomes: "one_kickoff (with_outcomes f frame) = one_kickoff frame"
  by (simp add: one_kickoff_def with_outcomes_def)

text \<open>Two rows that agree up to the outcome, and in the outcome before the game \<open>b\<close>.\<close>

definition agree_before :: "int \<times> string \<Rightarrow> 'n history_row \<Rightarrow> 'n history_row \<Rightarrow> bool" where
  "agree_before b h h' \<longleftrightarrow> h' = h\<lparr>hr_actual := hr_actual h'\<rparr> \<and> (game_key h < b \<longrightarrow> h' = h)"

lemma agree_before_simps:
  assumes "agree_before b h h'"
  shows "game_key h' = game_key h" and "hr_player h' = hr_player h"
proof -
  obtain a where "h' = h\<lparr>hr_actual := a\<rparr>" using assms unfolding agree_before_def by blast
  then show "game_key h' = game_key h" "hr_player h' = hr_player h" by (simp_all add: game_key_def)
qed

lemma validate_with_outcomes:
  assumes T: "table_laws T" and rows: "validate_input T frame = Inr rows"
    and rows': "validate_input T (with_outcomes f frame) = Inr rows'"
    and f: "\<And>r. r \<in> set (ff_rows frame) \<Longrightarrow> (rw_kickoff r, rw_game r) < (Some (fst b), Some (snd b)) \<Longrightarrow> f r = rw_actual r"
  shows "list_all2 (agree_before b) rows rows'"
proof -
  let ?u = "\<lambda>r. r\<lparr>rw_actual := f r\<rparr>"
  have srt: "sorts_by raw_key (sort_input T)" using T by (simp add: table_laws_def)
  have "distinct (map raw_key (ff_rows (with_outcomes f frame)))"
    using validate_input_Inr(2) [OF T rows'] by (auto simp: distinct_map inj_on_def raw_key_def)
  then have "sort_input T (ff_rows (with_outcomes f frame)) = map ?u (sort_input T (ff_rows frame))"
    by (intro sorts_by_unique [OF srt]) (simp_all add: with_outcomes_def raw_key_def)
  then have "list_all2 (\<lambda>r h'. history_of T (?u r) = Inr h') (sort_input T (ff_rows frame)) rows'"
    using validate_input_Inr(1) [OF T rows'] by (simp add: list_all2_map1)
  with validate_input_Inr(1) [OF T rows]
  have "list_all2 (\<lambda>r h. history_of T r = Inr h) (sort_input T (ff_rows frame)) rows
      \<and> list_all2 (\<lambda>r h'. history_of T (?u r) = Inr h') (sort_input T (ff_rows frame)) rows'" by simp
  then have nth: "length rows = length (sort_input T (ff_rows frame))" "length rows' = length rows"
    "\<And>i. i < length rows \<Longrightarrow> history_of T (sort_input T (ff_rows frame) ! i) = Inr (rows ! i)"
    "\<And>i. i < length rows \<Longrightarrow> history_of T (?u (sort_input T (ff_rows frame) ! i)) = Inr (rows' ! i)"
    by (simp_all add: list_all2_conv_all_nth)
  have agree: "agree_before b h h'"
    if r: "r \<in> set (sort_input T (ff_rows frame))" and h: "history_of T r = Inr h"
      and h': "history_of T (?u r) = Inr h'" for r h h'
  proof -
    have "h' = h" if "game_key h < b"
    proof -
      have "(rw_kickoff r, rw_game r) < (Some (fst b), Some (snd b))"
        using that history_of_Inr(2,3) [OF h] by (cases b) (auto simp: game_key_def)
      then have "f r = rw_actual r" using f r sorts_byD(2) [OF srt] by metis
      with h h' show ?thesis by simp
    qed
    then show ?thesis using history_of_outcome [OF h h'] by (simp add: agree_before_def)
  qed
  show ?thesis
    unfolding list_all2_conv_all_nth
  proof (intro conjI allI impI)
    show "agree_before b (rows ! i) (rows' ! i)" if "i < length rows" for i
      by (rule agree [OF nth_mem nth(3,4) [OF that]]) (use nth(1) that in simp)
  qed (simp add: nth(2))
qed

lemma list_all2_filter_eq:
  assumes "list_all2 R xs ys" and "\<And>x y. R x y \<Longrightarrow> P x = Q y" and "\<And>x y. R x y \<Longrightarrow> P x \<Longrightarrow> y = x"
  shows "filter Q ys = filter P xs"
  using assms(1)
proof (induction rule: list_all2_induct)
  case (Cons x xs y ys)
  with assms(2,3) [OF Cons(1)] show ?case by simp
qed simp

lemma earlier_agree:
  assumes "list_all2 (agree_before b) rows rows'" and "agree_before b h h'" and "game_key h \<le> b"
  shows "earlier rows' h' = earlier rows h"
  unfolding earlier_def agree_before_simps(1) [OF assms(2)]
proof (rule list_all2_filter_eq [OF assms(1)])
  show "(game_key x < game_key h) = (game_key y < game_key h)" if "agree_before b x y" for x y
    using agree_before_simps(1) [OF that] by simp
  show "y = x" if "agree_before b x y" "game_key x < game_key h" for x y
    using that assms(3) unfolding agree_before_def by (meson less_le_trans)
qed

lemma reference_agree:
  assumes "list_all2 (agree_before b) rows rows'" and "agree_before b h h'" and "game_key h \<le> b"
  shows "(reference T rows' h' name)\<lparr>pr_actual := z\<rparr> = (reference T rows h name)\<lparr>pr_actual := z\<rparr>"
proof -
  obtain a where h': "h' = h\<lparr>hr_actual := a\<rparr>" using assms(2) unfolding agree_before_def by blast
  have "baseline_of T l c (h\<lparr>hr_actual := a\<rparr>) name = baseline_of T l c h name" for l c
    by (cases name) (simp_all add: baseline_of_def)
  then show ?thesis
    using earlier_agree [OF assms] unfolding reference_def h'
    by (simp add: Let_def prediction_row_def split: prod.split)
qed

text \<open>The predictions for the games up to \<open>b\<close>, with the outcome they repeat hidden.\<close>

definition forecasts :: "int \<times> string \<Rightarrow> 'n \<Rightarrow> 'n prediction list \<Rightarrow> 'n prediction list" where
  "forecasts b z ps = map (\<lambda>p. p\<lparr>pr_actual := z\<rparr>) (filter (\<lambda>p. (pr_kickoff p, pr_game p) \<le> b) ps)"

lemma forecasts_references:
  "forecasts b z (references T names rows)
    = concat (map (\<lambda>r. map (\<lambda>n. (reference T rows r n)\<lparr>pr_actual := z\<rparr>) names)
        (filter (\<lambda>r. game_key r \<le> b) rows))"
proof -
  have "forecasts b z (concat (map (\<lambda>r. map (reference T all r) names) rows))
      = concat (map (\<lambda>r. map (\<lambda>n. (reference T all r n)\<lparr>pr_actual := z\<rparr>) names)
          (filter (\<lambda>r. game_key r \<le> b) rows))" for all
    by (induction rows) (auto simp: forecasts_def game_key_def filter_map o_def)
  then show ?thesis by (simp add: references_def)
qed

lemma forecasts_agree:
  assumes "list_all2 (agree_before b) rows rows'"
  shows "forecasts b z (references T names rows') = forecasts b z (references T names rows)"
proof -
  have "concat (map (\<lambda>r. map (\<lambda>n. (reference T rows' r n)\<lparr>pr_actual := z\<rparr>) names) (filter (\<lambda>r. game_key r \<le> b) ys))
      = concat (map (\<lambda>r. map (\<lambda>n. (reference T rows r n)\<lparr>pr_actual := z\<rparr>) names) (filter (\<lambda>r. game_key r \<le> b) xs))"
    if "list_all2 (agree_before b) xs ys" for xs ys
    using that
  proof (induction rule: list_all2_induct)
    case (Cons x xs y ys)
    then show ?case
      using reference_agree [OF assms Cons(1), of z T]
      by (cases "game_key x \<le> b") (simp_all add: agree_before_simps(1) [OF Cons(1)])
  qed simp
  from this [OF assms] show ?thesis unfolding forecasts_references .
qed

text \<open>Sorted by distinct keys, the predictions are determined as a multiset.\<close>

lemma forecasts_sorted:
  assumes T: "table_laws T" and d: "distinct (map output_key ps)" "distinct (map output_key qs)"
    and e: "forecasts b z ps = forecasts b z qs"
  shows "forecasts b z (sort_output T ps) = forecasts b z (sort_output T qs)"
proof (rule map_sorted_distinct_set_unique [of output_key])
  have k: "map output_key (forecasts b z xs) = map output_key (filter (\<lambda>p. (pr_kickoff p, pr_game p) \<le> b) xs)" for xs
    by (simp add: forecasts_def output_key_def)
  show s: "sorted (map output_key (forecasts b z (sort_output T ps)))"
    "sorted (map output_key (forecasts b z (sort_output T qs)))"
    unfolding k using sort_output_distinct(2) [OF T] by (simp_all add: sorted_filter)
  show "distinct (map output_key (forecasts b z (sort_output T ps)))"
    "distinct (map output_key (forecasts b z (sort_output T qs)))"
    unfolding k using sort_output_distinct(1) [OF T] d by (simp_all add: distinct_map_filter)
  have m: "set (forecasts b z (sort_output T xs)) = set (forecasts b z xs)" for xs
    using mset_eq_setD [OF sort_output_distinct(3) [OF T, of xs]] by (simp add: forecasts_def)
  show se: "set (forecasts b z (sort_output T ps)) = set (forecasts b z (sort_output T qs))"
    unfolding m e ..
  have "distinct (map output_key (forecasts b z qs))" unfolding k using d(2) by (simp add: distinct_map_filter)
  then show "inj_on output_key (set (forecasts b z (sort_output T ps)) \<union> set (forecasts b z (sort_output T qs)))"
    unfolding m e by (simp add: distinct_map)
qed

section \<open>A concrete table\<close>

text \<open>Whole numbers as cells, the sorts of the library of HOL.\<close>

definition whole_tools :: "(int, int) tools" where
  "whole_tools =
     \<lparr>strip_chars = filter (\<lambda>c. c \<noteq> CHR '' ''), cast_finite = Some, below_zero = (\<lambda>n. n < 0),
      float_sum = sum_list, float_div = (\<lambda>s n. s div int n), sort_input = sort_key raw_key,
      partition_games = partition_by hr_game, sort_output = sort_key output_key\<rparr>"

lemma whole_tools_laws: "table_laws whole_tools"
  by (simp add: table_laws_def whole_tools_def sorts_by_sort_key)

definition sample_row :: "string \<Rightarrow> string \<Rightarrow> int \<Rightarrow> int \<Rightarrow> int option \<Rightarrow> int raw_row" where
  "sample_row player game kickoff actual lag1 =
     \<lparr>rw_player = Some player, rw_game = Some game, rw_season = 2024, rw_kickoff = Some kickoff,
      rw_actual = Some actual, rw_lag1 = lag1, rw_roll3 = lag1, rw_roll5 = None, rw_season_mean = None\<rparr>"

text \<open>Two players meet in the first game; the other two games start at the same time.\<close>

definition sample_frame :: "int feature_frame" where
  "sample_frame =
     \<lparr>ff_columns = required_columns,
      ff_rows = [sample_row ''b'' ''g3'' 20 6 (Some 5), sample_row ''a'' ''g2'' 20 4 (Some 3),
                 sample_row ''b'' ''g1'' 10 5 None, sample_row ''a'' ''g1'' 10 3 None]\<rparr>"

definition sample_changed :: "int raw_row \<Rightarrow> int option" where
  "sample_changed r = (if rw_game r = Some ''g2'' then Some 10 else rw_actual r)"

definition sample_names :: "baseline_name list" where
  "sample_names = [LeagueMean, PreviousGame]"

text \<open>Player, game, baseline and prediction of each row of a result.\<close>

definition overview :: "int prediction list res \<Rightarrow> (string \<times> string \<times> baseline_name \<times> int option) list" where
  "overview m = (case m of Inl _ \<Rightarrow> []
     | Inr ps \<Rightarrow> map (\<lambda>p. (pr_player p, pr_game p, pr_baseline p, pr_prediction p)) ps)"

lemma sample_overview:
  "overview (build_predictions whole_tools sample_names sample_frame)
    = [(''a'', ''g1'', LeagueMean, None), (''a'', ''g1'', PreviousGame, None),
       (''b'', ''g1'', LeagueMean, None), (''b'', ''g1'', PreviousGame, None),
       (''a'', ''g2'', LeagueMean, Some 4), (''a'', ''g2'', PreviousGame, Some 3),
       (''b'', ''g3'', LeagueMean, Some 4), (''b'', ''g3'', PreviousGame, Some 5)]"
  by code_simp

text \<open>The games \<open>g2\<close> and \<open>g3\<close> start at the same time, and the league mean of \<open>g3\<close> reads the
  outcome of \<open>g2\<close>: a game that has not been completed before the kickoff it is predicted at.\<close>

lemma simultaneous_games:
  "rw_kickoff (sample_row ''b'' ''g3'' 20 6 (Some 5)) = rw_kickoff (sample_row ''a'' ''g2'' 20 4 (Some 3))
    \<and> overview (build_predictions whole_tools [LeagueMean] sample_frame)
      \<noteq> overview (build_predictions whole_tools [LeagueMean] (with_outcomes sample_changed sample_frame))"
  by code_simp

lemma sample_accepted:
  "is_ok (validate_input whole_tools sample_frame)"
  "is_ok (build_predictions whole_tools sample_names sample_frame)"
  "is_ok (build_predictions whole_tools sample_names (with_outcomes sample_changed sample_frame))"
  "one_kickoff sample_frame"
  "sample_names \<noteq> []" "distinct sample_names"
  by code_simp+

section \<open>The properties\<close>



text \<open>C36: no prediction sees the future.  Change the outcomes of a table in any way that keeps the
  outcomes of the games before a game \<open>b\<close>: whatever both tables predict for the game \<open>b\<close> and
  for the games before it is the same, up to the outcome that a row of the result repeats.\<close>

theorem baseline_no_future_outcome:
  assumes "table_laws T" and "one_kickoff frame"
    and "build_predictions T names frame = Inr out"
    and "build_predictions T names (with_outcomes f frame) = Inr out'"
    and "\<And>r. r \<in> set (ff_rows frame) \<Longrightarrow>
      (rw_kickoff r, rw_game r) < (Some (fst b), Some (snd b)) \<Longrightarrow> f r = rw_actual r"
  shows "forecasts b z out' = forecasts b z out"
proof -
  obtain rows rows' where n: "names \<noteq> []" "distinct names"
    and v: "validate_input T frame = Inr rows" "validate_input T (with_outcomes f frame) = Inr rows'"
    using assms(3,4) by (auto simp: build_predictions_def bindr_Inr_conv raise_if_Inr_conv)
  have one: "one_kickoff (with_outcomes f frame)"
    using assms(2) by (simp only: one_kickoff_with_outcomes)
  note agree = forecasts_agree [OF validate_with_outcomes [OF assms(1) v assms(5)], where z = z and T = T and names = names]
  have d: "distinct (map output_key (references T names rows))" "distinct (map output_key (references T names rows'))"
    by (rule references_distinct [OF validate_input_Inr(4) [OF assms(1) v(1)] n(2)])
      (rule references_distinct [OF validate_input_Inr(4) [OF assms(1) v(2)] n(2)])
  have "forecasts b z (sort_output T (references T names rows')) = forecasts b z (sort_output T (references T names rows))"
    by (rule forecasts_sorted [OF assms(1) d(2,1) agree])
  moreover have "out = sort_output T (references T names rows)" "out' = sort_output T (references T names rows')"
    using build_predictions_Inr [OF assms(1,2) v(1) n] build_predictions_Inr [OF assms(1) one v(2) n] assms(3,4)
    by simp_all
  ultimately show ?thesis by simp
qed

lemma baseline_no_future_outcome_witness:
  "\<exists>out out'. build_predictions whole_tools sample_names sample_frame = Inr out
    \<and> build_predictions whole_tools sample_names (with_outcomes sample_changed sample_frame) = Inr out'
    \<and> forecasts (20, ''g2'') 0 out' = forecasts (20, ''g2'') 0 out"
proof -
  obtain out out' where o: "build_predictions whole_tools sample_names sample_frame = Inr out"
    "build_predictions whole_tools sample_names (with_outcomes sample_changed sample_frame) = Inr out'"
    using sample_accepted(2,3) by (auto simp: is_ok_def split: sum.splits)
  have "forecasts (20, ''g2'') 0 out' = forecasts (20, ''g2'') 0 out"
    by (rule baseline_no_future_outcome [OF whole_tools_laws sample_accepted(4) o])
      (auto simp: sample_changed_def sample_frame_def sample_row_def)
  with o show ?thesis by blast
qed

end
