(* ===== verification/CohortTheorems.thy ===== *)
theory CohortTheorems
  imports Cohort BaselineTheorems
begin

text \<open>
  The properties of the governed cohort: every baseline is measured on the same rows, and the
  strongest baseline is the least by error and name.
\<close>

section \<open>Grouping\<close>

text \<open>What the loop has grouped after the rows \<open>ps\<close>.\<close>

definition grouped :: "'n prediction list \<Rightarrow> 'n grouping \<Rightarrow> bool" where
  "grouped ps g \<longleftrightarrow>
     distinct (gr_order g) \<and> set (gr_order g) = prediction_key ` {p \<in> set ps. pr_eligible p}
     \<and> (\<forall>k b p. gr_rows g k b = Some p \<longrightarrow>
          p \<in> set ps \<and> pr_eligible p \<and> prediction_key p = k \<and> pr_baseline p = b)
     \<and> (\<forall>p \<in> set ps. pr_eligible p \<longrightarrow> gr_rows g (prediction_key p) (pr_baseline p) \<noteq> None)"

lemma grouped_step:
  assumes "grouped ps g"
  shows "grouped (ps @ [p]) (group_row g p)"
proof (cases "pr_eligible p")
  case True
  let ?g = "group_row g p"
  have rows: "gr_rows ?g k b = (if k = prediction_key p \<and> b = pr_baseline p then Some p else gr_rows g k b)" for k b
    using True by (simp add: group_row_def Let_def)
  have order: "gr_order ?g = (if prediction_key p \<in> set (gr_order g) then gr_order g else gr_order g @ [prediction_key p])"
    using True by (simp add: group_row_def Let_def)
  have "set (gr_order ?g) = prediction_key ` {q \<in> set (ps @ [p]). pr_eligible q}"
    using assms True unfolding order grouped_def by auto
  moreover have "distinct (gr_order ?g)" using assms unfolding order grouped_def by simp
  ultimately show ?thesis using assms True unfolding grouped_def rows by auto
next
  case False
  then have "gr_order (group_row g p) = gr_order g" "gr_rows (group_row g p) = gr_rows g"
    by (simp_all add: group_row_def Let_def)
  moreover have "{q \<in> set (ps @ [p]). pr_eligible q} = {q \<in> set ps. pr_eligible q}" using False by auto
  ultimately show ?thesis using assms False unfolding grouped_def by auto
qed

lemma grouped_rows: "grouped ps (foldl group_row no_grouping ps)"
proof (induction ps rule: rev_induct)
  case Nil
  show ?case by (simp add: grouped_def no_grouping_def)
next
  case (snoc p ps)
  then show ?case using grouped_step [of ps _ p] by simp
qed

lemma complete_values_all: "complete_values all_baselines values \<longleftrightarrow> (\<forall>b. values b \<noteq> None)"
proof -
  have "b \<in> set all_baselines" for b by (cases b) (simp_all add: all_baselines_def)
  then show ?thesis by (auto simp: complete_values_def list_all_iff)
qed

lemma governed_names: "map bs_name baseline_specs = all_baselines"
  by (simp add: baseline_specs_def make_spec_def all_baselines_def)

lemma shared_rows_all:
  assumes "shared_rows ratio ps all_baselines = (shared, coverage)"
  shows "sorted (map fst shared)" and "distinct (map fst shared)"
    and "k \<in> fst ` set shared \<longleftrightarrow> (\<forall>b. \<exists>p \<in> set ps. pr_eligible p \<and> prediction_key p = k \<and> pr_baseline p = b)"
    and "(k, values) \<in> set shared \<Longrightarrow>
      \<exists>p \<in> set ps. values b = Some p \<and> pr_eligible p \<and> prediction_key p = k \<and> pr_baseline p = b"
proof -
  define g where "g = foldl group_row no_grouping ps"
  have all: "b \<in> set all_baselines" for b by (cases b) (simp_all add: all_baselines_def)
  have g: "grouped ps g" unfolding g_def by (rule grouped_rows)
  let ?keys = "filter (\<lambda>key. \<forall>b. gr_rows g key b \<noteq> None) (gr_order g)"
  have shared: "shared = map (\<lambda>key. (key, gr_rows g key)) (sort ?keys)"
    using assms by (simp add: shared_rows_def Let_def all complete_values_all g_def)
  then show "sorted (map fst shared)" "distinct (map fst shared)"
    using g by (simp_all add: o_def grouped_def)
  have some: "gr_rows g k b \<noteq> None \<longleftrightarrow> (\<exists>p \<in> set ps. pr_eligible p \<and> prediction_key p = k \<and> pr_baseline p = b)" for k b
    using g unfolding grouped_def by blast
  have "k \<in> fst ` set shared \<longleftrightarrow> k \<in> set (gr_order g) \<and> (\<forall>b. gr_rows g k b \<noteq> None)"
    unfolding shared by (auto simp: image_image)
  also have "\<dots> \<longleftrightarrow> (\<forall>b. gr_rows g k b \<noteq> None)"
    using some [of k LeagueMean] g by (auto simp: grouped_def)
  finally show "k \<in> fst ` set shared \<longleftrightarrow> (\<forall>b. \<exists>p \<in> set ps. pr_eligible p \<and> prediction_key p = k \<and> pr_baseline p = b)"
    unfolding some .
  show "\<exists>p \<in> set ps. values b = Some p \<and> pr_eligible p \<and> prediction_key p = k \<and> pr_baseline p = b"
    if "(k, values) \<in> set shared"
  proof -
    from that have v: "values = gr_rows g k" "\<forall>b. gr_rows g k b \<noteq> None" unfolding shared by auto
    then obtain p where p: "gr_rows g k b = Some p" by blast
    moreover have "p \<in> set ps \<and> pr_eligible p \<and> prediction_key p = k \<and> pr_baseline p = b"
      using g p unfolding grouped_def by blast
    ultimately show ?thesis unfolding v(1) by blast
  qed
qed

section \<open>The inputs of the metrics\<close>

lemma filter_key_unique:
  assumes "distinct (map f xs)" and "x \<in> set xs"
  shows "filter (\<lambda>y. f y = f x) xs = [x]"
  using assms by (induction xs) (auto simp: filter_empty_conv image_iff)

lemma metric_inputs_Inr:
  assumes "\<And>k values. (k, values) \<in> set shared \<Longrightarrow>
    \<exists>p x. values b = Some p \<and> pr_actual p = act k \<and> pr_prediction p = Some x"
  shows "\<exists>predictions. metric_inputs shared b = Inr (map (act \<circ> fst) shared, predictions)
    \<and> length predictions = length shared"
proof -
  have "mapr (\<lambda>(key, values). case values b of None \<Rightarrow> Inl KeyError | Some p \<Rightarrow> Inr (pr_actual p)) shared
      = Inr (map (act \<circ> fst) shared)"
    by (rule mapr_ident) (use assms in fastforce)
  moreover have "mapr (\<lambda>(key, values). case values b of None \<Rightarrow> Inl KeyError
       | Some p \<Rightarrow> (case pr_prediction p of None \<Rightarrow> Inl TypeError | Some x \<Rightarrow> Inr x)) shared
      = Inr (map (\<lambda>(k, values). the (pr_prediction (the (values b)))) shared)"
    by (rule mapr_ident) (use assms in fastforce)
  ultimately show ?thesis by (simp add: metric_inputs_def)
qed

lemma reference_eligible: "pr_eligible (reference T rows r name) \<Longrightarrow> pr_prediction (reference T rows r name) \<noteq> None"
  by (auto simp: reference_def prediction_row_def Let_def split: prod.splits if_splits)

lemma governed_cohortD:
  assumes "governed_cohort T ratio config keys frame = Inr (shared, coverage)"
    and "build_predictions T all_baselines frame = Inr out"
  obtains ps where "set ps = {p \<in> set out. in_period (ec_validation config) (pr_kickoff p)
      \<and> (case keys of None \<Rightarrow> True | Some ks \<Rightarrow> (Some (pr_player p), Some (pr_game p)) \<in> set (kf_rows ks))}"
    "shared_rows ratio ps all_baselines = (shared, coverage)" "ec_minimum_rows config \<le> int (length shared)"
proof (rule that)
  let ?ps = "filter (\<lambda>p. in_period (ec_validation config) (pr_kickoff p)
      \<and> (case keys of None \<Rightarrow> True | Some ks \<Rightarrow> (Some (pr_player p), Some (pr_game p)) \<in> set (kf_rows ks))) out"
  show "set ?ps = {p \<in> set out. in_period (ec_validation config) (pr_kickoff p)
      \<and> (case keys of None \<Rightarrow> True | Some ks \<Rightarrow> (Some (pr_player p), Some (pr_game p)) \<in> set (kf_rows ks))}"
    by (rule set_filter)
  show "shared_rows ratio ?ps all_baselines = (shared, coverage)" "ec_minimum_rows config \<le> int (length shared)"
    using assms by (cases keys; auto simp: governed_cohort_def governed_names bindr_Inr_conv raise_if_Inr_conv Let_def)+
qed

text \<open>C37: every baseline is judged on the same rows.  For an accepted table whose games have one
  kickoff each, the governed cohort is sorted by player and game without duplicates; it holds
  a player-game exactly when all seven baselines make an eligible prediction for it within the
  validation period and the keys the evaluation is restricted to; and the inputs of the metrics
  exist for every baseline, with the same outcomes in the same order and one prediction each.\<close>

theorem governed_cohort_shared:
  assumes "table_laws T" and "one_kickoff frame"
    and "build_predictions T all_baselines frame = Inr out"
    and "governed_cohort T ratio config keys frame = Inr (shared, coverage)"
  shows "sorted (map fst shared) \<and> distinct (map fst shared) \<and> ec_minimum_rows config \<le> int (length shared)
    \<and> (\<forall>player game. (player, game) \<in> fst ` set shared \<longleftrightarrow>
         (\<forall>b. \<exists>p \<in> set out. pr_eligible p \<and> pr_player p = player \<and> pr_game p = game \<and> pr_baseline p = b
            \<and> in_period (ec_validation config) (pr_kickoff p)
            \<and> (case keys of None \<Rightarrow> True | Some ks \<Rightarrow> (Some player, Some game) \<in> set (kf_rows ks))))
    \<and> (\<exists>actuals. \<forall>b. \<exists>predictions. metric_inputs shared b = Inr (actuals, predictions)
         \<and> length actuals = length shared \<and> length predictions = length shared)"
proof -
  obtain ps where ps: "set ps = {p \<in> set out. in_period (ec_validation config) (pr_kickoff p)
      \<and> (case keys of None \<Rightarrow> True | Some ks \<Rightarrow> (Some (pr_player p), Some (pr_game p)) \<in> set (kf_rows ks))}"
    and s: "shared_rows ratio ps all_baselines = (shared, coverage)" and m: "ec_minimum_rows config \<le> int (length shared)"
    by (rule governed_cohortD [OF assms(4,3)])
  obtain rows where rows: "validate_input T frame = Inr rows"
    using assms(3) by (auto simp: build_predictions_def bindr_Inr_conv)
  have "distinct all_baselines" "all_baselines \<noteq> []" by (simp_all add: all_baselines_def)
  then have "out = sort_output T (references T all_baselines rows)"
    using build_predictions_Inr [OF assms(1,2) rows, of all_baselines] assms(3) by simp
  then have out: "set out = set (references T all_baselines rows)"
    using mset_eq_setD [OF sort_output_distinct(3) [OF assms(1)]] by simp
  define act where "act k = hr_actual (hd (filter (\<lambda>r. (hr_player r, hr_game r) = k) rows))" for k
  have act: "pr_actual p = act (prediction_key p)" "pr_eligible p \<Longrightarrow> pr_prediction p \<noteq> None" if p: "p \<in> set out" for p
  proof -
    from p out obtain r b where r: "r \<in> set rows" "p = reference T rows r b" by (auto simp: references_def)
    have "filter (\<lambda>q. (hr_player q, hr_game q) = (hr_player r, hr_game r)) rows = [r]"
      using validate_input_Inr(4) [OF assms(1) rows] r(1) by (rule filter_key_unique)
    then show "pr_actual p = act (prediction_key p)" by (simp add: act_def prediction_key_def r(2))
    show "pr_prediction p \<noteq> None" if "pr_eligible p" using reference_eligible that r(2) by blast
  qed
  have inputs: "\<exists>predictions. metric_inputs shared b = Inr (map (act \<circ> fst) shared, predictions)
      \<and> length predictions = length shared" for b
  proof (rule metric_inputs_Inr)
    fix k vs assume "(k, vs) \<in> set shared"
    from shared_rows_all(4) [OF s this, of b] obtain p
      where "p \<in> set ps" "vs b = Some p" "pr_eligible p" "prediction_key p = k" by blast
    then show "\<exists>p x. vs b = Some p \<and> pr_actual p = act k \<and> pr_prediction p = Some x"
      using act [of p] ps by auto
  qed
  have "(player, game) \<in> fst ` set shared \<longleftrightarrow>
         (\<forall>b. \<exists>p \<in> set out. pr_eligible p \<and> pr_player p = player \<and> pr_game p = game \<and> pr_baseline p = b
            \<and> in_period (ec_validation config) (pr_kickoff p)
            \<and> (case keys of None \<Rightarrow> True | Some ks \<Rightarrow> (Some player, Some game) \<in> set (kf_rows ks)))" for player game
    unfolding shared_rows_all(3) [OF s] ps prediction_key_def by (intro iff_allI) (auto simp: prediction_key_def)
  moreover have "\<exists>actuals. \<forall>b. \<exists>predictions. metric_inputs shared b = Inr (actuals, predictions)
      \<and> length actuals = length shared \<and> length predictions = length shared"
    using inputs by (intro exI [of _ "map (act \<circ> fst) shared"]) simp
  ultimately show ?thesis
    using shared_rows_all(1,2) [OF s] m by (intro conjI allI)
qed

text \<open>The rows of one player with every history a baseline needs, judged over a period that
  holds the second of them.\<close>

definition cohort_frame :: "int feature_frame" where
  "cohort_frame = sample_frame\<lparr>ff_rows :=
     map (\<lambda>r. r\<lparr>rw_roll5 := rw_lag1 r, rw_season_mean := rw_lag1 r\<rparr>) (filter (\<lambda>r. rw_player r = Some ''b'') (ff_rows sample_frame))\<rparr>"

definition cohort_config :: evaluation_config where
  "cohort_config =
     \<lparr>ec_schema_version = ''1.0'', ec_training = \<lparr>pd_start = utc 0, pd_end = utc 14\<rparr>,
      ec_validation = \<lparr>pd_start = utc 15, pd_end = utc 100\<rparr>, ec_calibration_line = 9 / 2,
      ec_poisson_epsilon = 1, ec_minimum_rows = 1, ec_error_report_limit = 10,
      ec_rookie_max_prior_games = 16, ec_high_volume_targets = 7, ec_early_season_last_week = 8,
      ec_post_bye_minimum_rest_days = 13, ec_protocol = default_protocol\<rparr>"

lemma cohort_accepted:
  "is_ok (governed_cohort whole_tools (\<lambda>a b. int a) cohort_config None cohort_frame)"
  "one_kickoff cohort_frame"
  by code_simp+

lemma governed_cohort_shared_witness:
  "\<exists>shared coverage actuals predictions.
     governed_cohort whole_tools (\<lambda>a b. int a) cohort_config None cohort_frame = Inr (shared, coverage)
     \<and> metric_inputs shared CareerAverage = Inr (actuals, predictions) \<and> 1 \<le> length actuals"
proof -
  obtain r where "governed_cohort whole_tools (\<lambda>a b. int a) cohort_config None cohort_frame = Inr r"
    using cohort_accepted(1) by (auto simp: is_ok_def split: sum.splits)
  moreover from this obtain out where "build_predictions whole_tools all_baselines cohort_frame = Inr out"
    by (auto simp: governed_cohort_def bindr_Inr_conv)
  ultimately obtain out where o: "build_predictions whole_tools all_baselines cohort_frame = Inr out"
    "governed_cohort whole_tools (\<lambda>a b. int a) cohort_config None cohort_frame = Inr r" by blast
  obtain shared coverage where r: "r = (shared, coverage)" by (cases r)
  have "ec_minimum_rows cohort_config \<le> int (length shared) \<and> (\<exists>actuals. \<forall>b. \<exists>predictions.
      metric_inputs shared b = Inr (actuals, predictions) \<and> length actuals = length shared
      \<and> length predictions = length shared)"
    using governed_cohort_shared [OF whole_tools_laws cohort_accepted(2) o [unfolded r]] by (elim conjE) (intro conjI)
  then obtain actuals where a: "\<forall>b. \<exists>predictions. metric_inputs shared b = Inr (actuals, predictions)
      \<and> length actuals = length shared \<and> length predictions = length shared" and n: "1 \<le> length shared"
    by (auto simp: cohort_config_def)
  obtain predictions where "metric_inputs shared CareerAverage = Inr (actuals, predictions)"
      "length actuals = length shared"
    using spec [OF a, of CareerAverage] by blast
  with o(2) r n show ?thesis by auto
qed

section \<open>The strongest baseline\<close>

lemma min_by_least: "min_by key best xs \<in> set (best # xs) \<and> (\<forall>x \<in> set (best # xs). key (min_by key best xs) \<le> key x)"
proof (induction xs arbitrary: best)
  case (Cons y ys)
  from Cons [of y] Cons [of best] show ?case by (auto simp: not_less intro: order_trans less_imp_le)
qed simp

definition strength :: "(baseline_name \<Rightarrow> metric_summary option) \<Rightarrow> baseline_name \<Rightarrow> rat \<times> string" where
  "strength metrics n = (case metrics n of None \<Rightarrow> 0 | Some m \<Rightarrow> ms_mae m, baseline_value n)"

lemma select_strongest_Inr:
  assumes "select_strongest protocol metrics xs = Inr b"
  shows "b \<in> set xs" and "\<forall>a \<in> set xs. metrics a \<noteq> None \<and> strength metrics b \<le> strength metrics a"
proof -
  obtain x ys where xs: "xs = x # ys" and b: "b = min_by (strength metrics) x ys"
    using assms by (auto simp: select_strongest_def strength_def [abs_def] bindr_Inr_conv split: list.splits)
  from min_by_least [of "strength metrics" x ys] show "b \<in> set xs" unfolding xs b by blast
  have "\<forall>a \<in> set xs. metrics a \<noteq> None"
    using assms by (auto simp: select_strongest_def bindr_Inr_conv raise_if_Inr_conv list_ex_iff)
  with min_by_least [of "strength metrics" x ys]
  show "\<forall>a \<in> set xs. metrics a \<noteq> None \<and> strength metrics b \<le> strength metrics a" unfolding xs b by blast
qed

lemma governance_v1_metric:
  assumes "governance_v1 version_text = Inr g"
  shows "ep_baseline_selection_metric (gp_protocol g) = MAE"
proof -
  obtain p where p: "make_protocol version_text default_protocol = Inr p" "gp_protocol g = p"
    using assms by (auto simp: governance_v1_def bindr_Inr_conv dest!: make_policy_Inr(1))
  then show ?thesis by (simp add: make_protocol_Inr)
qed

lemma select_strongest_eq:
  assumes "governance_v1 version_text = Inr g"
  shows "select_strongest (gp_protocol g) metrics xs =
    (if xs = [] \<or> (\<exists>a \<in> set xs. metrics a = None) then Inl ValueError
     else Inr (min_by (strength metrics) (hd xs) (tl xs)))"
  using governance_v1_metric [OF assms]
  by (cases xs) (auto simp: select_strongest_def strength_def [abs_def] raise_if_def list_ex_iff)

text \<open>C38: the strongest baseline does not depend on the order of a set.  Under the protocol of
  \<open>GOVERNANCE_V1\<close>, a selection raises \<open>ValueError\<close> exactly when the hierarchy is empty or the
  metrics of one of its baselines are missing.  Otherwise the selected baseline belongs to the
  hierarchy, none has a smaller mean absolute error, of those with the same error it has the
  first name, and every listing of the same hierarchy selects it.\<close>

theorem strongest_baseline_unique:
  assumes "governance_v1 version_text = Inr g"
  shows "if xs = [] \<or> (\<exists>a \<in> set xs. metrics a = None)
    then select_strongest (gp_protocol g) metrics xs = Inl ValueError
    else \<exists>b \<in> set xs. (\<forall>ys. set ys = set xs \<longrightarrow> select_strongest (gp_protocol g) metrics ys = Inr b)
      \<and> (\<forall>a \<in> set xs. \<exists>m n. metrics a = Some m \<and> metrics b = Some n
           \<and> (ms_mae n < ms_mae m \<or> ms_mae n = ms_mae m \<and> baseline_value b \<le> baseline_value a))"
proof (cases "xs = [] \<or> (\<exists>a \<in> set xs. metrics a = None)")
  case True
  then show ?thesis by (simp add: select_strongest_eq [OF assms])
next
  case False
  then obtain b where b: "select_strongest (gp_protocol g) metrics xs = Inr b"
    by (simp add: select_strongest_eq [OF assms])
  note least = select_strongest_Inr [OF b]
  have "select_strongest (gp_protocol g) metrics ys = Inr b" if ys: "set ys = set xs" for ys
  proof -
    have "\<not> (ys = [] \<or> (\<exists>a \<in> set ys. metrics a = None))" using ys False by (cases ys) simp_all
    then obtain c where c: "select_strongest (gp_protocol g) metrics ys = Inr c"
      by (simp add: select_strongest_eq [OF assms])
    from select_strongest_Inr [OF c] least ys have "strength metrics b \<le> strength metrics c"
      "strength metrics c \<le> strength metrics b" by simp_all
    then have "strength metrics b = strength metrics c" by (rule antisym)
    then have "b = c" by (simp add: strength_def baseline_value_inj)
    with c show ?thesis by simp
  qed
  moreover have "\<exists>m n. metrics a = Some m \<and> metrics b = Some n
      \<and> (ms_mae n < ms_mae m \<or> ms_mae n = ms_mae m \<and> baseline_value b \<le> baseline_value a)" if "a \<in> set xs" for a
    using least that by (cases "metrics a"; cases "metrics b") (auto simp: strength_def less_eq_prod_def)
  ultimately show ?thesis using False least(1) by (simp only: if_False) blast
qed

definition sample_metrics :: "baseline_name \<Rightarrow> metric_summary option" where
  "sample_metrics name =
     Some \<lparr>ms_mae = (if name = Rolling5 \<or> name = PoissonRate then 1 else 2), ms_calibration_error = 0,
       ms_poisson_deviance = 1, ms_rmse = 2, ms_bias = 0, ms_coverage = 1, ms_prediction_variance = 1,
       ms_sample_count = 4\<rparr>"

lemma strongest_baseline_unique_witness:
  "\<exists>g. governance_v1 (\<lambda>s. s = ''1.0'') = Inr g
    \<and> select_strongest (gp_protocol g) sample_metrics governed_hierarchy
      = select_strongest (gp_protocol g) sample_metrics (rev governed_hierarchy)"
proof -
  obtain g where g: "governance_v1 (\<lambda>s. s = ''1.0'') = Inr g"
    by (rule governance_v1_Inr [of "\<lambda>s. s = ''1.0''"]) simp
  have h: "\<not> (governed_hierarchy = [] \<or> (\<exists>a \<in> set governed_hierarchy. sample_metrics a = None))"
    by (simp add: governed_hierarchy_def sample_metrics_def)
  from strongest_baseline_unique [OF g, of governed_hierarchy sample_metrics, unfolded if_not_P [OF h]]
  obtain b where b: "\<forall>ys. set ys = set governed_hierarchy
      \<longrightarrow> select_strongest (gp_protocol g) sample_metrics ys = Inr b" by blast
  then have "select_strongest (gp_protocol g) sample_metrics governed_hierarchy = Inr b"
    "select_strongest (gp_protocol g) sample_metrics (rev governed_hierarchy) = Inr b" by simp_all
  with g show ?thesis by simp
qed

end
