(* ===== verification/RollingTheorems.thy ===== *)
theory RollingTheorems
  imports Rolling CohortTheorems
begin

text \<open>
  The windows of an accepted rolling configuration: training before evaluation, evaluation
  periods that do not overlap, training that grows by the windows before, and no row held out
  twice.
\<close>

section \<open>Accepted configurations\<close>

text \<open>A period that the constructor of \<open>EvaluationPeriod\<close> has returned.\<close>

definition period_built :: "evaluation_period \<Rightarrow> bool" where
  "period_built p \<longleftrightarrow> make_period (pd_start p) (pd_end p) = Inr p"

lemma period_builtD:
  assumes "period_built p"
  shows "utcoffset (pd_start p) \<noteq> None" and "utcoffset (pd_end p) \<noteq> None"
    and "instant_of (pd_start p) \<le> instant_of (pd_end p)"
  using assms by (auto simp: period_built_def make_period_def bindr_Inr_conv raise_if_Inr_conv)

lemma check_windows_Inr:
  assumes "check_windows t0 prev ws = Inr u" and "\<forall>w \<in> set ws. period_built (rl_period w)"
  shows "\<forall>w \<in> set ws. t0 < window_start w \<and> (\<forall>e. prev = Some e \<longrightarrow> e < window_start w)"
    and "sorted_wrt (\<lambda>v w. window_end v < window_start w) ws"
proof -
  have "(\<forall>w \<in> set ws. t0 < window_start w \<and> (\<forall>e. prev = Some e \<longrightarrow> e < window_start w))
      \<and> sorted_wrt (\<lambda>v w. window_end v < window_start w) ws"
    using assms
  proof (induction ws arbitrary: prev)
    case (Cons w ws)
    then have "t0 < window_start w" "\<forall>e. prev = Some e \<longrightarrow> e < window_start w"
      and c: "check_windows t0 (Some (window_end w)) ws = Inr u"
      by (auto simp: bindr_Inr_conv raise_if_Inr_conv split: option.splits)
    moreover have "window_start w \<le> window_end w" using Cons.prems(2) period_builtD(3) by simp
    moreover note Cons.IH [OF c]
    ultimately show ?case using Cons.prems(2) by fastforce
  qed simp
  then show "\<forall>w \<in> set ws. t0 < window_start w \<and> (\<forall>e. prev = Some e \<longrightarrow> e < window_start w)"
    and "sorted_wrt (\<lambda>v w. window_end v < window_start w) ws" by blast+
qed

lemma rolling_configD:
  assumes "make_rolling_config c = Inr c'" and "\<forall>w \<in> set (rg_windows c). period_built (rl_period w)"
  shows "utcoffset (rg_training_start c) \<noteq> None"
    and "\<And>w. w \<in> set (rg_windows c) \<Longrightarrow> instant_of (rg_training_start c) < window_start w"
    and "sorted_wrt (\<lambda>v w. window_end v < window_start w) (rg_windows c)"
proof -
  have c: "utcoffset (rg_training_start c) \<noteq> None"
      "check_windows (instant_of (rg_training_start c)) None (rg_windows c) = Inr ()"
    using assms(1) by (auto simp: make_rolling_config_def bindr_Inr_conv raise_if_Inr_conv Let_def)
  then show "utcoffset (rg_training_start c) \<noteq> None" by simp
  show "instant_of (rg_training_start c) < window_start w" if "w \<in> set (rg_windows c)" for w
    using check_windows_Inr(1) [OF c(2) assms(2)] that by blast
  show "sorted_wrt (\<lambda>v w. window_end v < window_start w) (rg_windows c)"
    by (rule check_windows_Inr(2) [OF c(2) assms(2)])
qed

text \<open>The training period of a window.\<close>

definition training_period :: "rolling_config \<Rightarrow> rolling_window \<Rightarrow> evaluation_period" where
  "training_period c w =
     \<lparr>pd_start = rg_training_start c, pd_end = before_microsecond (pd_start (rl_period w))\<rparr>"

lemma instant_before_microsecond: "instant_of (before_microsecond t) = instant_of t - 1"
  by (simp add: instant_of_def before_microsecond_def split: option.splits)

lemma utcoffset_before_microsecond [simp]: "utcoffset (before_microsecond t) = utcoffset t"
  by (simp add: before_microsecond_def)

lemma training_period_simps [simp]:
  "pd_start (training_period c w) = rg_training_start c"
  "instant_of (pd_end (training_period c w)) = window_start w - 1"
  by (simp_all add: training_period_def instant_before_microsecond)

lemma period_for_window_Inr:
  assumes "make_rolling_config c = Inr c'" and "\<forall>w \<in> set (rg_windows c). period_built (rl_period w)"
    and "w \<in> set (rg_windows c)"
  shows "period_for_window c w = Inr (training_period c w)" and "period_built (training_period c w)"
proof -
  have "utcoffset (pd_start (rl_period w)) \<noteq> None" using assms(2,3) period_builtD by blast
  then have "make_period (rg_training_start c) (before_microsecond (pd_start (rl_period w)))
      = Inr (training_period c w)"
    using rolling_configD(1) [OF assms(1,2)] rolling_configD(2) [OF assms(1,2,3)]
    by (simp add: make_period_def training_period_def instant_before_microsecond raise_if_def)
  then show "period_for_window c w = Inr (training_period c w)" "period_built (training_period c w)"
    by (simp_all add: period_for_window_def period_built_def training_period_def)
qed

section \<open>The split\<close>

text \<open>A row whose kickoff lies in a period.\<close>

definition kicks_off_in :: "evaluation_period \<Rightarrow> 'c raw_row \<Rightarrow> bool" where
  "kicks_off_in p r \<longleftrightarrow> (\<exists>k. rw_kickoff r = Some k \<and> in_period p k)"

lemma period_boundaries_Inr:
  assumes "period_boundaries naive p = Inr (s, e)"
  shows "instant_of s = instant_of (pd_start p)" and "instant_of e = instant_of (pd_end p)"
  using assms
  by (auto simp: period_boundaries_def bindr_Inr_conv raise_if_Inr_conv instant_of_def split: if_splits)

lemma chronological_split_Inr:
  assumes "table_laws T" and "chronological_split T naive frame training evaluation = Inr (tr, ev)"
  shows "set tr = {r \<in> set (ff_rows frame). kicks_off_in training r}"
    and "set ev = {r \<in> set (ff_rows frame). kicks_off_in evaluation r}"
proof -
  have srt: "sorts_by raw_key (sort_input T)" using assms(1) by (simp add: table_laws_def)
  have between: "kickoff_between s e r = kicks_off_in p r" if "period_boundaries naive p = Inr (s, e)" for p s e r
    using period_boundaries_Inr [OF that]
    by (simp add: kickoff_between_def kicks_off_in_def in_period_def split: option.splits)
  from assms(2) obtain s e s' e' where b: "period_boundaries naive training = Inr (s, e)"
      "period_boundaries naive evaluation = Inr (s', e')"
      "tr = sort_input T (filter (kickoff_between s e) (ff_rows frame))"
      "ev = sort_input T (filter (kickoff_between s' e') (ff_rows frame))"
    by (auto simp: chronological_split_def bindr_Inr_conv raise_if_Inr_conv Let_def)
  show "set tr = {r \<in> set (ff_rows frame). kicks_off_in training r}"
    unfolding b(3) sorts_byD(2) [OF srt] by (auto simp: between [OF b(1)])
  show "set ev = {r \<in> set (ff_rows frame). kicks_off_in evaluation r}"
    unfolding b(4) sorts_byD(2) [OF srt] by (auto simp: between [OF b(2)])
qed

section \<open>Rows that are held out\<close>

definition row_key :: "'c raw_row \<Rightarrow> player_game" where
  "row_key r = (cell_text (rw_player r), cell_text (rw_game r))"

lemma ordered_window_keys_Inr:
  assumes "table_laws T" and "ordered_window_keys T ratio naive has_features frame config = Inr keys"
  shows "set keys \<subseteq> row_key ` {r \<in> set (ff_rows frame). kicks_off_in (ec_validation config) r}"
    and "\<exists>rows. validate_input T frame = Inr rows"
proof -
  obtain tr ev shared coverage ks where s: "chronological_split T naive frame (ec_training config) (ec_validation config) = Inr (tr, ev)"
    and g: "governed_cohort T ratio config (Some ks) frame = Inr (shared, coverage)"
    and k: "keys = filter (\<lambda>key. key \<in> set (map fst shared)) (map row_key (filter has_features ev))"
    using assms(2) by (auto simp: ordered_window_keys_def bindr_Inr_conv Let_def row_key_def [abs_def])
  show "set keys \<subseteq> row_key ` {r \<in> set (ff_rows frame). kicks_off_in (ec_validation config) r}"
    using chronological_split_Inr(2) [OF assms(1) s] unfolding k by auto
  show "\<exists>rows. validate_input T frame = Inr rows"
    using g by (auto simp: governed_cohort_def build_predictions_def bindr_Inr_conv)
qed

text \<open>In an accepted table the key of a row is the row.\<close>

lemma row_key_unique:
  assumes "table_laws T" and "validate_input T frame = Inr rows"
    and "r \<in> set (ff_rows frame)" and "q \<in> set (ff_rows frame)" and "row_key r = row_key q"
  shows "r = q"
proof -
  have srt: "sorts_by raw_key (sort_input T)" using assms(1) by (simp add: table_laws_def)
  have "rw_player x \<noteq> None \<and> rw_game x \<noteq> None" if "x \<in> set (ff_rows frame)" for x
    using assms(2) that
    by (auto simp: validate_input_def bindr_Inr_conv raise_if_Inr_conv Let_def list_ex_iff
        sorts_byD(2) [OF srt] null_or_empty_def simp del: mapr.simps split: option.splits)
  from this [OF assms(3)] this [OF assms(4)] assms(5)
  have "(rw_player r, rw_game r) = (rw_player q, rw_game q)"
    by (auto simp: row_key_def cell_text_def split: option.splits)
  then show ?thesis
    using validate_input_Inr(2) [OF assms(1,2)] assms(3,4) by (auto simp: distinct_map dest: inj_onD)
qed

lemma window_config_Inr:
  assumes "make_rolling_config c = Inr c'" and "\<forall>w \<in> set (rg_windows c). period_built (rl_period w)"
    and "w \<in> set (rg_windows c)"
  shows "window_config c w
    = Inr ((rg_baseline c)\<lparr>ec_training := training_period c w, ec_validation := rl_period w\<rparr>)"
  by (simp add: window_config_def period_for_window_Inr(1) [OF assms])

text \<open>The guard of the loop never raises: keys that were held out belong to rows that kicked off
  before the windows still to come.\<close>

definition held_out ::
  "('c, 'n) tools \<Rightarrow> (nat \<Rightarrow> nat \<Rightarrow> 'f) \<Rightarrow> bool \<Rightarrow> ('c raw_row \<Rightarrow> bool) \<Rightarrow> 'c feature_frame \<Rightarrow> rolling_config
    \<Rightarrow> rolling_window \<Rightarrow> player_game list res"
where
  "held_out T ratio naive has_features frame c w =
     bindr (window_config c w) (ordered_window_keys T ratio naive has_features frame)"

lemma pool_windows_held_out:
  assumes T: "table_laws T" and c: "make_rolling_config c = Inr c'"
    and built: "\<forall>w \<in> set (rg_windows c). period_built (rl_period w)"
    and "set ws \<subseteq> set (rg_windows c)" and "sorted_wrt (\<lambda>v w. window_end v < window_start w) ws"
    and "pooled \<subseteq> row_key ` {r \<in> set (ff_rows frame). \<exists>k. rw_kickoff r = Some k \<and> (\<forall>w \<in> set ws. k < window_start w)}"
  shows "pool_windows T ratio naive has_features frame c pooled ws
    = mapr (held_out T ratio naive has_features frame c) ws"
  using assms(4-)
proof (induction ws arbitrary: pooled)
  case (Cons w ws)
  let ?config = "(rg_baseline c)\<lparr>ec_training := training_period c w, ec_validation := rl_period w\<rparr>"
  have w: "window_config c w = Inr ?config" using Cons.prems(1) by (intro window_config_Inr [OF c built]) simp
  show ?case
  proof (cases "ordered_window_keys T ratio naive has_features frame ?config")
    case (Inl e)
    then show ?thesis by (simp add: held_out_def w)
  next
    case (Inr keys)
    from ordered_window_keys_Inr(1) [OF T Inr]
    have keys: "set keys \<subseteq> row_key ` {r \<in> set (ff_rows frame). kicks_off_in (rl_period w) r}" by simp
    obtain rows where v: "validate_input T frame = Inr rows" using ordered_window_keys_Inr(2) [OF T Inr] by blast
    have "pooled \<inter> set keys = {}"
    proof (rule ccontr)
      assume "pooled \<inter> set keys \<noteq> {}"
      then obtain key where "key \<in> pooled" "key \<in> set keys" by blast
      from subsetD [OF Cons.prems(3) this(1)] obtain r k where r: "r \<in> set (ff_rows frame)" "key = row_key r"
        "rw_kickoff r = Some k" "k < window_start w" by auto
      from subsetD [OF keys \<open>key \<in> set keys\<close>] obtain q where q: "q \<in> set (ff_rows frame)" "key = row_key q"
        "kicks_off_in (rl_period w) q" by auto
      have "row_key r = row_key q" using r(2) q(2) by simp
      then have "r = q" by (rule row_key_unique [OF T v r(1) q(1)])
      with r(3,4) q(3) show False by (auto simp: kicks_off_in_def in_period_def)
    qed
    moreover have "pool_windows T ratio naive has_features frame c (pooled \<union> set keys) ws
        = mapr (held_out T ratio naive has_features frame c) ws"
    proof (rule Cons.IH)
      have "{r \<in> set (ff_rows frame). kicks_off_in (rl_period w) r}
          \<subseteq> {r \<in> set (ff_rows frame). \<exists>k. rw_kickoff r = Some k \<and> (\<forall>w \<in> set ws. k < window_start w)}"
        using Cons.prems(2) by (fastforce simp: kicks_off_in_def in_period_def)
      moreover have "{r \<in> set (ff_rows frame). \<exists>k. rw_kickoff r = Some k \<and> (\<forall>x \<in> set (w # ws). k < window_start x)}
          \<subseteq> {r \<in> set (ff_rows frame). \<exists>k. rw_kickoff r = Some k \<and> (\<forall>w \<in> set ws. k < window_start w)}" by auto
      ultimately show "pooled \<union> set keys \<subseteq> row_key ` {r \<in> set (ff_rows frame).
          \<exists>k. rw_kickoff r = Some k \<and> (\<forall>w \<in> set ws. k < window_start w)}"
        using keys Cons.prems(3) by (meson Un_least image_mono subset_trans)
    qed (use Cons.prems in simp_all)
    moreover have "held_out T ratio naive has_features frame c w = Inr keys"
      using Inr by (simp add: held_out_def w)
    ultimately show ?thesis using Inr by (simp add: w)
  qed
qed simp

section \<open>The properties\<close>

text \<open>C39: rolling windows never train on what they hold out.  In an accepted configuration every
  window has a training period that ends one microsecond before the window begins.  Take two
  windows, one before the other, and the chronological splits of the same table for them: in
  each every training row kicks off before every held-out row; no row is held out by both; the
  later training rows include the training and the held-out rows of the earlier window; and
  nothing the later window holds out was trained on.  The guard of the evaluation against a
  row that is held out twice never raises.\<close>

theorem rolling_windows_held_out:
  assumes "table_laws T" and "make_rolling_config c = Inr c'"
    and "\<forall>w \<in> set (rg_windows c). period_built (rl_period w)"
    and "i < j" and "j < length (rg_windows c)"
    and "bindr (period_for_window c (rg_windows c ! i)) (\<lambda>p.
      chronological_split T naive frame p (rl_period (rg_windows c ! i))) = Inr (train_i, eval_i)"
    and "bindr (period_for_window c (rg_windows c ! j)) (\<lambda>p.
      chronological_split T naive frame p (rl_period (rg_windows c ! j))) = Inr (train_j, eval_j)"
  shows "(\<forall>w \<in> set (rg_windows c). \<exists>p. period_for_window c w = Inr p \<and> pd_start p = rg_training_start c
        \<and> instant_of (pd_end p) = window_start w - 1)
    \<and> (\<forall>r \<in> set train_i. \<forall>q \<in> set eval_i. rw_kickoff r < rw_kickoff q)
    \<and> (\<forall>r \<in> set train_j. \<forall>q \<in> set eval_j. rw_kickoff r < rw_kickoff q)
    \<and> set eval_i \<inter> set eval_j = {} \<and> set train_i \<union> set eval_i \<subseteq> set train_j
    \<and> (set train_i \<union> set train_j) \<inter> set eval_j = {}
    \<and> pool_windows T ratio naive has_features frame c {} (rg_windows c)
        = mapr (held_out T ratio naive has_features frame c) (rg_windows c)"
proof -
  let ?v = "rg_windows c ! i" and ?w = "rg_windows c ! j"
  have v: "?v \<in> set (rg_windows c)" and w: "?w \<in> set (rg_windows c)" using assms(4,5) by simp_all
  note periods = period_for_window_Inr [OF assms(2,3)]
  note starts = rolling_configD(2) [OF assms(2,3)]
  have apart: "window_end ?v < window_start ?w"
    using rolling_configD(3) [OF assms(2,3)] assms(4,5) by (auto simp: sorted_wrt_iff_nth_less)
  have ends: "window_start ?v \<le> window_end ?v" using assms(3) v by (simp add: period_builtD(3))
  have si: "chronological_split T naive frame (training_period c ?v) (rl_period ?v) = Inr (train_i, eval_i)"
    using assms(6) by (simp add: periods(1) [OF v])
  have sj: "chronological_split T naive frame (training_period c ?w) (rl_period ?w) = Inr (train_j, eval_j)"
    using assms(7) by (simp add: periods(1) [OF w])
  note rows = chronological_split_Inr [OF assms(1) si] chronological_split_Inr [OF assms(1) sj]
  have before: "rw_kickoff r < rw_kickoff q"
    if "kicks_off_in (training_period c x) r" "kicks_off_in (rl_period x) q" for x r q
    using that by (auto simp: kicks_off_in_def in_period_def)
  have "set eval_i \<inter> set eval_j = {}" "set train_i \<union> set eval_i \<subseteq> set train_j"
    "(set train_i \<union> set train_j) \<inter> set eval_j = {}"
    unfolding rows using apart ends starts [OF v]
    by (fastforce simp: kicks_off_in_def in_period_def)+
  moreover have "pool_windows T ratio naive has_features frame c {} (rg_windows c)
      = mapr (held_out T ratio naive has_features frame c) (rg_windows c)"
    by (rule pool_windows_held_out [OF assms(1-3) subset_refl rolling_configD(3) [OF assms(2,3)]]) simp
  moreover have "\<forall>x \<in> set (rg_windows c). \<exists>p. period_for_window c x = Inr p \<and> pd_start p = rg_training_start c
      \<and> instant_of (pd_end p) = window_start x - 1"
    using periods(1) by fastforce
  ultimately show ?thesis unfolding rows using before by blast
qed

text \<open>Two windows over three games.\<close>

definition rolling_frame :: "int feature_frame" where
  "rolling_frame =
     \<lparr>ff_columns = required_columns,
      ff_rows = [sample_row ''b'' ''g3'' 30 6 (Some 5), sample_row ''b'' ''g2'' 20 4 (Some 3),
                 sample_row ''b'' ''g1'' 10 5 None]\<rparr>"

definition rolling_sample :: rolling_config where
  "rolling_sample =
     \<lparr>rg_schema_version = ''1.0'', rg_protocol_version = ''1.0'', rg_training_start = utc 0,
      rg_windows =
        [\<lparr>rl_id = ''first'', rl_period = \<lparr>pd_start = utc 15, pd_end = PyTime 7200000025 (Some 7200000000)\<rparr>\<rparr>,
         \<lparr>rl_id = ''second'', rl_period = \<lparr>pd_start = utc 26, pd_end = utc 40\<rparr>\<rparr>],
      rg_baseline = cohort_config\<rparr>"

definition sample_split :: "nat \<Rightarrow> (int raw_row list \<times> int raw_row list) res" where
  "sample_split n =
     bindr (period_for_window rolling_sample (rg_windows rolling_sample ! n)) (\<lambda>p.
     chronological_split whole_tools True rolling_frame p (rl_period (rg_windows rolling_sample ! n)))"

lemma rolling_accepted:
  "is_ok (make_rolling_config rolling_sample)"
  "\<forall>w \<in> set (rg_windows rolling_sample). period_built (rl_period w)"
  "is_ok (sample_split 0)" "is_ok (sample_split 1)" "1 < length (rg_windows rolling_sample)"
  by code_simp+

lemma rolling_windows_held_out_witness:
  "\<exists>train eval train' eval'. sample_split 0 = Inr (train, eval) \<and> sample_split 1 = Inr (train', eval')
     \<and> set eval \<inter> set eval' = {} \<and> set train \<union> set eval \<subseteq> set train'"
proof -
  obtain c a b where s: "make_rolling_config rolling_sample = Inr c" "sample_split 0 = Inr a" "sample_split 1 = Inr b"
    using rolling_accepted(1,3,4) by (auto simp: is_ok_def split: sum.splits)
  obtain train ev train' ev' where ab: "a = (train, ev)" "b = (train', ev')" by (cases a; cases b)
  have "set ev \<inter> set ev' = {} \<and> set train \<union> set ev \<subseteq> set train'"
    using rolling_windows_held_out [OF whole_tools_laws s(1) rolling_accepted(2) zero_less_one rolling_accepted(5)
        s(2) [unfolded ab sample_split_def] s(3) [unfolded ab sample_split_def],
        where ratio = "\<lambda>a b. ()" and has_features = "\<lambda>r. True"]
    by (elim conjE) (intro conjI)
  with s(2,3) ab show ?thesis by auto
qed

end
