(* ===== verification/Divergences.thy ===== *)
theory Divergences
  imports PlanRules FeatureRegistry
begin

text \<open>
  Places where the code and what it or its documents promise differ, each shown on a concrete
  value.
\<close>

section \<open>Exceptions that escape\<close>

text \<open>\<open>reconstruct_execution_request\<close> reports malformed evidence as
  \<open>ExecutionRequestReconstructionFailed\<close>, but it writes the document it has read outside of its
  \<open>try\<close>: content with a number that is no integer raises \<open>ExecutionRequestInvalid\<close>.\<close>

definition fractional_content :: string where
  "fractional_content =
     ''{'' @ json_quote ''request_schema_version'' @ '':'' @ json_quote supported_request_schema
     @ '','' @ json_quote ''serialization_version'' @ '':'' @ json_quote serialization_version
     @ '','' @ json_quote ''x'' @ '':1.5}''"

lemma fractional_content_read:
  "(case json_loads fractional_content of None \<Rightarrow> False | Some v \<Rightarrow>
     is_dict v \<and> dget v ''serialization_version'' = PStr serialization_version
     \<and> dget v ''request_schema_version'' = PStr supported_request_schema
     \<and> canonical_bytes request_cfg (\<lambda>s. s) v = Inl (RequestError ExecutionRequestInvalid))"
  by code_simp

lemma fractional_content_escapes:
  "reconstruct_execution_request (\<lambda>s. s) fractional_content
     (namespaced_digest request_digest_ns fractional_content) = Inl (RequestError ExecutionRequestInvalid)"
proof -
  have "fractional_content \<noteq> []" by (simp add: fractional_content_def)
  then show ?thesis
    using fractional_content_read by (auto simp: reconstruct_execution_request_def split: option.splits)
qed

text \<open>\<open>validate_request_validation_evidence\<close> turns a \<open>TypeError\<close> or a \<open>ValueError\<close> into
  \<open>ExecutionPlanRequestInvalid\<close>; a finding that is no canonical value raises
  \<open>ExecutionRequestInvalid\<close>, which is neither.\<close>

definition opaque_evidence :: validation_evidence where
  "opaque_evidence =
     \<lparr>rv_id = PStr ''v'', rv_request = PStr ''r'', rv_request_digest = PStr ''d'', rv_organization = PStr ''o'',
      rv_workload = PStr ''w'', rv_policy = PStr ''p'', rv_outcome = Valid, rv_findings = [POther ''Decimal''],
      rv_boundary = PStr ''b'', rv_schema = PStr supported_validation_schema, rv_digest = PStr ''x''\<rparr>"

lemma opaque_evidence_document:
  "canonical_bytes request_cfg (\<lambda>s. s) (validation_input_document opaque_evidence (rv_findings opaque_evidence))
    = Inl (RequestError ExecutionRequestInvalid)"
  by code_simp

lemma opaque_evidence_escapes:
  "validate_validation_evidence (\<lambda>s. s) opaque_evidence = Inl (RequestError ExecutionRequestInvalid)"
proof -
  have s: "sort_findings (rv_findings opaque_evidence) = Inr (rv_findings opaque_evidence)"
    "rv_schema opaque_evidence = PStr supported_validation_schema"
    by (simp_all add: opaque_evidence_def sort_findings_def)
  show ?thesis
    by (simp add: validate_validation_evidence_def build_validation_evidence_def s opaque_evidence_document
        catch_def caught_by_validation_def)
qed

section \<open>A feature that is filled\<close>

text \<open>The README of the feature store reserves \<open>fill_zero\<close> for indicators and calendar fields; a
  count of past games has it.\<close>

lemma games_played_before_filled:
  "list_ex (\<lambda>m. case m of Inl _ \<Rightarrow> False
     | Inr f \<Rightarrow> fd_name f = ''games_played_before'' \<and> fd_enabled f \<and> fd_missing_value_policy f = FillZero
         \<and> fd_transformation f = ''cumulative prior non-null game count'') player_features"
  by code_simp

end
