(* ===== verification/Spec2Isabelle.thy ===== *)
theory Spec2Isabelle
  imports RequestProperties DispatchTheorems ClaimTheorems LeaseTheorems SelectionTheorems PlanTheorems
    FeatureTheorems RollingTheorems Divergences
begin

text \<open>
  EdgeIQ: the deterministic runtime (\<open>app/runtime\<close>) and the contracts of the research
  pipeline (\<open>app/research\<close>, \<open>feature_store\<close>).

  The program.  The runtime turns submitted work into evidence, one package at a time.  Each
  package checks its input, writes canonical JSON (NFC text, sorted keys, times in UTC), names
  what it wrote by a SHA-256 digest with a prefix, and keeps it in an append-only repository
  with an idempotency identity; it never reads a clock to decide, and replays its evidence to
  the same bytes.

    \<^item> \<open>execution_request\<close> admits a request of an organization under an idempotency key.
    \<^item> \<open>execution_plan\<close> takes an accepted request and VALID validation evidence to a plan whose
      steps a registered rule produced.
    \<^item> \<open>worker_selection\<close> scores and ranks workers by their readiness evidence.
    \<^item> \<open>execution_lease\<close> grants, renews and supersedes permissions, backed by an approved
      authorization; \<open>applicable\<close> tells whether a lease holds at an instant.
    \<^item> \<open>dispatch_decision\<close> approves or denies the offer of a plan item to a candidate of a
      selection under a lease.
    \<^item> \<open>work_claim\<close> lets the candidate of an approved decision claim the item, and expires or
      releases the claim.
    \<^item> The research pipeline registers features with what is known when, checks a model
      configuration against the registry, computes baselines from the games before, and
      compares models with them on shared held-out rows of expanding windows, under the
      protocol and the gates of the governance contract.

  The packages meet in retained evidence: a plan reads the request repository
  (\<open>plan_upstream\<close>), a dispatch decision reads plans, selections and leases
  (\<open>dispatch_resolve\<close>), a claim reads the decisions of the dispatch service
  (\<open>claim_resolve\<close>; C23 below composes the two).  In research, the cohort filters the
  predictions of the baselines and the rolling evaluation takes the chronological split of a
  window as the keys of the cohort.

  Shared theories.
    \<^item> \<open>Prelude\<close>: exceptions as values (\<open>exc\<close>, results \<open>exc + 'a\<close>), \<open>bindr\<close>, \<open>mapr\<close>,
      \<open>raise_if\<close>, \<open>catch\<close>, the collection \<open>res_simps\<close>, strings as UTF-8 bytes.
    \<^item> \<open>PyTime\<close>: aware and naive times, instants in microseconds, \<open>isoformat\<close>.
    \<^item> \<open>Sha256\<close>: the digest on 32-bit words that wrap; \<open>ShaEval\<close> evaluates it by rewriting,
      with a proof that the result is the digest.
    \<^item> \<open>Canonical\<close>, \<open>JsonParse\<close>, \<open>JsonRoundtrip\<close>, \<open>Documents\<close>: the traversal and the writer
      every package has a copy of, the scanner of the standard library that reads retained
      content, the proof that reading returns what was written, and dictionaries with literal
      keys.
    \<^item> \<open>Retained\<close>: field checks, references and the in-memory evidence sources (locale
      \<open>evidence_source\<close>).  \<open>StreamStore\<close> and \<open>AliasStore\<close>: the contracts of the repositories
      (locales \<open>stream_store\<close>, interpreted on dispatch, claim and lease repositories, and
      \<open>alias_store\<close>, interpreted on selection and plan repositories); the locale
      \<open>request_repository\<close> of \<open>RequestService\<close> is the protocol in \<open>execution_request/ports.py\<close>.

  Components.  In each package \<open>domain.py\<close> is a group of records and constructors,
  \<open>serialization.py\<close> the canonical documents and their reconstruction, \<open>policy.py\<close>,
  \<open>evaluator.py\<close> or \<open>rules.py\<close> the decision, \<open>ports.py\<close> and \<open>service.py\<close> the repository and
  the operations of the service, which return the new repository or the exception.

    \<^item> \<open>execution_request\<close>: \<open>ExecutionRequest\<close> (\<open>execution_request_draft\<close>,
      \<open>build_execution_request\<close>, \<open>reconstruct_execution_request\<close>), \<open>RequestService\<close>
      (\<open>request_admit\<close>, \<open>service_admit\<close>, \<open>service_get\<close>), \<open>RequestProperties\<close>: C1 to C5, the round
      trip, what an identifier identifies, independence of the order of dictionaries, the
      invariant, and what stays true of an admission in every later state.
    \<^item> \<open>dispatch_decision\<close>: \<open>DispatchEvidence\<close>, \<open>DispatchDecision\<close>, \<open>DispatchService\<close>,
      \<open>DispatchProperties\<close>, \<open>DispatchSample\<close>, \<open>DispatchTheorems\<close>: C6 to C9, the decision on every
      branch, the evidence behind an approval, replay, and the stream as compare-and-set.
    \<^item> \<open>work_claim\<close>: \<open>ClaimDecision\<close>, \<open>ClaimService\<close>, \<open>ClaimProperties\<close>, \<open>ClaimLineage\<close>,
      \<open>ClaimSample\<close>, \<open>ClaimTheorems\<close>: C10 to C17.  \<open>ClaimLineage\<close> states the abstract machine, a
      register that one holder has at a time (\<open>register_move\<close>); the policy and the replay refine
      it.
    \<^item> \<open>execution_lease\<close>: \<open>LeaseDecision\<close>, \<open>LeaseEvidence\<close>, \<open>LeaseService\<close>, \<open>LeaseProperties\<close>,
      \<open>LeaseLineage\<close>, \<open>LeaseSample\<close>, \<open>LeaseTheorems\<close>: C18 to C22, with the abstract authority
      (\<open>authority_move\<close>) that is renewed without being broadened or backdated.
    \<^item> \<open>worker_selection\<close>: \<open>Decimals\<close>, \<open>SelectionDomain\<close>, \<open>SelectionEvaluator\<close>,
      \<open>SelectionService\<close>, \<open>SelectionProperties\<close>, \<open>SelectionSample\<close>, \<open>SelectionTheorems\<close>: C24 to C29,
      ranking, partition, the bounds of the scores, order independence, replay, history.
    \<^item> \<open>execution_plan\<close>: \<open>PlanDomain\<close>, \<open>PlanRules\<close>, \<open>PlanSerialization\<close>, \<open>PlanService\<close>,
      \<open>PlanProperties\<close>, \<open>PlanLineage\<close>, \<open>PlanSample\<close>, \<open>PlanTheorems\<close>: C30 to C34, the order of steps
      is well-founded, the round trip of the two documents, the evidence behind a plan, the
      history, and reconstruction in every later state.
    \<^item> \<open>app/research/baselines/wr_receptions.py\<close>: \<open>Baselines\<close>, \<open>BaselineProperties\<close>,
      \<open>BaselineTheorems\<close>: C35 and C36, the loop equals a reference that reads earlier games only.
    \<^item> \<open>app/research/evaluation\<close>: \<open>Governance\<close> (\<open>governance.py\<close>, the recommendation of
      \<open>learned.py\<close>), \<open>Cohort\<close> and \<open>CohortTheorems\<close> (\<open>scorecard.py\<close>): C37 and C38; \<open>Rolling\<close> and
      \<open>RollingTheorems\<close> (\<open>rolling.py\<close> and the split of \<open>app/research/models/wr_receptions.py\<close>): C39.
    \<^item> \<open>feature_store/registry.py\<close> with \<open>WRPoissonConfig\<close>: \<open>FeatureRegistry\<close>, \<open>FeatureTheorems\<close>:
      C40.
    \<^item> \<open>Divergences\<close>: places where the code and its promises differ, each on a concrete value.

  States and steps.  The lock of a repository makes each operation of it one step.  The
  \<open>*_step\<close> relations let evidence be retained and the service be called in any order with any
  arguments, failed calls included; a property of "every reachable state" is proved by rule
  induction over \<open>*_steps\<close>.

  Bounds and fuel.  The scanner of \<open>JsonParse\<close> is given two units of fuel per character and
  two more; \<open>scan_value_enough\<close> shows that no scan needs more.  Every other loop is structural
  recursion or a \<open>function\<close> with its termination proof.  SHA-256 is on 32-bit words; all other
  integers of the program are Python's and are \<open>int\<close>.

  Arguments of the model, which stand for what is not in the repository:
    \<^item> \<open>nfc\<close>, the Unicode normalisation, with \<open>nfc_laws\<close> (idempotent, ASCII unchanged, nothing
      normalised to the empty text); \<open>uni\<close>, which folds digits and spaces of other scripts to
      ASCII in \<open>Decimal(text)\<close>;
    \<^item> the reading of the clock that stamps \<open>recorded_at\<close> or \<open>accepted_at\<close>;
    \<^item> \<open>tools\<close>, the data frame operations and float arithmetic of the baselines, with
      \<open>table_laws\<close> (sorting returns a sorted permutation, partitioning keeps the order);
      \<open>ratio\<close>, the float quotient of two counts; \<open>has_features\<close>, the rows complete for a model;
      \<open>naive\<close>, whether the kickoff column has no time zone; \<open>version_text\<close>, the pattern of
      version texts.
  No law is assumed of SHA-256: where a property needs that one digest means one content, it
  says "or these two contents collide".

  Not modelled.
    \<^item> In the runtime: the range of \<open>datetime\<close> (\<open>OverflowError\<close>), integers too long for Python to
      print, the order of lists among each other in \<open>sort_findings\<close>, and the lock itself.
    \<^item> \<open>app/odds_math.py\<close>, \<open>app/line_shopper.py\<close> and the betting services: IEEE double arithmetic
      throughout, with results that depend on the rounding of each operation.
    \<^item> The HTTP interfaces map requests and exceptions to the services; persistence and
      ingestion are sessions of a database; providers, the scheduler and the command line are
      network, clock and environment.
    \<^item> In research: the columns that \<open>features.py\<close> computes with the data frame library, the
      numerical solver of the model, metrics, calibration, bootstrap, scorecards and their
      files; the digest of the feature registry, which depends on how the validation library
      dumps a model.
\<close>

section \<open>From dispatch decisions to work claims\<close>

text \<open>C23: an approved decision can be claimed.  Every approved decision that the dispatch
  service retains passes the checks of the claim service: its record can be retained as
  evidence there, and is then found under its identifier by its organization and workload
  and by no other scope.\<close>

theorem approved_dispatch_claimable:
  assumes "nfc_laws nfc" and "dispatch_steps nfc dispatch_world_init dw"
    and "ds_by_id (dw_repository dw) i = Some r" and "dd_outcome (dr_decision r) = Approved"
    and "cw_dispatches w i = None"
  shows "\<exists>w'. claim_step nfc w w' \<and> cw_repository w' = cw_repository w
    \<and> src_dispatches (claim_sources_of nfc w') i org wl
      = Inr (if dd_organization (dr_decision r) = org \<and> dd_workload (dr_decision r) = wl then Some r else None)"
proof -
  have inv: "dispatch_inv nfc dw" by (rule dispatch_steps_inv [OF assms(1,2) dispatch_init_inv])
  then obtain v p t where b: "build_dispatch_decision nfc v p (dd_version (dr_decision r)) (dr_idempotency r) t
      = Inr (dr_decision r, dr_input r, dr_content r)"
    using assms(3) unfolding dispatch_inv_def produced_by_def by blast
  have i: "claim_dispatch_id r = i"
    using inv assms(3) unfolding dispatch_inv_def dispatch_store_inv_def store_inv_def claim_dispatch_id_def by blast
  have valid: "validate_dispatch_record r = Inr ()"
    using build_dispatch_Inr(3) [OF assms(1) b] assms(4) by (simp add: validate_dispatch_record_def)
  have "claim_step nfc w (w\<lparr>cw_dispatches := (cw_dispatches w)(i \<mapsto> r)\<rparr>)"
    by (rule claim_step.dispatch [where v = r]) (simp add: source_retain_Inr valid i assms(5))
  then show ?thesis
    by (intro exI [of _ "w\<lparr>cw_dispatches := (cw_dispatches w)(i \<mapsto> r)\<rparr>"])
      (simp add: claim_sources_of_def source_get_def valid)
qed

lemma approved_dispatch_claimable_witness:
  "\<exists>w r. claim_steps nf claim_world_init w \<and> dd_outcome (dr_decision r) = Approved
     \<and> src_dispatches (claim_sources_of nf w) (dd_id (dr_decision r)) ''org-1'' (dd_workload (dr_decision r)) = Inr (Some r)"
proof -
  obtain w q st d where w: "dispatch_steps nf dispatch_world_init w" "dw_repository w = dispatch_init"
    "dispatch_evaluate nf (dispatch_sources_of nf w) dispatch_init q 0 ''key-1'' (utc 0) = Inr (st, EvaluationCreated, d, 1)"
    "dd_outcome d = Approved" "dd_organization d = ''org-1''"
    by (rule sample_world [of 0]) simp_all
  let ?w = "w\<lparr>dw_repository := st\<rparr>"
  have "dispatch_steps nf dispatch_world_init ?w"
    by (rule dispatch_steps.step [OF w(1) dispatch_step.evaluate]) (use w(2,3) in simp)
  moreover obtain r where r: "ds_by_id (dw_repository ?w) (dd_id d) = Some r" "dr_decision r = d"
    using w(3) by (elim dispatch_evaluate_Inr)
      (auto dest!: dispatches.append_retained [rotated] simp: dispatch_init_def store_inv_empty)
  ultimately obtain w' where "claim_step nf claim_world_init w'"
    "src_dispatches (claim_sources_of nf w') (dd_id d) ''org-1'' (dd_workload d) = Inr (Some r)"
    using approved_dispatch_claimable [OF nf_simps(2), of ?w "dd_id d" r claim_world_init "''org-1''" "dd_workload d"]
      w(4,5) by (auto simp: claim_world_init_def)
  then show ?thesis
    using r(2) w(4) claim_steps.step [OF claim_steps.none] by blast
qed

end
